(* ===== verification/Prelude.thy ===== *)
theory Prelude
  imports Main "HOL-Library.Finite_Map"
begin

text \<open>
  Shared vocabulary of the development: the theorem collections the component theories feed (\<open>log_intros\<close>, \<open>frame_simps\<close>),
  results of fallible Go functions as sums, the functions of Go's standard library on strings
  (a Go string is a sequence of bytes, so \<^typ>\<open>string\<close>, a list of 8-bit characters, is the
  same data), first-match search in a slice, and the few facts on lists and finite maps that
  several components need.
\<close>

named_theorems log_intros \<open>which calls a step may add to the call log\<close>
named_theorems frame_simps \<open>the metadata and specification a status update leaves alone\<close>

subsection \<open>Results\<close>

text \<open>\<open>bindr\<close> is the early return \<open>if err != nil { return err }\<close> of the sources.\<close>

definition bindr :: "'e + 'a \<Rightarrow> ('a \<Rightarrow> 'e + 'b) \<Rightarrow> 'e + 'b" where
  "bindr r f = (case r of Inl e \<Rightarrow> Inl e | Inr x \<Rightarrow> f x)"

lemma bindr_simps [simp]: "bindr (Inl e) f = Inl e" "bindr (Inr x) f = f x"
  by (simp_all add: bindr_def)

lemma bindr_Inr_iff: "bindr r f = Inr y \<longleftrightarrow> (\<exists>x. r = Inr x \<and> f x = Inr y)"
  by (cases r) auto

lemma bindr_Inl_iff:
  "bindr r f = Inl e \<longleftrightarrow> r = Inl e \<or> (\<exists>x. r = Inr x \<and> f x = Inl e)"
  by (cases r) auto

text \<open>\<open>ptr.Deref\<close>: a nil pointer reads as the default.\<close>

definition deref :: "'a option \<Rightarrow> 'a \<Rightarrow> 'a" where
  "deref p d = (case p of None \<Rightarrow> d | Some x \<Rightarrow> x)"

lemma deref_simps [simp]: "deref None d = d" "deref (Some x) d = x"
  by (simp_all add: deref_def)

subsection \<open>Go strings\<close>

text \<open>\<open>strings.ReplaceAll\<close> with one-byte old and new strings.\<close>

definition ReplaceAllChar :: "string \<Rightarrow> char \<Rightarrow> char \<Rightarrow> string" where
  "ReplaceAllChar s old new = map (\<lambda>c. if c = old then new else c) s"

definition TrimRight :: "string \<Rightarrow> string \<Rightarrow> string" where
  "TrimRight s cutset = rev (dropWhile (\<lambda>c. c \<in> set cutset) (rev s))"

text \<open>\<open>strings.Split\<close> with a one-byte separator; it never returns the empty slice.\<close>

fun SplitChar :: "char \<Rightarrow> string \<Rightarrow> string list" where
  "SplitChar sep [] = [[]]"
| "SplitChar sep (c # s) =
     (if c = sep then [] # SplitChar sep s
      else (case SplitChar sep s of [] \<Rightarrow> [[c]] | w # ws \<Rightarrow> (c # w) # ws))"

fun JoinChar :: "char \<Rightarrow> string list \<Rightarrow> string" where
  "JoinChar sep [] = []"
| "JoinChar sep [w] = w"
| "JoinChar sep (w # v # ws) = w @ sep # JoinChar sep (v # ws)"

fun HasPrefix :: "string \<Rightarrow> string \<Rightarrow> bool" where
  "HasPrefix s [] = True"
| "HasPrefix [] (p # ps) = False"
| "HasPrefix (c # s) (p # ps) = (c = p \<and> HasPrefix s ps)"

fun Contains :: "string \<Rightarrow> string \<Rightarrow> bool" where
  "Contains [] sub = (sub = [])"
| "Contains (c # s) sub = (HasPrefix (c # s) sub \<or> Contains s sub)"

text \<open>
  \<open>strings.ToLower\<close> on the ASCII letters. The sources use it once, in front of a search for a
  needle without the letters \<open>i\<close> and \<open>k\<close>, the only ASCII letters that are the lower
  case of a non-ASCII one.
\<close>

definition ToLowerChar :: "char \<Rightarrow> char" where
  "ToLowerChar c =
     (if 65 \<le> (of_char c :: nat) \<and> (of_char c :: nat) \<le> 90 then char_of (of_char c + (32::nat)) else c)"

definition ToLower :: "string \<Rightarrow> string" where
  "ToLower = map ToLowerChar"

text \<open>The verbs \<open>%d\<close> and \<open>%x\<close> of \<open>fmt.Sprintf\<close>.\<close>

definition digit_char :: "nat \<Rightarrow> char" where
  "digit_char d = (if d < 10 then char_of (48 + d) else char_of (87 + d))"

fun nat_decimal :: "nat \<Rightarrow> string" where
  "nat_decimal n =
     (if n < 10 then [digit_char n] else nat_decimal (n div 10) @ [digit_char (n mod 10)])"

declare nat_decimal.simps [simp del]

definition int_decimal :: "int \<Rightarrow> string" where
  "int_decimal i = (if i < 0 then CHR ''-'' # nat_decimal (nat (- i)) else nat_decimal (nat i))"

definition hex_byte :: "char \<Rightarrow> string" where
  "hex_byte c = [digit_char (of_char c div 16), digit_char (of_char c mod 16)]"

definition hex_bytes :: "string \<Rightarrow> string" where
  "hex_bytes bs = concat (map hex_byte bs)"

subsection \<open>Facts on strings\<close>

lemma length_ReplaceAllChar [simp]: "length (ReplaceAllChar s a b) = length s"
  by (simp add: ReplaceAllChar_def)

lemma length_TrimRight: "length (TrimRight s cs) \<le> length s"
  using length_dropWhile_le [of "\<lambda>c. c \<in> set cs" "rev s"] by (simp add: TrimRight_def)

lemma set_TrimRight: "set (TrimRight s cs) \<subseteq> set s"
  by (auto simp: TrimRight_def dest: set_dropWhileD)

lemma TrimRight_Cons:
  "c \<notin> set cs \<Longrightarrow> \<exists>t. TrimRight (c # s) cs = c # t"
  by (auto simp: TrimRight_def dropWhile_append intro: exI [of _ "rev _"])

lemma last_TrimRight: "TrimRight s cs \<noteq> [] \<Longrightarrow> last (TrimRight s cs) \<notin> set cs"
  using hd_dropWhile [of "\<lambda>c. c \<in> set cs" "rev s"] by (simp add: TrimRight_def last_rev)

lemma SplitChar_nonempty [simp]: "SplitChar sep s \<noteq> []"
  by (induction s) (auto split: list.splits)

lemma Join_Split: "JoinChar sep (SplitChar sep s) = s"
proof (induction s)
  case Nil
  show ?case by simp
next
  case (Cons c s)
  obtain w ws where "SplitChar sep s = w # ws"
    by (cases "SplitChar sep s") simp_all
  with Cons.IH show ?case by (cases ws) auto
qed

lemma Split_no_sep: "w \<in> set (SplitChar sep s) \<Longrightarrow> sep \<notin> set w"
  by (induction s arbitrary: w) (auto split: if_splits list.splits)

lemma SplitChar_cover: "c \<in> set s \<Longrightarrow> c \<noteq> sep \<Longrightarrow> \<exists>w \<in> set (SplitChar sep s). c \<in> set w"
proof (induction s)
  case Nil
  then show ?case by simp
next
  case (Cons d s)
  obtain w ws where split: "SplitChar sep s = w # ws"
    by (cases "SplitChar sep s") simp_all
  show ?case
  proof (cases "c = d")
    case True
    with Cons.prems split show ?thesis by simp
  next
    case False
    with Cons.prems Cons.IH split show ?thesis by auto
  qed
qed

lemma SplitChar_append:
  "sep \<notin> set w \<Longrightarrow> SplitChar sep (w @ sep # s) = w # SplitChar sep s"
  by (induction w) auto

lemma SplitChar_no_sep: "sep \<notin> set w \<Longrightarrow> SplitChar sep w = [w]"
  by (induction w) auto

lemma Split_Join:
  "ws \<noteq> [] \<Longrightarrow> (\<And>w. w \<in> set ws \<Longrightarrow> sep \<notin> set w) \<Longrightarrow> SplitChar sep (JoinChar sep ws) = ws"
  by (induction sep ws rule: JoinChar.induct) (simp_all add: SplitChar_append SplitChar_no_sep)

lemma length_hex_bytes [simp]: "length (hex_bytes bs) = 2 * length bs"
  by (induction bs) (auto simp: hex_bytes_def hex_byte_def)

lemma char_of_eq_iff_small:
  "m < 256 \<Longrightarrow> n < 256 \<Longrightarrow> char_of m = char_of n \<longleftrightarrow> m = (n::nat)"
  by (metis of_char_of mod_less)

lemma digit_char_inj: "a < 16 \<Longrightarrow> b < 16 \<Longrightarrow> digit_char a = digit_char b \<longleftrightarrow> a = b"
  by (auto simp: digit_char_def char_of_eq_iff_small)

lemma of_char_less_256: "(of_char c :: nat) < 256"
  by (metis char_of_char mod_less_divisor of_char_of zero_less_numeral)

lemma hex_byte_inj: "hex_byte a = hex_byte b \<Longrightarrow> a = b"
proof -
  assume eq: "hex_byte a = hex_byte b"
  have a: "(of_char a :: nat) < 256" and b: "(of_char b :: nat) < 256"
    by (rule of_char_less_256)+
  from eq a b have "(of_char a :: nat) div 16 = of_char b div 16"
    and "(of_char a :: nat) mod 16 = of_char b mod 16"
    by (auto simp: hex_byte_def digit_char_inj)
  then have "(of_char a :: nat) = of_char b"
    by (metis div_mult_mod_eq)
  then show "a = b" by (metis char_of_char)
qed

lemma hex_bytes_inj: "hex_bytes xs = hex_bytes ys \<Longrightarrow> xs = ys"
proof (induction xs arbitrary: ys)
  case Nil
  then show ?case by (cases ys) (auto simp: hex_bytes_def hex_byte_def)
next
  case (Cons x xs)
  then obtain y ys' where ys: "ys = y # ys'"
    by (cases ys) (auto simp: hex_bytes_def hex_byte_def)
  with Cons.prems have "hex_byte x = hex_byte y" and "hex_bytes xs = hex_bytes ys'"
    by (auto simp: hex_bytes_def hex_byte_def)
  with Cons.IH ys show ?case by (auto dest: hex_byte_inj)
qed

subsection \<open>Slices\<close>

text \<open>The loop \<open>for i := range xs { if p(xs[i]) { index = i; break } }\<close> with \<open>index := -1\<close>.\<close>

fun find_index :: "('a \<Rightarrow> bool) \<Rightarrow> 'a list \<Rightarrow> nat option" where
  "find_index p [] = None"
| "find_index p (x # xs) = (if p x then Some 0 else map_option Suc (find_index p xs))"

lemma find_index_Some:
  "find_index p xs = Some i \<Longrightarrow> i < length xs \<and> p (xs ! i) \<and> (\<forall>j < i. \<not> p (xs ! j))"
proof (induction xs arbitrary: i)
  case Nil
  then show ?case by simp
next
  case (Cons x xs)
  show ?case
  proof (cases "p x")
    case True
    with Cons.prems show ?thesis by simp
  next
    case False
    with Cons.prems obtain k where k: "find_index p xs = Some k" and i: "i = Suc k" by auto
    from Cons.IH [OF k] False i show ?thesis by (auto simp: nth_Cons split: nat.splits)
  qed
qed

lemma find_index_None: "find_index p xs = None \<longleftrightarrow> (\<forall>x \<in> set xs. \<not> p x)"
  by (induction xs) auto

lemma find_index_append_new:
  "find_index p xs = None \<Longrightarrow> p y \<Longrightarrow> find_index p (xs @ [y]) = Some (length xs)"
  by (induction xs) (auto split: if_splits)

lemma find_index_update_same:
  "find_index p xs = Some i \<Longrightarrow> p y \<Longrightarrow> find_index p (xs[i := y]) = Some i"
  by (induction xs arbitrary: i) (auto split: if_splits)

lemma fmadd_case: "fmlookup (a ++\<^sub>f b) k = (case fmlookup b k of Some v \<Rightarrow> Some v | None \<Rightarrow> fmlookup a k)"
  by (cases "fmlookup b k") (simp_all add: fmdomI fmdom_notI)

lemma distinct_map_filter: "distinct (map f xs) \<Longrightarrow> distinct (map f (filter P xs))"
  by (induction xs) auto

end
