(* ===== verification/Api_Types.thy ===== *)
theory Api_Types
  imports Prelude
begin

text \<open>
  The \<open>platform.example.io/v1alpha1\<close> API of \<open>api/v1alpha1/aiworkload_types.go\<close>: one
  record per struct, a pointer as an \<open>option\<close>, a slice as a list, a string type as a string.
  The 32- and 64-bit integers of the API are compared, copied and printed, never computed with,
  so they are \<^typ>\<open>int\<close>. A Go map that is only looked up is a finite map; the two resource maps,
  which the code iterates over, are lists of entries in iteration order.

  \<open>ObjectMeta\<close>, \<open>OwnerReference\<close> and \<open>Condition\<close> are the \<open>metav1\<close> structs the API embeds;
  the field \<open>m_rest\<close> stands for the metadata fields no code of the repository touches.
\<close>

subsection \<open>Metadata and conditions\<close>

record OwnerReference =
  or_apiVersion :: string
  or_kind :: string
  or_name :: string
  or_uid :: string
  or_controller :: "bool option"
  or_blockOwnerDeletion :: "bool option"

record ObjectMeta =
  m_name :: string
  m_namespace :: string
  m_uid :: string
  m_resourceVersion :: string
  m_generation :: int
  m_deletionTimestamp :: "string option"
  m_labels :: "(string, string) fmap"
  m_annotations :: "(string, string) fmap"
  m_ownerReferences :: "OwnerReference list"
  m_finalizers :: "string list"
  m_rest :: string

record Condition =
  c_type :: string
  c_status :: string
  c_observedGeneration :: int
  c_lastTransitionTime :: string
  c_reason :: string
  c_message :: string

abbreviation (input) ConditionTrue :: string where "ConditionTrue \<equiv> ''True''"
abbreviation (input) ConditionFalse :: string where "ConditionFalse \<equiv> ''False''"
abbreviation (input) ConditionUnknown :: string where "ConditionUnknown \<equiv> ''Unknown''"

subsection \<open>The specification\<close>

record ContainerSpec =
  cs_port :: int

text \<open>\<open>ResourceQuantities\<close>: a map from resource names to quoted quantities.\<close>

type_synonym ResourceQuantity = string
type_synonym ResourceQuantities = "(string \<times> ResourceQuantity) list"

record ResourceRequirements =
  rr_requests :: ResourceQuantities
  rr_limits :: ResourceQuantities

record HTTPProbeSpec =
  hp_path :: string

record HealthSpec =
  hs_readiness :: "HTTPProbeSpec option"
  hs_liveness :: "HTTPProbeSpec option"

record ServiceSpec =
  sv_enabled :: "bool option"
  sv_port :: "int option"

type_synonym AutoscalingMetricType = string

definition AutoscalingCPU :: AutoscalingMetricType where "AutoscalingCPU = ''CPU''"
definition AutoscalingMemory :: AutoscalingMetricType where "AutoscalingMemory = ''Memory''"
definition AutoscalingPods :: AutoscalingMetricType where "AutoscalingPods = ''Pods''"
definition AutoscalingExternal :: AutoscalingMetricType where "AutoscalingExternal = ''External''"

lemmas metric_types =
  AutoscalingCPU_def AutoscalingMemory_def AutoscalingPods_def AutoscalingExternal_def

record AutoscalingMetricSpec =
  am_type :: AutoscalingMetricType
  am_targetUtilization :: "int option"
  am_metricName :: string
  am_targetValue :: "ResourceQuantity option"

record AutoscalingSpec =
  as_enabled :: "bool option"
  as_minReplicas :: "int option"
  as_maxReplicas :: "int option"
  as_metrics :: "AutoscalingMetricSpec list"
  as_scaleDownStabilizationSeconds :: "int option"

record AvailabilitySpec =
  av_enabled :: "bool option"
  av_minAvailable :: "int option"
  av_maxUnavailable :: "int option"

type_synonym ExposureMode = string

definition ExposureClusterLocal :: ExposureMode where "ExposureClusterLocal = ''ClusterLocal''"
definition ExposureHTTPRoute :: ExposureMode where "ExposureHTTPRoute = ''HTTPRoute''"

record ExposureSpec =
  ex_mode :: ExposureMode
  ex_gateway :: string
  ex_sectionName :: string
  ex_hostname :: string
  ex_path :: string

type_synonym SecretReference = string

record ExternalSecretReference =
  es_externalSecret :: SecretReference
  es_targetSecret :: SecretReference

record NetworkSpec =
  nw_enabled :: "bool option"

record AIWorkloadSpec =
  sp_environment :: string
  sp_tenant :: string
  sp_policy :: string
  sp_image :: string
  sp_replicas :: "int option"
  sp_autoscaling :: "AutoscalingSpec option"
  sp_availability :: "AvailabilitySpec option"
  sp_container :: ContainerSpec
  sp_resources :: "ResourceRequirements option"
  sp_health :: "HealthSpec option"
  sp_service :: "ServiceSpec option"
  sp_exposure :: "ExposureSpec option"
  sp_secretRefs :: "SecretReference list"
  sp_externalSecrets :: "ExternalSecretReference list"
  sp_network :: "NetworkSpec option"

subsection \<open>Status and the resource itself\<close>

record AIWorkloadStatus =
  st_observedGeneration :: int
  st_desiredReplicas :: int
  st_readyReplicas :: int
  st_endpoint :: string
  st_conditions :: "Condition list"

record AIWorkload =
  w_meta :: ObjectMeta
  w_spec :: AIWorkloadSpec
  w_status :: AIWorkloadStatus

abbreviation w_name :: "AIWorkload \<Rightarrow> string" where "w_name p \<equiv> m_name (w_meta p)"
abbreviation w_namespace :: "AIWorkload \<Rightarrow> string" where "w_namespace p \<equiv> m_namespace (w_meta p)"
abbreviation w_uid :: "AIWorkload \<Rightarrow> string" where "w_uid p \<equiv> m_uid (w_meta p)"
abbreviation w_generation :: "AIWorkload \<Rightarrow> int" where "w_generation p \<equiv> m_generation (w_meta p)"
abbreviation w_conditions :: "AIWorkload \<Rightarrow> Condition list" where
  "w_conditions p \<equiv> st_conditions (w_status p)"

definition set_conditions :: "AIWorkload \<Rightarrow> Condition list \<Rightarrow> AIWorkload" where
  "set_conditions p cs = p\<lparr>w_status := (w_status p)\<lparr>st_conditions := cs\<rparr>\<rparr>"

lemma set_conditions_simps [simp]:
  "w_meta (set_conditions p cs) = w_meta p"
  "w_spec (set_conditions p cs) = w_spec p"
  "w_conditions (set_conditions p cs) = cs"
  "st_observedGeneration (w_status (set_conditions p cs)) = st_observedGeneration (w_status p)"
  "st_desiredReplicas (w_status (set_conditions p cs)) = st_desiredReplicas (w_status p)"
  "st_readyReplicas (w_status (set_conditions p cs)) = st_readyReplicas (w_status p)"
  "st_endpoint (w_status (set_conditions p cs)) = st_endpoint (w_status p)"
  by (simp_all add: set_conditions_def)

text \<open>\<open>GroupVersion.String()\<close>, the API version the controller reference of a child carries.\<close>

definition GroupVersion :: string where
  "GroupVersion = ''platform.example.io/v1alpha1''"

subsection \<open>Name patterns of the schema\<close>

text \<open>
  The pattern \<open>^[a-z0-9]([-a-z0-9]*[a-z0-9])?$\<close> of the label-shaped fields, and the
  dot-separated form of the name-shaped ones.
\<close>

definition lower_alnum :: "char \<Rightarrow> bool" where
  "lower_alnum c =
     (let n = (of_char c :: nat) in (97 \<le> n \<and> n \<le> 122) \<or> (48 \<le> n \<and> n \<le> 57))"

definition dns_label :: "string \<Rightarrow> bool" where
  "dns_label s =
     (s \<noteq> [] \<and> list_all (\<lambda>c. lower_alnum c \<or> c = CHR ''-'') s \<and> lower_alnum (hd s) \<and> lower_alnum (last s))"

definition dns_subdomain :: "string \<Rightarrow> bool" where
  "dns_subdomain s = list_all dns_label (SplitChar (CHR ''.'') s)"

lemma lower_alnum_not_dash: "lower_alnum c \<Longrightarrow> c \<noteq> CHR ''-'' \<and> c \<noteq> CHR ''.''"
  by (auto simp: lower_alnum_def Let_def)

lemma dns_subdomain_chars:
  assumes "dns_subdomain s" and "c \<in> set s"
  shows "lower_alnum c \<or> c = CHR ''-'' \<or> c = CHR ''.''"
proof (cases "c = CHR ''.''")
  case False
  with assms obtain w where "w \<in> set (SplitChar (CHR ''.'') s)" and "c \<in> set w"
    using SplitChar_cover by blast
  with assms show ?thesis
    by (auto simp: dns_subdomain_def dns_label_def list_all_iff)
qed simp

lemma dns_subdomain_head: "dns_subdomain s \<Longrightarrow> \<exists>c t. s = c # t \<and> lower_alnum c"
proof -
  assume "dns_subdomain s"
  then have labels: "list_all dns_label (SplitChar (CHR ''.'') s)"
    by (simp add: dns_subdomain_def)
  show ?thesis
  proof (cases s)
    case Nil
    with labels show ?thesis by (simp add: dns_label_def)
  next
    case (Cons c t)
    with labels show ?thesis
      by (auto simp: dns_label_def split: if_splits list.splits)
  qed
qed

end
