(* ===== verification/Go_Errors.thy ===== *)
theory Go_Errors
  imports Prelude
begin

text \<open>
  The error values of the controller. The sentinel errors and the three curated configuration
  errors are constructors; \<open>Errorf\<close> is \<open>fmt.Errorf("<prefix>: %w", err)\<close>, \<open>SafeRetry\<close> the
  wrapper of \<open>failures.go\<close>, \<open>NilDereference\<close> the panic of a nil pointer or nil function.
  An error of the Kubernetes API is represented by what the code can observe of it: the answers of
  the \<open>apierrors\<close> predicates the sources call, and its text. \<open>errors.Is\<close> and \<open>errors.As\<close>
  walk the chain of wrapped errors.
\<close>

record api_error =
  ae_notFound :: bool
  ae_alreadyExists :: bool
  ae_conflict :: bool
  ae_forbidden :: bool
  ae_invalid :: bool
  ae_timeout :: bool
  ae_serverTimeout :: bool
  ae_tooManyRequests :: bool
  ae_text :: string

datatype go_error =
    ErrInvalidConfiguration
  | ErrImmutableSelector
  | ErrImmutableServiceAllocation
  | ErrOwnershipConflict
  | ErrChildDeleting
  | ErrSecretNotFound
  | TenantConfigurationError string string
  | ExternalSecretConfigurationError string string
  | ExposureConfigurationError string string
  | ApiError api_error
  | Errorf string go_error
  | ErrorsNew string
  | SafeRetry go_error string
  | NilDereference

text \<open>\<open>ErrInvalidPlan = resource.ErrInvalidConfiguration\<close>.\<close>

abbreviation ErrInvalidPlan :: go_error where "ErrInvalidPlan \<equiv> ErrInvalidConfiguration"

fun Unwrap :: "go_error \<Rightarrow> go_error option" where
  "Unwrap (Errorf _ e) = Some e"
| "Unwrap (SafeRetry e _) = Some e"
| "Unwrap _ = None"

fun error_chain :: "go_error \<Rightarrow> go_error list" where
  "error_chain (Errorf p e) = Errorf p e # error_chain e"
| "error_chain (SafeRetry e c) = SafeRetry e c # error_chain e"
| "error_chain e = [e]"

definition errors_Is :: "go_error \<Rightarrow> go_error \<Rightarrow> bool" where
  "errors_Is e target = (target \<in> set (error_chain e))"

fun first_some :: "('a \<Rightarrow> 'b option) \<Rightarrow> 'a list \<Rightarrow> 'b option" where
  "first_some f [] = None"
| "first_some f (x # xs) = (case f x of Some y \<Rightarrow> Some y | None \<Rightarrow> first_some f xs)"

fun tenant_error :: "go_error \<Rightarrow> (string \<times> string) option" where
  "tenant_error (TenantConfigurationError r m) = Some (r, m)"
| "tenant_error _ = None"

fun external_secret_error :: "go_error \<Rightarrow> (string \<times> string) option" where
  "external_secret_error (ExternalSecretConfigurationError r m) = Some (r, m)"
| "external_secret_error _ = None"

fun exposure_error :: "go_error \<Rightarrow> (string \<times> string) option" where
  "exposure_error (ExposureConfigurationError r m) = Some (r, m)"
| "exposure_error _ = None"

fun api_status :: "go_error \<Rightarrow> api_error option" where
  "api_status (ApiError a) = Some a"
| "api_status _ = None"

definition errors_As :: "(go_error \<Rightarrow> 'b option) \<Rightarrow> go_error \<Rightarrow> 'b option" where
  "errors_As f e = first_some f (error_chain e)"

definition api_is :: "(api_error \<Rightarrow> bool) \<Rightarrow> go_error \<Rightarrow> bool" where
  "api_is P e = (case errors_As api_status e of None \<Rightarrow> False | Some a \<Rightarrow> P a)"

definition IsNotFound :: "go_error \<Rightarrow> bool" where "IsNotFound = api_is ae_notFound"
definition IsAlreadyExists :: "go_error \<Rightarrow> bool" where "IsAlreadyExists = api_is ae_alreadyExists"
definition IsConflict :: "go_error \<Rightarrow> bool" where "IsConflict = api_is ae_conflict"
definition IsForbidden :: "go_error \<Rightarrow> bool" where "IsForbidden = api_is ae_forbidden"
definition IsInvalid :: "go_error \<Rightarrow> bool" where "IsInvalid = api_is ae_invalid"
definition IsTimeout :: "go_error \<Rightarrow> bool" where "IsTimeout = api_is ae_timeout"
definition IsServerTimeout :: "go_error \<Rightarrow> bool" where "IsServerTimeout = api_is ae_serverTimeout"
definition IsTooManyRequests :: "go_error \<Rightarrow> bool" where "IsTooManyRequests = api_is ae_tooManyRequests"

lemmas api_predicates =
  IsNotFound_def IsAlreadyExists_def IsConflict_def IsForbidden_def IsInvalid_def IsTimeout_def
  IsServerTimeout_def IsTooManyRequests_def

text \<open>The text \<open>err.Error()\<close>.\<close>

fun error_text :: "go_error \<Rightarrow> string" where
  "error_text ErrInvalidConfiguration = ''InvalidConfiguration''"
| "error_text ErrImmutableSelector = ''owned Deployment has an incompatible immutable selector''"
| "error_text ErrImmutableServiceAllocation = ''owned Service has an incompatible immutable cluster allocation''"
| "error_text ErrOwnershipConflict = ''ResourceOwnershipConflict''"
| "error_text ErrChildDeleting = ''owned child is still deleting''"
| "error_text ErrSecretNotFound = ''one or more referenced Secrets are unavailable''"
| "error_text (TenantConfigurationError r m) = r"
| "error_text (ExternalSecretConfigurationError r m) = r"
| "error_text (ExposureConfigurationError r m) = r"
| "error_text (ApiError a) = ae_text a"
| "error_text (Errorf p e) = p @ '': '' @ error_text e"
| "error_text (ErrorsNew t) = t"
| "error_text (SafeRetry e c) = ''reconciliation failed: '' @ c"
| "error_text NilDereference = ''runtime error: invalid memory address or nil pointer dereference''"

subsection \<open>Facts on error chains\<close>

lemma errors_As_simps [simp]:
  "errors_As f (Errorf p e) = (case f (Errorf p e) of Some y \<Rightarrow> Some y | None \<Rightarrow> errors_As f e)"
  "errors_As f (SafeRetry e c) = (case f (SafeRetry e c) of Some y \<Rightarrow> Some y | None \<Rightarrow> errors_As f e)"
  "errors_As f (ApiError a) = f (ApiError a)"
  "errors_As f (TenantConfigurationError r m) = f (TenantConfigurationError r m)"
  "errors_As f (ExternalSecretConfigurationError r m) = f (ExternalSecretConfigurationError r m)"
  "errors_As f (ExposureConfigurationError r m) = f (ExposureConfigurationError r m)"
  "errors_As f ErrInvalidConfiguration = f ErrInvalidConfiguration"
  "errors_As f ErrImmutableSelector = f ErrImmutableSelector"
  "errors_As f ErrImmutableServiceAllocation = f ErrImmutableServiceAllocation"
  "errors_As f ErrOwnershipConflict = f ErrOwnershipConflict"
  "errors_As f ErrChildDeleting = f ErrChildDeleting"
  "errors_As f ErrSecretNotFound = f ErrSecretNotFound"
  "errors_As f (ErrorsNew t) = f (ErrorsNew t)"
  "errors_As f NilDereference = f NilDereference"
  by (simp_all add: errors_As_def split: option.splits)

lemma api_is_simps [simp]:
  "api_is P (ApiError a) = P a"
  "api_is P (Errorf p e) = api_is P e"
  "api_is P (SafeRetry e c) = api_is P e"
  by (simp_all add: api_is_def)

lemma errors_Is_simps [simp]:
  "errors_Is (Errorf p e) t = (t = Errorf p e \<or> errors_Is e t)"
  "errors_Is (SafeRetry e c) t = (t = SafeRetry e c \<or> errors_Is e t)"
  "errors_Is (ApiError a) t = (t = ApiError a)"
  "errors_Is (TenantConfigurationError r m) t = (t = TenantConfigurationError r m)"
  "errors_Is (ExternalSecretConfigurationError r m) t = (t = ExternalSecretConfigurationError r m)"
  "errors_Is (ExposureConfigurationError r m) t = (t = ExposureConfigurationError r m)"
  "errors_Is ErrInvalidConfiguration t = (t = ErrInvalidConfiguration)"
  "errors_Is ErrImmutableSelector t = (t = ErrImmutableSelector)"
  "errors_Is ErrImmutableServiceAllocation t = (t = ErrImmutableServiceAllocation)"
  "errors_Is ErrOwnershipConflict t = (t = ErrOwnershipConflict)"
  "errors_Is ErrChildDeleting t = (t = ErrChildDeleting)"
  "errors_Is ErrSecretNotFound t = (t = ErrSecretNotFound)"
  "errors_Is (ErrorsNew x) t = (t = ErrorsNew x)"
  "errors_Is NilDereference t = (t = NilDereference)"
  by (auto simp: errors_Is_def)

end
