(* ===== verification/Kube_Objects.thy ===== *)
theory Kube_Objects
  imports Api_Types Go_Errors
begin

text \<open>
  The Kubernetes objects the controller builds, as records of exactly the fields the sources read or
  write; in each record the field named \<open>_rest\<close> stands for all other fields of the Go struct, so
  that a theorem saying a mutation keeps the rest of an object says it keeps them all. Nested
  \<open>spec\<close> structs are flattened. \<open>json\<close> is the content of an \<open>unstructured.Unstructured\<close>.
\<close>

datatype IntOrString = IntVal int | StrVal string

text \<open>A \<open>resource.Quantity\<close>: an opaque value; parsing and comparing it is the library's.\<close>

datatype Quantity = Quantity string

type_synonym ResourceList = "(string, Quantity) fmap"

record LabelSelector =
  ls_matchLabels :: "(string, string) fmap"
  ls_matchExpressions :: "string list"

subsection \<open>Deployment\<close>

record SeccompProfile =
  sec_type :: string
  sec_localhostProfile :: "string option"

record Capabilities =
  cap_add :: "string list"
  cap_drop :: "string list"

record SecurityContext =
  sc_runAsNonRoot :: "bool option"
  sc_privileged :: "bool option"
  sc_allowPrivilegeEscalation :: "bool option"
  sc_capabilities :: "Capabilities option"
  sc_seccompProfile :: "SeccompProfile option"
  sc_rest :: string

record PodSecurityContext =
  psc_runAsNonRoot :: "bool option"
  psc_seccompProfile :: "SeccompProfile option"
  psc_rest :: string

record ContainerPort =
  cp_name :: string
  cp_hostPort :: int
  cp_containerPort :: int
  cp_protocol :: string
  cp_hostIP :: string

record SecretEnvSource =
  ses_name :: string
  ses_optional :: "bool option"

record EnvFromSource =
  ef_prefix :: string
  ef_configMapRef :: "string option"
  ef_secretRef :: "SecretEnvSource option"

record HTTPGetAction =
  hg_path :: string
  hg_port :: IntOrString
  hg_host :: string
  hg_scheme :: string
  hg_httpHeaders :: "(string \<times> string) list"

record Probe =
  pr_httpGet :: "HTTPGetAction option"
  pr_initialDelaySeconds :: int
  pr_periodSeconds :: int
  pr_timeoutSeconds :: int
  pr_successThreshold :: int
  pr_failureThreshold :: int
  pr_rest :: string

record Container =
  ct_name :: string
  ct_image :: string
  ct_imagePullPolicy :: string
  ct_requests :: ResourceList
  ct_limits :: ResourceList
  ct_ports :: "ContainerPort list"
  ct_envFrom :: "EnvFromSource list"
  ct_readinessProbe :: "Probe option"
  ct_livenessProbe :: "Probe option"
  ct_securityContext :: "SecurityContext option"
  ct_rest :: string

record PodSpec =
  pod_serviceAccountName :: string
  pod_deprecatedServiceAccount :: string
  pod_automountServiceAccountToken :: "bool option"
  pod_securityContext :: "PodSecurityContext option"
  pod_containers :: "Container list"
  pod_rest :: string

record DeploymentStrategy =
  ds_type :: string
  ds_maxUnavailable :: "IntOrString option"
  ds_maxSurge :: "IntOrString option"

record DeploymentCondition =
  dc_type :: string
  dc_status :: string
  dc_reason :: string

record DeploymentStatus =
  dst_observedGeneration :: int
  dst_replicas :: int
  dst_updatedReplicas :: int
  dst_readyReplicas :: int
  dst_availableReplicas :: int
  dst_conditions :: "DeploymentCondition list"

record Deployment =
  d_meta :: ObjectMeta
  d_selector :: "LabelSelector option"
  d_replicas :: "int option"
  d_strategy :: DeploymentStrategy
  d_minReadySeconds :: int
  d_progressDeadlineSeconds :: "int option"
  d_paused :: bool
  d_templateMeta :: ObjectMeta
  d_pod :: PodSpec
  d_status :: DeploymentStatus
  d_rest :: string

subsection \<open>The other children\<close>

record ServiceAccount =
  sa_meta :: ObjectMeta
  sa_automountServiceAccountToken :: "bool option"
  sa_rest :: string

record ServicePortSpec =
  spt_name :: string
  spt_protocol :: string
  spt_appProtocol :: "string option"
  spt_port :: int
  spt_targetPort :: IntOrString
  spt_nodePort :: int

record Service =
  s_meta :: ObjectMeta
  s_type :: string
  s_clusterIP :: string
  s_clusterIPs :: "string list"
  s_ipFamilies :: "string list"
  s_ipFamilyPolicy :: "string option"
  s_selector :: "(string, string) fmap"
  s_ports :: "ServicePortSpec list"
  s_rest :: string

record NetworkPolicyPeer =
  npp_podSelector :: "LabelSelector option"
  npp_namespaceSelector :: "LabelSelector option"
  npp_ipBlock :: "string option"

record NetworkPolicyPort =
  npt_protocol :: "string option"
  npt_port :: "IntOrString option"
  npt_endPort :: "int option"

record NetworkPolicyIngressRule =
  npi_from :: "NetworkPolicyPeer list"
  npi_ports :: "NetworkPolicyPort list"

record NetworkPolicySpec =
  nps_podSelector :: LabelSelector
  nps_policyTypes :: "string list"
  nps_ingress :: "NetworkPolicyIngressRule list"
  nps_egress :: "string list"

record NetworkPolicy =
  np_meta :: ObjectMeta
  np_spec :: NetworkPolicySpec

record CrossVersionObjectReference =
  cv_apiVersion :: string
  cv_kind :: string
  cv_name :: string

record MetricIdentifier =
  mi_name :: string
  mi_selector :: "LabelSelector option"

record MetricTarget =
  mtg_type :: string
  mtg_value :: "Quantity option"
  mtg_averageValue :: "Quantity option"
  mtg_averageUtilization :: "int option"

record ResourceMetricSource =
  rms_name :: string
  rms_target :: MetricTarget

record NamedMetricSource =
  nms_metric :: MetricIdentifier
  nms_target :: MetricTarget

record MetricSpec =
  mt_type :: string
  mt_resource :: "ResourceMetricSource option"
  mt_pods :: "NamedMetricSource option"
  mt_external :: "NamedMetricSource option"
  mt_rest :: string

record HPAScalingRules =
  hr_stabilizationWindowSeconds :: "int option"
  hr_rest :: string

record HorizontalPodAutoscalerBehavior =
  hb_scaleUp :: "HPAScalingRules option"
  hb_scaleDown :: "HPAScalingRules option"

record HPACondition =
  hc_type :: string
  hc_status :: string

record HorizontalPodAutoscaler =
  h_meta :: ObjectMeta
  h_scaleTargetRef :: CrossVersionObjectReference
  h_minReplicas :: "int option"
  h_maxReplicas :: int
  h_metrics :: "MetricSpec list"
  h_behavior :: "HorizontalPodAutoscalerBehavior option"
  h_conditions :: "HPACondition list"
  h_rest :: string

record PodDisruptionBudget =
  b_meta :: ObjectMeta
  b_selector :: "LabelSelector option"
  b_minAvailable :: "IntOrString option"
  b_maxUnavailable :: "IntOrString option"
  b_rest :: string

subsection \<open>Unstructured objects\<close>

datatype json =
    JNull
  | JBool bool
  | JInt int
  | JFloat string
  | JString string
  | JArray "json list"
  | JMap "(string \<times> json) list"

record GroupVersionKind =
  g_group :: string
  g_version :: string
  g_kind :: string

record Unstructured =
  u_gvk :: GroupVersionKind
  u_meta :: ObjectMeta
  u_object :: json

subsection \<open>Any object\<close>

text \<open>\<open>client.Object\<close> with the dynamic types the code distinguishes.\<close>

datatype client_object =
    ServiceAccountObj ServiceAccount
  | DeploymentObj Deployment
  | ServiceObj Service
  | NetworkPolicyObj NetworkPolicy
  | HPAObj HorizontalPodAutoscaler
  | PDBObj PodDisruptionBudget
  | UnstructuredObj Unstructured
  | OtherObj ObjectMeta string

fun obj_meta :: "client_object \<Rightarrow> ObjectMeta" where
  "obj_meta (ServiceAccountObj x) = sa_meta x"
| "obj_meta (DeploymentObj x) = d_meta x"
| "obj_meta (ServiceObj x) = s_meta x"
| "obj_meta (NetworkPolicyObj x) = np_meta x"
| "obj_meta (HPAObj x) = h_meta x"
| "obj_meta (PDBObj x) = b_meta x"
| "obj_meta (UnstructuredObj x) = u_meta x"
| "obj_meta (OtherObj m k) = m"

fun set_obj_meta :: "client_object \<Rightarrow> ObjectMeta \<Rightarrow> client_object" where
  "set_obj_meta (ServiceAccountObj x) m = ServiceAccountObj (x\<lparr>sa_meta := m\<rparr>)"
| "set_obj_meta (DeploymentObj x) m = DeploymentObj (x\<lparr>d_meta := m\<rparr>)"
| "set_obj_meta (ServiceObj x) m = ServiceObj (x\<lparr>s_meta := m\<rparr>)"
| "set_obj_meta (NetworkPolicyObj x) m = NetworkPolicyObj (x\<lparr>np_meta := m\<rparr>)"
| "set_obj_meta (HPAObj x) m = HPAObj (x\<lparr>h_meta := m\<rparr>)"
| "set_obj_meta (PDBObj x) m = PDBObj (x\<lparr>b_meta := m\<rparr>)"
| "set_obj_meta (UnstructuredObj x) m = UnstructuredObj (x\<lparr>u_meta := m\<rparr>)"
| "set_obj_meta (OtherObj n k) m = OtherObj m k"

lemma obj_meta_set [simp]: "obj_meta (set_obj_meta ob m) = m"
  by (cases ob) simp_all

lemma set_obj_meta_same [simp]: "set_obj_meta ob (obj_meta ob) = ob"
  by (cases ob) simp_all

lemma set_obj_meta_twice [simp]: "set_obj_meta (set_obj_meta ob m) n = set_obj_meta ob n"
  by (cases ob) simp_all

text \<open>The identity of an object: everything the engine forbids a mutation to change.\<close>

definition same_identity :: "ObjectMeta \<Rightarrow> ObjectMeta \<Rightarrow> bool" where
  "same_identity m n =
     (m_name m = m_name n \<and> m_namespace m = m_namespace n \<and> m_uid m = m_uid n
      \<and> m_resourceVersion m = m_resourceVersion n \<and> m_ownerReferences m = m_ownerReferences n
      \<and> m_finalizers m = m_finalizers n \<and> m_deletionTimestamp m = m_deletionTimestamp n)"

lemma same_identity_refl [simp]: "same_identity m m"
  by (simp add: same_identity_def)

lemma same_identity_trans: "same_identity a b \<Longrightarrow> same_identity b c \<Longrightarrow> same_identity a c"
  by (auto simp: same_identity_def)

subsection \<open>Zero values\<close>

definition zero_meta :: ObjectMeta where
  "zero_meta =
     \<lparr>m_name = '''', m_namespace = '''', m_uid = '''', m_resourceVersion = '''', m_generation = 0,
      m_deletionTimestamp = None, m_labels = fmempty, m_annotations = fmempty,
      m_ownerReferences = [], m_finalizers = [], m_rest = ''''\<rparr>"

text \<open>\<open>metav1.ObjectMeta{Name: name, Namespace: namespace}\<close>.\<close>

definition named_meta :: "string \<Rightarrow> string \<Rightarrow> ObjectMeta" where
  "named_meta name namespace = zero_meta\<lparr>m_name := name, m_namespace := namespace\<rparr>"

definition zero_container :: Container where
  "zero_container =
     \<lparr>ct_name = '''', ct_image = '''', ct_imagePullPolicy = '''', ct_requests = fmempty,
      ct_limits = fmempty, ct_ports = [], ct_envFrom = [], ct_readinessProbe = None,
      ct_livenessProbe = None, ct_securityContext = None, ct_rest = ''''\<rparr>"

definition zero_security_context :: SecurityContext where
  "zero_security_context =
     \<lparr>sc_runAsNonRoot = None, sc_privileged = None, sc_allowPrivilegeEscalation = None,
      sc_capabilities = None, sc_seccompProfile = None, sc_rest = ''''\<rparr>"

definition zero_pod_security_context :: PodSecurityContext where
  "zero_pod_security_context =
     \<lparr>psc_runAsNonRoot = None, psc_seccompProfile = None, psc_rest = ''''\<rparr>"

definition zero_deployment :: "ObjectMeta \<Rightarrow> Deployment" where
  "zero_deployment m =
     \<lparr>d_meta = m, d_selector = None, d_replicas = None,
      d_strategy = \<lparr>ds_type = '''', ds_maxUnavailable = None, ds_maxSurge = None\<rparr>,
      d_minReadySeconds = 0, d_progressDeadlineSeconds = None, d_paused = False,
      d_templateMeta = zero_meta,
      d_pod = \<lparr>pod_serviceAccountName = '''', pod_deprecatedServiceAccount = '''',
               pod_automountServiceAccountToken = None, pod_securityContext = None,
               pod_containers = [], pod_rest = ''''\<rparr>,
      d_status = \<lparr>dst_observedGeneration = 0, dst_replicas = 0, dst_updatedReplicas = 0,
                  dst_readyReplicas = 0, dst_availableReplicas = 0, dst_conditions = []\<rparr>,
      d_rest = ''''\<rparr>"

definition zero_service_account :: "ObjectMeta \<Rightarrow> ServiceAccount" where
  "zero_service_account m =
     \<lparr>sa_meta = m, sa_automountServiceAccountToken = None, sa_rest = ''''\<rparr>"

definition zero_service :: "ObjectMeta \<Rightarrow> Service" where
  "zero_service m =
     \<lparr>s_meta = m, s_type = '''', s_clusterIP = '''', s_clusterIPs = [], s_ipFamilies = [],
      s_ipFamilyPolicy = None, s_selector = fmempty, s_ports = [], s_rest = ''''\<rparr>"

definition empty_selector :: LabelSelector where
  "empty_selector = \<lparr>ls_matchLabels = fmempty, ls_matchExpressions = []\<rparr>"

definition zero_network_policy :: "ObjectMeta \<Rightarrow> NetworkPolicy" where
  "zero_network_policy m =
     \<lparr>np_meta = m,
      np_spec = \<lparr>nps_podSelector = empty_selector, nps_policyTypes = [], nps_ingress = [],
                 nps_egress = []\<rparr>\<rparr>"

definition zero_hpa :: "ObjectMeta \<Rightarrow> HorizontalPodAutoscaler" where
  "zero_hpa m =
     \<lparr>h_meta = m, h_scaleTargetRef = \<lparr>cv_apiVersion = '''', cv_kind = '''', cv_name = ''''\<rparr>,
      h_minReplicas = None, h_maxReplicas = 0, h_metrics = [], h_behavior = None,
      h_conditions = [], h_rest = ''''\<rparr>"

definition zero_pdb :: "ObjectMeta \<Rightarrow> PodDisruptionBudget" where
  "zero_pdb m =
     \<lparr>b_meta = m, b_selector = None, b_minAvailable = None, b_maxUnavailable = None,
      b_rest = ''''\<rparr>"

lemma named_meta_simps [simp]:
  "m_name (named_meta n ns) = n" "m_namespace (named_meta n ns) = ns"
  "m_uid (named_meta n ns) = ''''" "m_resourceVersion (named_meta n ns) = ''''"
  "m_ownerReferences (named_meta n ns) = []" "m_finalizers (named_meta n ns) = []"
  "m_deletionTimestamp (named_meta n ns) = None"
  by (simp_all add: named_meta_def zero_meta_def)

lemma zero_object_meta [simp]:
  "sa_meta (zero_service_account m) = m" "d_meta (zero_deployment m) = m"
  "s_meta (zero_service m) = m" "np_meta (zero_network_policy m) = m" "h_meta (zero_hpa m) = m"
  "b_meta (zero_pdb m) = m"
  by (simp_all add: zero_service_account_def zero_deployment_def zero_service_def
      zero_network_policy_def zero_hpa_def zero_pdb_def)

end
