(* ===== verification/Kube_Lib.thy ===== *)
theory Kube_Lib
  imports Kube_Objects
begin

text \<open>
  The functions of the Kubernetes libraries (\<open>apimachinery\<close>, \<open>controller-runtime\<close>) that the
  sources call and whose code is not part of the repository: one field each of the record \<open>lib\<close>,
  which every definition that calls one takes as its argument \<open>L\<close>. What a theorem needs to know
  of them is a named hypothesis below, stating documented behaviour of the library.
\<close>

text \<open>The three outcomes of \<open>unstructured.NestedString\<close> and \<open>NestedSlice\<close>.\<close>

datatype 'a nested = NestedError | NestedAbsent | NestedFound 'a

record lib =
  ParseQuantity :: "string \<Rightarrow> Quantity option"
  QuantitySign :: "Quantity \<Rightarrow> int"
  QuantityCmp :: "Quantity \<Rightarrow> Quantity \<Rightarrow> int"
  SetStatusCondition :: "Condition list \<Rightarrow> Condition \<Rightarrow> Condition list"
  RemoveStatusCondition :: "Condition list \<Rightarrow> string \<Rightarrow> Condition list"
  FindStatusCondition :: "Condition list \<Rightarrow> string \<Rightarrow> Condition option"
  IsStatusConditionTrue :: "Condition list \<Rightarrow> string \<Rightarrow> bool"
  NestedString :: "json \<Rightarrow> string list \<Rightarrow> string nested"
  NestedSlice :: "json \<Rightarrow> string list \<Rightarrow> json list nested"
  SetNestedField :: "json \<Rightarrow> json \<Rightarrow> string list \<Rightarrow> json"
  GetControllerOf :: "OwnerReference list \<Rightarrow> OwnerReference option"
  \<comment> \<open>owner namespace, name and UID, namespace of the controlled object, its references\<close>
  SetControllerReference ::
    "string \<Rightarrow> string \<Rightarrow> string \<Rightarrow> string \<Rightarrow> OwnerReference list \<Rightarrow> OwnerReference list option"
  SemanticEqualStatus :: "AIWorkloadStatus \<Rightarrow> AIWorkloadStatus \<Rightarrow> bool"
  SemanticEqualObject :: "client_object \<Rightarrow> client_object \<Rightarrow> bool"
  IgnoreNotFound :: "go_error \<Rightarrow> go_error option"
  IsDNS1123Label :: "string \<Rightarrow> bool"

subsection \<open>Documented behaviour\<close>

text \<open>\<open>Quantity.Cmp\<close> of a value with itself is 0.\<close>

definition quantity_cmp_refl :: "lib \<Rightarrow> bool" where
  "quantity_cmp_refl L = (\<forall>q. QuantityCmp L q q = 0)"

text \<open>\<open>equality.Semantic.DeepEqual\<close> holds of equal values.\<close>

definition semantic_refl :: "lib \<Rightarrow> bool" where
  "semantic_refl L =
     ((\<forall>s. SemanticEqualStatus L s s) \<and> (\<forall>ob. SemanticEqualObject L ob ob))"

text \<open>
  \<open>controllerutil.SetControllerReference\<close>: the result has the owner as its controller, and setting
  the same owner again changes nothing.
\<close>

definition refers_to :: "string \<Rightarrow> string \<Rightarrow> OwnerReference \<Rightarrow> bool" where
  "refers_to name uid r =
     (or_uid r = uid \<and> or_name r = name \<and> or_kind r = ''AIWorkload'' \<and> or_apiVersion r = GroupVersion)"

definition controller_reference_laws :: "lib \<Rightarrow> bool" where
  "controller_reference_laws L =
     (\<forall>ons name uid ns refs refs'. SetControllerReference L ons name uid ns refs = Some refs' \<longrightarrow>
        (\<exists>r. GetControllerOf L refs' = Some r \<and> refers_to name uid r)
        \<and> SetControllerReference L ons name uid ns refs' = Some refs')"

text \<open>
  \<open>meta.SetStatusCondition\<close>, \<open>RemoveStatusCondition\<close> and \<open>FindStatusCondition\<close>: a condition list
  keyed by type. Setting a condition stores its status, reason, message and observed generation under
  its type (the transition time is the library's) and leaves the other types alone.
\<close>

definition same_condition :: "Condition \<Rightarrow> Condition \<Rightarrow> bool" where
  "same_condition a b =
     (c_type a = c_type b \<and> c_status a = c_status b \<and> c_reason a = c_reason b
      \<and> c_message a = c_message b \<and> c_observedGeneration a = c_observedGeneration b)"

definition condition_laws :: "lib \<Rightarrow> bool" where
  "condition_laws L =
     ((\<forall>cs c. \<exists>d. FindStatusCondition L (SetStatusCondition L cs c) (c_type c) = Some d \<and> same_condition d c)
      \<and> (\<forall>cs c t. t \<noteq> c_type c \<longrightarrow>
           FindStatusCondition L (SetStatusCondition L cs c) t = FindStatusCondition L cs t)
      \<and> (\<forall>cs t. FindStatusCondition L (RemoveStatusCondition L cs t) t = None)
      \<and> (\<forall>cs t u. u \<noteq> t \<longrightarrow>
           FindStatusCondition L (RemoveStatusCondition L cs t) u = FindStatusCondition L cs u)
      \<and> (\<forall>cs t. IsStatusConditionTrue L cs t =
           (case FindStatusCondition L cs t of None \<Rightarrow> False | Some d \<Rightarrow> c_status d = ''True'')))"

text \<open>\<open>meta.FindStatusCondition\<close> finds the condition of the given type, the first one if there are more.\<close>

definition find_condition_law :: "lib \<Rightarrow> bool" where
  "find_condition_law L = (\<forall>cs t. FindStatusCondition L cs t = find (\<lambda>c. c_type c = t) cs)"

text \<open>\<open>unstructured.SetNestedField\<close>: writing the same value at the same path again changes nothing.\<close>

definition nested_field_laws :: "lib \<Rightarrow> bool" where
  "nested_field_laws L =
     (\<forall>ob v path. SetNestedField L (SetNestedField L ob v path) v path = SetNestedField L ob v path)"

subsection \<open>What a condition list shows\<close>

text \<open>The observable content of a condition type: status, reason, message, observed generation.\<close>

definition shows_condition :: "lib \<Rightarrow> Condition list \<Rightarrow> Condition \<Rightarrow> bool" where
  "shows_condition L cs c =
     (\<exists>d. FindStatusCondition L cs (c_type c) = Some d \<and> same_condition d c)"

lemma set_condition_shows:
  "condition_laws L \<Longrightarrow> shows_condition L (SetStatusCondition L cs c) c"
  by (simp add: condition_laws_def shows_condition_def)

lemma set_condition_keeps:
  assumes "condition_laws L" and "c_type c \<noteq> c_type e"
  shows "shows_condition L (SetStatusCondition L cs c) e = shows_condition L cs e"
  using assms by (simp add: condition_laws_def shows_condition_def)

lemma set_condition_find_other:
  "condition_laws L \<Longrightarrow> t \<noteq> c_type c \<Longrightarrow>
     FindStatusCondition L (SetStatusCondition L cs c) t = FindStatusCondition L cs t"
  by (simp add: condition_laws_def)

lemma remove_condition_find:
  "condition_laws L \<Longrightarrow>
     FindStatusCondition L (RemoveStatusCondition L cs t) u = (if u = t then None else FindStatusCondition L cs u)"
  by (simp add: condition_laws_def)

end
