(* ===== verification/Sha256.thy ===== *)
theory Sha256
  imports Prelude "HOL-Library.Word"
begin

unbundle bit_operations_syntax

text \<open>
  The standard library's \<open>crypto/sha256\<close> as the sources use it: the digest of a byte string,
  for the child name (\<open>sha256.Sum256\<close>) and for the external Secret revision
  (\<open>sha256.New\<close>, \<open>Write\<close>, \<open>Sum\<close>: the digest of the concatenated writes). The words are
  32 bits wide and every addition wraps.
\<close>

type_synonym u32 = "32 word"

definition sha256_init :: "u32 list" where
  "sha256_init =
     [0x6A09E667, 0xBB67AE85, 0x3C6EF372, 0xA54FF53A,
      0x510E527F, 0x9B05688C, 0x1F83D9AB, 0x5BE0CD19]"

definition sha256_k :: "u32 list" where
  "sha256_k =
     [0x428A2F98, 0x71374491, 0xB5C0FBCF, 0xE9B5DBA5,
      0x3956C25B, 0x59F111F1, 0x923F82A4, 0xAB1C5ED5,
      0xD807AA98, 0x12835B01, 0x243185BE, 0x550C7DC3,
      0x72BE5D74, 0x80DEB1FE, 0x9BDC06A7, 0xC19BF174,
      0xE49B69C1, 0xEFBE4786, 0x0FC19DC6, 0x240CA1CC,
      0x2DE92C6F, 0x4A7484AA, 0x5CB0A9DC, 0x76F988DA,
      0x983E5152, 0xA831C66D, 0xB00327C8, 0xBF597FC7,
      0xC6E00BF3, 0xD5A79147, 0x06CA6351, 0x14292967,
      0x27B70A85, 0x2E1B2138, 0x4D2C6DFC, 0x53380D13,
      0x650A7354, 0x766A0ABB, 0x81C2C92E, 0x92722C85,
      0xA2BFE8A1, 0xA81A664B, 0xC24B8B70, 0xC76C51A3,
      0xD192E819, 0xD6990624, 0xF40E3585, 0x106AA070,
      0x19A4C116, 0x1E376C08, 0x2748774C, 0x34B0BCB5,
      0x391C0CB3, 0x4ED8AA4A, 0x5B9CCA4F, 0x682E6FF3,
      0x748F82EE, 0x78A5636F, 0x84C87814, 0x8CC70208,
      0x90BEFFFA, 0xA4506CEB, 0xBEF9A3F7, 0xC67178F2]"

definition be_word :: "string \<Rightarrow> u32" where
  "be_word bs = foldl (\<lambda>a c. push_bit 8 a OR of_int (of_char c)) 0 bs"

definition word_bytes :: "u32 \<Rightarrow> string" where
  "word_bytes w = map (\<lambda>i. char_of (uint (drop_bit i w AND 255))) [24, 16, 8, 0]"

text \<open>The message length in bits as eight big-endian bytes.\<close>

definition len_bytes :: "int \<Rightarrow> string" where
  "len_bytes n = map (\<lambda>i. char_of (n div 2 ^ i mod 256)) [56, 48, 40, 32, 24, 16, 8, 0]"

definition sha256_pad :: "string \<Rightarrow> string" where
  "sha256_pad m =
     m @ [char_of (128::nat)] @ replicate ((119 - length m mod 64) mod 64) (char_of (0::nat))
       @ len_bytes (8 * int (length m))"

fun chunks :: "nat \<Rightarrow> 'a list \<Rightarrow> 'a list list" where
  "chunks n xs = (if xs = [] \<or> n = 0 then [] else take n xs # chunks n (drop n xs))"

declare chunks.simps [simp del]

fun schedule :: "nat \<Rightarrow> u32 list \<Rightarrow> u32 list" where
  "schedule 0 w = w"
| "schedule (Suc n) w =
     (let t = length w;
          x = w ! (t - 15); y = w ! (t - 2);
          s0 = word_rotr 7 x XOR word_rotr 18 x XOR drop_bit 3 x;
          s1 = word_rotr 17 y XOR word_rotr 19 y XOR drop_bit 10 y
      in schedule n (w @ [w ! (t - 16) + s0 + w ! (t - 7) + s1]))"

fun sha256_round :: "u32 list \<Rightarrow> u32 \<times> u32 \<Rightarrow> u32 list" where
  "sha256_round [a, b, c, d, e, f, g, h] (k, w) =
     (let s1 = word_rotr 6 e XOR word_rotr 11 e XOR word_rotr 25 e;
          ch = (e AND f) XOR (NOT e AND g);
          t1 = h + s1 + ch + k + w;
          s0 = word_rotr 2 a XOR word_rotr 13 a XOR word_rotr 22 a;
          maj = (a AND b) XOR (a AND c) XOR (b AND c);
          t2 = s0 + maj
      in [t1 + t2, a, b, c, d + t1, e, f, g])"
| "sha256_round st _ = st"

definition sha256_block :: "u32 list \<Rightarrow> string \<Rightarrow> u32 list" where
  "sha256_block st block =
     map2 (+) st (foldl sha256_round st (zip sha256_k (schedule 48 (map be_word (chunks 4 block)))))"

definition sha256 :: "string \<Rightarrow> string" where
  "sha256 m = concat (map word_bytes (foldl sha256_block sha256_init (chunks 64 (sha256_pad m))))"

subsection \<open>Every digest has 32 bytes\<close>

lemma length_sha256_round [simp]: "length (sha256_round st x) = length st"
  by (induction st x rule: sha256_round.induct) (auto simp: Let_def)

lemma length_foldl_round [simp]: "length (foldl sha256_round st xs) = length st"
  by (induction xs arbitrary: st) auto

lemma length_sha256_block [simp]: "length (sha256_block st b) = length st"
  by (simp add: sha256_block_def)

lemma length_foldl_block [simp]: "length (foldl sha256_block st bs) = length st"
  by (induction bs arbitrary: st) auto

lemma length_concat_word_bytes: "length (concat (map word_bytes ws)) = 4 * length ws"
  by (induction ws) (auto simp: word_bytes_def)

lemma length_sha256 [simp]: "length (sha256 m) = 32"
  by (simp add: sha256_def length_concat_word_bytes sha256_init_def)

text \<open>The standard's one-block test vector, evaluated in the kernel.\<close>

lemma sha256_abc:
  "hex_bytes (sha256 ''abc'') = ''ba7816bf8f01cfea414140de5dae2223b00361a396177a9cb410ff61f20015ad''"
  by code_simp

end
