(* ===== verification/Naming.thy ===== *)
theory Naming
  imports Kube_Lib Sha256
begin

text \<open>
  \<open>internal/resource/plan.go\<close>: the deterministic child name, and the \<open>Intent\<close> the builders hand
  to the engine. \<open>i_object = None\<close> is a nil \<open>Object\<close>, \<open>i_mutate = None\<close> a nil \<open>Mutate\<close>.
\<close>

record Intent =
  i_object :: "client_object option"
  i_mutate :: "(client_object \<Rightarrow> go_error + client_object) option"
  i_absent :: bool

definition child_prefix :: "string \<Rightarrow> string" where
  "child_prefix name =
     TrimRight (ReplaceAllChar (if 40 < length name then take 40 name else name) (CHR ''.'') (CHR ''-''))
       ''-''"

definition ChildName :: "string \<Rightarrow> string" where
  "ChildName name = ''awcp-'' @ child_prefix name @ ''-'' @ hex_bytes (take 8 (sha256 name))"

subsection \<open>The name is a bounded DNS label\<close>

lemma length_child_prefix: "length (child_prefix name) \<le> 40"
  unfolding child_prefix_def by (rule order_trans [OF length_TrimRight]) simp

lemma ChildName_length: "length (ChildName name) \<le> 62"
  using length_child_prefix [of name] by (simp add: ChildName_def)

lemma lower_alnum_digit: "d < 16 \<Longrightarrow> lower_alnum (digit_char d)"
  by (auto simp: lower_alnum_def digit_char_def Let_def)

lemma hex_bytes_alnum: "c \<in> set (hex_bytes bs) \<Longrightarrow> lower_alnum c"
proof -
  assume "c \<in> set (hex_bytes bs)"
  then obtain b where b: "c \<in> set (hex_byte b)" by (auto simp: hex_bytes_def)
  have "(of_char b :: nat) div 16 < 16"
    using of_char_less_256 [of b] by (intro less_mult_imp_div_less) simp
  with b show ?thesis by (auto simp: hex_byte_def lower_alnum_digit)
qed

lemma child_prefix_chars:
  assumes "dns_subdomain name" and "c \<in> set (child_prefix name)"
  shows "lower_alnum c \<or> c = CHR ''-''"
proof -
  let ?cut = "if 40 < length name then take 40 name else name"
  from assms(2) have "c \<in> set (ReplaceAllChar ?cut (CHR ''.'') (CHR ''-''))"
    unfolding child_prefix_def using set_TrimRight by blast
  then obtain d where "d \<in> set ?cut" and c: "c = (if d = CHR ''.'' then CHR ''-'' else d)"
    by (auto simp: ReplaceAllChar_def)
  then have "d \<in> set name" by (auto split: if_splits dest: in_set_takeD)
  with assms(1) have "lower_alnum d \<or> d = CHR ''-'' \<or> d = CHR ''.''"
    by (rule dns_subdomain_chars)
  with c show ?thesis by auto
qed

lemma child_prefix_nonempty:
  assumes "dns_subdomain name"
  shows "child_prefix name \<noteq> []"
proof -
  obtain c t where name: "name = c # t" and c: "lower_alnum c"
    using dns_subdomain_head [OF assms] by blast
  from c have nd: "c \<noteq> CHR ''-''" "c \<noteq> CHR ''.''" by (auto dest: lower_alnum_not_dash)
  with name obtain u where
    u: "ReplaceAllChar (if 40 < length name then take 40 name else name) (CHR ''.'') (CHR ''-'') = c # u"
    by (cases "40 < length name") (auto simp: ReplaceAllChar_def take_Cons')
  from nd have "c \<notin> set ''-''" by simp
  then obtain t' where "TrimRight (c # u) ''-'' = c # t'"
    using TrimRight_Cons by blast
  then show ?thesis by (simp only: child_prefix_def u) simp
qed

lemma ChildName_dns_label:
  assumes "dns_subdomain name"
  shows "dns_label (ChildName name)"
proof -
  let ?hex = "hex_bytes (take 8 (sha256 name))"
  have len: "length ?hex = 16" by simp
  then have hex: "?hex \<noteq> []" by (metis length_0_conv zero_neq_numeral)
  have "last (ChildName name) = last ?hex"
    using hex by (simp add: ChildName_def last_append)
  moreover have "lower_alnum (last ?hex)"
    using hex by (blast intro: hex_bytes_alnum last_in_set)
  moreover have "lower_alnum c \<or> c = CHR ''-''" if "c \<in> set (ChildName name)" for c
    using that child_prefix_chars [OF assms] hex_bytes_alnum
    by (auto simp: ChildName_def lower_alnum_def)
  moreover have "lower_alnum (hd (ChildName name))" and "ChildName name \<noteq> []"
    by (simp_all add: ChildName_def lower_alnum_def)
  ultimately show ?thesis by (simp add: dns_label_def list_all_iff)
qed

text \<open>Two names share a child name only if the first eight bytes of their digests agree.\<close>

lemma ChildName_collision:
  assumes "ChildName a = ChildName b"
  shows "take 8 (sha256 a) = take 8 (sha256 b)"
proof -
  let ?h = "\<lambda>n. hex_bytes (take 8 (sha256 n))"
  have "drop (length (ChildName n) - 16) (ChildName n) = ?h n" for n
  proof -
    have split: "ChildName n = (''awcp-'' @ child_prefix n @ ''-'') @ ?h n"
      by (simp add: ChildName_def)
    have "length (ChildName n) - 16 = length (''awcp-'' @ child_prefix n @ ''-'')"
      by (simp add: ChildName_def)
    then show ?thesis by (simp only: split append_eq_conv_conj) simp
  qed
  then have "?h a = ?h b" using assms by metis
  then show ?thesis by (rule hex_bytes_inj)
qed

end
