(* ===== verification/Resource_Meta.thy ===== *)
theory Resource_Meta
  imports Naming
begin

text \<open>
  The identity labels and the managed metadata of \<open>internal/resource/deployment.go\<close>. The Go code
  writes into the label and annotation maps of the object; the model returns the new metadata. A nil
  map and an empty map are the same finite map.
\<close>

definition ContainerName :: string where "ContainerName = ''workload''"
definition HTTPPortName :: string where "HTTPPortName = ''http''"
definition InstanceLabel :: string where "InstanceLabel = ''app.kubernetes.io/instance''"
definition UIDLabel :: string where "UIDLabel = ''platform.example.io/workload-uid''"
definition EnvironmentLabel :: string where "EnvironmentLabel = ''platform.example.io/environment''"
definition TenantLabel :: string where "TenantLabel = ''platform.example.io/tenant''"
definition WorkloadNameAnnotation :: string where
  "WorkloadNameAnnotation = ''platform.example.io/workload-name''"

lemmas label_names =
  InstanceLabel_def UIDLabel_def EnvironmentLabel_def TenantLabel_def WorkloadNameAnnotation_def

definition SelectorLabels :: "AIWorkload \<Rightarrow> (string, string) fmap" where
  "SelectorLabels p =
     fmupd UIDLabel (w_uid p) (fmupd InstanceLabel (ChildName (w_name p)) fmempty)"

text \<open>The three optional-or-absent label writes, shared by typed and unstructured children.\<close>

definition optional_label :: "string \<Rightarrow> string \<Rightarrow> (string, string) fmap \<Rightarrow> (string, string) fmap" where
  "optional_label key value labels =
     (if value \<noteq> '''' then fmupd key value labels else fmdrop key labels)"

definition managed_labels :: "AIWorkload \<Rightarrow> (string, string) fmap \<Rightarrow> (string, string) fmap" where
  "managed_labels p labels =
     (let l1 = labels ++\<^sub>f SelectorLabels p;
          l2 = fmupd ''app.kubernetes.io/name'' ''ai-workload'' l1;
          l3 = fmupd ''app.kubernetes.io/part-of'' ''ai-workload-control-plane'' l2;
          l4 = fmupd ''app.kubernetes.io/managed-by'' ''awcp-controller'' l3;
          l5 = optional_label EnvironmentLabel (sp_environment (w_spec p)) l4
      in optional_label TenantLabel (sp_tenant (w_spec p)) l5)"

definition managedMetadata :: "ObjectMeta \<Rightarrow> AIWorkload \<Rightarrow> ObjectMeta" where
  "managedMetadata m p =
     m\<lparr>m_labels := managed_labels p (m_labels m),
       m_annotations := fmupd WorkloadNameAnnotation (w_name p) (m_annotations m)\<rparr>"

definition managed_label_keys :: "string set" where
  "managed_label_keys =
     {InstanceLabel, UIDLabel, ''app.kubernetes.io/name'', ''app.kubernetes.io/part-of'',
      ''app.kubernetes.io/managed-by'', EnvironmentLabel, TenantLabel}"

subsection \<open>What the helpers write\<close>

lemma managedMetadata_identity [simp]: "same_identity (managedMetadata m p) m"
  by (simp add: managedMetadata_def same_identity_def)

lemma managedMetadata_fields [simp]:
  "m_name (managedMetadata m p) = m_name m" "m_namespace (managedMetadata m p) = m_namespace m"
  "m_uid (managedMetadata m p) = m_uid m"
  "m_resourceVersion (managedMetadata m p) = m_resourceVersion m"
  "m_generation (managedMetadata m p) = m_generation m"
  "m_rest (managedMetadata m p) = m_rest m"
  "m_ownerReferences (managedMetadata m p) = m_ownerReferences m"
  "m_finalizers (managedMetadata m p) = m_finalizers m"
  "m_deletionTimestamp (managedMetadata m p) = m_deletionTimestamp m"
  by (simp_all add: managedMetadata_def)

lemma managed_labels_lookup:
  "fmlookup (managed_labels p labels) k =
     (if k = TenantLabel then (if sp_tenant (w_spec p) = '''' then None else Some (sp_tenant (w_spec p)))
      else if k = EnvironmentLabel
        then (if sp_environment (w_spec p) = '''' then None else Some (sp_environment (w_spec p)))
      else if k = ''app.kubernetes.io/managed-by'' then Some ''awcp-controller''
      else if k = ''app.kubernetes.io/part-of'' then Some ''ai-workload-control-plane''
      else if k = ''app.kubernetes.io/name'' then Some ''ai-workload''
      else if k = UIDLabel then Some (w_uid p)
      else if k = InstanceLabel then Some (ChildName (w_name p))
      else fmlookup labels k)"
  by (auto simp: managed_labels_def optional_label_def SelectorLabels_def Let_def label_names)

lemma managed_labels_stable: "managed_labels p (managed_labels p labels) = managed_labels p labels"
  by (rule fmap_ext) (simp add: managed_labels_lookup)

lemma managed_labels_foreign:
  "k \<notin> managed_label_keys \<Longrightarrow> fmlookup (managed_labels p labels) k = fmlookup labels k"
  by (simp add: managed_labels_lookup managed_label_keys_def)

lemma seven_cases:
  assumes "k = k1 \<or> k = k2 \<or> k = k3 \<or> k = k4 \<or> k = k5 \<or> k = k6 \<or> k = k7"
  shows "(if k = k7 then v7 else if k = k6 then v6 else if k = k5 then v5 else if k = k4 then v4
          else if k = k3 then v3 else if k = k2 then v2 else if k = k1 then v1 else x) =
         (if k = k7 then v7 else if k = k6 then v6 else if k = k5 then v5 else if k = k4 then v4
          else if k = k3 then v3 else if k = k2 then v2 else if k = k1 then v1 else y)"
  using assms by presburger

lemma managed_labels_owned:
  assumes "k \<in> managed_label_keys"
  shows "fmlookup (managed_labels p labels) k = fmlookup (managed_labels p other) k"
  unfolding managed_labels_lookup
  by (rule seven_cases) (use assms in \<open>unfold managed_label_keys_def insert_iff empty_iff, argo\<close>)

text \<open>Metadata whose labels and annotations are already the managed ones is a fixed point.\<close>

lemma managedMetadata_fixpoint:
  assumes "m_labels n = m_labels (managedMetadata m p)"
    and "m_annotations n = m_annotations (managedMetadata m p)"
  shows "managedMetadata n p = n"
proof -
  have "managed_labels p (m_labels n) = m_labels n"
    using assms(1) by (simp add: managedMetadata_def managed_labels_stable)
  moreover have "fmupd WorkloadNameAnnotation (w_name p) (m_annotations n) = m_annotations n"
    using assms(2) by (simp add: managedMetadata_def fmupd_idem)
  ultimately show ?thesis by (simp add: managedMetadata_def)
qed

lemma managedMetadata_idem [simp]: "managedMetadata (managedMetadata m p) p = managedMetadata m p"
  by (rule managedMetadata_fixpoint) simp_all

end
