(* ===== verification/Mutator.thy ===== *)
theory Mutator
  imports Resource_Meta
begin

text \<open>
  The contract of \<open>Intent.Mutate\<close> (\<open>internal/resource/plan.go\<close>): "sets ONLY owned fields,
  preserving API defaults, unrelated metadata and injected fields; runs on both fresh and existing
  objects, and must be pure". The engine relies on three laws of it: a mutation never changes the
  identity of the object, never its Go type, and an object it has produced is a fixed point, also
  after the API server has assigned identity metadata to it.
\<close>

datatype object_type =
    ServiceAccountType | DeploymentType | ServiceType | NetworkPolicyType | HPAType | PDBType
  | UnstructuredType GroupVersionKind | OtherType string

fun obj_type :: "client_object \<Rightarrow> object_type" where
  "obj_type (ServiceAccountObj _) = ServiceAccountType"
| "obj_type (DeploymentObj _) = DeploymentType"
| "obj_type (ServiceObj _) = ServiceType"
| "obj_type (NetworkPolicyObj _) = NetworkPolicyType"
| "obj_type (HPAObj _) = HPAType"
| "obj_type (PDBObj _) = PDBType"
| "obj_type (UnstructuredObj x) = UnstructuredType (u_gvk x)"
| "obj_type (OtherObj _ k) = OtherType k"

lemma obj_type_set_meta [simp]: "obj_type (set_obj_meta ob m) = obj_type ob"
  by (cases ob) simp_all

text \<open>Metadata the API server may have given to an object since it was written.\<close>

definition fresh_meta :: "ObjectMeta \<Rightarrow> bool" where
  "fresh_meta m = (m_resourceVersion m = '''' \<and> m_uid m = '''')"

definition assigned :: "ObjectMeta \<Rightarrow> ObjectMeta \<Rightarrow> bool" where
  "assigned old new =
     (m_labels new = m_labels old \<and> m_annotations new = m_annotations old \<and> (fresh_meta new \<longrightarrow> fresh_meta old))"

lemma assigned_refl [simp]: "assigned m m"
  by (simp add: assigned_def)

lemma assigned_managed:
  "assigned (managedMetadata m p) n \<Longrightarrow> managedMetadata n p = n"
  by (rule managedMetadata_fixpoint [of _ m]) (simp_all add: assigned_def)

locale intent_mutator =
  fixes mutate :: "client_object \<Rightarrow> go_error + client_object"
  assumes keeps_identity: "mutate ob = Inr ob' \<Longrightarrow> same_identity (obj_meta ob') (obj_meta ob)"
    and keeps_type: "mutate ob = Inr ob' \<Longrightarrow> obj_type ob' = obj_type ob"
    and settled: "mutate ob = Inr ob' \<Longrightarrow> assigned (obj_meta ob') m \<Longrightarrow>
      mutate (set_obj_meta ob' m) = Inr (set_obj_meta ob' m)"
begin

lemma idempotent: "mutate ob = Inr ob' \<Longrightarrow> mutate ob' = Inr ob'"
  using settled [of ob ob' "obj_meta ob'"] by simp

lemma keeps_name:
  "mutate ob = Inr ob' \<Longrightarrow>
     m_name (obj_meta ob') = m_name (obj_meta ob) \<and> m_namespace (obj_meta ob') = m_namespace (obj_meta ob)"
  using keeps_identity by (auto simp: same_identity_def)

end

text \<open>How the type assertion \<open>o.(*T)\<close> at the head of every callback reads in the model.\<close>

lemma map_sum_Inr_iff: "map_sum id f r = Inr y \<longleftrightarrow> (\<exists>x. r = Inr x \<and> y = f x)"
  by (cases r) auto

end
