(* ===== verification/World.thy ===== *)
theory World
  imports Mutator
begin

text \<open>
  The Kubernetes API as the controller sees it. \<open>client\<close> has one field per call of
  \<open>client.Client\<close> that the sources make; each is an arbitrary function of the state \<open>'s\<close> of the
  cluster, which it may change, so a theorem over every \<open>client\<close> holds for every API server, every
  interleaving with other writers and every failure. The second component of \<open>world\<close> is a record of
  the calls made, in order, together with the Events and metrics emitted; nothing reads it back, it is
  there to state what the controller does to the outside.

  A call that fills an object in place (\<open>Get\<close>, \<open>Status().Patch\<close>) returns the object it leaves.
\<close>

type_synonym object_key = "string \<times> string"

datatype effect =
    ReadE string object_key
  | ListE string string string
  | DiscoverE string string
  | CreateE client_object
  | PatchE client_object client_object
  | DeleteE client_object string string
  | StatusPatchE AIWorkload AIWorkload
  | EventE string string string string
  | ResourceMetricE string string
  | FailureMetricE string

record 's world =
  wd_env :: 's
  wd_log :: "effect list"

type_synonym ('s, 'a) getter = "'s \<Rightarrow> object_key \<Rightarrow> (go_error + 'a) \<times> 's"

record 's client =
  cl_getWorkload :: "('s, AIWorkload) getter"
  cl_getServiceAccount :: "('s, ServiceAccount) getter"
  cl_getDeployment :: "('s, Deployment) getter"
  cl_getService :: "('s, Service) getter"
  cl_getNetworkPolicy :: "('s, NetworkPolicy) getter"
  cl_getHPA :: "('s, HorizontalPodAutoscaler) getter"
  cl_getPDB :: "('s, PodDisruptionBudget) getter"
  cl_getUnstructured :: "GroupVersionKind \<Rightarrow> ('s, Unstructured) getter"
  cl_getOther :: "string \<Rightarrow> ('s, ObjectMeta) getter"
  cl_getSecretMetadata :: "('s, ObjectMeta) getter"
  cl_getConfigMapData :: "('s, (string, string) fmap) getter"
  cl_create :: "'s \<Rightarrow> client_object \<Rightarrow> go_error option \<times> 's"
  cl_patch :: "'s \<Rightarrow> client_object \<Rightarrow> client_object \<Rightarrow> go_error option \<times> 's"
  cl_delete :: "'s \<Rightarrow> client_object \<Rightarrow> string \<Rightarrow> string \<Rightarrow> go_error option \<times> 's"
  cl_patchStatus :: "'s \<Rightarrow> AIWorkload \<Rightarrow> AIWorkload \<Rightarrow> (go_error option \<times> AIWorkload) \<times> 's"
  cl_listBySecret :: "'s \<Rightarrow> string \<Rightarrow> string \<Rightarrow> (go_error + AIWorkload list) \<times> 's"

definition emit :: "effect \<Rightarrow> 's world \<Rightarrow> 's world" where
  "emit e w = w\<lparr>wd_log := wd_log w @ [e]\<rparr>"

definition call :: "effect \<Rightarrow> ('s \<Rightarrow> 'a \<times> 's) \<Rightarrow> 's world \<Rightarrow> 'a \<times> 's world" where
  "call e f w = (case f (wd_env w) of (r, s) \<Rightarrow> (r, \<lparr>wd_env = s, wd_log = wd_log w @ [e]\<rparr>))"

definition call_get :: "string \<Rightarrow> ('s, 'a) getter \<Rightarrow> object_key \<Rightarrow> 's world \<Rightarrow> (go_error + 'a) \<times> 's world" where
  "call_get kind f key = call (ReadE kind key) (\<lambda>s. f s key)"

text \<open>\<open>Client.Get\<close> on an object of any type: the Go type of the target selects the API.\<close>

fun client_get ::
  "'s client \<Rightarrow> client_object \<Rightarrow> object_key \<Rightarrow> 's world \<Rightarrow> (go_error + client_object) \<times> 's world" where
  "client_get c (ServiceAccountObj _) k w =
     apfst (map_sum id ServiceAccountObj) (call_get ''ServiceAccount'' (cl_getServiceAccount c) k w)"
| "client_get c (DeploymentObj _) k w =
     apfst (map_sum id DeploymentObj) (call_get ''Deployment'' (cl_getDeployment c) k w)"
| "client_get c (ServiceObj _) k w =
     apfst (map_sum id ServiceObj) (call_get ''Service'' (cl_getService c) k w)"
| "client_get c (NetworkPolicyObj _) k w =
     apfst (map_sum id NetworkPolicyObj) (call_get ''NetworkPolicy'' (cl_getNetworkPolicy c) k w)"
| "client_get c (HPAObj _) k w =
     apfst (map_sum id HPAObj) (call_get ''HorizontalPodAutoscaler'' (cl_getHPA c) k w)"
| "client_get c (PDBObj _) k w =
     apfst (map_sum id PDBObj) (call_get ''PodDisruptionBudget'' (cl_getPDB c) k w)"
| "client_get c (UnstructuredObj u) k w =
     apfst (map_sum id UnstructuredObj) (call_get (g_kind (u_gvk u)) (cl_getUnstructured c (u_gvk u)) k w)"
| "client_get c (OtherObj _ kind) k w =
     apfst (map_sum id (\<lambda>m. OtherObj m kind)) (call_get kind (cl_getOther c kind) k w)"

subsection \<open>What a step adds to the log\<close>

definition adds :: "(effect \<Rightarrow> bool) \<Rightarrow> 's world \<Rightarrow> 's world \<Rightarrow> bool" where
  "adds P w w' = (\<exists>es. wd_log w' = wd_log w @ es \<and> list_all P es)"

lemma adds_refl [simp]: "adds P w w"
  by (simp add: adds_def)

lemma adds_trans [log_intros]: "adds P u v \<Longrightarrow> adds P v w \<Longrightarrow> adds P u w"
  by (fastforce simp: adds_def)

lemma adds_mono: "adds P v w \<Longrightarrow> (\<And>e. P e \<Longrightarrow> Q e) \<Longrightarrow> adds Q v w"
  by (fastforce simp: adds_def list_all_iff)

lemma adds_emit [log_intros]: "P e \<Longrightarrow> adds P w (emit e w)"
  by (simp add: adds_def emit_def)

lemma adds_call: "P e \<Longrightarrow> call e f w = (r, w') \<Longrightarrow> adds P w w'"
  by (auto simp: adds_def call_def split: prod.splits)

lemma call_log: "call e f w = (r, w') \<Longrightarrow> wd_log w' = wd_log w @ [e]"
  by (auto simp: call_def split: prod.splits)

lemma call_fst: "fst (call e f w) = fst (f (wd_env w))"
  by (simp add: call_def split: prod.splits)

lemma call_get_log: "call_get kind f k w = (r, w') \<Longrightarrow> wd_log w' = wd_log w @ [ReadE kind k]"
  by (auto simp: call_get_def dest: call_log)

lemma emit_log [simp]: "wd_log (emit e w) = wd_log w @ [e]" "wd_env (emit e w) = wd_env w"
  by (simp_all add: emit_def)

fun read_kind :: "client_object \<Rightarrow> string" where
  "read_kind (ServiceAccountObj _) = ''ServiceAccount''"
| "read_kind (DeploymentObj _) = ''Deployment''"
| "read_kind (ServiceObj _) = ''Service''"
| "read_kind (NetworkPolicyObj _) = ''NetworkPolicy''"
| "read_kind (HPAObj _) = ''HorizontalPodAutoscaler''"
| "read_kind (PDBObj _) = ''PodDisruptionBudget''"
| "read_kind (UnstructuredObj u) = g_kind (u_gvk u)"
| "read_kind (OtherObj _ k) = k"

lemma client_get_log:
  "client_get c ob k w = (r, w') \<Longrightarrow> wd_log w' = wd_log w @ [ReadE (read_kind ob) k]"
  by (cases ob) (auto dest: call_get_log simp: apfst_def map_prod_def split: prod.splits)

text \<open>The Go type of a typed object read is the Go type of the target.\<close>

fun go_type :: "client_object \<Rightarrow> nat" where
  "go_type (ServiceAccountObj _) = 0"
| "go_type (DeploymentObj _) = 1"
| "go_type (ServiceObj _) = 2"
| "go_type (NetworkPolicyObj _) = 3"
| "go_type (HPAObj _) = 4"
| "go_type (PDBObj _) = 5"
| "go_type (UnstructuredObj _) = 6"
| "go_type (OtherObj _ _) = 7"

lemma client_get_type: "client_get c ob k w = (Inr ob', w') \<Longrightarrow> go_type ob' = go_type ob"
  by (cases ob) (auto simp: apfst_def map_prod_def map_sum_Inr_iff split: prod.splits)

lemma client_get_target:
  "obj_type target = obj_type target' \<Longrightarrow> client_get c target k w = client_get c target' k w"
  by (cases target; cases target') simp_all

lemma go_type_set_meta [simp]: "go_type (set_obj_meta ob m) = go_type ob"
  by (cases ob) simp_all

lemma obj_type_go_type: "obj_type a = obj_type b \<Longrightarrow> go_type a = go_type b"
  by (cases a; cases b) simp_all

end
