(* ===== verification/Capability.thy ===== *)
theory Capability
  imports World
begin

text \<open>
  \<open>internal/capability/catalog.go\<close>: the optional platform APIs and their on-demand detection. The
  discovery client is a parameter; a lookup is any function of the cluster state. The copies the
  Go code returns are the values themselves.
\<close>

datatype Feature =
    ExternalSecrets | GatewayAPI | ArgoRollouts | ExternalMetrics | PrometheusMonitoring
  | ValidatingAdmissionPolicies

record APIResource =
  ar_groupVersion :: string
  ar_resource :: string

record Requirement =
  rq_feature :: Feature
  rq_description :: string
  rq_resources :: "APIResource list"

definition requirements :: "Requirement list" where
  "requirements =
     [\<lparr>rq_feature = ExternalSecrets,
       rq_description = ''External Secrets Operator namespaced SecretStore and ExternalSecret APIs'',
       rq_resources = [\<lparr>ar_groupVersion = ''external-secrets.io/v1'', ar_resource = ''secretstores''\<rparr>,
                       \<lparr>ar_groupVersion = ''external-secrets.io/v1'', ar_resource = ''externalsecrets''\<rparr>]\<rparr>,
      \<lparr>rq_feature = GatewayAPI,
       rq_description = ''Gateway API Gateway and HTTPRoute APIs'',
       rq_resources = [\<lparr>ar_groupVersion = ''gateway.networking.k8s.io/v1'', ar_resource = ''gateways''\<rparr>,
                       \<lparr>ar_groupVersion = ''gateway.networking.k8s.io/v1'', ar_resource = ''httproutes''\<rparr>]\<rparr>,
      \<lparr>rq_feature = ArgoRollouts,
       rq_description = ''Argo Rollouts Rollout API'',
       rq_resources = [\<lparr>ar_groupVersion = ''argoproj.io/v1alpha1'', ar_resource = ''rollouts''\<rparr>]\<rparr>,
      \<lparr>rq_feature = ExternalMetrics,
       rq_description = ''external.metrics.k8s.io API required for HPA scale-to-zero or external metrics'',
       rq_resources = [\<lparr>ar_groupVersion = ''external.metrics.k8s.io/v1beta1'', ar_resource = ''*''\<rparr>]\<rparr>,
      \<lparr>rq_feature = PrometheusMonitoring,
       rq_description = ''Prometheus Operator monitoring API for optional ServiceMonitor integration'',
       rq_resources = [\<lparr>ar_groupVersion = ''monitoring.coreos.com/v1'', ar_resource = ''servicemonitors''\<rparr>]\<rparr>,
      \<lparr>rq_feature = ValidatingAdmissionPolicies,
       rq_description = ''Kubernetes admissionregistration ValidatingAdmissionPolicy API'',
       rq_resources = [\<lparr>ar_groupVersion = ''admissionregistration.k8s.io/v1'',
                        ar_resource = ''validatingadmissionpolicies''\<rparr>]\<rparr>]"

definition Requirements :: "Requirement list" where
  "Requirements = requirements"

definition RequirementFor :: "Feature \<Rightarrow> Requirement option" where
  "RequirementFor feature = find (\<lambda>r. rq_feature r = feature) requirements"

datatype State = Available | Unavailable | Unknown

type_synonym 's resource_lookup = "APIResource \<Rightarrow> 's \<Rightarrow> (go_error + bool) \<times> 's"

text \<open>\<open>DiscoveryLookup.HasResource\<close>: \<open>discovery\<close> is \<open>ServerResourcesForGroupVersion\<close>, the names it lists.\<close>

definition HasResource :: "(string \<Rightarrow> 's \<Rightarrow> (go_error + string list) \<times> 's) \<Rightarrow> 's resource_lookup" where
  "HasResource discovery resource s =
     (case discovery (ar_groupVersion resource) s of
        (Inl e, s') \<Rightarrow> if IsNotFound e then (Inr False, s') else (Inl e, s')
      | (Inr names, s') \<Rightarrow>
          (Inr (list_ex (\<lambda>name. ar_resource resource = ''*'' \<or> name = ar_resource resource) names), s'))"

record Observation =
  ob_requirement :: Requirement
  ob_state :: State
  ob_err :: "go_error option"

fun detect_resources :: "'s resource_lookup \<Rightarrow> APIResource list \<Rightarrow> 's world \<Rightarrow> (State \<times> go_error option) \<times> 's world" where
  "detect_resources lookup [] w = ((Available, None), w)"
| "detect_resources lookup (resource # resources) w =
     (case call (DiscoverE (ar_groupVersion resource) (ar_resource resource)) (lookup resource) w of
        (Inl e, w') \<Rightarrow> ((Unknown, Some e), w')
      | (Inr found, w') \<Rightarrow>
          if \<not> found then ((Unavailable, None), w') else detect_resources lookup resources w')"

definition Detect :: "'s resource_lookup \<Rightarrow> Requirement \<Rightarrow> 's world \<Rightarrow> Observation \<times> 's world" where
  "Detect lookup requirement w =
     (case detect_resources lookup (rq_resources requirement) w of
        ((state, err), w') \<Rightarrow> (\<lparr>ob_requirement = requirement, ob_state = state, ob_err = err\<rparr>, w'))"

subsection \<open>Facts\<close>

lemma RequirementFor_total: "\<exists>r. RequirementFor f = Some r \<and> rq_feature r = f \<and> rq_resources r \<noteq> []"
  by (cases f) (simp_all add: RequirementFor_def requirements_def)

fun is_discovery :: "effect \<Rightarrow> bool" where
  "is_discovery (DiscoverE _ _) = True"
| "is_discovery _ = False"

lemma detect_resources_calls: "detect_resources lookup rs w = (x, w') \<Longrightarrow> adds is_discovery w w'"
proof (induction rs arbitrary: w)
  case Nil
  then show ?case by simp
next
  case (Cons r rs)
  obtain a w1 where c: "call (DiscoverE (ar_groupVersion r) (ar_resource r)) (lookup r) w = (a, w1)" by fastforce
  then have "adds is_discovery w w1" by (rule adds_call [rotated]) simp
  with Cons c show ?case
    by (auto split: sum.splits if_splits intro: adds_trans)
qed

lemma Detect_calls: "Detect lookup rq w = (x, w') \<Longrightarrow> adds is_discovery w w'"
  by (auto simp: Detect_def split: prod.splits dest: detect_resources_calls)

text \<open>The answers of the lookup, one after the other, up to the first that is not \<open>(true, nil)\<close>.\<close>

fun all_found :: "'s resource_lookup \<Rightarrow> APIResource list \<Rightarrow> 's \<Rightarrow> bool" where
  "all_found lookup [] s = True"
| "all_found lookup (r # rs) s =
     (case lookup r s of (Inr True, s') \<Rightarrow> all_found lookup rs s' | _ \<Rightarrow> False)"

lemma detect_available_iff:
  "fst (fst (detect_resources lookup rs w)) = Available \<longleftrightarrow> all_found lookup rs (wd_env w)"
proof (induction rs arbitrary: w)
  case (Cons r rs)
  show ?case
    using Cons by (auto simp: call_def split: prod.splits sum.splits bool.splits)
qed simp

lemma detect_unknown_iff:
  "fst (detect_resources lookup rs w) = (st, er) \<Longrightarrow> st = Unknown \<longleftrightarrow> er \<noteq> None"
  by (induction rs arbitrary: w) (auto split: prod.splits sum.splits if_splits)

end
