(* ===== verification/Res_Service.thy ===== *)
theory Res_Service
  imports Mutator
begin

text \<open>
  \<open>internal/resource/service.go\<close>: the optional ClusterIP Service. A workload pointer that may be nil
  is an \<open>option\<close> in the functions that check for it.
\<close>

fun ServiceEnabled :: "AIWorkload option \<Rightarrow> bool" where
  "ServiceEnabled None = False"
| "ServiceEnabled (Some p) =
     (case sp_service (w_spec p) of
        None \<Rightarrow> True
      | Some s \<Rightarrow> (case sv_enabled s of None \<Rightarrow> True | Some b \<Rightarrow> b))"

fun ServicePort :: "AIWorkload option \<Rightarrow> int" where
  "ServicePort None = 80"
| "ServicePort (Some p) =
     (case sp_service (w_spec p) of
        None \<Rightarrow> 80
      | Some s \<Rightarrow> (case sv_port s of None \<Rightarrow> 80 | Some port \<Rightarrow> port))"

definition ServiceEndpoint :: "AIWorkload \<Rightarrow> string" where
  "ServiceEndpoint p =
     (if \<not> ServiceEnabled (Some p) then ''''
      else ChildName (w_name p) @ ''.'' @ w_namespace p @ ''.svc:'' @ int_decimal (ServicePort (Some p)))"

definition mutateService :: "Service \<Rightarrow> AIWorkload \<Rightarrow> go_error + Service" where
  "mutateService s p =
     (if s_type s \<noteq> '''' \<and> s_type s \<noteq> ''ClusterIP'' then Inl ErrImmutableServiceAllocation
      else if s_clusterIP s = ''None'' then Inl ErrImmutableServiceAllocation
      else Inr (s\<lparr>s_meta := managedMetadata (s_meta s) p,
                  s_type := ''ClusterIP'',
                  s_selector := SelectorLabels p,
                  s_ports := [\<lparr>spt_name = HTTPPortName, spt_protocol = ''TCP'', spt_appProtocol = None,
                               spt_port = ServicePort (Some p),
                               spt_targetPort = StrVal HTTPPortName, spt_nodePort = 0\<rparr>]\<rparr>))"

definition service_callback :: "AIWorkload \<Rightarrow> client_object \<Rightarrow> go_error + client_object" where
  "service_callback p ob =
     (case ob of ServiceObj s \<Rightarrow> map_sum id ServiceObj (mutateService s p)
      | _ \<Rightarrow> Inl ErrInvalidConfiguration)"

definition serviceIntent :: "AIWorkload \<Rightarrow> go_error + Intent" where
  "serviceIntent p =
     (let object = Some (ServiceObj (zero_service (named_meta (ChildName (w_name p)) (w_namespace p))));
          absent = \<not> ServiceEnabled (Some p)
      in if absent then Inr \<lparr>i_object = object, i_mutate = None, i_absent = True\<rparr>
         else let port = ServicePort (Some p) in
           if port < 1 \<or> 65535 < port then Inl ErrInvalidConfiguration
           else Inr \<lparr>i_object = object, i_mutate = Some (service_callback p), i_absent = False\<rparr>)"

definition HasAllocatedClusterNetwork :: "Service \<Rightarrow> bool" where
  "HasAllocatedClusterNetwork s =
     (s_clusterIP s \<noteq> '''' \<or> s_clusterIPs s \<noteq> [] \<or> s_ipFamilies s \<noteq> [] \<or> s_ipFamilyPolicy s \<noteq> None)"

subsection \<open>The Service mutator keeps its contract\<close>

lemma mutateService_Inr:
  assumes "mutateService s p = Inr t"
  shows "s_meta t = managedMetadata (s_meta s) p" and "s_type t = ''ClusterIP''"
    and "s_clusterIP t = s_clusterIP s" and "s_clusterIP s \<noteq> ''None''"
    and "s_selector t = SelectorLabels p"
    and "s_clusterIPs t = s_clusterIPs s" and "s_ipFamilies t = s_ipFamilies s"
    and "s_ipFamilyPolicy t = s_ipFamilyPolicy s" and "s_rest t = s_rest s"
  using assms by (auto simp: mutateService_def split: if_splits)

lemma mutateService_settled:
  assumes "mutateService s p = Inr t"
    and "assigned (s_meta t) m"
  shows "mutateService (t\<lparr>s_meta := m\<rparr>) p = Inr (t\<lparr>s_meta := m\<rparr>)"
proof -
  have "managedMetadata m p = m"
    using assms by (simp add: mutateService_Inr assigned_managed)
  with assms(1) show ?thesis by (auto simp: mutateService_def split: if_splits)
qed

lemma service_callback_Inr:
  "service_callback p ob = Inr ob' \<longleftrightarrow> (\<exists>s t. ob = ServiceObj s \<and> ob' = ServiceObj t \<and> mutateService s p = Inr t)"
  by (auto simp: service_callback_def map_sum_Inr_iff split: client_object.splits)

interpretation svc: intent_mutator "service_callback p" for p
  by unfold_locales (auto simp: service_callback_Inr mutateService_Inr mutateService_settled)

lemma serviceIntent_shape:
  assumes "serviceIntent p = Inr i"
  shows "i_object i = Some (ServiceObj (zero_service (named_meta (ChildName (w_name p)) (w_namespace p))))"
    and "i_absent i \<longleftrightarrow> \<not> ServiceEnabled (Some p)"
    and "\<not> i_absent i \<Longrightarrow> i_mutate i = Some (service_callback p)"
  using assms by (auto simp: serviceIntent_def Let_def split: if_splits)

end
