(* ===== verification/Res_Exposure.thy ===== *)
theory Res_Exposure
  imports Res_Service
begin

text \<open>
  \<open>internal/resource/exposure.go\<close>: the optional Gateway API HTTPRoute, an unstructured object.
  Writing its \<open>spec\<close> goes through the library's \<open>SetNestedField\<close>.
\<close>

definition HTTPRouteGVK :: GroupVersionKind where
  "HTTPRouteGVK = \<lparr>g_group = ''gateway.networking.k8s.io'', g_version = ''v1'', g_kind = ''HTTPRoute''\<rparr>"

fun HTTPRouteEnabled :: "AIWorkload option \<Rightarrow> bool" where
  "HTTPRouteEnabled None = False"
| "HTTPRouteEnabled (Some p) =
     (case sp_exposure (w_spec p) of None \<Rightarrow> False | Some e \<Rightarrow> ex_mode e = ExposureHTTPRoute)"

definition http_route_spec :: "AIWorkload \<Rightarrow> ExposureSpec \<Rightarrow> json" where
  "http_route_spec p e =
     JMap [(''parentRefs'', JArray [JMap [(''name'', JString (ex_gateway e)),
                                          (''sectionName'', JString (ex_sectionName e))]]),
           (''hostnames'', JArray [JString (ex_hostname e)]),
           (''rules'', JArray [JMap [
              (''matches'', JArray [JMap [
                 (''path'', JMap [(''type'', JString ''PathPrefix''), (''value'', JString (ex_path e))])]]),
              (''backendRefs'', JArray [JMap [
                 (''name'', JString (ChildName (w_name p))), (''port'', JInt (ServicePort (Some p)))]])]])]"

text \<open>The label and annotation writes are those of \<open>managedMetadata\<close>, repeated in the source.\<close>

definition mutateHTTPRoute :: "lib \<Rightarrow> Unstructured \<Rightarrow> AIWorkload \<Rightarrow> ExposureSpec \<Rightarrow> Unstructured" where
  "mutateHTTPRoute L route p e =
     route\<lparr>u_meta := (u_meta route)
             \<lparr>m_labels := managed_labels p (m_labels (u_meta route)),
              m_annotations := fmupd WorkloadNameAnnotation (w_name p) (m_annotations (u_meta route))\<rparr>,
           u_object := SetNestedField L (u_object route) (http_route_spec p e) [''spec'']\<rparr>"

definition http_route_callback :: "lib \<Rightarrow> AIWorkload \<Rightarrow> client_object \<Rightarrow> go_error + client_object" where
  "http_route_callback L p ob =
     (case ob of
        UnstructuredObj target \<Rightarrow>
          if u_gvk target \<noteq> HTTPRouteGVK then Inl ErrInvalidConfiguration
          else (case sp_exposure (w_spec p) of
              None \<Rightarrow> Inl NilDereference
            | Some e \<Rightarrow> Inr (UnstructuredObj (mutateHTTPRoute L target p e)))
      | _ \<Rightarrow> Inl ErrInvalidConfiguration)"

definition fresh_route :: "AIWorkload \<Rightarrow> Unstructured" where
  "fresh_route p =
     \<lparr>u_gvk = HTTPRouteGVK, u_meta = named_meta (ChildName (w_name p)) (w_namespace p), u_object = JMap []\<rparr>"

fun HTTPRouteIntent :: "lib \<Rightarrow> AIWorkload option \<Rightarrow> go_error + Intent" where
  "HTTPRouteIntent L None = Inl ErrInvalidConfiguration"
| "HTTPRouteIntent L (Some p) =
     (let object = Some (UnstructuredObj (fresh_route p)) in
      if \<not> HTTPRouteEnabled (Some p) then Inr \<lparr>i_object = object, i_mutate = None, i_absent = True\<rparr>
      else (case sp_exposure (w_spec p) of
          None \<Rightarrow> Inl NilDereference
        | Some e \<Rightarrow>
            if \<not> ServiceEnabled (Some p) \<or> ex_gateway e = '''' \<or> ex_sectionName e = ''''
               \<or> ex_hostname e = '''' \<or> ex_path e = ''''
            then Inl ErrInvalidConfiguration
            else Inr \<lparr>i_object = object, i_mutate = Some (http_route_callback L p), i_absent = False\<rparr>))"

subsection \<open>The route mutator keeps its contract\<close>

lemma mutateHTTPRoute_meta: "u_meta (mutateHTTPRoute L r p e) = managedMetadata (u_meta r) p"
  by (simp add: mutateHTTPRoute_def managedMetadata_def)

lemma http_route_callback_Inr:
  "http_route_callback L p ob = Inr ob' \<longleftrightarrow>
     (\<exists>r e. ob = UnstructuredObj r \<and> u_gvk r = HTTPRouteGVK \<and> sp_exposure (w_spec p) = Some e
        \<and> ob' = UnstructuredObj (mutateHTTPRoute L r p e))"
  by (auto simp: http_route_callback_def split: client_object.splits option.splits)

lemma mutateHTTPRoute_settled:
  assumes "nested_field_laws L"
    and "assigned (managedMetadata (u_meta r) p) m"
  shows "mutateHTTPRoute L ((mutateHTTPRoute L r p e)\<lparr>u_meta := m\<rparr>) p e = (mutateHTTPRoute L r p e)\<lparr>u_meta := m\<rparr>"
proof -
  have "managedMetadata m p = m"
    using assms by (blast intro: assigned_managed)
  then show ?thesis
    using assms(1) by (simp add: mutateHTTPRoute_def managedMetadata_def nested_field_laws_def)
qed

lemma route_mutator:
  assumes "nested_field_laws L"
  shows "intent_mutator (http_route_callback L p)"
proof
  fix ob ob' and m :: ObjectMeta
  assume ob: "http_route_callback L p ob = Inr ob'"
  then obtain r e where r: "ob = UnstructuredObj r" "u_gvk r = HTTPRouteGVK"
    "sp_exposure (w_spec p) = Some e" "ob' = UnstructuredObj (mutateHTTPRoute L r p e)"
    by (auto simp: http_route_callback_Inr)
  have gvk: "u_gvk (mutateHTTPRoute L r p e) = HTTPRouteGVK"
    using r by (simp add: mutateHTTPRoute_def)
  from r show "same_identity (obj_meta ob') (obj_meta ob)"
    by (simp add: mutateHTTPRoute_meta)
  from r gvk show "obj_type ob' = obj_type ob" by simp
  assume "assigned (obj_meta ob') m"
  with r gvk assms show "http_route_callback L p (set_obj_meta ob' m) = Inr (set_obj_meta ob' m)"
    by (simp add: http_route_callback_def mutateHTTPRoute_meta mutateHTTPRoute_settled)
qed

lemma HTTPRouteIntent_shape:
  assumes "HTTPRouteIntent L (Some p) = Inr i"
  shows "i_object i = Some (UnstructuredObj (fresh_route p))"
    and "i_absent i \<longleftrightarrow> \<not> HTTPRouteEnabled (Some p)"
    and "\<not> i_absent i \<Longrightarrow> i_mutate i = Some (http_route_callback L p)"
  using assms by (auto simp: Let_def split: if_splits option.splits)

end
