(* ===== verification/Engine_Plan.thy ===== *)
theory Engine_Plan
  imports Res_Exposure "HOL-Library.Multiset"
begin

text \<open>
  The plan side of \<open>internal/controller/engine.go\<close>: the dependency order of the children and
  \<open>ValidatePlan\<close>, which "rejects unsafe targets before the first API write and orders dependencies".
  \<open>plan_builder\<close> is the interface \<open>resource.Builder\<close> with what the engine relies on.
\<close>

fun childOrder :: "client_object option \<Rightarrow> int" where
  "childOrder None = -1"
| "childOrder (Some (ServiceAccountObj _)) = 0"
| "childOrder (Some (DeploymentObj _)) = 1"
| "childOrder (Some (ServiceObj _)) = 2"
| "childOrder (Some (NetworkPolicyObj _)) = 3"
| "childOrder (Some (HPAObj _)) = 4"
| "childOrder (Some (PDBObj _)) = 5"
| "childOrder (Some (UnstructuredObj u)) = (if u_gvk u = HTTPRouteGVK then 6 else -1)"
| "childOrder (Some (OtherObj _ _)) = -1"

abbreviation intent_kind :: "Intent \<Rightarrow> int" where
  "intent_kind i \<equiv> childOrder (i_object i)"

text \<open>The body of the loop of \<open>ValidatePlan\<close>: every failing check returns \<open>ErrInvalidPlan\<close>.\<close>

definition intent_ok :: "AIWorkload \<Rightarrow> int list \<Rightarrow> Intent \<Rightarrow> bool" where
  "intent_ok p seen i =
     (case i_object i of
        None \<Rightarrow> False
      | Some ob \<Rightarrow>
          let kind = childOrder (Some ob); m = obj_meta ob in
          \<not> (kind < 0 \<or> kind \<in> set seen \<or> m_namespace m \<noteq> w_namespace p \<or> m_name m \<noteq> ChildName (w_name p)
             \<or> (i_absent i \<and> kind < 2) \<or> (\<not> i_absent i \<and> i_mutate i = None))
          \<and> \<not> (m_uid m \<noteq> '''' \<or> m_resourceVersion m \<noteq> '''' \<or> m_ownerReferences m \<noteq> []
                \<or> m_finalizers m \<noteq> [] \<or> m_deletionTimestamp m \<noteq> None))"

fun intents_ok :: "AIWorkload \<Rightarrow> int list \<Rightarrow> Intent list \<Rightarrow> bool" where
  "intents_ok p seen [] = True"
| "intents_ok p seen (i # plan) = (intent_ok p seen i \<and> intents_ok p (intent_kind i # seen) plan)"

definition ValidatePlan :: "AIWorkload \<Rightarrow> Intent list \<Rightarrow> go_error + Intent list" where
  "ValidatePlan p plan =
     (if w_uid p = '''' \<or> w_namespace p = '''' \<or> w_name p = '''' then Inl ErrInvalidPlan
      else if \<not> intents_ok p [] plan then Inl ErrInvalidPlan
      else Inr (sort_key intent_kind plan))"

subsection \<open>What an accepted plan looks like\<close>

definition safe_intent :: "AIWorkload \<Rightarrow> Intent \<Rightarrow> bool" where
  "safe_intent p i = intent_ok p [] i"

lemma intent_ok_seen:
  "intent_ok p seen i \<longleftrightarrow> safe_intent p i \<and> intent_kind i \<notin> set seen"
  by (auto simp: intent_ok_def safe_intent_def Let_def split: option.splits)

lemma intents_ok_iff:
  "intents_ok p seen plan \<longleftrightarrow>
     (\<forall>i \<in> set plan. safe_intent p i) \<and> distinct (map intent_kind plan)
     \<and> set (map intent_kind plan) \<inter> set seen = {}"
  by (induction plan arbitrary: seen) (auto simp: intent_ok_seen)

lemma ValidatePlan_iff:
  "ValidatePlan p plan = Inr ordered \<longleftrightarrow>
     w_uid p \<noteq> '''' \<and> w_namespace p \<noteq> '''' \<and> w_name p \<noteq> ''''
     \<and> (\<forall>i \<in> set plan. safe_intent p i) \<and> distinct (map intent_kind plan)
     \<and> ordered = sort_key intent_kind plan"
  by (auto simp: ValidatePlan_def intents_ok_iff)

lemma ValidatePlan_error: "ValidatePlan p plan = Inl e \<Longrightarrow> e = ErrInvalidPlan"
  by (auto simp: ValidatePlan_def split: if_splits)

lemma ValidatePlan_single:
  "ValidatePlan p [i] = Inr plan' \<longleftrightarrow>
     w_uid p \<noteq> '''' \<and> w_namespace p \<noteq> '''' \<and> w_name p \<noteq> '''' \<and> safe_intent p i \<and> plan' = [i]"
  by (auto simp: ValidatePlan_iff)

lemma safe_intentD:
  assumes "safe_intent p i"
  obtains ob where "i_object i = Some ob" and "0 \<le> childOrder (Some ob)"
    and "m_namespace (obj_meta ob) = w_namespace p" and "m_name (obj_meta ob) = ChildName (w_name p)"
    and "i_absent i \<Longrightarrow> 2 \<le> childOrder (Some ob)"
    and "\<not> i_absent i \<Longrightarrow> i_mutate i \<noteq> None"
    and "m_uid (obj_meta ob) = ''''" and "m_resourceVersion (obj_meta ob) = ''''"
    and "m_ownerReferences (obj_meta ob) = []"
  using assms
  by (auto simp: safe_intent_def intent_ok_def Let_def not_less split: option.splits)

lemma sorted_distinct_kinds:
  assumes "ValidatePlan p plan = Inr ordered"
  shows "sorted (map intent_kind ordered)" and "distinct (map intent_kind ordered)"
    and "mset ordered = mset plan"
proof -
  from assms have o: "ordered = sort_key intent_kind plan" and d: "distinct (map intent_kind plan)"
    by (auto simp: ValidatePlan_iff)
  show "sorted (map intent_kind ordered)" using o by simp
  show m: "mset ordered = mset plan" using o by simp
  have "mset (map intent_kind ordered) = mset (map intent_kind plan)"
    using m by (simp add: mset_map)
  with d show "distinct (map intent_kind ordered)"
    by (metis mset_eq_imp_distinct_iff)
qed

subsection \<open>The builder interface\<close>

locale plan_builder =
  fixes build :: "AIWorkload option \<Rightarrow> go_error + Intent list"
  assumes nil_parent: "build None = Inl ErrInvalidConfiguration"
    and targets: "build (Some p) = Inr plan \<Longrightarrow> i \<in> set plan \<Longrightarrow>
      \<exists>ob. i_object i = Some ob \<and> 0 \<le> childOrder (Some ob)
         \<and> obj_meta ob = named_meta (ChildName (w_name p)) (w_namespace p)"
    and one_per_kind: "build (Some p) = Inr plan \<Longrightarrow> distinct (map intent_kind plan)"
    and optional_absent: "build (Some p) = Inr plan \<Longrightarrow> i \<in> set plan \<Longrightarrow> i_absent i \<Longrightarrow> 2 \<le> intent_kind i"
    and callbacks: "build (Some p) = Inr plan \<Longrightarrow> i \<in> set plan \<Longrightarrow> \<not> i_absent i \<Longrightarrow>
      \<exists>f. i_mutate i = Some f \<and> intent_mutator f"
begin

lemma built_safe: "build (Some p) = Inr plan \<Longrightarrow> i \<in> set plan \<Longrightarrow> safe_intent p i"
  using targets [of p plan i] optional_absent [of p plan i] callbacks [of p plan i]
  by (cases "i_absent i") (auto simp: safe_intent_def intent_ok_def Let_def)

lemma built_plan_accepted:
  assumes "build (Some p) = Inr plan" and "w_uid p \<noteq> ''''" "w_namespace p \<noteq> ''''" "w_name p \<noteq> ''''"
  shows "ValidatePlan p plan = Inr (sort_key intent_kind plan)"
  using assms one_per_kind built_safe by (auto simp: ValidatePlan_iff)

end

end
