(* ===== verification/Engine.thy ===== *)
theory Engine
  imports Engine_Plan World
begin

text \<open>
  \<open>Engine.Apply\<close> of \<open>internal/controller/engine.go\<close>: "optimistic patches and UID+resourceVersion
  delete preconditions; there is intentionally no adoption, force update, or destructive recreation".
  The two branches of \<open>Apply\<close> after the read are \<open>apply_missing\<close> and \<open>apply_existing\<close>.
\<close>

datatype Outcome = Created | Patched | Deleted | Unchanged

definition owns :: "lib \<Rightarrow> AIWorkload \<Rightarrow> client_object \<Rightarrow> bool" where
  "owns L p ob =
     (m_namespace (obj_meta ob) = w_namespace p
      \<and> (case GetControllerOf L (m_ownerReferences (obj_meta ob)) of
           None \<Rightarrow> False
         | Some owner \<Rightarrow>
             or_uid owner = w_uid p \<and> or_name owner = w_name p \<and> or_kind owner = ''AIWorkload''
             \<and> or_apiVersion owner = GroupVersion))"

definition set_controller :: "lib \<Rightarrow> AIWorkload \<Rightarrow> client_object \<Rightarrow> client_object option" where
  "set_controller L p ob =
     map_option (\<lambda>refs. set_obj_meta ob ((obj_meta ob)\<lparr>m_ownerReferences := refs\<rparr>))
       (SetControllerReference L (w_namespace p) (w_name p) (w_uid p) (m_namespace (obj_meta ob))
          (m_ownerReferences (obj_meta ob)))"

definition run_mutate :: "Intent \<Rightarrow> client_object \<Rightarrow> go_error + client_object" where
  "run_mutate i ob = (case i_mutate i of None \<Rightarrow> Inl NilDereference | Some f \<Rightarrow> f ob)"

text \<open>The child does not exist.\<close>

definition apply_missing ::
  "lib \<Rightarrow> 's client \<Rightarrow> AIWorkload \<Rightarrow> Intent \<Rightarrow> client_object \<Rightarrow> 's world \<Rightarrow> (go_error + Outcome) \<times> 's world" where
  "apply_missing L c p i target w =
     (if i_absent i then (Inr Unchanged, w)
      else (case run_mutate i target of
          Inl e \<Rightarrow> (Inl e, w)
        | Inr current \<Rightarrow>
            let m = obj_meta current in
            if m_name m \<noteq> m_name (obj_meta target) \<or> m_namespace m \<noteq> w_namespace p \<or> m_uid m \<noteq> ''''
               \<or> m_resourceVersion m \<noteq> '''' \<or> m_ownerReferences m \<noteq> [] \<or> m_finalizers m \<noteq> []
               \<or> m_deletionTimestamp m \<noteq> None
            then (Inl ErrInvalidPlan, w)
            else (case set_controller L p current of
                None \<Rightarrow> (Inl ErrInvalidPlan, w)
              | Some child \<Rightarrow>
                  (case call (CreateE child) (\<lambda>s. cl_create c s child) w of
                     (Some e, w') \<Rightarrow> (Inl e, w')
                   | (None, w') \<Rightarrow> (Inr Created, w')))))"

text \<open>The child exists.\<close>

definition apply_existing ::
  "lib \<Rightarrow> 's client \<Rightarrow> AIWorkload \<Rightarrow> Intent \<Rightarrow> client_object \<Rightarrow> 's world \<Rightarrow> (go_error + Outcome) \<times> 's world" where
  "apply_existing L c p i current w =
     (if \<not> owns L p current then (Inl ErrOwnershipConflict, w)
      else if m_deletionTimestamp (obj_meta current) \<noteq> None then (Inl ErrChildDeleting, w)
      else if i_absent i then
        (let uid = m_uid (obj_meta current); rv = m_resourceVersion (obj_meta current) in
         (case call (DeleteE current uid rv) (\<lambda>s. cl_delete c s current uid rv) w of
            (Some e, w') \<Rightarrow> if IsNotFound e then (Inr Unchanged, w') else (Inl e, w')
          | (None, w') \<Rightarrow> (Inr Deleted, w')))
      else
        (let before = current in
         (case run_mutate i current of
            Inl e \<Rightarrow> (Inl e, w)
          | Inr current \<Rightarrow>
              if \<not> same_identity (obj_meta current) (obj_meta before) then (Inl ErrInvalidPlan, w)
              else (case set_controller L p current of
                  None \<Rightarrow> (Inl ErrInvalidPlan, w)
                | Some child \<Rightarrow>
                    if SemanticEqualObject L before child then (Inr Unchanged, w)
                    else (case call (PatchE before child) (\<lambda>s. cl_patch c s before child) w of
                        (Some e, w') \<Rightarrow> (Inl e, w')
                      | (None, w') \<Rightarrow> (Inr Patched, w'))))))"

definition Apply ::
  "lib \<Rightarrow> 's client \<Rightarrow> AIWorkload \<Rightarrow> Intent \<Rightarrow> 's world \<Rightarrow> (go_error + Outcome) \<times> 's world" where
  "Apply L c p i w =
     (if m_deletionTimestamp (w_meta p) \<noteq> None then (Inr Unchanged, w)
      else (case ValidatePlan p [i] of
          Inl e \<Rightarrow> (Inl e, w)
        | Inr _ \<Rightarrow>
            (case i_object i of
               None \<Rightarrow> (Inl NilDereference, w)
             | Some target \<Rightarrow>
                 (case client_get c target (m_namespace (obj_meta target), m_name (obj_meta target)) w of
                    (Inl e, w') \<Rightarrow> if IsNotFound e then apply_missing L c p i target w' else (Inl e, w')
                  | (Inr current, w') \<Rightarrow> apply_existing L c p i current w'))))"

subsection \<open>Every call of Apply is inside the ownership boundary\<close>

text \<open>
  What the engine may do for a workload, whatever the API server answers: read the workload's own
  child name; create a child under that name with a controller reference; patch an object it controls
  without touching its identity; delete an optional object it controls under the UID and
  resourceVersion it has read.
\<close>

fun child_call_ok :: "lib \<Rightarrow> AIWorkload \<Rightarrow> effect \<Rightarrow> bool" where
  "child_call_ok L p (ReadE kind key) = (key = (w_namespace p, ChildName (w_name p)))"
| "child_call_ok L p (CreateE ob) =
     (m_namespace (obj_meta ob) = w_namespace p \<and> m_name (obj_meta ob) = ChildName (w_name p)
      \<and> fresh_meta (obj_meta ob)
      \<and> SetControllerReference L (w_namespace p) (w_name p) (w_uid p) (w_namespace p) [] =
          Some (m_ownerReferences (obj_meta ob)))"
| "child_call_ok L p (PatchE before after) =
     (owns L p before \<and> m_deletionTimestamp (obj_meta before) = None
      \<and> same_identity ((obj_meta after)\<lparr>m_ownerReferences := m_ownerReferences (obj_meta before)\<rparr>) (obj_meta before)
      \<and> SetControllerReference L (w_namespace p) (w_name p) (w_uid p) (w_namespace p)
          (m_ownerReferences (obj_meta before)) = Some (m_ownerReferences (obj_meta after)))"
| "child_call_ok L p (DeleteE ob uid rv) =
     (owns L p ob \<and> m_deletionTimestamp (obj_meta ob) = None
      \<and> uid = m_uid (obj_meta ob) \<and> rv = m_resourceVersion (obj_meta ob)
      \<and> go_type ob \<noteq> 0 \<and> go_type ob \<noteq> 1)"
| "child_call_ok L p _ = False"

fun is_write :: "effect \<Rightarrow> bool" where
  "is_write (CreateE _) = True"
| "is_write (PatchE _ _) = True"
| "is_write (DeleteE _ _ _) = True"
| "is_write (StatusPatchE _ _) = True"
| "is_write _ = False"

lemma owns_namespace: "owns L p ob \<Longrightarrow> m_namespace (obj_meta ob) = w_namespace p"
  by (simp add: owns_def)

lemma set_controller_Some:
  "set_controller L p ob = Some child \<longleftrightarrow>
     (\<exists>refs. SetControllerReference L (w_namespace p) (w_name p) (w_uid p) (m_namespace (obj_meta ob))
          (m_ownerReferences (obj_meta ob)) = Some refs
        \<and> child = set_obj_meta ob ((obj_meta ob)\<lparr>m_ownerReferences := refs\<rparr>))"
  by (auto simp: set_controller_def)

lemma apply_missing_calls:
  assumes "safe_intent p i" and "i_object i = Some target" and "apply_missing L c p i target w = (r, w')"
  shows "adds (child_call_ok L p) w w'"
proof -
  have name: "m_name (obj_meta target) = ChildName (w_name p)"
    using assms(1,2) by (auto elim: safe_intentD)
  show ?thesis
    using assms(3)
    by (auto simp: apply_missing_def Let_def set_controller_Some name fresh_meta_def
        split: if_splits sum.splits option.splits prod.splits intro!: adds_call)
qed

lemma apply_existing_calls:
  assumes "safe_intent p i" and "i_object i = Some target" and "go_type current = go_type target"
    and "apply_existing L c p i current w = (r, w')"
  shows "adds (child_call_ok L p) w w'"
proof -
  have "go_type current \<noteq> 0 \<and> go_type current \<noteq> 1" if "i_absent i"
  proof -
    have "2 \<le> childOrder (Some target)"
      using assms(1,2) that by (auto elim!: safe_intentD)
    with assms(3) show ?thesis by (cases target) auto
  qed
  then show ?thesis
    using assms(4)
    by (auto simp: apply_existing_def Let_def set_controller_Some same_identity_def owns_namespace
        split: if_splits sum.splits option.splits prod.splits intro!: adds_call)
qed

text \<open>The ways through \<open>Apply\<close>.\<close>

abbreviation child_key :: "AIWorkload \<Rightarrow> object_key" where
  "child_key p \<equiv> (w_namespace p, ChildName (w_name p))"

lemma Apply_cases [consumes 1, case_names stop read_error missing existing]:
  assumes "Apply L c p i w = (r, w')"
  obtains "w' = w" and "r = Inr Unchanged \<or> (\<exists>e. r = Inl e)"
  | target e where "safe_intent p i" and "i_object i = Some target"
      and "client_get c target (child_key p) w = (Inl e, w')" and "r = Inl e"
  | target e w1 where "safe_intent p i" and "i_object i = Some target"
      and "m_deletionTimestamp (w_meta p) = None"
      and "client_get c target (child_key p) w = (Inl e, w1)" and "apply_missing L c p i target w1 = (r, w')"
      and "IsNotFound e"
  | target current w1 where "safe_intent p i" and "i_object i = Some target"
      and "m_deletionTimestamp (w_meta p) = None" and "go_type current = go_type target"
      and "client_get c target (child_key p) w = (Inr current, w1)" and "apply_existing L c p i current w1 = (r, w')"
proof (cases "m_deletionTimestamp (w_meta p) = None \<and> safe_intent p i \<and> ValidatePlan p [i] = Inr [i]")
  case False
  with assms that(1) show ?thesis
    by (auto simp: Apply_def ValidatePlan_single split: if_splits sum.splits)
next
  case True
  then obtain target where target: "i_object i = Some target"
    and ns: "m_namespace (obj_meta target) = w_namespace p" and nm: "m_name (obj_meta target) = ChildName (w_name p)"
    by (auto elim: safe_intentD)
  obtain g w1 where get: "client_get c target (child_key p) w = (g, w1)" by fastforce
  show ?thesis
  proof (cases g)
    case (Inl e)
    show ?thesis
    proof (cases "IsNotFound e")
      case True
      with Inl assms \<open>_ \<and> _\<close> target ns nm get that(3) show ?thesis by (simp add: Apply_def)
    next
      case False
      with Inl assms True target ns nm get that(2) show ?thesis by (simp add: Apply_def)
    qed
  next
    case (Inr current)
    with get have "go_type current = go_type target" by (simp add: client_get_type)
    with Inr assms True target ns nm get that(4) show ?thesis by (simp add: Apply_def)
  qed
qed

lemma adds_child_read: "client_get c ob (child_key p) w = (g, w') \<Longrightarrow> P (ReadE (read_kind ob) (child_key p)) \<Longrightarrow> adds P w w'"
  by (auto simp: adds_def dest: client_get_log)

lemma Apply_calls:
  assumes "Apply L c p i w = (r, w')"
  shows "adds (child_call_ok L p) w w'"
  using assms
proof (cases rule: Apply_cases)
  case stop
  then show ?thesis by simp
next
  case (read_error target e)
  then show ?thesis by (auto intro: adds_child_read)
next
  case (missing target e w1)
  then have "adds (child_call_ok L p) w w1" by (auto intro: adds_child_read)
  with missing show ?thesis by (blast intro: adds_trans apply_missing_calls)
next
  case (existing target current w1)
  then have "adds (child_call_ok L p) w w1" by (auto intro: adds_child_read)
  with existing show ?thesis by (blast intro: adds_trans apply_existing_calls)
qed

subsection \<open>The trace of one Apply\<close>

text \<open>Which write an outcome reports.\<close>

fun outcome_write :: "(go_error + Outcome) \<Rightarrow> effect \<Rightarrow> bool" where
  "outcome_write (Inr Created) e = (\<exists>ob. e = CreateE ob)"
| "outcome_write (Inr Patched) e = (\<exists>b a. e = PatchE b a)"
| "outcome_write (Inr Deleted) e = (\<exists>ob u rv. e = DeleteE ob u rv)"
| "outcome_write (Inr Unchanged) e = (\<exists>ob u rv. e = DeleteE ob u rv)"
| "outcome_write (Inl _) e = is_write e"

definition apply_trace :: "(go_error + Outcome) \<Rightarrow> effect list \<Rightarrow> bool" where
  "apply_trace r es =
     ((es = [] \<and> r \<notin> {Inr Created, Inr Patched, Inr Deleted})
      \<or> (\<exists>kind key. es = [ReadE kind key] \<and> r \<notin> {Inr Created, Inr Patched, Inr Deleted})
      \<or> (\<exists>kind key e. es = [ReadE kind key, e] \<and> is_write e \<and> outcome_write r e))"

lemma apply_missing_trace:
  "apply_missing L c p i target w = (r, w') \<Longrightarrow>
     (wd_log w' = wd_log w \<and> r \<notin> {Inr Created, Inr Patched, Inr Deleted})
     \<or> (\<exists>e. wd_log w' = wd_log w @ [e] \<and> is_write e \<and> outcome_write r e)"
  by (auto simp: apply_missing_def Let_def split: if_splits sum.splits option.splits prod.splits dest: call_log)

lemma apply_existing_trace:
  "apply_existing L c p i current w = (r, w') \<Longrightarrow>
     (wd_log w' = wd_log w \<and> r \<notin> {Inr Created, Inr Patched, Inr Deleted})
     \<or> (\<exists>e. wd_log w' = wd_log w @ [e] \<and> is_write e \<and> outcome_write r e)"
  by (auto simp: apply_existing_def Let_def split: if_splits sum.splits option.splits prod.splits dest: call_log)

lemma Apply_trace:
  assumes "Apply L c p i w = (r, w')"
  shows "\<exists>es. wd_log w' = wd_log w @ es \<and> apply_trace r es"
  using assms
proof (cases rule: Apply_cases)
  case stop
  then show ?thesis by (auto simp: apply_trace_def)
next
  case (read_error target e)
  then show ?thesis by (auto simp: apply_trace_def dest!: client_get_log)
next
  case (missing target e w1)
  from apply_missing_trace [OF missing(5)] client_get_log [OF missing(4)] show ?thesis
    by (auto simp: apply_trace_def)
next
  case (existing target current w1)
  from apply_existing_trace [OF existing(6)] client_get_log [OF existing(5)] show ?thesis
    by (auto simp: apply_trace_def)
qed

subsection \<open>A second Apply changes nothing\<close>

fun written :: "effect \<Rightarrow> client_object option" where
  "written (CreateE ob) = Some ob"
| "written (PatchE _ ob) = Some ob"
| "written _ = None"

text \<open>
  What the API server reports of an object it has stored: the object, with metadata that may have
  been assigned to it (UID, resourceVersion, generation) but the same labels, annotations, owners and
  namespace.
\<close>

definition stored :: "client_object \<Rightarrow> client_object \<Rightarrow> bool" where
  "stored child ob =
     (let m = obj_meta ob; n = obj_meta child in
      ob = set_obj_meta child m \<and> assigned n m \<and> m_ownerReferences m = m_ownerReferences n
      \<and> m_namespace m = m_namespace n \<and> m_deletionTimestamp m = None)"

text \<open>How an object that Apply has written came about.\<close>

definition applied :: "lib \<Rightarrow> AIWorkload \<Rightarrow> Intent \<Rightarrow> client_object \<Rightarrow> bool" where
  "applied L p i child =
     (\<exists>ob ob'. \<not> i_absent i \<and> run_mutate i ob = Inr ob' \<and> m_namespace (obj_meta ob') = w_namespace p
        \<and> set_controller L p ob' = Some child)"

definition writes_applied :: "lib \<Rightarrow> AIWorkload \<Rightarrow> Intent \<Rightarrow> effect \<Rightarrow> bool" where
  "writes_applied L p i e = (\<forall>child. written e = Some child \<longrightarrow> applied L p i child)"

lemma apply_missing_applied:
  "apply_missing L c p i target w = (r, w') \<Longrightarrow> adds (writes_applied L p i) w w'"
  unfolding apply_missing_def Let_def
  by (auto simp: writes_applied_def applied_def split: if_splits sum.splits option.splits prod.splits
      intro!: adds_call) blast+

lemma apply_existing_applied:
  "apply_existing L c p i current w = (r, w') \<Longrightarrow> adds (writes_applied L p i) w w'"
  unfolding apply_existing_def Let_def
  by (auto simp: writes_applied_def applied_def same_identity_def owns_namespace
      split: if_splits sum.splits option.splits prod.splits intro!: adds_call) (metis owns_namespace)+

lemma Apply_writes_applied:
  assumes "Apply L c p i w = (r, w')" and "wd_log w' = wd_log w @ es" and "e \<in> set es"
    and "written e = Some child"
  shows "applied L p i child \<and> safe_intent p i \<and> m_deletionTimestamp (w_meta p) = None"
proof -
  have *: "writes_applied L p i e" if "adds (writes_applied L p i) w1 w'" "client_get c t (child_key p) w = (g, w1)"
    for t g w1
  proof -
    from that(1) client_get_log [OF that(2)] have "e \<in> set es \<Longrightarrow> written e = Some child \<Longrightarrow> writes_applied L p i e"
      using assms(2) by (auto simp: adds_def list_all_iff)
    with assms(3,4) show ?thesis by simp
  qed
  from assms(1) show ?thesis
  proof (cases rule: Apply_cases)
    case stop
    with assms show ?thesis by simp
  next
    case (read_error target e')
    with assms show ?thesis by (auto dest!: client_get_log)
  next
    case (missing target e' w1)
    with * [OF apply_missing_applied [OF missing(5)] missing(4)] assms(4) show ?thesis
      by (simp add: writes_applied_def)
  next
    case (existing target current w1)
    with * [OF apply_existing_applied [OF existing(6)] existing(5)] assms(4) show ?thesis
      by (simp add: writes_applied_def)
  qed
qed

context intent_mutator
begin

lemma settled_unchanged:
  assumes "i_mutate i = Some mutate" and "applied L p i child" and "stored child ob"
    and "controller_reference_laws L" and "semantic_refl L"
  shows "apply_existing L c p i ob w = (Inr Unchanged, w)"
proof -
  from assms(1,2) obtain x x' refs where absent: "\<not> i_absent i" and x: "mutate x = Inr x'"
    and ns: "m_namespace (obj_meta x') = w_namespace p"
    and refs: "SetControllerReference L (w_namespace p) (w_name p) (w_uid p) (w_namespace p)
        (m_ownerReferences (obj_meta x')) = Some refs"
    and child: "child = set_obj_meta x' ((obj_meta x')\<lparr>m_ownerReferences := refs\<rparr>)"
    by (auto simp: applied_def run_mutate_def set_controller_Some)
  let ?m = "obj_meta ob"
  from assms(3) child have ob: "ob = set_obj_meta x' ?m" and as: "assigned (obj_meta x') ?m"
    and own: "m_ownerReferences ?m = refs" and mns: "m_namespace ?m = w_namespace p"
    and del: "m_deletionTimestamp ?m = None"
    by (auto simp: stored_def Let_def assigned_def fresh_meta_def ns)
  have fixp: "mutate ob = Inr ob"
    using settled [OF x as] ob by metis
  from assms(4) refs have laws:
    "\<exists>r. GetControllerOf L refs = Some r \<and> refers_to (w_name p) (w_uid p) r"
    "SetControllerReference L (w_namespace p) (w_name p) (w_uid p) (w_namespace p) refs = Some refs"
    unfolding controller_reference_laws_def by blast+
  then have "owns L p ob"
    using own mns by (auto simp: owns_def refers_to_def)
  moreover have "?m\<lparr>m_ownerReferences := refs\<rparr> = ?m"
    using own by (metis ObjectMeta.surjective ObjectMeta.update_convs(9))
  then have "set_obj_meta ob (?m\<lparr>m_ownerReferences := refs\<rparr>) = ob"
    by (simp only: set_obj_meta_same)
  with laws(2) own mns have "set_controller L p ob = Some ob"
    by (simp add: set_controller_def)
  ultimately show ?thesis
    using absent del fixp assms(1,5)
    by (simp add: apply_existing_def run_mutate_def semantic_refl_def)
qed

lemma Apply_settled:
  assumes "i_mutate i = Some mutate" and "i_object i = Some target"
    and "Apply L c p i w = (r, w')" and "wd_log w' = wd_log w @ es" and "e \<in> set es" and "written e = Some child"
    and "client_get c target (m_namespace (obj_meta target), m_name (obj_meta target)) w' = (Inr ob, w'')"
    and "stored child ob" and "w_uid p \<noteq> ''''" "w_namespace p \<noteq> ''''" "w_name p \<noteq> ''''"
    and "controller_reference_laws L" and "semantic_refl L"
  shows "Apply L c p i w' = (Inr Unchanged, w'')"
proof -
  from Apply_writes_applied [OF assms(3-6)] have "applied L p i child" "safe_intent p i"
    "m_deletionTimestamp (w_meta p) = None" by auto
  moreover have "ValidatePlan p [i] = Inr [i]"
    using calculation assms(9-11) by (simp add: ValidatePlan_single)
  ultimately show ?thesis
    using assms(2,7) settled_unchanged [OF assms(1) _ assms(8,12,13)] by (simp add: Apply_def)
qed

end

end
