(* ===== verification/Reconciler.thy ===== *)
theory Reconciler
  imports Capability Engine
begin

text \<open>
  What the files of \<open>internal/controller\<close> share: \<open>AIWorkloadReconciler\<close>, its optional readers, the
  result of a reconciliation, the condition types it manages, and the contract of the steps that read
  the cluster and record what they saw in one condition of the workload.

  A Go method that takes \<open>workload *AIWorkload\<close> and changes it in place is a function that also returns
  the workload it leaves, on the error paths too.
\<close>

record 's reader =
  rd_getConfigMapData :: "('s, (string, string) fmap) getter"
  rd_getUnstructured :: "GroupVersionKind \<Rightarrow> ('s, Unstructured) getter"

definition client_reader :: "'s client \<Rightarrow> 's reader" where
  "client_reader c = \<lparr>rd_getConfigMapData = cl_getConfigMapData c, rd_getUnstructured = cl_getUnstructured c\<rparr>"

text \<open>The Recorder and Telemetry fields only say whether the pointer is set: what they receive is an effect.\<close>

record 's reconciler =
  rc_client :: "'s client"
  rc_tenantReader :: "'s reader option"
  rc_externalSecretsReader :: "'s reader option"
  rc_gatewayReader :: "'s reader option"
  rc_capabilityLookup :: "'s resource_lookup option"
  rc_watchNamespace :: string
  rc_watchNamespaces :: "string list"
  rc_builder :: "(AIWorkload option \<Rightarrow> go_error + Intent list) option"
  rc_recorder :: bool
  rc_telemetry :: bool

text \<open>\<open>reader := r.XReader; if reader == nil { reader = r.Client }\<close>.\<close>

definition reader_or_client :: "'s reader option \<Rightarrow> 's client \<Rightarrow> 's reader" where
  "reader_or_client reader c = deref reader (client_reader c)"

definition read_unstructured ::
  "'s reader \<Rightarrow> GroupVersionKind \<Rightarrow> object_key \<Rightarrow> 's world \<Rightarrow> (go_error + Unstructured) \<times> 's world" where
  "read_unstructured rd gvk = call_get (g_kind gvk) (rd_getUnstructured rd gvk)"

text \<open>\<open>ctrl.Result\<close>; durations are in seconds.\<close>

record Result =
  requeueAfter :: nat

definition no_requeue :: Result where
  "no_requeue = \<lparr>requeueAfter = 0\<rparr>"

type_synonym ('s, 'a) workload_step = "AIWorkload \<Rightarrow> 's world \<Rightarrow> (go_error + 'a) \<times> AIWorkload \<times> 's world"

subsection \<open>Condition types\<close>

definition conditionReady :: string where "conditionReady = ''Ready''"
definition conditionProgressing :: string where "conditionProgressing = ''Progressing''"
definition conditionDegraded :: string where "conditionDegraded = ''Degraded''"
definition conditionTenantReady :: string where "conditionTenantReady = ''TenantReady''"
definition conditionExternalSecretsReady :: string where
  "conditionExternalSecretsReady = ''ExternalSecretsReady''"
definition conditionExposureReady :: string where "conditionExposureReady = ''ExposureReady''"
definition conditionAutoscalingReady :: string where "conditionAutoscalingReady = ''AutoscalingReady''"
definition conditionAvailabilityReady :: string where "conditionAvailabilityReady = ''AvailabilityReady''"

lemmas condition_types =
  conditionReady_def conditionProgressing_def conditionDegraded_def conditionTenantReady_def
  conditionExternalSecretsReady_def conditionExposureReady_def conditionAutoscalingReady_def
  conditionAvailabilityReady_def

text \<open>
  \<open>meta.SetStatusCondition(&p.Status.Conditions, metav1.Condition{..., ObservedGeneration: p.Generation})\<close>,
  the call every part of the controller makes.
\<close>

definition condition_for :: "AIWorkload \<Rightarrow> string \<Rightarrow> string \<Rightarrow> string \<Rightarrow> string \<Rightarrow> Condition" where
  "condition_for p typ status reason message =
     \<lparr>c_type = typ, c_status = status, c_observedGeneration = w_generation p, c_lastTransitionTime = '''',
      c_reason = reason, c_message = message\<rparr>"

definition set_condition :: "lib \<Rightarrow> AIWorkload \<Rightarrow> string \<Rightarrow> string \<Rightarrow> string \<Rightarrow> string \<Rightarrow> AIWorkload" where
  "set_condition L p typ status reason message =
     set_conditions p (SetStatusCondition L (w_conditions p) (condition_for p typ status reason message))"

definition remove_condition :: "lib \<Rightarrow> AIWorkload \<Rightarrow> string \<Rightarrow> AIWorkload" where
  "remove_condition L p typ = set_conditions p (RemoveStatusCondition L (w_conditions p) typ)"

text \<open>The workload shows the condition, for its current generation.\<close>

definition reports :: "lib \<Rightarrow> AIWorkload \<Rightarrow> string \<Rightarrow> string \<Rightarrow> string \<Rightarrow> string \<Rightarrow> bool" where
  "reports L p typ status reason message =
     shows_condition L (w_conditions p) (condition_for p typ status reason message)"

definition condition_of :: "lib \<Rightarrow> AIWorkload \<Rightarrow> string \<Rightarrow> Condition option" where
  "condition_of L p typ = FindStatusCondition L (w_conditions p) typ"

lemma set_condition_simps [simp, frame_simps]:
  "w_meta (set_condition L p t s r m) = w_meta p" "w_spec (set_condition L p t s r m) = w_spec p"
  "w_meta (remove_condition L p t) = w_meta p" "w_spec (remove_condition L p t) = w_spec p"
  by (simp_all add: set_condition_def remove_condition_def)

lemma condition_for_simps [simp]:
  "c_type (condition_for p t s r m) = t" "c_status (condition_for p t s r m) = s"
  "c_reason (condition_for p t s r m) = r" "c_message (condition_for p t s r m) = m"
  "c_observedGeneration (condition_for p t s r m) = w_generation p"
  by (simp_all add: condition_for_def)

lemma condition_of_set:
  "condition_laws L \<Longrightarrow> u \<noteq> t \<Longrightarrow> condition_of L (set_condition L p t s r m) u = condition_of L p u"
  by (simp add: condition_of_def set_condition_def set_condition_find_other)

lemma condition_of_remove:
  "condition_laws L \<Longrightarrow> condition_of L (remove_condition L p t) u = (if u = t then None else condition_of L p u)"
  by (simp add: condition_of_def remove_condition_def remove_condition_find)

lemma set_condition_reports: "condition_laws L \<Longrightarrow> reports L (set_condition L p t s r m) t s r m"
  by (simp add: reports_def set_condition_def condition_for_def set_condition_shows)

lemma set_condition_reports_other:
  assumes "condition_laws L" and "t \<noteq> u"
  shows "reports L (set_condition L p t s r m) u s' r' m' = reports L p u s' r' m'"
  using assms by (simp add: reports_def set_condition_def condition_for_def set_condition_keeps)

lemma reports_condition_of:
  "reports L p t s r m \<longleftrightarrow>
     (\<exists>d. condition_of L p t = Some d \<and> same_condition d (condition_for p t s r m))"
  by (simp add: reports_def shows_condition_def condition_of_def condition_for_def)

subsection \<open>Steps that observe the cluster\<close>

text \<open>What a validation or observation step may do to the outside: read in one namespace, and discover APIs.\<close>

fun read_in :: "string \<Rightarrow> effect \<Rightarrow> bool" where
  "read_in ns (ReadE kind key) = (fst key = ns)"
| "read_in ns (DiscoverE _ _) = True"
| "read_in ns _ = False"

lemma read_in_not_write: "read_in ns e \<Longrightarrow> \<not> is_write e"
  by (cases e) simp_all

lemma adds_read: "call_get kind f (ns, n) w = (r, w') \<Longrightarrow> adds (read_in ns) w w'"
  unfolding call_get_def by (rule adds_call) simp_all

text \<open>
  The contract of such a step. It changes nothing of the workload but its conditions, of them only its
  own type, and nothing at all when it fails; it reads in the namespace of the workload only and
  writes nothing.
\<close>

locale condition_owner =
  fixes L :: lib
    and ctype :: string
    and step :: "('s, 'a) workload_step"
  assumes frame: "step p w = (r, p', w') \<Longrightarrow>
      p' = p \<or> p' = remove_condition L p ctype \<or> (\<exists>s rs m. p' = set_condition L p ctype s rs m)"
    and untouched: "step p w = (Inl e, p', w') \<Longrightarrow> p' = p"
    and quiet: "step p w = (r, p', w') \<Longrightarrow> adds (read_in (w_namespace p)) w w'"
begin

lemma keeps_desired:
  assumes "step p w = (r, p', w')"
  shows "w_meta p' = w_meta p" and "w_spec p' = w_spec p"
  using frame [OF assms] by auto

lemma keeps_other:
  assumes "step p w = (r, p', w')" and "condition_laws L" and "t \<noteq> ctype"
  shows "condition_of L p' t = condition_of L p t"
  using frame [OF assms(1)] assms(2,3) by (auto simp: condition_of_set condition_of_remove)

lemma no_write:
  assumes "step p w = (r, p', w')"
  shows "adds (\<lambda>e. \<not> is_write e) w w'"
  using quiet [OF assms] by (rule adds_mono) (rule read_in_not_write)

end

end
