(* ===== verification/Res_Autoscaling.thy ===== *)
theory Res_Autoscaling
  imports Mutator
begin

text \<open>
  \<open>internal/resource/autoscaling.go\<close>: the optional HorizontalPodAutoscaler. Parsing and signing a
  quantity are the library's (\<open>ParseQuantity\<close>, \<open>QuantitySign\<close>).
\<close>

fun AutoscalingEnabled :: "AIWorkload option \<Rightarrow> bool" where
  "AutoscalingEnabled None = False"
| "AutoscalingEnabled (Some p) =
     (case sp_autoscaling (w_spec p) of None \<Rightarrow> False | Some a \<Rightarrow> deref (as_enabled a) False)"

text \<open>One round of the loop of \<open>hpaMetrics\<close>.\<close>

definition hpa_metric :: "lib \<Rightarrow> AutoscalingMetricSpec \<Rightarrow> go_error + MetricSpec" where
  "hpa_metric L spec =
     (if am_type spec = AutoscalingCPU \<or> am_type spec = AutoscalingMemory then
        (case am_targetUtilization spec of
           None \<Rightarrow> Inl ErrInvalidConfiguration
         | Some utilization \<Rightarrow>
             Inr \<lparr>mt_type = ''Resource'',
                  mt_resource = Some \<lparr>rms_name = (if am_type spec = AutoscalingMemory then ''memory'' else ''cpu''),
                    rms_target = \<lparr>mtg_type = ''Utilization'', mtg_value = None, mtg_averageValue = None,
                                  mtg_averageUtilization = Some utilization\<rparr>\<rparr>,
                  mt_pods = None, mt_external = None, mt_rest = ''''\<rparr>)
      else if am_type spec = AutoscalingPods \<or> am_type spec = AutoscalingExternal then
        (case am_targetValue spec of
           None \<Rightarrow> Inl ErrInvalidConfiguration
         | Some target \<Rightarrow>
             if am_metricName spec = '''' then Inl ErrInvalidConfiguration
             else (case ParseQuantity L target of
                 None \<Rightarrow> Inl ErrInvalidConfiguration
               | Some value \<Rightarrow>
                   if QuantitySign L value < 0 then Inl ErrInvalidConfiguration
                   else let identifier = \<lparr>mi_name = am_metricName spec, mi_selector = None\<rparr> in
                     if am_type spec = AutoscalingPods then
                       Inr \<lparr>mt_type = ''Pods'', mt_resource = None,
                            mt_pods = Some \<lparr>nms_metric = identifier,
                              nms_target = \<lparr>mtg_type = ''AverageValue'', mtg_value = None,
                                            mtg_averageValue = Some value, mtg_averageUtilization = None\<rparr>\<rparr>,
                            mt_external = None, mt_rest = ''''\<rparr>
                     else
                       Inr \<lparr>mt_type = ''External'', mt_resource = None, mt_pods = None,
                            mt_external = Some \<lparr>nms_metric = identifier,
                              nms_target = \<lparr>mtg_type = ''Value'', mtg_value = Some value,
                                            mtg_averageValue = None, mtg_averageUtilization = None\<rparr>\<rparr>,
                            mt_rest = ''''\<rparr>))
      else Inl ErrInvalidConfiguration)"

fun hpaMetrics :: "lib \<Rightarrow> AutoscalingMetricSpec list \<Rightarrow> go_error + MetricSpec list" where
  "hpaMetrics L [] = Inr []"
| "hpaMetrics L (spec # specs) =
     bindr (hpa_metric L spec) (\<lambda>metric. bindr (hpaMetrics L specs) (\<lambda>metrics. Inr (metric # metrics)))"

definition mutateHPA ::
  "lib \<Rightarrow> HorizontalPodAutoscaler \<Rightarrow> AIWorkload \<Rightarrow> go_error + HorizontalPodAutoscaler" where
  "mutateHPA L hpa p =
     (case sp_autoscaling (w_spec p) of
        None \<Rightarrow> Inl NilDereference
      | Some spec \<Rightarrow>
          bindr (hpaMetrics L (as_metrics spec)) (\<lambda>metrics.
            (case as_minReplicas spec of None \<Rightarrow> Inl NilDereference | Some lo \<Rightarrow>
               (case as_maxReplicas spec of None \<Rightarrow> Inl NilDereference | Some hi \<Rightarrow>
                 Inr (hpa\<lparr>h_meta := managedMetadata (h_meta hpa) p,
                          h_scaleTargetRef := \<lparr>cv_apiVersion = ''apps/v1'', cv_kind = ''Deployment'',
                                               cv_name = ChildName (w_name p)\<rparr>,
                          h_minReplicas := Some lo, h_maxReplicas := hi, h_metrics := metrics,
                          h_behavior :=
                            (case as_scaleDownStabilizationSeconds spec of
                               None \<Rightarrow> None
                             | Some seconds \<Rightarrow>
                                 Some \<lparr>hb_scaleUp = None,
                                       hb_scaleDown = Some \<lparr>hr_stabilizationWindowSeconds = Some seconds,
                                                            hr_rest = ''''\<rparr>\<rparr>)\<rparr>)))))"

definition hpa_callback :: "lib \<Rightarrow> AIWorkload \<Rightarrow> client_object \<Rightarrow> go_error + client_object" where
  "hpa_callback L p ob =
     (case ob of HPAObj h \<Rightarrow> map_sum id HPAObj (mutateHPA L h p) | _ \<Rightarrow> Inl ErrInvalidConfiguration)"

definition autoscalingIntent :: "lib \<Rightarrow> AIWorkload \<Rightarrow> go_error + Intent" where
  "autoscalingIntent L p =
     (let object = Some (HPAObj (zero_hpa (named_meta (ChildName (w_name p)) (w_namespace p)))) in
      if \<not> AutoscalingEnabled (Some p) then Inr \<lparr>i_object = object, i_mutate = None, i_absent = True\<rparr>
      else (case sp_autoscaling (w_spec p) of
          None \<Rightarrow> Inl NilDereference
        | Some spec \<Rightarrow>
            if as_minReplicas spec = None \<or> as_maxReplicas spec = None \<or> as_metrics spec = []
            then Inl ErrInvalidConfiguration
            else Inr \<lparr>i_object = object, i_mutate = Some (hpa_callback L p), i_absent = False\<rparr>))"

subsection \<open>Metrics\<close>

lemma hpaMetrics_Inr:
  "hpaMetrics L specs = Inr metrics \<longleftrightarrow>
     list_all2 (\<lambda>spec metric. hpa_metric L spec = Inr metric) specs metrics"
  by (induction specs arbitrary: metrics) (auto simp: bindr_Inr_iff list_all2_Cons1)

lemma hpa_metric_error: "hpa_metric L spec = Inl e \<Longrightarrow> e = ErrInvalidConfiguration"
  by (auto simp: hpa_metric_def Let_def split: if_splits option.splits)

lemma hpaMetrics_error: "hpaMetrics L specs = Inl e \<Longrightarrow> e = ErrInvalidConfiguration"
  by (induction specs) (auto simp: bindr_Inl_iff dest: hpa_metric_error)

lemma hpaMetrics_fails_iff:
  "(\<exists>e. hpaMetrics L specs = Inl e) \<longleftrightarrow> (\<exists>spec \<in> set specs. \<exists>e. hpa_metric L spec = Inl e)"
proof (induction specs)
  case Nil
  then show ?case by simp
next
  case (Cons spec specs)
  then show ?case
    by (cases "hpa_metric L spec"; cases "hpaMetrics L specs") auto
qed

subsection \<open>The HPA mutator keeps its contract\<close>

lemma mutateHPA_Inr:
  assumes "mutateHPA L hpa p = Inr t"
  shows "h_meta t = managedMetadata (h_meta hpa) p"
    and "h_conditions t = h_conditions hpa" and "h_rest t = h_rest hpa"
  using assms by (auto simp: mutateHPA_def bindr_def split: option.splits sum.splits)

lemma mutateHPA_settled:
  assumes "mutateHPA L hpa p = Inr t"
    and "assigned (h_meta t) m"
  shows "mutateHPA L (t\<lparr>h_meta := m\<rparr>) p = Inr (t\<lparr>h_meta := m\<rparr>)"
proof -
  have "managedMetadata m p = m"
    using assms by (simp add: mutateHPA_Inr assigned_managed)
  with assms(1) show ?thesis
    by (auto simp: mutateHPA_def bindr_def split: option.splits sum.splits)
qed

lemma hpa_callback_Inr:
  "hpa_callback L p ob = Inr ob' \<longleftrightarrow> (\<exists>s t. ob = HPAObj s \<and> ob' = HPAObj t \<and> mutateHPA L s p = Inr t)"
  by (auto simp: hpa_callback_def map_sum_Inr_iff split: client_object.splits)

interpretation scaler: intent_mutator "hpa_callback L p" for L p
  by unfold_locales (auto simp: hpa_callback_Inr mutateHPA_Inr mutateHPA_settled)

lemma autoscalingIntent_shape:
  assumes "autoscalingIntent L p = Inr i"
  shows "i_object i = Some (HPAObj (zero_hpa (named_meta (ChildName (w_name p)) (w_namespace p))))"
    and "i_absent i \<longleftrightarrow> \<not> AutoscalingEnabled (Some p)"
    and "\<not> i_absent i \<Longrightarrow> i_mutate i = Some (hpa_callback L p)"
  using assms by (auto simp: autoscalingIntent_def Let_def split: if_splits option.splits)

end
