(* ===== verification/Res_Deployment.thy ===== *)
theory Res_Deployment
  imports Res_Autoscaling
begin

text \<open>
  \<open>internal/resource/deployment.go\<close>: the Deployment. The Go code mutates the object in place and the
  caller drops it when an error is returned, so a mutation is a function to an error or the new object.
\<close>

subsection \<open>Compute resources\<close>

text \<open>
  The closure \<open>parse\<close> of \<open>resourceLists\<close>: it ranges over the map of quantities; the list is one
  iteration order of it.
\<close>

fun parse_quantities :: "lib \<Rightarrow> ResourceQuantities \<Rightarrow> go_error + (string \<times> Quantity) list" where
  "parse_quantities L [] = Inr []"
| "parse_quantities L ((name, value) # input) =
     (if name \<noteq> ''cpu'' \<and> name \<noteq> ''memory'' then Inl ErrInvalidConfiguration
      else (case ParseQuantity L value of
          None \<Rightarrow> Inl ErrInvalidConfiguration
        | Some q \<Rightarrow>
            if QuantitySign L q < 0 then Inl ErrInvalidConfiguration
            else bindr (parse_quantities L input) (\<lambda>result. Inr ((name, q) # result))))"

text \<open>The last loop of \<open>resourceLists\<close>: compare with the request or default it to the limit.\<close>

fun default_requests :: "lib \<Rightarrow> (string \<times> Quantity) list \<Rightarrow> ResourceList \<Rightarrow> go_error + ResourceList" where
  "default_requests L [] requests = Inr requests"
| "default_requests L ((name, limit) # limits) requests =
     (case fmlookup requests name of
        Some request \<Rightarrow>
          if 0 < QuantityCmp L request limit then Inl ErrInvalidConfiguration
          else default_requests L limits requests
      | None \<Rightarrow> default_requests L limits (fmupd name limit requests))"

definition resourceLists :: "lib \<Rightarrow> ResourceRequirements option \<Rightarrow> go_error + ResourceList \<times> ResourceList" where
  "resourceLists L spec =
     (case spec of
        None \<Rightarrow> Inr (fmempty, fmempty)
      | Some s \<Rightarrow>
          bindr (parse_quantities L (rr_requests s)) (\<lambda>requests.
          bindr (parse_quantities L (rr_limits s)) (\<lambda>limits.
          bindr (default_requests L limits (fmap_of_list requests)) (\<lambda>merged.
            Inr (merged, fmap_of_list limits)))))"

definition replaceCompute :: "ResourceList \<Rightarrow> ResourceList \<Rightarrow> ResourceList" where
  "replaceCompute current desired = fmdrop ''memory'' (fmdrop ''cpu'' current) ++\<^sub>f desired"

subsection \<open>Probes and the workload container\<close>

definition httpProbe :: "HTTPProbeSpec option \<Rightarrow> int \<Rightarrow> int \<Rightarrow> Probe option" where
  "httpProbe spec delay period =
     (case spec of
        None \<Rightarrow> None
      | Some s \<Rightarrow>
          Some \<lparr>pr_httpGet = Some \<lparr>hg_path = hp_path s, hg_port = StrVal HTTPPortName, hg_host = '''',
                                   hg_scheme = ''HTTP'', hg_httpHeaders = []\<rparr>,
                pr_initialDelaySeconds = delay, pr_periodSeconds = period, pr_timeoutSeconds = 1,
                pr_successThreshold = 1, pr_failureThreshold = 3, pr_rest = ''''\<rparr>)"

definition RuntimeDefaultSeccomp :: SeccompProfile where
  "RuntimeDefaultSeccomp = \<lparr>sec_type = ''RuntimeDefault'', sec_localhostProfile = None\<rparr>"

definition secret_env :: "SecretReference \<Rightarrow> EnvFromSource" where
  "secret_env name =
     \<lparr>ef_prefix = '''', ef_configMapRef = None,
      ef_secretRef = Some \<lparr>ses_name = name, ses_optional = Some False\<rparr>\<rparr>"

definition app_ports :: "AIWorkload \<Rightarrow> ContainerPort list \<Rightarrow> ContainerPort list" where
  "app_ports p ports =
     (let port = \<lparr>cp_name = HTTPPortName, cp_hostPort = 0, cp_containerPort = cs_port (sp_container (w_spec p)),
                  cp_protocol = ''TCP'', cp_hostIP = ''''\<rparr>
      in (case find_index (\<lambda>x. cp_name x = HTTPPortName) ports of
            None \<Rightarrow> ports @ [port]
          | Some i \<Rightarrow> ports[i := port]))"

text \<open>The statements of \<open>mutateDeployment\<close> on \<open>app := &pod.Containers[index]\<close>.\<close>

definition mutate_app :: "AIWorkload \<Rightarrow> ResourceList \<Rightarrow> ResourceList \<Rightarrow> Container \<Rightarrow> Container" where
  "mutate_app p requests limits app =
     app\<lparr>ct_image := sp_image (w_spec p),
         ct_imagePullPolicy := ''IfNotPresent'',
         ct_requests := replaceCompute (ct_requests app) requests,
         ct_limits := replaceCompute (ct_limits app) limits,
         ct_ports := app_ports p (ct_ports app),
         ct_envFrom := map secret_env (sp_secretRefs (w_spec p)),
         ct_readinessProbe :=
           (case sp_health (w_spec p) of None \<Rightarrow> None | Some h \<Rightarrow> httpProbe (hs_readiness h) 0 5),
         ct_livenessProbe :=
           (case sp_health (w_spec p) of None \<Rightarrow> None | Some h \<Rightarrow> httpProbe (hs_liveness h) 10 10),
         ct_securityContext :=
           Some ((deref (ct_securityContext app) zero_security_context)
             \<lparr>sc_runAsNonRoot := Some True, sc_privileged := Some False,
              sc_allowPrivilegeEscalation := Some False,
              sc_capabilities := Some \<lparr>cap_add = [], cap_drop = [''ALL'']\<rparr>,
              sc_seccompProfile := Some RuntimeDefaultSeccomp\<rparr>)\<rparr>"

definition app_containers :: "AIWorkload \<Rightarrow> ResourceList \<Rightarrow> ResourceList \<Rightarrow> Container list \<Rightarrow> Container list" where
  "app_containers p requests limits containers =
     (case find_index (\<lambda>c. ct_name c = ContainerName) containers of
        None \<Rightarrow> containers @ [mutate_app p requests limits (zero_container\<lparr>ct_name := ContainerName\<rparr>)]
      | Some i \<Rightarrow> containers[i := mutate_app p requests limits (containers ! i)])"

definition mutate_pod :: "AIWorkload \<Rightarrow> ResourceList \<Rightarrow> ResourceList \<Rightarrow> PodSpec \<Rightarrow> PodSpec" where
  "mutate_pod p requests limits pod =
     pod\<lparr>pod_serviceAccountName := ChildName (w_name p),
         pod_deprecatedServiceAccount := ChildName (w_name p),
         pod_automountServiceAccountToken := Some False,
         pod_securityContext :=
           Some ((deref (pod_securityContext pod) zero_pod_security_context)
             \<lparr>psc_runAsNonRoot := Some True, psc_seccompProfile := Some RuntimeDefaultSeccomp\<rparr>),
         pod_containers := app_containers p requests limits (pod_containers pod)\<rparr>"

subsection \<open>The Deployment\<close>

text \<open>A missing key of a Go map reads as the empty string.\<close>

definition selector_compatible :: "AIWorkload \<Rightarrow> LabelSelector option \<Rightarrow> bool" where
  "selector_compatible p current =
     (case current of
        None \<Rightarrow> False
      | Some s \<Rightarrow>
          ls_matchExpressions s = [] \<and> fcard (fmdom (ls_matchLabels s)) = fcard (fmdom (SelectorLabels p))
          \<and> deref (fmlookup (ls_matchLabels s) InstanceLabel) '''' = ChildName (w_name p)
          \<and> deref (fmlookup (ls_matchLabels s) UIDLabel) '''' = w_uid p)"

definition mutateDeployment ::
  "Deployment \<Rightarrow> AIWorkload \<Rightarrow> ResourceList \<Rightarrow> ResourceList \<Rightarrow> go_error + Deployment" where
  "mutateDeployment d p requests limits =
     (let existing = m_resourceVersion (d_meta d) \<noteq> '''' \<or> m_uid (d_meta d) \<noteq> '''' in
      if existing \<and> \<not> selector_compatible p (d_selector d) then Inl ErrImmutableSelector
      else
        Inr (d\<lparr>d_selector := Some \<lparr>ls_matchLabels = SelectorLabels p, ls_matchExpressions = []\<rparr>,
               d_meta := managedMetadata (d_meta d) p,
               d_templateMeta := managedMetadata (d_templateMeta d) p,
               d_replicas :=
                 (if \<not> AutoscalingEnabled (Some p) then Some (deref (sp_replicas (w_spec p)) 1)
                  else if \<not> existing
                    then Some (case sp_autoscaling (w_spec p) of None \<Rightarrow> 1 | Some a \<Rightarrow> deref (as_minReplicas a) 1)
                  else d_replicas d),
               d_strategy := \<lparr>ds_type = ''RollingUpdate'', ds_maxUnavailable = Some (IntVal 0),
                              ds_maxSurge = Some (IntVal 1)\<rparr>,
               d_minReadySeconds := 0,
               d_progressDeadlineSeconds := Some 120,
               d_paused := False,
               d_pod := mutate_pod p requests limits (d_pod d)\<rparr>))"

definition deployment_callback ::
  "AIWorkload \<Rightarrow> ResourceList \<Rightarrow> ResourceList \<Rightarrow> client_object \<Rightarrow> go_error + client_object" where
  "deployment_callback p requests limits ob =
     (case ob of
        DeploymentObj d \<Rightarrow> map_sum id DeploymentObj (mutateDeployment d p requests limits)
      | _ \<Rightarrow> Inl ErrInvalidConfiguration)"

definition deploymentIntent :: "AIWorkload \<Rightarrow> ResourceList \<Rightarrow> ResourceList \<Rightarrow> Intent" where
  "deploymentIntent p requests limits =
     \<lparr>i_object = Some (DeploymentObj (zero_deployment (named_meta (ChildName (w_name p)) (w_namespace p)))),
      i_mutate = Some (deployment_callback p requests limits), i_absent = False\<rparr>"

subsection \<open>Resource lists: what the loops compute\<close>

definition quantity_ok :: "lib \<Rightarrow> string \<times> string \<Rightarrow> bool" where
  "quantity_ok L e =
     ((fst e = ''cpu'' \<or> fst e = ''memory'')
      \<and> (case ParseQuantity L (snd e) of None \<Rightarrow> False | Some q \<Rightarrow> 0 \<le> QuantitySign L q))"

definition parsed :: "lib \<Rightarrow> ResourceQuantities \<Rightarrow> (string \<times> Quantity) list" where
  "parsed L input = map (\<lambda>(name, value). (name, the (ParseQuantity L value))) input"

lemma parse_quantities_eq:
  "parse_quantities L input =
     (if list_all (quantity_ok L) input then Inr (parsed L input) else Inl ErrInvalidConfiguration)"
  by (induction L input rule: parse_quantities.induct)
    (auto simp: quantity_ok_def parsed_def split: option.splits)

lemma default_requests_eq:
  assumes "distinct (map fst limits)"
  shows "default_requests L limits requests =
     (if \<forall>(name, limit) \<in> set limits. \<forall>request. fmlookup requests name = Some request \<longrightarrow> QuantityCmp L request limit \<le> 0
      then Inr (fmap_of_list limits ++\<^sub>f requests) else Inl ErrInvalidConfiguration)"
  using assms
proof (induction L limits requests rule: default_requests.induct)
  case (1 L requests)
  then show ?case by simp
next
  case (2 L name limit limits requests)
  show ?case
  proof (cases "fmlookup requests name")
    case None
    have add: "fmap_of_list limits ++\<^sub>f fmupd name limit requests = fmap_of_list ((name, limit) # limits) ++\<^sub>f requests"
      using None by (intro fmap_ext) (auto simp: fmdom_notI)
    have same: "fmlookup (fmupd name limit requests) n = fmlookup requests n" if "(n, l) \<in> set limits" for n l
      using that 2(3) by (force simp: image_iff)
    have "(\<forall>(n, l) \<in> set limits. \<forall>r. fmlookup (fmupd name limit requests) n = Some r \<longrightarrow> QuantityCmp L r l \<le> 0)
       \<longleftrightarrow> (\<forall>(n, l) \<in> set limits. \<forall>r. fmlookup requests n = Some r \<longrightarrow> QuantityCmp L r l \<le> 0)"
      using same by fastforce
    with None add 2 show ?thesis by simp
  next
    case (Some request)
    have "fmap_of_list limits ++\<^sub>f requests = fmap_of_list ((name, limit) # limits) ++\<^sub>f requests"
      using Some by (intro fmap_ext) (auto simp: fmdom_notD dest: fmdomI)
    with Some 2 show ?thesis by auto
  qed
qed

lemma resourceLists_eq:
  assumes "distinct (map fst (rr_limits s))"
  shows "resourceLists L (Some s) =
     (let requests = fmap_of_list (parsed L (rr_requests s)); limits = fmap_of_list (parsed L (rr_limits s))
      in if list_all (quantity_ok L) (rr_requests s) \<and> list_all (quantity_ok L) (rr_limits s)
            \<and> (\<forall>(name, limit) \<in> set (parsed L (rr_limits s)).
                 \<forall>request. fmlookup requests name = Some request \<longrightarrow> QuantityCmp L request limit \<le> 0)
         then Inr (limits ++\<^sub>f requests, limits) else Inl ErrInvalidConfiguration)"
proof -
  have "map fst (parsed L (rr_limits s)) = map fst (rr_limits s)"
    by (auto simp: parsed_def)
  with assms show ?thesis
    by (auto simp: resourceLists_def parse_quantities_eq default_requests_eq Let_def)
qed

subsection \<open>The Deployment mutator keeps its contract\<close>

lemma replaceCompute_lookup:
  "fmlookup (replaceCompute current desired) k =
     (case fmlookup desired k of
        Some v \<Rightarrow> Some v
      | None \<Rightarrow> if k = ''cpu'' \<or> k = ''memory'' then None else fmlookup current k)"
  by (auto simp: replaceCompute_def fmdom_notD split: option.splits dest: fmdom_notD)

lemma replaceCompute_idem [simp]:
  "replaceCompute (replaceCompute current desired) desired = replaceCompute current desired"
  by (rule fmap_ext) (simp add: replaceCompute_lookup split: option.splits)

lemma app_ports_idem [simp]: "app_ports p (app_ports p ports) = app_ports p ports"
  by (auto simp: app_ports_def Let_def find_index_append_new find_index_update_same split: option.splits)

lemma mutate_app_name [simp]: "ct_name (mutate_app p requests limits app) = ct_name app"
  by (simp add: mutate_app_def)

lemma mutate_app_idem [simp]:
  "mutate_app p requests limits (mutate_app p requests limits app) = mutate_app p requests limits app"
  by (simp add: mutate_app_def)

lemma app_containers_idem [simp]:
  "app_containers p requests limits (app_containers p requests limits cs) = app_containers p requests limits cs"
proof (cases "find_index (\<lambda>c. ct_name c = ContainerName) cs")
  case None
  then show ?thesis
    by (simp add: app_containers_def find_index_append_new nth_append)
next
  case (Some i)
  from find_index_Some [OF Some] have i: "i < length cs" "ct_name (cs ! i) = ContainerName"
    by simp_all
  with Some show ?thesis
    by (simp add: app_containers_def find_index_update_same)
qed

lemma mutate_pod_idem [simp]:
  "mutate_pod p requests limits (mutate_pod p requests limits pod) = mutate_pod p requests limits pod"
  by (simp add: mutate_pod_def)

lemma selector_compatible_self:
  "selector_compatible p (Some \<lparr>ls_matchLabels = SelectorLabels p, ls_matchExpressions = []\<rparr>)"
  by (simp add: selector_compatible_def SelectorLabels_def label_names)

lemma mutateDeployment_Inr:
  assumes "mutateDeployment d p requests limits = Inr t"
  shows "d_meta t = managedMetadata (d_meta d) p"
    and "d_selector t = Some \<lparr>ls_matchLabels = SelectorLabels p, ls_matchExpressions = []\<rparr>"
    and "d_templateMeta t = managedMetadata (d_templateMeta d) p"
    and "d_pod t = mutate_pod p requests limits (d_pod d)"
    and "d_status t = d_status d" and "d_rest t = d_rest d"
  using assms by (auto simp: mutateDeployment_def Let_def split: if_splits)

lemma mutateDeployment_settled:
  assumes "mutateDeployment d p requests limits = Inr t"
    and "assigned (d_meta t) m"
  shows "mutateDeployment (t\<lparr>d_meta := m\<rparr>) p requests limits = Inr (t\<lparr>d_meta := m\<rparr>)"
proof -
  have "managedMetadata m p = m"
    using assms by (simp add: mutateDeployment_Inr assigned_managed)
  moreover have "fresh_meta m \<longrightarrow> fresh_meta (d_meta d)"
    using assms by (simp add: assigned_def mutateDeployment_Inr fresh_meta_def)
  ultimately show ?thesis
    using assms(1)
    by (auto simp: mutateDeployment_def Let_def selector_compatible_self fresh_meta_def split: if_splits)
qed

lemma deployment_callback_Inr:
  "deployment_callback p requests limits ob = Inr ob' \<longleftrightarrow>
     (\<exists>s t. ob = DeploymentObj s \<and> ob' = DeploymentObj t \<and> mutateDeployment s p requests limits = Inr t)"
  by (auto simp: deployment_callback_def map_sum_Inr_iff split: client_object.splits)

interpretation rollout: intent_mutator "deployment_callback p requests limits" for p requests limits
  by unfold_locales (auto simp: deployment_callback_Inr mutateDeployment_Inr mutateDeployment_settled)

subsection \<open>What a mutation leaves alone\<close>

text \<open>Containers other than the first one named \<open>workload\<close>, and ports other than \<open>http\<close>.\<close>

lemma app_containers_sidecars:
  "filter (\<lambda>c. ct_name c \<noteq> ContainerName) (app_containers p requests limits cs) =
     filter (\<lambda>c. ct_name c \<noteq> ContainerName) cs"
proof -
  have "filter Q (cs[i := y]) = filter Q cs" if "i < length cs" "\<not> Q (cs ! i)" "\<not> Q y"
    for Q i and y :: Container
    using that by (induction cs arbitrary: i) (auto simp: nth_Cons split: nat.splits)
  then show ?thesis
    by (auto simp: app_containers_def split: option.splits dest!: find_index_Some)
qed

lemma app_containers_has_app:
  "\<exists>c \<in> set (app_containers p requests limits cs). ct_name c = ContainerName
     \<and> (\<exists>app. c = mutate_app p requests limits app)"
  by (auto simp: app_containers_def split: option.splits dest!: find_index_Some
      intro!: set_update_memI bexI [rotated])

end
