(* ===== verification/Res_Identity.thy ===== *)
theory Res_Identity
  imports Mutator
begin

text \<open>\<open>internal/resource/identity.go\<close>: the tokenless ServiceAccount of a workload.\<close>

definition service_account_callback :: "AIWorkload \<Rightarrow> client_object \<Rightarrow> go_error + client_object" where
  "service_account_callback p ob =
     (case ob of
        ServiceAccountObj account \<Rightarrow>
          Inr (ServiceAccountObj (account\<lparr>sa_meta := managedMetadata (sa_meta account) p,
                                          sa_automountServiceAccountToken := Some False\<rparr>))
      | _ \<Rightarrow> Inl ErrInvalidConfiguration)"

definition serviceAccountIntent :: "AIWorkload \<Rightarrow> Intent" where
  "serviceAccountIntent p =
     \<lparr>i_object = Some (ServiceAccountObj (zero_service_account (named_meta (ChildName (w_name p)) (w_namespace p)))),
      i_mutate = Some (service_account_callback p), i_absent = False\<rparr>"

lemma service_account_callback_Inr:
  "service_account_callback p ob = Inr ob' \<longleftrightarrow>
     (\<exists>a. ob = ServiceAccountObj a \<and>
          ob' = ServiceAccountObj (a\<lparr>sa_meta := managedMetadata (sa_meta a) p, sa_automountServiceAccountToken := Some False\<rparr>))"
  by (auto simp: service_account_callback_def split: client_object.splits)

interpretation account: intent_mutator "service_account_callback p" for p
  by unfold_locales
    (auto simp: service_account_callback_Inr dest!: assigned_managed)

end
