(* ===== verification/Res_Network.thy ===== *)
theory Res_Network
  imports Mutator
begin

text \<open>\<open>internal/resource/network.go\<close>: the optional ingress-only NetworkPolicy.\<close>

fun NetworkEnabled :: "AIWorkload option \<Rightarrow> bool" where
  "NetworkEnabled None = False"
| "NetworkEnabled (Some p) =
     (case sp_network (w_spec p) of
        None \<Rightarrow> True
      | Some n \<Rightarrow> (case nw_enabled n of None \<Rightarrow> True | Some b \<Rightarrow> b))"

definition network_policy_spec :: "AIWorkload \<Rightarrow> NetworkPolicySpec" where
  "network_policy_spec p =
     \<lparr>nps_podSelector = \<lparr>ls_matchLabels = SelectorLabels p, ls_matchExpressions = []\<rparr>,
      nps_policyTypes = [''Ingress''],
      nps_ingress =
        [\<lparr>npi_from = [\<lparr>npp_podSelector = Some empty_selector, npp_namespaceSelector = None,
                       npp_ipBlock = None\<rparr>],
          npi_ports = [\<lparr>npt_protocol = Some ''TCP'', npt_port = Some (StrVal HTTPPortName),
                        npt_endPort = None\<rparr>]\<rparr>],
      nps_egress = []\<rparr>"

definition network_policy_callback :: "AIWorkload \<Rightarrow> client_object \<Rightarrow> go_error + client_object" where
  "network_policy_callback p ob =
     (case ob of
        NetworkPolicyObj policy \<Rightarrow>
          Inr (NetworkPolicyObj (policy\<lparr>np_meta := managedMetadata (np_meta policy) p,
                                        np_spec := network_policy_spec p\<rparr>))
      | _ \<Rightarrow> Inl ErrInvalidConfiguration)"

definition networkPolicyIntent :: "AIWorkload \<Rightarrow> Intent" where
  "networkPolicyIntent p =
     (let object = Some (NetworkPolicyObj (zero_network_policy (named_meta (ChildName (w_name p)) (w_namespace p))))
      in if \<not> NetworkEnabled (Some p) then \<lparr>i_object = object, i_mutate = None, i_absent = True\<rparr>
         else \<lparr>i_object = object, i_mutate = Some (network_policy_callback p), i_absent = False\<rparr>)"

lemma network_policy_callback_Inr:
  "network_policy_callback p ob = Inr ob' \<longleftrightarrow>
     (\<exists>n. ob = NetworkPolicyObj n \<and>
          ob' = NetworkPolicyObj (n\<lparr>np_meta := managedMetadata (np_meta n) p, np_spec := network_policy_spec p\<rparr>))"
  by (auto simp: network_policy_callback_def split: client_object.splits)

interpretation netpol: intent_mutator "network_policy_callback p" for p
  by unfold_locales
    (auto simp: network_policy_callback_Inr dest!: assigned_managed)

lemma networkPolicyIntent_shape:
  "i_object (networkPolicyIntent p) =
     Some (NetworkPolicyObj (zero_network_policy (named_meta (ChildName (w_name p)) (w_namespace p))))"
  "i_absent (networkPolicyIntent p) \<longleftrightarrow> \<not> NetworkEnabled (Some p)"
  "\<not> i_absent (networkPolicyIntent p) \<Longrightarrow> i_mutate (networkPolicyIntent p) = Some (network_policy_callback p)"
  by (simp_all add: networkPolicyIntent_def Let_def split: if_splits)

end
