(* ===== verification/Res_Availability.thy ===== *)
theory Res_Availability
  imports Res_Autoscaling
begin

text \<open>\<open>internal/resource/availability.go\<close>: the optional PodDisruptionBudget.\<close>

fun AvailabilityEnabled :: "AIWorkload option \<Rightarrow> bool" where
  "AvailabilityEnabled None = False"
| "AvailabilityEnabled (Some p) =
     (case sp_availability (w_spec p) of None \<Rightarrow> False | Some a \<Rightarrow> deref (av_enabled a) False)"

definition AvailabilityReplicaFloor :: "AIWorkload \<Rightarrow> int" where
  "AvailabilityReplicaFloor p =
     (if AutoscalingEnabled (Some p)
      then (case sp_autoscaling (w_spec p) of None \<Rightarrow> 1 | Some a \<Rightarrow> deref (as_minReplicas a) 1)
      else deref (sp_replicas (w_spec p)) 1)"

fun validateAvailability :: "AIWorkload option \<Rightarrow> go_error option" where
  "validateAvailability None = Some ErrInvalidConfiguration"
| "validateAvailability (Some p) =
     (case sp_availability (w_spec p) of
        None \<Rightarrow> Some ErrInvalidConfiguration
      | Some spec \<Rightarrow>
          if (av_minAvailable spec = None) = (av_maxUnavailable spec = None)
          then Some ErrInvalidConfiguration
          else let lowest = AvailabilityReplicaFloor p in
            if lowest < 1
               \<or> (case av_minAvailable spec of None \<Rightarrow> False | Some n \<Rightarrow> n < 1 \<or> lowest < n)
               \<or> (case av_maxUnavailable spec of None \<Rightarrow> False | Some n \<Rightarrow> n < 0 \<or> lowest \<le> n)
            then Some ErrInvalidConfiguration
            else None)"

definition mutatePDB :: "PodDisruptionBudget \<Rightarrow> AIWorkload \<Rightarrow> go_error + PodDisruptionBudget" where
  "mutatePDB pdb p =
     (case validateAvailability (Some p) of
        Some e \<Rightarrow> Inl e
      | None \<Rightarrow>
          let pdb = pdb\<lparr>b_meta := managedMetadata (b_meta pdb) p,
                        b_selector := Some \<lparr>ls_matchLabels = SelectorLabels p, ls_matchExpressions = []\<rparr>,
                        b_minAvailable := None, b_maxUnavailable := None\<rparr>
          in (case sp_availability (w_spec p) of
                None \<Rightarrow> Inl NilDereference
              | Some spec \<Rightarrow>
                  (case av_minAvailable spec of
                     Some n \<Rightarrow> Inr (pdb\<lparr>b_minAvailable := Some (IntVal n)\<rparr>)
                   | None \<Rightarrow>
                       (case av_maxUnavailable spec of
                          Some n \<Rightarrow> Inr (pdb\<lparr>b_maxUnavailable := Some (IntVal n)\<rparr>)
                        | None \<Rightarrow> Inl NilDereference))))"

definition pdb_callback :: "AIWorkload \<Rightarrow> client_object \<Rightarrow> go_error + client_object" where
  "pdb_callback p ob =
     (case ob of PDBObj b \<Rightarrow> map_sum id PDBObj (mutatePDB b p) | _ \<Rightarrow> Inl ErrInvalidConfiguration)"

definition availabilityIntent :: "AIWorkload \<Rightarrow> go_error + Intent" where
  "availabilityIntent p =
     (let object = Some (PDBObj (zero_pdb (named_meta (ChildName (w_name p)) (w_namespace p)))) in
      if \<not> AvailabilityEnabled (Some p) then Inr \<lparr>i_object = object, i_mutate = None, i_absent = True\<rparr>
      else (case validateAvailability (Some p) of
          Some e \<Rightarrow> Inl e
        | None \<Rightarrow> Inr \<lparr>i_object = object, i_mutate = Some (pdb_callback p), i_absent = False\<rparr>))"

subsection \<open>Accepted budgets\<close>

text \<open>
  The abstract meaning of a budget: with \<open>replicas\<close> Pods, the number of Pods that stay up while
  voluntary disruptions are as many as the budget allows.
\<close>

definition guaranteed_pods :: "AvailabilitySpec \<Rightarrow> int \<Rightarrow> int" where
  "guaranteed_pods spec replicas =
     (case av_minAvailable spec of Some n \<Rightarrow> n
      | None \<Rightarrow> (case av_maxUnavailable spec of Some n \<Rightarrow> replicas - n | None \<Rightarrow> 0))"

lemma validateAvailability_None:
  "validateAvailability (Some p) = None \<longleftrightarrow>
     (\<exists>spec. sp_availability (w_spec p) = Some spec \<and>
        (av_minAvailable spec = None) \<noteq> (av_maxUnavailable spec = None) \<and>
        1 \<le> guaranteed_pods spec (AvailabilityReplicaFloor p) \<and>
        guaranteed_pods spec (AvailabilityReplicaFloor p) \<le> AvailabilityReplicaFloor p)"
  by (auto simp: Let_def guaranteed_pods_def split: option.splits)

lemma validateAvailability_error:
  "validateAvailability p = Some e \<Longrightarrow> e = ErrInvalidConfiguration"
  by (cases p) (auto simp: Let_def split: option.splits if_splits)

subsection \<open>The PDB mutator keeps its contract\<close>

lemma mutatePDB_Inr:
  assumes "mutatePDB b p = Inr t"
  shows "b_meta t = managedMetadata (b_meta b) p" and "b_rest t = b_rest b"
    and "(b_minAvailable t = None) \<noteq> (b_maxUnavailable t = None)"
  using assms by (auto simp: mutatePDB_def Let_def split: option.splits)

lemma mutatePDB_settled:
  assumes "mutatePDB b p = Inr t"
    and "assigned (b_meta t) m"
  shows "mutatePDB (t\<lparr>b_meta := m\<rparr>) p = Inr (t\<lparr>b_meta := m\<rparr>)"
proof -
  have "managedMetadata m p = m"
    using assms by (simp add: mutatePDB_Inr assigned_managed)
  with assms(1) show ?thesis
    by (auto simp: mutatePDB_def Let_def split: option.splits)
qed

lemma pdb_callback_Inr:
  "pdb_callback p ob = Inr ob' \<longleftrightarrow> (\<exists>s t. ob = PDBObj s \<and> ob' = PDBObj t \<and> mutatePDB s p = Inr t)"
  by (auto simp: pdb_callback_def map_sum_Inr_iff split: client_object.splits)

interpretation budget: intent_mutator "pdb_callback p" for p
  by unfold_locales (auto simp: pdb_callback_Inr mutatePDB_Inr mutatePDB_settled)

lemma availabilityIntent_shape:
  assumes "availabilityIntent p = Inr i"
  shows "i_object i = Some (PDBObj (zero_pdb (named_meta (ChildName (w_name p)) (w_namespace p))))"
    and "i_absent i \<longleftrightarrow> \<not> AvailabilityEnabled (Some p)"
    and "\<not> i_absent i \<Longrightarrow> i_mutate i = Some (pdb_callback p)"
  using assms by (auto simp: availabilityIntent_def Let_def split: if_splits option.splits)

end
