(* ===== verification/Res_Plan.thy ===== *)
theory Res_Plan
  imports Engine_Plan Res_Deployment Res_Identity Res_Network Res_Availability
begin

text \<open>
  \<open>WorkloadBuilder.Build\<close> (\<open>internal/resource/deployment.go\<close>), "the production composition root for V0
  direct children", and the proof that it meets the builder interface. The deep copy taken at the start
  is the value itself.
\<close>

fun Build :: "lib \<Rightarrow> AIWorkload option \<Rightarrow> go_error + Intent list" where
  "Build L None = Inl ErrInvalidConfiguration"
| "Build L (Some p) =
     bindr (resourceLists L (sp_resources (w_spec p))) (\<lambda>(requests, limits).
     bindr (serviceIntent p) (\<lambda>service.
     bindr (autoscalingIntent L p) (\<lambda>autoscaling.
     bindr (availabilityIntent p) (\<lambda>availability.
       Inr [serviceAccountIntent p, deploymentIntent p requests limits, service, networkPolicyIntent p,
            autoscaling, availability]))))"

lemma Build_Inr:
  assumes "Build L (Some p) = Inr plan"
  obtains requests limits service autoscaling availability where
    "resourceLists L (sp_resources (w_spec p)) = Inr (requests, limits)"
    and "serviceIntent p = Inr service" and "autoscalingIntent L p = Inr autoscaling"
    and "availabilityIntent p = Inr availability"
    and "plan = [serviceAccountIntent p, deploymentIntent p requests limits, service, networkPolicyIntent p,
                 autoscaling, availability]"
  using assms by (auto simp: bindr_Inr_iff split: prod.splits)

lemma Build_kinds: "Build L (Some p) = Inr plan \<Longrightarrow> map intent_kind plan = [0, 1, 2, 3, 4, 5]"
  by (erule Build_Inr)
    (simp add: serviceIntent_shape autoscalingIntent_shape availabilityIntent_shape
      networkPolicyIntent_shape serviceAccountIntent_def deploymentIntent_def)

lemmas intent_shapes =
  serviceIntent_shape autoscalingIntent_shape availabilityIntent_shape networkPolicyIntent_shape

lemmas mutators =
  account.intent_mutator_axioms rollout.intent_mutator_axioms svc.intent_mutator_axioms
  netpol.intent_mutator_axioms scaler.intent_mutator_axioms budget.intent_mutator_axioms

interpretation workload_builder: plan_builder "Build L" for L
proof
  show "Build L None = Inl ErrInvalidConfiguration" by simp
next
  fix p plan i
  assume "Build L (Some p) = Inr plan" and "i \<in> set plan"
  then show "\<exists>ob. i_object i = Some ob \<and> 0 \<le> childOrder (Some ob)
      \<and> obj_meta ob = named_meta (ChildName (w_name p)) (w_namespace p)"
    by (elim Build_Inr) (auto simp: intent_shapes serviceAccountIntent_def deploymentIntent_def)
next
  fix p plan
  assume "Build L (Some p) = Inr plan"
  then show "distinct (map intent_kind plan)" by (simp add: Build_kinds)
next
  fix p plan i
  assume "Build L (Some p) = Inr plan" and "i \<in> set plan" and "i_absent i"
  then show "2 \<le> intent_kind i"
    by (elim Build_Inr) (auto simp: intent_shapes serviceAccountIntent_def deploymentIntent_def)
next
  fix p plan i
  assume "Build L (Some p) = Inr plan" and "i \<in> set plan" and "\<not> i_absent i"
  then show "\<exists>f. i_mutate i = Some f \<and> intent_mutator f"
    by (elim Build_Inr)
      (auto simp: intent_shapes mutators serviceAccountIntent_def deploymentIntent_def)
qed

end
