(* ===== verification/Status.thy ===== *)
theory Status
  imports Reconciler Res_Plan
begin

text \<open>
  \<open>internal/controller/status.go\<close> (the assessment of a Deployment), \<open>autoscaling.go\<close> and
  \<open>availability.go\<close>: what the controller concludes from the children it observes. The report
  itself, \<open>observeAndReportStatus\<close>, needs the status patch and is in the theory \<open>Observe\<close>.
\<close>

record statusAssessment =
  sa_reason :: string
  sa_message :: string
  sa_ready :: string
  sa_progressing :: string
  sa_degraded :: string

definition desiredReplicas :: "AIWorkload \<Rightarrow> int" where
  "desiredReplicas p = deref (sp_replicas (w_spec p)) 1"

fun findDeploymentCondition :: "DeploymentCondition list \<Rightarrow> string \<Rightarrow> DeploymentCondition option" where
  "findDeploymentCondition [] t = None"
| "findDeploymentCondition (c # cs) t = (if dc_type c = t then Some c else findDeploymentCondition cs t)"

definition deploymentReady :: "Deployment \<Rightarrow> int \<Rightarrow> bool" where
  "deploymentReady d desired =
     (case findDeploymentCondition (dst_conditions (d_status d)) ''Available'' of
        None \<Rightarrow> False
      | Some available \<Rightarrow>
          dc_status available = ''True''
          \<and> dst_observedGeneration (d_status d) \<ge> m_generation (d_meta d)
          \<and> dst_updatedReplicas (d_status d) = desired
          \<and> dst_replicas (d_status d) = desired
          \<and> dst_readyReplicas (d_status d) = desired
          \<and> dst_availableReplicas (d_status d) = desired)"

text \<open>The two tests on Deployment conditions of \<open>assessDeployment\<close>.\<close>

definition progress_deadline_exceeded :: "Deployment \<Rightarrow> bool" where
  "progress_deadline_exceeded d =
     (case findDeploymentCondition (dst_conditions (d_status d)) ''Progressing'' of
        None \<Rightarrow> False
      | Some c \<Rightarrow> dc_status c = ''False'' \<and> dc_reason c = ''ProgressDeadlineExceeded'')"

definition deployment_unavailable :: "Deployment \<Rightarrow> bool" where
  "deployment_unavailable d =
     (case findDeploymentCondition (dst_conditions (d_status d)) ''Available'' of
        None \<Rightarrow> False
      | Some c \<Rightarrow> dc_status c = ''False'')"

definition assessDeployment :: "AIWorkload \<Rightarrow> Deployment \<Rightarrow> statusAssessment" where
  "assessDeployment p deployment =
     (let desired = desiredReplicas p in
      if desired = 0 then
        \<lparr>sa_reason = ''ScaledToZero'',
         sa_message = ''Desired replicas is zero; no ready workload Pods are required.'',
         sa_ready = ConditionFalse, sa_progressing = ConditionFalse, sa_degraded = ConditionFalse\<rparr>
      else if progress_deadline_exceeded deployment then
        \<lparr>sa_reason = ''ProgressDeadlineExceeded'',
         sa_message = ''Deployment rollout exceeded its progress deadline.'',
         sa_ready = ConditionFalse, sa_progressing = ConditionFalse, sa_degraded = ConditionTrue\<rparr>
      else if deploymentReady deployment desired then
        \<lparr>sa_reason = ''WorkloadReady'',
         sa_message = ''Current Deployment rollout is available at the desired replica count.'',
         sa_ready = ConditionTrue, sa_progressing = ConditionFalse, sa_degraded = ConditionFalse\<rparr>
      else if deployment_unavailable deployment then
        \<lparr>sa_reason = ''DeploymentUnavailable'',
         sa_message = ''Deployment reports unavailable replicas for the current rollout.'',
         sa_ready = ConditionFalse, sa_progressing = ConditionTrue, sa_degraded = ConditionFalse\<rparr>
      else
        \<lparr>sa_reason = ''Reconciling'',
         sa_message = ''Deployment rollout is progressing toward the desired replica count.'',
         sa_ready = ConditionFalse, sa_progressing = ConditionTrue, sa_degraded = ConditionFalse\<rparr>)"

definition setAssessmentConditions :: "lib \<Rightarrow> AIWorkload \<Rightarrow> statusAssessment \<Rightarrow> AIWorkload" where
  "setAssessmentConditions L p assessment =
     fold (\<lambda>(t, status) p. set_condition L p t status (sa_reason assessment) (sa_message assessment))
       [(conditionReady, sa_ready assessment), (conditionProgressing, sa_progressing assessment),
        (conditionDegraded, sa_degraded assessment)] p"

subsection \<open>Autoscaling\<close>

fun findHPACondition :: "HPACondition list \<Rightarrow> string \<Rightarrow> HPACondition option" where
  "findHPACondition [] t = None"
| "findHPACondition (c # cs) t = (if hc_type c = t then Some c else findHPACondition cs t)"

definition setAutoscalingCondition :: "lib \<Rightarrow> AIWorkload \<Rightarrow> string \<Rightarrow> string \<Rightarrow> string \<Rightarrow> AIWorkload" where
  "setAutoscalingCondition L p status reason message =
     set_condition L p conditionAutoscalingReady status reason message"

definition observeAutoscaling :: "lib \<Rightarrow> 's reconciler \<Rightarrow> ('s, unit) workload_step" where
  "observeAutoscaling L r p w =
     (if \<not> AutoscalingEnabled (Some p) then (Inr (), remove_condition L p conditionAutoscalingReady, w)
      else (case call_get ''HorizontalPodAutoscaler'' (cl_getHPA (rc_client r)) (child_key p) w of
          (Inl e, w') \<Rightarrow>
            if IsNotFound e then
              (Inr (), setAutoscalingCondition L p ConditionFalse ''HPAReconciling''
                 ''The owned HorizontalPodAutoscaler is awaiting API observation.'', w')
            else (Inl e, p, w')
        | (Inr hpa, w') \<Rightarrow>
            if list_ex (\<lambda>c. hc_type c = ''ScalingActive'' \<and> hc_status c = ''False'') (h_conditions hpa) then
              (Inr (), setAutoscalingCondition L p ConditionFalse ''MetricUnavailable''
                 ''The HorizontalPodAutoscaler cannot obtain one or more configured metrics; inspect its status and the platform metric adapter.'', w')
            else if (case findHPACondition (h_conditions hpa) ''ScalingActive'' of
                       None \<Rightarrow> False | Some active \<Rightarrow> hc_status active = ''True'') then
              (Inr (), setAutoscalingCondition L p ConditionTrue ''HPAActive''
                 ''The owned HorizontalPodAutoscaler is actively evaluating configured metrics.'', w')
            else
              (Inr (), setAutoscalingCondition L p ConditionFalse ''HPAReconciling''
                 ''The owned HorizontalPodAutoscaler is awaiting metric controller status.'', w')))"

subsection \<open>Availability\<close>

definition setAvailabilityCondition :: "lib \<Rightarrow> AIWorkload \<Rightarrow> string \<Rightarrow> string \<Rightarrow> string \<Rightarrow> AIWorkload" where
  "setAvailabilityCondition L p status reason message =
     set_condition L p conditionAvailabilityReady status reason message"

definition observeAvailability :: "lib \<Rightarrow> 's reconciler \<Rightarrow> ('s, unit) workload_step" where
  "observeAvailability L r p w =
     (if \<not> AvailabilityEnabled (Some p) then (Inr (), remove_condition L p conditionAvailabilityReady, w)
      else (case call_get ''PodDisruptionBudget'' (cl_getPDB (rc_client r)) (child_key p) w of
          (Inl e, w') \<Rightarrow>
            if IsNotFound e then
              (Inr (), setAvailabilityCondition L p ConditionFalse ''PDBReconciling''
                 ''The owned PodDisruptionBudget is awaiting API observation.'', w')
            else (Inl e, p, w')
        | (Inr pdb, w') \<Rightarrow>
            if AvailabilityReplicaFloor p = 1 then
              (Inr (), setAvailabilityCondition L p ConditionFalse ''SingleReplicaDisruptionBlocked''
                 ''A single-replica workload cannot remain available during voluntary disruption; its PodDisruptionBudget blocks eviction until capacity is increased.'', w')
            else
              (Inr (), setAvailabilityCondition L p ConditionTrue ''PDBActive''
                 ''The owned PodDisruptionBudget is active for voluntary disruption protection.'', w')))"

subsection \<open>Facts\<close>

lemma setAssessmentConditions_eq:
  "setAssessmentConditions L p a =
     set_condition L
       (set_condition L
         (set_condition L p conditionReady (sa_ready a) (sa_reason a) (sa_message a))
         conditionProgressing (sa_progressing a) (sa_reason a) (sa_message a))
       conditionDegraded (sa_degraded a) (sa_reason a) (sa_message a)"
  by (simp add: setAssessmentConditions_def)

lemma setAssessmentConditions_desired [simp, frame_simps]:
  "w_meta (setAssessmentConditions L p a) = w_meta p" "w_spec (setAssessmentConditions L p a) = w_spec p"
  by (simp_all add: setAssessmentConditions_eq)

lemma setAssessmentConditions_reports:
  assumes "condition_laws L"
  shows "reports L (setAssessmentConditions L p a) conditionReady (sa_ready a) (sa_reason a) (sa_message a)"
    and "reports L (setAssessmentConditions L p a) conditionProgressing (sa_progressing a) (sa_reason a) (sa_message a)"
    and "reports L (setAssessmentConditions L p a) conditionDegraded (sa_degraded a) (sa_reason a) (sa_message a)"
  using assms
  by (simp_all add: setAssessmentConditions_eq set_condition_reports set_condition_reports_other condition_types)

lemma setAssessmentConditions_other:
  assumes "condition_laws L" and "t \<notin> {conditionReady, conditionProgressing, conditionDegraded}"
  shows "condition_of L (setAssessmentConditions L p a) t = condition_of L p t"
  using assms by (simp add: setAssessmentConditions_eq condition_of_set)

text \<open>The verdict is one of five, and at most one of the three conditions is true.\<close>

lemma assessDeployment_verdict:
  "(sa_reason a, sa_ready a, sa_progressing a, sa_degraded a) \<in>
     {(''ScaledToZero'', ''False'', ''False'', ''False''),
      (''ProgressDeadlineExceeded'', ''False'', ''False'', ''True''),
      (''WorkloadReady'', ''True'', ''False'', ''False''),
      (''DeploymentUnavailable'', ''False'', ''True'', ''False''),
      (''Reconciling'', ''False'', ''True'', ''False'')}"
  if "a = assessDeployment p d"
  using that by (simp add: assessDeployment_def Let_def)

lemma assessDeployment_ready_iff:
  "sa_ready (assessDeployment p d) = ''True'' \<longleftrightarrow>
     desiredReplicas p \<noteq> 0 \<and> \<not> progress_deadline_exceeded d \<and> deploymentReady d (desiredReplicas p)"
  by (simp add: assessDeployment_def Let_def)

interpretation autoscaling_observer:
  condition_owner L conditionAutoscalingReady "observeAutoscaling L r" for L and r :: "'s reconciler"
  by unfold_locales
    (auto simp: observeAutoscaling_def setAutoscalingCondition_def
      split: if_splits prod.splits sum.splits dest: adds_read)

interpretation availability_observer:
  condition_owner L conditionAvailabilityReady "observeAvailability L r" for L and r :: "'s reconciler"
  by unfold_locales
    (auto simp: observeAvailability_def setAvailabilityCondition_def
      split: if_splits prod.splits sum.splits dest: adds_read)

end
