(* ===== verification/Failures.thy ===== *)
theory Failures
  imports Status
begin

text \<open>
  \<open>internal/controller/failures.go\<close>: the safe retry error, the classification of a failed
  reconciliation, the optimistic status patch with its single retry, and \<open>reportFailure\<close>.
\<close>

fun retryError :: "go_error option \<Rightarrow> go_error option" where
  "retryError None = None"
| "retryError (Some err) =
     Some (SafeRetry err
       (if IsConflict err then ''Conflict''
        else if IsAlreadyExists err then ''AlreadyExists''
        else if IsForbidden err then ''Forbidden''
        else if IsTimeout err \<or> IsServerTimeout err then ''Timeout''
        else if IsTooManyRequests err then ''Throttled''
        else ''UnexpectedError''))"

subsection \<open>The status patch\<close>

definition managed_condition_types :: "string list" where
  "managed_condition_types =
     [conditionReady, conditionProgressing, conditionDegraded, conditionTenantReady,
      conditionExternalSecretsReady, conditionExposureReady, conditionAutoscalingReady,
      conditionAvailabilityReady]"

definition preserveUnmanagedConditions :: "lib \<Rightarrow> Condition list \<Rightarrow> Condition list \<Rightarrow> Condition list" where
  "preserveUnmanagedConditions L desired current =
     fold (\<lambda>condition result.
         if c_type condition \<in> set managed_condition_types then result
         else if FindStatusCondition L result (c_type condition) = None then result @ [condition]
         else result)
       current desired"

definition patch_status_call ::
  "'s reconciler \<Rightarrow> AIWorkload \<Rightarrow> AIWorkload \<Rightarrow> 's world \<Rightarrow> (go_error option \<times> AIWorkload) \<times> 's world" where
  "patch_status_call r before after =
     call (StatusPatchE before after) (\<lambda>s. cl_patchStatus (rc_client r) s before after)"

text \<open>The object the retry patches: the fresh one with the status observed, unmanaged conditions kept.\<close>

definition rebase_status :: "lib \<Rightarrow> AIWorkload \<Rightarrow> AIWorkload \<Rightarrow> AIWorkload" where
  "rebase_status L after fresh =
     fresh\<lparr>w_status := (w_status after)
       \<lparr>st_conditions := preserveUnmanagedConditions L (w_conditions after) (w_conditions fresh)\<rparr>\<rparr>"

definition patchStatus ::
  "lib \<Rightarrow> 's reconciler \<Rightarrow> AIWorkload \<Rightarrow> AIWorkload \<Rightarrow> 's world \<Rightarrow> (go_error + bool) \<times> AIWorkload \<times> 's world" where
  "patchStatus L r before after w =
     (if SemanticEqualStatus L (w_status before) (w_status after) then (Inr False, after, w)
      else (case patch_status_call r before after w of
          ((None, after), w) \<Rightarrow> (Inr True, after, w)
        | ((Some err, after), w) \<Rightarrow>
            if \<not> IsConflict err then (Inl err, after, w)
            else (case call_get ''AIWorkload'' (cl_getWorkload (rc_client r)) (w_namespace after, w_name after) w of
                (Inl e, w) \<Rightarrow> (Inl e, after, w)
              | (Inr freshBefore, w) \<Rightarrow>
                  if w_generation freshBefore \<noteq> w_generation after then (Inl err, after, w)
                  else let fresh = rebase_status L after freshBefore in
                    if SemanticEqualStatus L (w_status freshBefore) (w_status fresh) then (Inr False, after, w)
                    else (case patch_status_call r freshBefore fresh w of
                        ((None, _), w) \<Rightarrow> (Inr True, after, w)
                      | ((Some e, _), w) \<Rightarrow> (Inl e, after, w)))))"

subsection \<open>Reporting a failure\<close>

text \<open>
  The reason, message and permanence of a failure: each \<open>if\<close> of \<open>reportFailure\<close> overrides what the
  ones before it have set.
\<close>

definition classify_failure :: "go_error \<Rightarrow> string \<times> string \<times> bool" where
  "classify_failure cause =
     (let f = (''ReconcileFailed'', ''Kubernetes API operation failed; inspect access, availability and controller logs.'', False);
          f = (if errors_Is cause ErrOwnershipConflict
               then (''ResourceOwnershipConflict'', ''A child name is occupied by a resource not controlled by this AIWorkload UID; resolve ownership without adoption.'', True)
               else f);
          f = (if errors_Is cause ErrInvalidPlan \<or> IsInvalid cause
               then (''InvalidConfiguration'', ''Desired resource configuration is invalid; review the specification and builder contract.'', True)
               else f);
          f = (if errors_Is cause ErrImmutableSelector
               then (''ResourceOwnershipConflict'', ''The owned Deployment has an incompatible immutable selector; administrative resolution is required. Automatic deletion or replacement is disabled.'', True)
               else f);
          f = (if errors_Is cause ErrImmutableServiceAllocation
               then (''ResourceOwnershipConflict'', ''The owned Service has an incompatible immutable cluster allocation; administrative resolution is required. Automatic deletion or replacement is disabled.'', True)
               else f);
          f = (if errors_Is cause ErrSecretNotFound
               then (''SecretNotFound'', ''One or more referenced Secrets are unavailable in the workload namespace.'', True)
               else f);
          f = (case errors_As tenant_error cause of Some (reason, message) \<Rightarrow> (reason, message, True) | None \<Rightarrow> f);
          f = (case errors_As external_secret_error cause of Some (reason, message) \<Rightarrow> (reason, message, True) | None \<Rightarrow> f);
          f = (case errors_As exposure_error cause of Some (reason, message) \<Rightarrow> (reason, message, True) | None \<Rightarrow> f)
      in if IsForbidden cause \<and> Contains (ToLower (error_text cause)) ''exceeded quota''
         then (''QuotaExceeded'', ''Tenant quota blocked an AWCP child; reduce requested resources or ask a platform administrator to adjust the tenant profile.'', snd (snd f))
         else f)"

text \<open>The three conditions of the loop, for the reason and message of the failure.\<close>

definition set_failure_conditions :: "lib \<Rightarrow> AIWorkload \<Rightarrow> string \<Rightarrow> string \<Rightarrow> bool \<Rightarrow> AIWorkload" where
  "set_failure_conditions L p reason message permanent =
     fold (\<lambda>t p.
         let value = ConditionUnknown;
             value = (if permanent then ConditionFalse else value);
             value = (if t = ''Degraded'' then ConditionTrue else value)
         in set_condition L p t value reason message)
       [conditionReady, conditionProgressing, conditionDegraded] p"

text \<open>All conditions of the report: the three above, and the one of the component that failed.\<close>

definition failure_conditions :: "lib \<Rightarrow> AIWorkload \<Rightarrow> go_error \<Rightarrow> AIWorkload" where
  "failure_conditions L p cause =
     (case classify_failure cause of (reason, message, permanent) \<Rightarrow>
        let p = set_failure_conditions L p reason message permanent;
            p = (if errors_As tenant_error cause \<noteq> None
                 then set_condition L p conditionTenantReady ConditionFalse reason message else p);
            p = (if errors_As external_secret_error cause \<noteq> None
                 then set_condition L p conditionExternalSecretsReady ConditionFalse reason message else p)
        in if errors_As exposure_error cause \<noteq> None
           then set_condition L p conditionExposureReady ConditionFalse reason message else p)"

text \<open>The status \<open>reportFailure\<close> computes for the failure, before it is patched.\<close>

definition failure_status :: "lib \<Rightarrow> AIWorkload \<Rightarrow> go_error \<Rightarrow> AIWorkload" where
  "failure_status L p cause =
     (let p = (if IsNotFound cause then p\<lparr>w_status := (w_status p)\<lparr>st_readyReplicas := 0\<rparr>\<rparr> else p);
          p = failure_conditions L p cause;
          p = p\<lparr>w_status := (w_status p)\<lparr>st_observedGeneration := w_generation p,
                                          st_desiredReplicas := desiredReplicas p\<rparr>\<rparr>
      in if \<not> ServiceEnabled (Some p) then p\<lparr>w_status := (w_status p)\<lparr>st_endpoint := ''''\<rparr>\<rparr> else p)"

definition reportFailure ::
  "lib \<Rightarrow> 's reconciler \<Rightarrow> AIWorkload \<Rightarrow> go_error \<Rightarrow> 's world \<Rightarrow> (Result \<times> go_error option) \<times> 's world" where
  "reportFailure L r p cause w =
     (case classify_failure cause of (reason, message, permanent) \<Rightarrow>
        case patchStatus L r p (failure_status L p cause) w of
          (Inl err, _, w) \<Rightarrow> ((no_requeue, retryError (Some err)), w)
        | (Inr changed, _, w) \<Rightarrow>
            let w = (if changed \<and> rc_recorder r then emit (EventE ''Warning'' reason ''Reconcile'' message) w else w);
                w = (if rc_telemetry r then emit (FailureMetricE reason) w else w)
            in if permanent then ((\<lparr>requeueAfter = 60\<rparr>, None), w)
               else ((no_requeue, retryError (Some cause)), w))"

subsection \<open>The retry error\<close>

definition retry_categories :: "string list" where
  "retry_categories =
     [''Conflict'', ''AlreadyExists'', ''Forbidden'', ''Timeout'', ''Throttled'', ''UnexpectedError'']"

lemma retryError_Some:
  obtains c where "retryError (Some e) = Some (SafeRetry e c)" and "c \<in> set retry_categories"
  by (simp add: retry_categories_def)

subsection \<open>Unmanaged conditions\<close>

lemma preserve_find:
  assumes "find_condition_law L"
  shows "find (\<lambda>c. c_type c = t) (preserveUnmanagedConditions L desired current) =
     (case find (\<lambda>c. c_type c = t) desired of
        Some d \<Rightarrow> Some d
      | None \<Rightarrow> if t \<in> set managed_condition_types then None else find (\<lambda>c. c_type c = t) current)"
  unfolding preserveUnmanagedConditions_def
proof (induction current arbitrary: desired)
  case Nil
  then show ?case by (simp split: option.splits)
next
  case (Cons c cs)
  have app: "find P (xs @ [y]) = (case find P xs of Some z \<Rightarrow> Some z | None \<Rightarrow> if P y then Some y else None)"
    for P :: "Condition \<Rightarrow> bool" and xs y
    by (induction xs) simp_all
  from assms show ?case
    by (auto simp: Cons.IH find_condition_law_def app split: option.splits)
qed

lemma preserve_prefix: "\<exists>rest. preserveUnmanagedConditions L desired current = desired @ rest \<and> set rest \<subseteq> set current"
  unfolding preserveUnmanagedConditions_def
proof (induction current arbitrary: desired)
  case (Cons c cs)
  from Cons [of desired] Cons [of "desired @ [c]"] show ?case by fastforce
qed simp

subsection \<open>The calls of a status patch\<close>

text \<open>A status patch leaves the metadata and the specification as the base object has them.\<close>

fun status_only :: "effect \<Rightarrow> bool" where
  "status_only (StatusPatchE before after) = (w_meta after = w_meta before \<and> w_spec after = w_spec before)"
| "status_only _ = False"

lemma rebase_status_simps [simp, frame_simps]:
  "w_meta (rebase_status L after fresh) = w_meta fresh" "w_spec (rebase_status L after fresh) = w_spec fresh"
  "w_conditions (rebase_status L after fresh) =
     preserveUnmanagedConditions L (w_conditions after) (w_conditions fresh)"
  by (simp_all add: rebase_status_def)

text \<open>The ways through \<open>patchStatus\<close>; \<open>left\<close> is the object as the first patch leaves it.\<close>

inductive status_patch_trace ::
  "lib \<Rightarrow> 's client \<Rightarrow> AIWorkload \<Rightarrow> AIWorkload \<Rightarrow> AIWorkload \<Rightarrow> go_error + bool \<Rightarrow> effect list \<Rightarrow> bool"
  for L c before after where
  nothing: "SemanticEqualStatus L (w_status before) (w_status after) \<Longrightarrow>
     status_patch_trace L c before after after (Inr False) []"
| accepted: "status_patch_trace L c before after left (Inr True) [StatusPatchE before after]"
| refused: "\<not> IsConflict e \<Longrightarrow> status_patch_trace L c before after left (Inl e) [StatusPatchE before after]"
| unreadable: "status_patch_trace L c before after left (Inl e)
     [StatusPatchE before after, ReadE ''AIWorkload'' (w_namespace left, w_name left)]"
| superseded: "IsConflict e \<Longrightarrow> status_patch_trace L c before after left (Inl e)
     [StatusPatchE before after, ReadE ''AIWorkload'' (w_namespace left, w_name left)]"
| agreed: "cl_getWorkload c s (w_namespace left, w_name left) = (Inr fresh, s') \<Longrightarrow>
     w_generation fresh = w_generation left \<Longrightarrow>
     SemanticEqualStatus L (w_status fresh) (w_status (rebase_status L left fresh)) \<Longrightarrow>
     status_patch_trace L c before after left (Inr False)
     [StatusPatchE before after, ReadE ''AIWorkload'' (w_namespace left, w_name left)]"
| retried: "cl_getWorkload c s (w_namespace left, w_name left) = (Inr fresh, s') \<Longrightarrow>
     w_generation fresh = w_generation left \<Longrightarrow>
     status_patch_trace L c before after left (Inr True)
       [StatusPatchE before after, ReadE ''AIWorkload'' (w_namespace left, w_name left),
        StatusPatchE fresh (rebase_status L left fresh)]"
| retry_refused: "cl_getWorkload c s (w_namespace left, w_name left) = (Inr fresh, s') \<Longrightarrow>
     w_generation fresh = w_generation left \<Longrightarrow>
     status_patch_trace L c before after left (Inl e)
       [StatusPatchE before after, ReadE ''AIWorkload'' (w_namespace left, w_name left),
        StatusPatchE fresh (rebase_status L left fresh)]"

lemma patchStatus_trace:
  assumes "patchStatus L r before after w = (res, left, w')"
  shows "\<exists>es. wd_log w' = wd_log w @ es \<and> status_patch_trace L (rc_client r) before after left res es"
proof (cases "SemanticEqualStatus L (w_status before) (w_status after)")
  case True
  with assms show ?thesis by (auto simp: patchStatus_def intro: status_patch_trace.intros)
next
  case False
  obtain eo a1 w1 where c1: "patch_status_call r before after w = ((eo, a1), w1)" by (metis prod.exhaust)
  then have l1: "wd_log w1 = wd_log w @ [StatusPatchE before after]"
    unfolding patch_status_call_def by (rule call_log)
  obtain g w2 where c2: "call_get ''AIWorkload'' (cl_getWorkload (rc_client r)) (w_namespace a1, w_name a1) w1 = (g, w2)"
    by fastforce
  note l2 = call_get_log [OF c2]
  from c2 obtain s2 where read: "cl_getWorkload (rc_client r) (wd_env w1) (w_namespace a1, w_name a1) = (g, s2)"
    by (auto simp: call_get_def call_def split: prod.splits)
  have l3: "wd_log w3 = wd_log w2 @ [StatusPatchE f f']" if "patch_status_call r f f' w2 = (y, w3)" for f f' y w3
    using that unfolding patch_status_call_def by (rule call_log)
  show ?thesis
    using assms False c1 c2 l1 l2 read
    by (auto simp: patchStatus_def Let_def split: option.splits if_splits sum.splits prod.splits dest!: l3
        intro: status_patch_trace.intros)
qed

lemma status_patch_trace_status_only:
  assumes "status_patch_trace L c before after left res es"
    and "w_meta after = w_meta before" "w_spec after = w_spec before"
  shows "list_all (\<lambda>e. status_only e \<or> e = ReadE ''AIWorkload'' (w_namespace left, w_name left)) es"
  using assms by (cases rule: status_patch_trace.cases) auto

subsection \<open>The classification and the failure status\<close>

text \<open>A failure that retrying cannot repair.\<close>

definition permanent_cause :: "go_error \<Rightarrow> bool" where
  "permanent_cause e =
     (errors_Is e ErrOwnershipConflict \<or> errors_Is e ErrInvalidPlan \<or> IsInvalid e
      \<or> errors_Is e ErrImmutableSelector \<or> errors_Is e ErrImmutableServiceAllocation
      \<or> errors_Is e ErrSecretNotFound \<or> errors_As tenant_error e \<noteq> None
      \<or> errors_As external_secret_error e \<noteq> None \<or> errors_As exposure_error e \<noteq> None)"

lemma classify_permanent: "snd (snd (classify_failure e)) = permanent_cause e"
  by (auto simp: classify_failure_def Let_def permanent_cause_def split: option.splits prod.splits)

lemma set_failure_conditions_eq:
  "set_failure_conditions L p reason message permanent =
     set_condition L
       (set_condition L
         (set_condition L p conditionReady (if permanent then ''False'' else ''Unknown'') reason message)
         conditionProgressing (if permanent then ''False'' else ''Unknown'') reason message)
       conditionDegraded ''True'' reason message"
  by (simp add: set_failure_conditions_def condition_types)

lemma failure_conditions_frame: "\<exists>cs. failure_conditions L p e = set_conditions p cs"
proof -
  have step: "\<exists>cs. set_condition L q t s r m = set_conditions p cs" if "\<exists>cs. q = set_conditions p cs" for q t s r m
    using that by (auto simp: set_condition_def set_conditions_def)
  have "\<exists>cs. p = set_conditions p cs" by (rule exI [of _ "w_conditions p"]) (simp add: set_conditions_def)
  then show ?thesis
    unfolding failure_conditions_def Let_def set_failure_conditions_eq
    by (cases "classify_failure e") (simp add: step)
qed

lemma failure_conditions_fields [simp]:
  "w_meta (failure_conditions L p e) = w_meta p" "w_spec (failure_conditions L p e) = w_spec p"
  "st_readyReplicas (w_status (failure_conditions L p e)) = st_readyReplicas (w_status p)"
  using failure_conditions_frame [of L p e] by (auto simp: set_conditions_def)

lemma failure_status_desired [simp, frame_simps]:
  "w_meta (failure_status L p e) = w_meta p" "w_spec (failure_status L p e) = w_spec p"
  by (simp_all add: failure_status_def Let_def)

lemma failure_status_counters:
  "st_observedGeneration (w_status (failure_status L p e)) = w_generation p"
  "st_desiredReplicas (w_status (failure_status L p e)) = desiredReplicas p"
  "\<not> ServiceEnabled (Some p) \<Longrightarrow> st_endpoint (w_status (failure_status L p e)) = ''''"
  by (simp_all add: failure_status_def Let_def desiredReplicas_def)

lemma failure_status_missing_child:
  "IsNotFound e \<Longrightarrow> st_readyReplicas (w_status (failure_status L p e)) = 0"
  by (simp add: failure_status_def Let_def)

text \<open>The conditions do not depend on the other fields of the status.\<close>

definition same_conditions :: "AIWorkload \<Rightarrow> AIWorkload \<Rightarrow> bool" where
  "same_conditions q p = (w_meta q = w_meta p \<and> w_conditions q = w_conditions p)"

lemma same_conditions_set:
  "same_conditions q p \<Longrightarrow> same_conditions (set_condition L q t s r m) (set_condition L p t s r m)"
  by (simp add: same_conditions_def set_condition_def condition_for_def)

lemma failure_status_conditions: "w_conditions (failure_status L p e) = w_conditions (failure_conditions L p e)"
proof -
  let ?q = "p\<lparr>w_status := (w_status p)\<lparr>st_readyReplicas := 0\<rparr>\<rparr>"
  have "same_conditions ?q p" by (simp add: same_conditions_def)
  then have "same_conditions (failure_conditions L ?q e) (failure_conditions L p e)"
    unfolding failure_conditions_def Let_def set_failure_conditions_eq
    by (cases "classify_failure e") (simp add: same_conditions_set)
  then show ?thesis by (simp add: failure_status_def Let_def same_conditions_def)
qed

lemma failure_status_reports:
  "reports L (failure_status L p e) t s r m = reports L (failure_conditions L p e) t s r m"
  by (simp add: reports_def failure_status_conditions condition_for_def)

lemma failure_reports:
  assumes "condition_laws L" and "classify_failure e = (reason, message, permanent)"
  shows "reports L (failure_status L p e) conditionReady (if permanent then ''False'' else ''Unknown'') reason message"
    and "reports L (failure_status L p e) conditionProgressing (if permanent then ''False'' else ''Unknown'') reason message"
    and "reports L (failure_status L p e) conditionDegraded ''True'' reason message"
  using assms unfolding failure_status_reports
  by (simp_all add: failure_conditions_def Let_def set_failure_conditions_eq set_condition_reports
    set_condition_reports_other condition_types)

lemma failure_keeps_unmanaged:
  assumes "condition_laws L" and "t \<notin> set managed_condition_types"
  shows "condition_of L (failure_status L p e) t = condition_of L p t"
proof -
  have "condition_of L (failure_status L p e) t = condition_of L (failure_conditions L p e) t"
    by (simp add: condition_of_def failure_status_conditions)
  with assms show ?thesis
    by (simp add: failure_conditions_def Let_def set_failure_conditions_eq condition_of_set
        managed_condition_types_def split: prod.splits)
qed

subsection \<open>What a failure report returns and does\<close>

lemma reportFailure_result:
  assumes "reportFailure L r p cause w = ((res, err), w')"
    and "patchStatus L r p (failure_status L p cause) w = (x, left, w1)"
  shows "(res, err) =
     (case x of
        Inl e \<Rightarrow> (no_requeue, retryError (Some e))
      | Inr _ \<Rightarrow> if permanent_cause cause then (\<lparr>requeueAfter = 60\<rparr>, None) else (no_requeue, retryError (Some cause)))"
proof -
  obtain reason message where "classify_failure cause = (reason, message, permanent_cause cause)"
    using classify_permanent [of cause] by (cases "classify_failure cause") auto
  with assms show ?thesis
    by (cases x; cases "permanent_cause cause") (simp_all add: reportFailure_def Let_def del: retryError.simps)
qed

fun report_effect :: "object_key \<Rightarrow> effect \<Rightarrow> bool" where
  "report_effect key (ReadE kind k) = (kind = ''AIWorkload'' \<and> k = key)"
| "report_effect key (StatusPatchE before after) =
     ((w_namespace before, w_name before) = key \<and> w_meta after = w_meta before \<and> w_spec after = w_spec before)"
| "report_effect key (EventE _ _ _ _) = True"
| "report_effect key (FailureMetricE _) = True"
| "report_effect key _ = False"

text \<open>
  What the API promises of \<open>Status().Patch\<close>: the object it leaves is the one that was patched, and it
  is left alone when the call fails; and of \<open>Get\<close>: the object has the key it was asked for.
\<close>

definition workload_client_laws :: "'s client \<Rightarrow> bool" where
  "workload_client_laws c =
     ((\<forall>s before after res left s'. cl_patchStatus c s before after = ((res, left), s') \<longrightarrow>
         w_name left = w_name after \<and> w_namespace left = w_namespace after \<and> w_uid left = w_uid after
         \<and> (res \<noteq> None \<longrightarrow> left = after))
      \<and> (\<forall>s ns name p s'. cl_getWorkload c s (ns, name) = (Inr p, s') \<longrightarrow>
         w_namespace p = ns \<and> w_name p = name))"

abbreviation workload_key :: "AIWorkload \<Rightarrow> object_key" where
  "workload_key p \<equiv> (w_namespace p, w_name p)"

lemma get_workload_key:
  assumes "workload_client_laws c" and "cl_getWorkload c s key = (Inr p, s')"
  shows "workload_key p = key"
  using assms unfolding workload_client_laws_def by (cases key) blast

lemma patch_status_call_left:
  assumes "workload_client_laws (rc_client r)" and "patch_status_call r before after w = ((e, left), w')"
  shows "workload_key left = workload_key after" and "w_uid left = w_uid after" and "e \<noteq> None \<Longrightarrow> left = after"
proof -
  obtain s where "cl_patchStatus (rc_client r) (wd_env w) before after = ((e, left), s)"
    using assms(2) by (auto simp: patch_status_call_def call_def split: prod.splits)
  with assms(1) have "w_name left = w_name after \<and> w_namespace left = w_namespace after
      \<and> w_uid left = w_uid after \<and> (e \<noteq> None \<longrightarrow> left = after)"
    unfolding workload_client_laws_def by blast
  then show "workload_key left = workload_key after" "w_uid left = w_uid after" "e \<noteq> None \<Longrightarrow> left = after"
    by auto
qed

lemma patchStatus_cases:
  assumes "patchStatus L r before after w = (res, left, w')"
  obtains "res = Inr False" and "left = after" and "w' = w"
  | e w1 where "patch_status_call r before after w = ((e, left), w1)" and "res = Inr True \<or> e \<noteq> None"
  using assms
  by (auto simp: patchStatus_def Let_def split: if_splits prod.splits option.splits sum.splits)

lemma patchStatus_left:
  assumes "workload_client_laws (rc_client r)" and "patchStatus L r before after w = (res, left, w')"
  shows "workload_key left = workload_key after" and "w_uid left = w_uid after"
    and "res \<noteq> Inr True \<Longrightarrow> left = after"
  using patch_status_call_left [OF assms(1)] by (cases rule: patchStatus_cases [OF assms(2)]; metis)+

lemma patchStatus_effects:
  assumes "workload_client_laws (rc_client r)" and "patchStatus L r before after w = (res, left, w')"
    and "w_meta after = w_meta before" and "w_spec after = w_spec before"
  shows "adds (report_effect (workload_key before)) w w'"
proof -
  from patchStatus_trace [OF assms(2)] obtain es where
    log: "wd_log w' = wd_log w @ es" and t: "status_patch_trace L (rc_client r) before after left res es" by blast
  have left: "w_namespace left = w_namespace before" "w_name left = w_name before"
    using patchStatus_left(1) [OF assms(1,2)] assms(3) by simp_all
  have fresh: "report_effect (workload_key before) (StatusPatchE x (rebase_status L left x))"
    if "cl_getWorkload (rc_client r) s (workload_key left) = (Inr x, s')" for s s' x
    using get_workload_key [OF assms(1) that] left by simp
  from t have "list_all (report_effect (workload_key before)) es"
  proof cases
    case (retried s fresh s')
    with fresh [OF retried(3)] left assms(3,4) show ?thesis by simp
  next
    case (retry_refused s fresh s' e)
    with fresh [OF retry_refused(3)] left assms(3,4) show ?thesis by simp
  qed (use left assms(3,4) in simp_all)
  with log show ?thesis unfolding adds_def by blast
qed

lemma reportFailure_effects:
  assumes "workload_client_laws (rc_client r)" and "reportFailure L r p cause w = (res, w')"
  shows "adds (report_effect (workload_key p)) w w'"
proof -
  obtain x left w1 where c: "patchStatus L r p (failure_status L p cause) w = (x, left, w1)"
    by (metis prod.exhaust)
  from patchStatus_effects [OF assms(1) c] have 1: "adds (report_effect (workload_key p)) w w1" by simp
  from assms(2) c have "adds (report_effect (workload_key p)) w1 w'"
    by (auto simp: reportFailure_def Let_def split: prod.splits sum.splits if_splits
        intro: adds_emit adds_trans [OF adds_emit adds_emit])
  with 1 show ?thesis by (rule adds_trans)
qed

end
