(* ===== verification/Observe.thy ===== *)
theory Observe
  imports Failures
begin

text \<open>
  \<open>observeAndReportStatus\<close> of \<open>internal/controller/status.go\<close>: the status of a successful
  reconciliation. \<open>observed_status\<close> is what it writes once the children are read.
\<close>

definition observed_status :: "lib \<Rightarrow> AIWorkload \<Rightarrow> Deployment \<Rightarrow> AIWorkload" where
  "observed_status L p deployment =
     (let p = p\<lparr>w_status := (w_status p)\<lparr>st_observedGeneration := w_generation p,
                                          st_desiredReplicas := desiredReplicas p,
                                          st_readyReplicas := dst_readyReplicas (d_status deployment),
                                          st_endpoint := ServiceEndpoint p\<rparr>\<rparr>
      in setAssessmentConditions L p (assessDeployment p deployment))"

definition observeAndReportStatus ::
  "lib \<Rightarrow> 's reconciler \<Rightarrow> AIWorkload \<Rightarrow> 's world \<Rightarrow> go_error option \<times> AIWorkload \<times> 's world" where
  "observeAndReportStatus L r p w =
     (case call_get ''Deployment'' (cl_getDeployment (rc_client r)) (child_key p) w of
        (Inl e, w) \<Rightarrow> (Some (Errorf ''observe workload Deployment'' e), p, w)
      | (Inr deployment, w) \<Rightarrow>
          let before = p in
          (case observeAutoscaling L r p w of
             (Inl e, p, w) \<Rightarrow> (Some (Errorf ''observe autoscaling'' e), p, w)
           | (Inr _, p, w) \<Rightarrow>
               (case observeAvailability L r p w of
                  (Inl e, p, w) \<Rightarrow> (Some (Errorf ''observe availability'' e), p, w)
                | (Inr _, p, w) \<Rightarrow>
                    let wasReady = IsStatusConditionTrue L (w_conditions before) conditionReady;
                        assessment = assessDeployment p deployment
                    in (case patchStatus L r before (observed_status L p deployment) w of
                          (Inl e, p, w) \<Rightarrow> (Some e, p, w)
                        | (Inr changed, p, w) \<Rightarrow>
                            (None, p,
                             if changed \<and> \<not> wasReady \<and> sa_ready assessment = ConditionTrue \<and> rc_recorder r
                             then emit (EventE ''Normal'' ''WorkloadReady'' ''Status''
                                    ''Current Deployment rollout is available at the desired replica count.'') w
                             else w)))))"

subsection \<open>The status that is reported\<close>

lemma assessDeployment_spec_only [simp]:
  "assessDeployment (p\<lparr>w_status := st\<rparr>) d = assessDeployment p d"
  by (simp add: assessDeployment_def desiredReplicas_def)

lemma observed_status_eq:
  "observed_status L p d =
     setAssessmentConditions L
       (p\<lparr>w_status := (w_status p)\<lparr>st_observedGeneration := w_generation p, st_desiredReplicas := desiredReplicas p,
            st_readyReplicas := dst_readyReplicas (d_status d), st_endpoint := ServiceEndpoint p\<rparr>\<rparr>)
       (assessDeployment p d)"
  by (simp add: observed_status_def Let_def)

lemma observed_status_desired [simp, frame_simps]:
  "w_meta (observed_status L p d) = w_meta p" "w_spec (observed_status L p d) = w_spec p"
  by (simp_all add: observed_status_eq)

lemma set_condition_counters [simp]:
  "st_observedGeneration (w_status (set_condition L p t s r m)) = st_observedGeneration (w_status p)"
  "st_desiredReplicas (w_status (set_condition L p t s r m)) = st_desiredReplicas (w_status p)"
  "st_readyReplicas (w_status (set_condition L p t s r m)) = st_readyReplicas (w_status p)"
  "st_endpoint (w_status (set_condition L p t s r m)) = st_endpoint (w_status p)"
  by (simp_all add: set_condition_def)

lemma observed_status_counters:
  "st_observedGeneration (w_status (observed_status L p d)) = w_generation p"
  "st_desiredReplicas (w_status (observed_status L p d)) = desiredReplicas p"
  "st_readyReplicas (w_status (observed_status L p d)) = dst_readyReplicas (d_status d)"
  "st_endpoint (w_status (observed_status L p d)) = ServiceEndpoint p"
  by (simp_all add: observed_status_eq setAssessmentConditions_eq)

lemma observed_status_reports:
  fixes p :: AIWorkload and d :: Deployment
  assumes "condition_laws L"
  defines "a \<equiv> assessDeployment p d"
  shows "reports L (observed_status L p d) conditionReady (sa_ready a) (sa_reason a) (sa_message a)"
    and "reports L (observed_status L p d) conditionProgressing (sa_progressing a) (sa_reason a) (sa_message a)"
    and "reports L (observed_status L p d) conditionDegraded (sa_degraded a) (sa_reason a) (sa_message a)"
  unfolding observed_status_eq a_def by (rule setAssessmentConditions_reports [OF assms(1)])+

lemma observed_status_other:
  assumes "condition_laws L" and "t \<notin> {conditionReady, conditionProgressing, conditionDegraded}"
  shows "condition_of L (observed_status L p d) t = condition_of L p t"
  using assms by (simp add: observed_status_eq setAssessmentConditions_other) (simp add: condition_of_def)

subsection \<open>The calls of an observation\<close>

text \<open>What reading the children and reporting the status may do.\<close>

definition observe_effect :: "AIWorkload \<Rightarrow> effect \<Rightarrow> bool" where
  "observe_effect p e = (read_in (w_namespace p) e \<or> report_effect (workload_key p) e)"

lemma observe_effect_cong: "w_meta q = w_meta p \<Longrightarrow> observe_effect q = observe_effect p"
  by (simp add: observe_effect_def fun_eq_iff)

lemma adds_observe_read [log_intros]: "adds (read_in (w_namespace p)) w w' \<Longrightarrow> adds (observe_effect p) w w'"
  by (erule adds_mono) (simp add: observe_effect_def)

lemma adds_observe_report [log_intros]: "adds (report_effect (workload_key p)) w w' \<Longrightarrow> adds (observe_effect p) w w'"
  by (erule adds_mono) (simp add: observe_effect_def)

text \<open>The ways through \<open>observeAndReportStatus\<close>.\<close>

lemma observeAndReportStatus_cases [consumes 1, case_names unread scaling available report]:
  assumes "observeAndReportStatus L r p w = (res, p', w')"
  obtains e where "call_get ''Deployment'' (cl_getDeployment (rc_client r)) (child_key p) w = (Inl e, w')"
      and "res = Some (Errorf ''observe workload Deployment'' e)" and "p' = p"
  | d w1 e where "call_get ''Deployment'' (cl_getDeployment (rc_client r)) (child_key p) w = (Inr d, w1)"
      and "observeAutoscaling L r p w1 = (Inl e, p', w')" and "res = Some (Errorf ''observe autoscaling'' e)"
  | d w1 p1 w2 e where "call_get ''Deployment'' (cl_getDeployment (rc_client r)) (child_key p) w = (Inr d, w1)"
      and "observeAutoscaling L r p w1 = (Inr (), p1, w2)"
      and "observeAvailability L r p1 w2 = (Inl e, p', w')" and "res = Some (Errorf ''observe availability'' e)"
  | d w1 p1 w2 p2 w3 x w4 where "call_get ''Deployment'' (cl_getDeployment (rc_client r)) (child_key p) w = (Inr d, w1)"
      and "observeAutoscaling L r p w1 = (Inr (), p1, w2)" and "observeAvailability L r p1 w2 = (Inr (), p2, w3)"
      and "patchStatus L r p (observed_status L p2 d) w3 = (x, p', w4)"
      and "w' = w4 \<or> (w' = emit (EventE ''Normal'' ''WorkloadReady'' ''Status''
              ''Current Deployment rollout is available at the desired replica count.'') w4
            \<and> x = Inr True \<and> \<not> IsStatusConditionTrue L (w_conditions p) conditionReady
            \<and> sa_ready (assessDeployment p2 d) = ''True'' \<and> rc_recorder r)"
      and "res = (case x of Inl e \<Rightarrow> Some e | Inr _ \<Rightarrow> None)"
proof -
  obtain g w1 where g: "call_get ''Deployment'' (cl_getDeployment (rc_client r)) (child_key p) w = (g, w1)"
    by fastforce
  obtain s p1 w2 where s: "observeAutoscaling L r p w1 = (s, p1, w2)" by (metis prod.exhaust)
  obtain v p2 w3 where v: "observeAvailability L r p1 w2 = (v, p2, w3)" by (metis prod.exhaust)
  note run = assms [unfolded observeAndReportStatus_def Let_def]
  show ?thesis
  proof (cases g)
    case (Inl e)
    with g run show ?thesis by (intro that(1) [of e]) simp_all
  next
    case (Inr d)
    show ?thesis
    proof (cases s)
      case (Inl e)
      with g s run \<open>g = Inr d\<close> show ?thesis by (intro that(2) [of d w1 e]) simp_all
    next
      case s': (Inr u)
      show ?thesis
      proof (cases v)
        case (Inl e)
        with g s v run \<open>g = Inr d\<close> s' show ?thesis by (intro that(3) [of d w1 p1 w2 e]) simp_all
      next
        case v': (Inr u')
        obtain x p3 w4 where x: "patchStatus L r p (observed_status L p2 d) w3 = (x, p3, w4)" by (metis prod.exhaust)
        show ?thesis
          using g s v run \<open>g = Inr d\<close> s' v' x
          by (intro that(4) [of d w1 p1 w2 p2 w3 x w4]) (auto split: sum.splits if_splits)
      qed
    qed
  qed
qed

lemma observeAndReportStatus_effects:
  assumes "workload_client_laws (rc_client r)" and "observeAndReportStatus L r p w = (res, p', w')"
  shows "adds (observe_effect p) w w'"
  using assms(2)
proof (cases rule: observeAndReportStatus_cases)
  case (unread e)
  then show ?thesis by (simp add: adds_observe_read adds_read)
next
  case (scaling d w1 e)
  from adds_trans [OF adds_read [OF scaling(1)] autoscaling_observer.quiet [OF scaling(2)]]
  show ?thesis by (rule adds_observe_read)
next
  case (available d w1 p1 w2 e)
  from autoscaling_observer.keeps_desired(1) [OF available(2)] availability_observer.quiet [OF available(3)]
  have "adds (read_in (w_namespace p)) w2 w'" by simp
  with adds_read [OF available(1)] autoscaling_observer.quiet [OF available(2)] show ?thesis
    by (intro adds_observe_read) (blast intro: adds_trans)
next
  case (report d w1 p1 w2 p2 w3 x w4)
  note k1 = autoscaling_observer.keeps_desired [OF report(2)]
  note k2 = availability_observer.keeps_desired [OF report(3)]
  from availability_observer.quiet [OF report(3)] k1 have "adds (read_in (w_namespace p)) w2 w3" by simp
  with adds_read [OF report(1)] autoscaling_observer.quiet [OF report(2)]
  have "adds (read_in (w_namespace p)) w w3" by (blast intro: adds_trans)
  moreover have "adds (report_effect (workload_key p)) w3 w4"
    using patchStatus_effects [OF assms(1) report(4)] k1 k2 by simp
  moreover have "adds (report_effect (workload_key p)) w4 w'"
    using report(5) by (auto intro: log_intros)
  ultimately show ?thesis by (meson log_intros)
qed

lemma observeAndReportStatus_left:
  assumes "workload_client_laws (rc_client r)" and "observeAndReportStatus L r p w = (res, p', w')"
  shows "workload_key p' = workload_key p" and "w_uid p' = w_uid p"
proof -
  from assms(2) have "workload_key p' = workload_key p \<and> w_uid p' = w_uid p"
  proof (cases rule: observeAndReportStatus_cases)
    case (report d w1 p1 w2 p2 w3 x w4)
    from patchStatus_left(1,2) [OF assms(1) report(4)] show ?thesis
      using autoscaling_observer.keeps_desired [OF report(2)]
        availability_observer.keeps_desired [OF report(3)] by simp
  next
    case (available d w1 p1 w2 e)
    from autoscaling_observer.keeps_desired [OF available(2)] availability_observer.untouched [OF available(3)]
    show ?thesis by simp
  qed (auto dest: autoscaling_observer.untouched)
  then show "workload_key p' = workload_key p" "w_uid p' = w_uid p" by auto
qed

end
