(* ===== verification/Tenant.thy ===== *)
theory Tenant
  imports Reconciler
begin

text \<open>
  \<open>validateTenant\<close> of \<open>internal/controller/aiworkload_controller.go\<close>: the namespace-local tenant
  profile as policy boundary; and \<open>validateSecretReferences\<close> of \<open>secrets.go\<close>. A key missing in the
  data of a ConfigMap reads as the empty string.
\<close>

definition tenantProfileConfigMap :: string where
  "tenantProfileConfigMap = ''awcp-tenant-profile''"

definition map_value :: "(string, string) fmap \<Rightarrow> string \<Rightarrow> string" where
  "map_value data key = deref (fmlookup data key) ''''"

definition validateTenant :: "lib \<Rightarrow> 's reconciler \<Rightarrow> ('s, unit) workload_step" where
  "validateTenant L r p w =
     (if sp_tenant (w_spec p) = '''' then (Inr (), remove_condition L p conditionTenantReady, w)
      else let reader = reader_or_client (rc_tenantReader r) (rc_client r) in
        (case call_get ''ConfigMap'' (rd_getConfigMapData reader) (w_namespace p, tenantProfileConfigMap) w of
           (Inl e, w') \<Rightarrow>
             if IsNotFound e then
               (Inl (TenantConfigurationError ''TenantNotConfigured''
                  ''This namespace has no GitOps-managed AWCP tenant profile.''), p, w')
             else (Inl (Errorf ''read tenant profile'' e), p, w')
         | (Inr data, w') \<Rightarrow>
             if map_value data ''tenant'' \<noteq> sp_tenant (w_spec p) then
               (Inl (TenantConfigurationError ''TenantMismatch''
                  ''spec.tenant must match the tenant profile bound to this namespace.''), p, w')
             else if map_value data ''profile'' \<noteq> ''small'' \<and> map_value data ''profile'' \<noteq> ''medium''
                     \<and> map_value data ''profile'' \<noteq> ''large'' then
               (Inl (TenantConfigurationError ''TenantProfileInvalid''
                  ''The namespace tenant profile must select small, medium, or large.''), p, w')
             else
               (Inr (), set_condition L p conditionTenantReady ConditionTrue ''TenantConfigured''
                  ''The workload tenant matches the namespace-local GitOps profile.'', w')))"

text \<open>The loop of \<open>validateSecretReferences\<close>; \<open>ns\<close> is the namespace of the workload.\<close>

fun check_secrets :: "'s client \<Rightarrow> string \<Rightarrow> SecretReference list \<Rightarrow> 's world \<Rightarrow> go_error option \<times> 's world" where
  "check_secrets c ns [] w = (None, w)"
| "check_secrets c ns (name # names) w =
     (case call_get ''Secret'' (cl_getSecretMetadata c) (ns, name) w of
        (Inl e, w') \<Rightarrow>
          if IsNotFound e then (Some ErrSecretNotFound, w')
          else (Some (Errorf ''get referenced Secret metadata'' e), w')
      | (Inr _, w') \<Rightarrow> check_secrets c ns names w')"

definition validateSecretReferences :: "'s reconciler \<Rightarrow> AIWorkload \<Rightarrow> 's world \<Rightarrow> go_error option \<times> 's world" where
  "validateSecretReferences r p w = check_secrets (rc_client r) (w_namespace p) (sp_secretRefs (w_spec p)) w"

subsection \<open>Facts\<close>

interpretation tenant: condition_owner L conditionTenantReady "validateTenant L r" for L and r :: "'s reconciler"
  by unfold_locales
    (auto simp: validateTenant_def Let_def split: if_splits prod.splits sum.splits dest: adds_read)

text \<open>The profile a namespace grants, as a tenant and a size.\<close>

definition tenant_admitted :: "(string, string) fmap \<Rightarrow> string \<Rightarrow> bool" where
  "tenant_admitted data tenant =
     (map_value data ''tenant'' = tenant \<and> map_value data ''profile'' \<in> {''small'', ''medium'', ''large''})"

lemma validateTenant_admits:
  assumes "validateTenant L r p w = (Inr (), p', w')" and "sp_tenant (w_spec p) \<noteq> ''''"
  shows "\<exists>data. call_get ''ConfigMap'' (rd_getConfigMapData (reader_or_client (rc_tenantReader r) (rc_client r)))
       (w_namespace p, tenantProfileConfigMap) w = (Inr data, w') \<and> tenant_admitted data (sp_tenant (w_spec p))
       \<and> p' = set_condition L p conditionTenantReady ConditionTrue ''TenantConfigured''
                  ''The workload tenant matches the namespace-local GitOps profile.''"
  using assms
  by (auto simp: validateTenant_def Let_def tenant_admitted_def split: if_splits prod.splits sum.splits)

lemma check_secrets_effects:
  "check_secrets c ns names w = (r, w') \<Longrightarrow> adds (read_in ns) w w'"
proof (induction names arbitrary: w)
  case (Cons n ns')
  obtain a w1 where c: "call_get ''Secret'' (cl_getSecretMetadata c) (ns, n) w = (a, w1)" by fastforce
  from adds_read [OF c] Cons c show ?case
    by (auto split: sum.splits if_splits intro: adds_trans)
qed simp

text \<open>The reads of the loop, one after the other, up to the first that fails.\<close>

fun secrets_present :: "'s client \<Rightarrow> string \<Rightarrow> SecretReference list \<Rightarrow> 's \<Rightarrow> bool" where
  "secrets_present c ns [] s = True"
| "secrets_present c ns (n # names) s =
     (case cl_getSecretMetadata c s (ns, n) of (Inr _, s') \<Rightarrow> secrets_present c ns names s' | _ \<Rightarrow> False)"

lemma check_secrets_None_iff:
  "fst (check_secrets c ns names w) = None \<longleftrightarrow> secrets_present c ns names (wd_env w)"
proof (induction names arbitrary: w)
  case (Cons n ns')
  show ?case
    using Cons by (auto simp: call_get_def call_def split: prod.splits sum.splits)
qed simp

lemma check_secrets_reads:
  "check_secrets c ns names w = (None, w') \<Longrightarrow> wd_log w' = wd_log w @ map (\<lambda>n. ReadE ''Secret'' (ns, n)) names"
proof (induction names arbitrary: w)
  case (Cons n ns')
  obtain a w1 where c: "call_get ''Secret'' (cl_getSecretMetadata c) (ns, n) w = (a, w1)" by fastforce
  from call_get_log [OF c] Cons c show ?case
    by (auto split: sum.splits if_splits)
qed simp

end
