(* ===== verification/External_Secrets.thy ===== *)
theory External_Secrets
  imports Reconciler Res_Plan Sha256
begin

text \<open>
  \<open>internal/controller/external_secrets.go\<close>: the validation of External Secrets Operator objects,
  and the revision annotation that rolls the Deployment when a target Secret changes
  (\<open>externalSecretRevision\<close> of \<open>aiworkload_controller.go\<close>). A string is the list of its bytes.
\<close>

definition externalSecretRevisionKey :: string where
  "externalSecretRevisionKey = ''platform.example.io/external-secret-revision''"

definition externalSecretGVK :: GroupVersionKind where
  "externalSecretGVK = \<lparr>g_group = ''external-secrets.io'', g_version = ''v1'', g_kind = ''ExternalSecret''\<rparr>"

definition secretStoreGVK :: GroupVersionKind where
  "secretStoreGVK = \<lparr>g_group = ''external-secrets.io'', g_version = ''v1'', g_kind = ''SecretStore''\<rparr>"

record resolvedExternalSecret =
  re_targetSecret :: SecretReference
  re_resourceVersion :: string

text \<open>\<open>m[key]\<close> of a JSON object; \<open>None\<close> is the nil interface, which equals no string.\<close>

fun json_field :: "json \<Rightarrow> string \<Rightarrow> json option" where
  "json_field (JMap m) key = map_of m key"
| "json_field _ key = None"

definition readyCondition :: "lib \<Rightarrow> Unstructured \<Rightarrow> bool" where
  "readyCondition L u =
     (case NestedSlice L (u_object u) [''status'', ''conditions''] of
        NestedFound conditions \<Rightarrow>
          list_ex (\<lambda>c. json_field c ''type'' = Some (JString ''Ready'')
                        \<and> json_field c ''status'' = Some (JString ''True'')) conditions
      | _ \<Rightarrow> False)"

text \<open>The checks on the ExternalSecret object that need no further call.\<close>

definition store_reference :: "lib \<Rightarrow> Unstructured \<Rightarrow> go_error + string" where
  "store_reference L u =
     (case NestedString L (u_object u) [''spec'', ''secretStoreRef'', ''name''] of
        NestedFound storeName \<Rightarrow>
          if storeName = '''' then
            Inl (ExternalSecretConfigurationError ''ExternalSecretInvalid''
              ''The referenced ExternalSecret must select a namespace-local SecretStore.'')
          else if NestedString L (u_object u) [''spec'', ''secretStoreRef'', ''kind''] \<noteq> NestedFound ''SecretStore'' then
            Inl (ExternalSecretConfigurationError ''ExternalSecretStoreScopeInvalid''
              ''The referenced ExternalSecret must use kind: SecretStore; ClusterSecretStore is outside this workload boundary.'')
          else Inr storeName
      | _ \<Rightarrow> Inl (ExternalSecretConfigurationError ''ExternalSecretInvalid''
              ''The referenced ExternalSecret must select a namespace-local SecretStore.''))"

definition target_secret :: "lib \<Rightarrow> Unstructured \<Rightarrow> go_error + string" where
  "target_secret L u =
     (case NestedString L (u_object u) [''spec'', ''target'', ''name''] of
        NestedError \<Rightarrow> Inl (ExternalSecretConfigurationError ''ExternalSecretInvalid''
              ''The referenced ExternalSecret target configuration is invalid.'')
      | NestedAbsent \<Rightarrow> Inr (m_name (u_meta u))
      | NestedFound name \<Rightarrow> Inr (if name = '''' then m_name (u_meta u) else name))"

text \<open>One round of the loop of \<open>validateExternalSecrets\<close>.\<close>

definition resolve_reference ::
  "lib \<Rightarrow> 's reconciler \<Rightarrow> 's reader \<Rightarrow> AIWorkload \<Rightarrow> ExternalSecretReference \<Rightarrow> 's world
   \<Rightarrow> (go_error + resolvedExternalSecret) \<times> 's world" where
  "resolve_reference L r reader p reference w =
     (if es_targetSecret reference \<in> set (sp_secretRefs (w_spec p)) then
        (Inl (ExternalSecretConfigurationError ''ExternalSecretTargetDuplicate''
           ''An external Secret target must not duplicate a direct spec.secretRefs entry.''), w)
      else (case read_unstructured reader externalSecretGVK (w_namespace p, es_externalSecret reference) w of
          (Inl e, w) \<Rightarrow>
            if IsNotFound e then
              (Inl (ExternalSecretConfigurationError ''ExternalSecretNotFound''
                 ''A referenced ExternalSecret is unavailable in the workload namespace.''), w)
            else (Inl (Errorf ''get ExternalSecret metadata'' e), w)
        | (Inr externalSecret, w) \<Rightarrow>
            (case store_reference L externalSecret of
               Inl e \<Rightarrow> (Inl e, w)
             | Inr storeName \<Rightarrow>
                 (case read_unstructured reader secretStoreGVK (w_namespace p, storeName) w of
                    (Inl e, w) \<Rightarrow>
                      if IsNotFound e then
                        (Inl (ExternalSecretConfigurationError ''SecretStoreNotFound''
                           ''The referenced namespace-local SecretStore is unavailable.''), w)
                      else (Inl (Errorf ''get SecretStore metadata'' e), w)
                  | (Inr store, w) \<Rightarrow>
                      if \<not> readyCondition L store then
                        (Inl (ExternalSecretConfigurationError ''SecretStoreNotReady''
                           ''The referenced SecretStore is not Ready; inspect External Secrets Operator status.''), w)
                      else (case target_secret L externalSecret of
                          Inl e \<Rightarrow> (Inl e, w)
                        | Inr targetName \<Rightarrow>
                            if targetName \<noteq> es_targetSecret reference then
                              (Inl (ExternalSecretConfigurationError ''ExternalSecretTargetMismatch''
                                 ''spec.externalSecrets targetSecret must match the ExternalSecret target in the same namespace.''), w)
                            else if \<not> readyCondition L externalSecret then
                              (Inl (ExternalSecretConfigurationError ''ExternalSecretNotReady''
                                 ''The referenced ExternalSecret is not Ready; inspect External Secrets Operator status.''), w)
                            else (case call_get ''Secret'' (cl_getSecretMetadata (rc_client r)) (w_namespace p, targetName) w of
                                (Inl e, w) \<Rightarrow>
                                  if IsNotFound e then
                                    (Inl (ExternalSecretConfigurationError ''ExternalSecretTargetNotFound''
                                       ''The ready ExternalSecret target Secret is unavailable in the workload namespace.''), w)
                                  else (Inl (Errorf ''get ExternalSecret target metadata'' e), w)
                              | (Inr target, w) \<Rightarrow>
                                  (Inr \<lparr>re_targetSecret = es_targetSecret reference,
                                        re_resourceVersion = m_resourceVersion target\<rparr>, w)))))))"

fun resolve_references ::
  "lib \<Rightarrow> 's reconciler \<Rightarrow> 's reader \<Rightarrow> AIWorkload \<Rightarrow> ExternalSecretReference list \<Rightarrow> 's world
   \<Rightarrow> (go_error + resolvedExternalSecret list) \<times> 's world" where
  "resolve_references L r reader p [] w = (Inr [], w)"
| "resolve_references L r reader p (reference # references) w =
     (case resolve_reference L r reader p reference w of
        (Inl e, w) \<Rightarrow> (Inl e, w)
      | (Inr x, w) \<Rightarrow>
          (case resolve_references L r reader p references w of
             (Inl e, w) \<Rightarrow> (Inl e, w)
           | (Inr xs, w) \<Rightarrow> (Inr (x # xs), w)))"

definition external_secrets_unavailable :: go_error where
  "external_secrets_unavailable =
     ExternalSecretConfigurationError ''ExternalSecretsUnavailable''
       ''External Secrets Operator v1 APIs are unavailable; install ESO or remove spec.externalSecrets.''"

definition validateExternalSecrets :: "lib \<Rightarrow> 's reconciler \<Rightarrow> ('s, resolvedExternalSecret list) workload_step" where
  "validateExternalSecrets L r p w =
     (if sp_externalSecrets (w_spec p) = [] then
        (Inr [], remove_condition L p conditionExternalSecretsReady, w)
      else (case rc_capabilityLookup r of
          None \<Rightarrow> (Inl external_secrets_unavailable, p, w)
        | Some lookup \<Rightarrow>
            (case RequirementFor ExternalSecrets of
               None \<Rightarrow> (Inl (ErrorsNew ''external secrets capability contract is missing''), p, w)
             | Some requirement \<Rightarrow>
                 (case Detect lookup requirement w of (observation, w) \<Rightarrow>
                    if ob_state observation = Unavailable then (Inl external_secrets_unavailable, p, w)
                    else if ob_state observation = Unknown then
                      (case ob_err observation of
                         None \<Rightarrow> (Inl (ErrorsNew ''discover External Secrets Operator API: %!w(<nil>)''), p, w)
                       | Some e \<Rightarrow> (Inl (Errorf ''discover External Secrets Operator API'' e), p, w))
                    else
                      let reader = reader_or_client (rc_externalSecretsReader r) (rc_client r) in
                      (case resolve_references L r reader p (sp_externalSecrets (w_spec p)) w of
                         (Inl e, w) \<Rightarrow> (Inl e, p, w)
                       | (Inr resolved, w) \<Rightarrow>
                           (Inr resolved,
                            set_condition L p conditionExternalSecretsReady ConditionTrue ''ExternalSecretsReady''
                              ''Referenced namespace-local ExternalSecrets and target Secrets are Ready.'', w))))))"

subsection \<open>The revision annotation\<close>

text \<open>What is written to the hash: each name and each version, ended by a NUL byte.\<close>

definition nul :: char where
  "nul = char_of (0 :: nat)"

definition revision_bytes :: "resolvedExternalSecret list \<Rightarrow> string" where
  "revision_bytes references =
     concat (map (\<lambda>x. re_targetSecret x @ [nul] @ re_resourceVersion x @ [nul]) references)"

definition externalSecretRevision :: "resolvedExternalSecret list \<Rightarrow> string" where
  "externalSecretRevision references =
     (if references = [] then '''' else hex_bytes (sha256 (revision_bytes references)))"

definition decorated_mutate ::
  "(client_object \<Rightarrow> go_error + client_object) option \<Rightarrow> string \<Rightarrow> client_object \<Rightarrow> go_error + client_object" where
  "decorated_mutate mutate revision ob =
     bindr (case mutate of None \<Rightarrow> Inl NilDereference | Some f \<Rightarrow> f ob) (\<lambda>ob.
       (case ob of
          DeploymentObj d \<Rightarrow>
            Inr (DeploymentObj (d\<lparr>d_templateMeta := (d_templateMeta d)
              \<lparr>m_annotations := fmupd externalSecretRevisionKey revision (m_annotations (d_templateMeta d))\<rparr>\<rparr>))
        | _ \<Rightarrow> Inl (ErrorsNew ''external Secret revision was applied to a non-Deployment'')))"

fun decorate_first :: "string \<Rightarrow> Intent list \<Rightarrow> Intent list" where
  "decorate_first revision [] = []"
| "decorate_first revision (i # plan) =
     (case i_object i of
        Some (DeploymentObj _) \<Rightarrow> i\<lparr>i_mutate := Some (decorated_mutate (i_mutate i) revision)\<rparr> # plan
      | _ \<Rightarrow> i # decorate_first revision plan)"

definition decorateExternalSecretRevision :: "Intent list \<Rightarrow> string \<Rightarrow> Intent list" where
  "decorateExternalSecretRevision plan revision =
     (if revision = '''' then plan else decorate_first revision plan)"

subsection \<open>The validation only reads, in the namespace of the workload\<close>

lemma adds_discovery: "Detect lookup rq w = (x, w') \<Longrightarrow> adds (read_in ns) w w'"
proof -
  assume "Detect lookup rq w = (x, w')"
  then have "adds is_discovery w w'" by (rule Detect_calls)
  then show ?thesis
  proof (rule adds_mono)
    show "read_in ns e" if "is_discovery e" for e using that by (cases e) simp_all
  qed
qed

lemma adds_read_unstructured:
  "read_unstructured rd gvk (ns, n) w = (x, w') \<Longrightarrow> adds (read_in ns) w w'"
  unfolding read_unstructured_def by (rule adds_read)

text \<open>The ways through one round.\<close>

lemma resolve_reference_Inr:
  assumes "resolve_reference L r reader p reference w = (Inr x, w')"
  obtains es w1 store storeName w2 target where
    "es_targetSecret reference \<notin> set (sp_secretRefs (w_spec p))"
    and "read_unstructured reader externalSecretGVK (w_namespace p, es_externalSecret reference) w = (Inr es, w1)"
    and "store_reference L es = Inr storeName"
    and "read_unstructured reader secretStoreGVK (w_namespace p, storeName) w1 = (Inr store, w2)"
    and "readyCondition L store" and "readyCondition L es"
    and "target_secret L es = Inr (es_targetSecret reference)"
    and "call_get ''Secret'' (cl_getSecretMetadata (rc_client r)) (w_namespace p, es_targetSecret reference) w2 = (Inr target, w')"
    and "x = \<lparr>re_targetSecret = es_targetSecret reference, re_resourceVersion = m_resourceVersion target\<rparr>"
  using assms
  by (auto simp: resolve_reference_def split: if_splits prod.splits sum.splits)

lemma resolve_reference_effects:
  assumes "resolve_reference L r reader p reference w = (x, w')"
  shows "adds (read_in (w_namespace p)) w w'"
proof -
  note reads = adds_read_unstructured adds_read
  show ?thesis
    using assms
    by (auto simp: resolve_reference_def split: if_splits prod.splits sum.splits
        dest!: reads intro: adds_trans)
qed

lemma resolve_references_effects:
  "resolve_references L r reader p refs w = (x, w') \<Longrightarrow> adds (read_in (w_namespace p)) w w'"
proof (induction refs arbitrary: w x w')
  case (Cons ref refs)
  obtain y w1 where c: "resolve_reference L r reader p ref w = (y, w1)" by fastforce
  note this [THEN resolve_reference_effects]
  moreover obtain ys w2 where d: "resolve_references L r reader p refs w1 = (ys, w2)" by fastforce
  moreover note Cons.IH [OF d]
  ultimately show ?case
    using Cons.prems c by (auto split: sum.splits intro: adds_trans)
qed simp

lemma resolve_references_Inr:
  assumes "resolve_references L r reader p refs w = (Inr xs, w')"
  shows "map re_targetSecret xs = map es_targetSecret refs"
    and "\<forall>ref \<in> set refs. es_targetSecret ref \<notin> set (sp_secretRefs (w_spec p))"
  using assms
  by (induction refs arbitrary: w xs) (auto split: prod.splits sum.splits elim!: resolve_reference_Inr)

interpretation external:
  condition_owner L conditionExternalSecretsReady "validateExternalSecrets L r" for L and r :: "'s reconciler"
proof
  fix p w x p' w'
  assume a: "validateExternalSecrets L r p w = (x, p', w')"
  then show "p' = p \<or> p' = remove_condition L p conditionExternalSecretsReady
      \<or> (\<exists>s rs m. p' = set_condition L p conditionExternalSecretsReady s rs m)"
    by (auto simp: validateExternalSecrets_def Let_def split: if_splits prod.splits sum.splits option.splits)
  from a show "adds (read_in (w_namespace p)) w w'"
    by (auto simp: validateExternalSecrets_def Let_def split: if_splits prod.splits sum.splits option.splits
        dest!: adds_discovery resolve_references_effects intro: adds_trans)
next
  fix p w e p' w'
  assume "validateExternalSecrets L r p w = (Inl e, p', w')"
  then show "p' = p"
    by (auto simp: validateExternalSecrets_def Let_def split: if_splits prod.splits sum.splits option.splits)
qed

lemma validateExternalSecrets_targets:
  assumes "validateExternalSecrets L r p w = (Inr xs, p', w')"
  shows "map re_targetSecret xs = map es_targetSecret (sp_externalSecrets (w_spec p))"
    and "set (map re_targetSecret xs) \<inter> set (sp_secretRefs (w_spec p)) = {}"
proof -
  from assms show t: "map re_targetSecret xs = map es_targetSecret (sp_externalSecrets (w_spec p))"
    by (auto simp: validateExternalSecrets_def Let_def
        split: if_splits prod.splits sum.splits option.splits dest: resolve_references_Inr(1))
  from assms have "\<forall>ref \<in> set (sp_externalSecrets (w_spec p)). es_targetSecret ref \<notin> set (sp_secretRefs (w_spec p))"
    by (auto simp: validateExternalSecrets_def Let_def
        split: if_splits prod.splits sum.splits option.splits dest!: resolve_references_Inr(2))
  with t show "set (map re_targetSecret xs) \<inter> set (sp_secretRefs (w_spec p)) = {}" by auto
qed

subsection \<open>The revision tells target versions apart\<close>

lemma nul_split:
  assumes "x @ nul # xs = y @ nul # ys" and "nul \<notin> set x" and "nul \<notin> set y"
  shows "x = y \<and> xs = ys"
  using assms
proof (induction x arbitrary: y)
  case Nil
  then show ?case by (cases y) auto
next
  case (Cons a x)
  then show ?case by (cases y) auto
qed

definition nul_free :: "resolvedExternalSecret \<Rightarrow> bool" where
  "nul_free x = (nul \<notin> set (re_targetSecret x) \<and> nul \<notin> set (re_resourceVersion x))"

lemma revision_bytes_simps [simp]:
  "revision_bytes [] = []"
  "revision_bytes (x # xs) =
     re_targetSecret x @ nul # (re_resourceVersion x @ nul # revision_bytes xs)"
  by (simp_all add: revision_bytes_def)

lemma revision_bytes_inj:
  assumes "revision_bytes xs = revision_bytes ys" and "list_all nul_free xs" and "list_all nul_free ys"
  shows "xs = ys"
  using assms
proof (induction xs arbitrary: ys)
  case Nil
  then show ?case by (cases ys) auto
next
  case (Cons x xs)
  then obtain y ys' where ys: "ys = y # ys'" by (cases ys) auto
  with Cons.prems have nf: "nul_free x" "nul_free y" "list_all nul_free xs" "list_all nul_free ys'" by auto
  from Cons.prems(1) ys nf have "re_targetSecret x = re_targetSecret y"
    and rest: "re_resourceVersion x @ nul # revision_bytes xs = re_resourceVersion y @ nul # revision_bytes ys'"
    by (auto simp: nul_free_def dest!: nul_split)
  moreover from nul_split [OF rest] nf have "re_resourceVersion x = re_resourceVersion y"
    and "revision_bytes xs = revision_bytes ys'" by (auto simp: nul_free_def)
  moreover from Cons.IH [OF calculation(4) nf(3,4)] have "xs = ys'" .
  ultimately show ?case using ys by (simp add: resolvedExternalSecret.equality)
qed

lemma externalSecretRevision_collision:
  assumes "externalSecretRevision xs = externalSecretRevision ys" and "xs \<noteq> []" and "ys \<noteq> []"
  shows "sha256 (revision_bytes xs) = sha256 (revision_bytes ys)"
  using assms by (auto simp: externalSecretRevision_def dest: hex_bytes_inj)

lemma externalSecretRevision_length:
  "xs \<noteq> [] \<Longrightarrow> length (externalSecretRevision xs) = 64"
  by (simp add: externalSecretRevision_def)

lemma externalSecretRevision_empty_iff: "externalSecretRevision xs = '''' \<longleftrightarrow> xs = []"
proof (cases "xs = []")
  case False
  from externalSecretRevision_length [OF this] have "externalSecretRevision xs \<noteq> ''''" by force
  with False show ?thesis by simp
qed (simp add: externalSecretRevision_def)

subsection \<open>The decorated Deployment mutator keeps its contract\<close>

lemma mutateDeployment_template:
  "mutateDeployment (d\<lparr>d_templateMeta := x\<rparr>) p requests limits =
     map_sum id (\<lambda>t. t\<lparr>d_templateMeta := managedMetadata x p\<rparr>) (mutateDeployment d p requests limits)"
  by (simp add: mutateDeployment_def Let_def)

abbreviation revised :: "string \<Rightarrow> ObjectMeta \<Rightarrow> ObjectMeta" where
  "revised revision m \<equiv> m\<lparr>m_annotations := fmupd externalSecretRevisionKey revision (m_annotations m)\<rparr>"

lemma revision_key_foreign: "externalSecretRevisionKey \<noteq> WorkloadNameAnnotation"
  by (simp add: externalSecretRevisionKey_def WorkloadNameAnnotation_def)

lemma managed_revised:
  "managedMetadata (revised revision (managedMetadata m p)) p = revised revision (managedMetadata m p)"
proof -
  have "fmupd WorkloadNameAnnotation n (fmupd externalSecretRevisionKey revision (fmupd WorkloadNameAnnotation n a)) =
      fmupd externalSecretRevisionKey revision (fmupd WorkloadNameAnnotation n a)" for n a
    using revision_key_foreign by (intro fmap_ext) simp
  then show ?thesis by (simp add: managedMetadata_def managed_labels_stable)
qed

lemma revised_idem [simp]: "revised revision (revised revision m) = revised revision m"
  by (simp add: fmupd_idem)

lemma decorated_Inr:
  "decorated_mutate (Some (deployment_callback p requests limits)) revision ob = Inr ob' \<longleftrightarrow>
     (\<exists>d t. ob = DeploymentObj d \<and> mutateDeployment d p requests limits = Inr t
        \<and> ob' = DeploymentObj (t\<lparr>d_templateMeta := revised revision (d_templateMeta t)\<rparr>))"
  by (auto simp: decorated_mutate_def bindr_Inr_iff deployment_callback_Inr)

lemma decorated_settled:
  fixes revision :: string
  assumes "mutateDeployment d p requests limits = Inr t" and "assigned (d_meta t) m"
  defines "u \<equiv> t\<lparr>d_templateMeta := revised revision (d_templateMeta t)\<rparr>"
  shows "mutateDeployment (u\<lparr>d_meta := m\<rparr>) p requests limits = Inr (u\<lparr>d_meta := m\<rparr>)"
proof -
  have "u\<lparr>d_meta := m\<rparr> = (t\<lparr>d_meta := m\<rparr>)\<lparr>d_templateMeta := revised revision (d_templateMeta t)\<rparr>"
    by (simp add: u_def)
  moreover have "managedMetadata (revised revision (d_templateMeta t)) p = revised revision (d_templateMeta t)"
    unfolding mutateDeployment_Inr(3) [OF assms(1)] by (rule managed_revised)
  ultimately show ?thesis
    using mutateDeployment_settled [OF assms(1,2)] by (simp add: mutateDeployment_template)
qed

interpretation revised_rollout:
  intent_mutator "decorated_mutate (Some (deployment_callback p requests limits)) revision"
  for p requests limits revision
proof
  fix ob ob' m
  assume a: "decorated_mutate (Some (deployment_callback p requests limits)) revision ob = Inr ob'"
  then obtain d t where d: "ob = DeploymentObj d" and t: "mutateDeployment d p requests limits = Inr t"
    and ob': "ob' = DeploymentObj (t\<lparr>d_templateMeta := revised revision (d_templateMeta t)\<rparr>)"
    by (auto simp: decorated_Inr)
  show "same_identity (obj_meta ob') (obj_meta ob)"
    using d t ob' by (simp add: mutateDeployment_Inr)
  show "obj_type ob' = obj_type ob"
    using d ob' by simp
  assume "assigned (obj_meta ob') m"
  then have "assigned (d_meta t) m" using ob' by simp
  from decorated_settled [OF t this]
  show "decorated_mutate (Some (deployment_callback p requests limits)) revision (set_obj_meta ob' m) =
      Inr (set_obj_meta ob' m)"
    unfolding ob' by (auto simp: decorated_Inr)
qed

lemma decorate_first_kinds [simp]: "map intent_kind (decorate_first revision plan) = map intent_kind plan"
  by (induction plan) (auto split: option.splits client_object.splits)

lemma safe_intent_mutate: "safe_intent p i \<Longrightarrow> safe_intent p (i\<lparr>i_mutate := Some f\<rparr>)"
  by (auto simp: safe_intent_def intent_ok_def Let_def split: option.splits)

lemma decorate_first_safe:
  "\<forall>i \<in> set plan. safe_intent p i \<Longrightarrow> \<forall>i \<in> set (decorate_first revision plan). safe_intent p i"
  by (induction plan) (auto simp: safe_intent_mutate split: option.splits client_object.splits)

lemma decorate_plan_safe:
  assumes "\<forall>i \<in> set plan. safe_intent p i"
  shows "\<forall>i \<in> set (decorateExternalSecretRevision plan revision). safe_intent p i"
    and "map intent_kind (decorateExternalSecretRevision plan revision) = map intent_kind plan"
  using decorate_first_safe [OF assms] assms by (simp_all add: decorateExternalSecretRevision_def)

end
