(* ===== verification/Exposure.thy ===== *)
theory Exposure
  imports External_Secrets
begin

text \<open>
  \<open>internal/controller/exposure.go\<close>: the opt-in Gateway API exposure. \<open>validateExposure\<close> decides
  before the plan is built whether the controller manages an HTTPRoute, \<open>observeExposure\<close> reads the
  status of the route after it was applied.
\<close>

definition gatewayGVK :: GroupVersionKind where
  "gatewayGVK = \<lparr>g_group = ''gateway.networking.k8s.io'', g_version = ''v1'', g_kind = ''Gateway''\<rparr>"

record exposureState =
  xs_manageRoute :: bool
  xs_active :: bool

definition no_exposure :: exposureState where
  "no_exposure = \<lparr>xs_manageRoute = False, xs_active = False\<rparr>"

definition hasTrueCondition :: "lib \<Rightarrow> Unstructured \<Rightarrow> string \<Rightarrow> bool" where
  "hasTrueCondition L u t =
     (case NestedSlice L (u_object u) [''status'', ''conditions''] of
        NestedFound conditions \<Rightarrow>
          list_ex (\<lambda>c. json_field c ''type'' = Some (JString t)
                        \<and> json_field c ''status'' = Some (JString ''True'')) conditions
      | _ \<Rightarrow> False)"

text \<open>One condition of the inner loop of \<open>httpRouteConditions\<close>: the last one of a type wins.\<close>

definition route_condition :: "json \<Rightarrow> string \<times> string \<Rightarrow> string \<times> string" where
  "route_condition condition verdict =
     (case (json_field condition ''status'', verdict) of
        (Some (JString status), (accepted, resolved)) \<Rightarrow>
          if json_field condition ''type'' = Some (JString ''Accepted'') then (status, resolved)
          else if json_field condition ''type'' = Some (JString ''ResolvedRefs'') then (accepted, status)
          else (accepted, resolved)
      | _ \<Rightarrow> verdict)"

definition parent_matches :: "string \<Rightarrow> string \<Rightarrow> json \<Rightarrow> bool" where
  "parent_matches gateway sectionName parent =
     (case json_field parent ''parentRef'' of
        Some (JMap ref) \<Rightarrow>
          map_of ref ''name'' = Some (JString gateway) \<and> map_of ref ''sectionName'' = Some (JString sectionName)
      | _ \<Rightarrow> False)"

fun parent_conditions :: "string \<Rightarrow> string \<Rightarrow> json list \<Rightarrow> string \<times> string \<times> bool" where
  "parent_conditions gateway sectionName [] = (ConditionUnknown, ConditionUnknown, False)"
| "parent_conditions gateway sectionName (parent # parents) =
     (if \<not> parent_matches gateway sectionName parent then parent_conditions gateway sectionName parents
      else (case json_field parent ''conditions'' of
          Some (JArray conditions) \<Rightarrow>
            (case fold route_condition conditions (ConditionUnknown, ConditionUnknown) of
               (accepted, resolved) \<Rightarrow> (accepted, resolved, True))
        | _ \<Rightarrow> (ConditionUnknown, ConditionUnknown, True)))"

definition httpRouteConditions :: "lib \<Rightarrow> Unstructured \<Rightarrow> string \<Rightarrow> string \<Rightarrow> string \<times> string \<times> bool" where
  "httpRouteConditions L route gateway sectionName =
     (case NestedSlice L (u_object route) [''status'', ''parents''] of
        NestedFound parents \<Rightarrow> parent_conditions gateway sectionName parents
      | _ \<Rightarrow> (ConditionUnknown, ConditionUnknown, False))"

definition gateway_api_unavailable :: go_error where
  "gateway_api_unavailable =
     ExposureConfigurationError ''GatewayAPIUnavailable''
       ''Gateway API v1 is unavailable; install it or select ClusterLocal exposure.''"

definition validateExposure :: "lib \<Rightarrow> 's reconciler \<Rightarrow> ('s, exposureState) workload_step" where
  "validateExposure L r p w =
     (let active = HTTPRouteEnabled (Some p);
          previous = (FindStatusCondition L (w_conditions p) conditionExposureReady \<noteq> None)
      in if \<not> active \<and> \<not> previous then (Inr no_exposure, p, w)
         else (case rc_capabilityLookup r of
             None \<Rightarrow> (Inl gateway_api_unavailable, p, w)
           | Some lookup \<Rightarrow>
               (case RequirementFor GatewayAPI of
                  None \<Rightarrow> (Inl (ErrorsNew ''gateway API capability contract is missing''), p, w)
                | Some requirement \<Rightarrow>
                    (case Detect lookup requirement w of (observation, w) \<Rightarrow>
                       if ob_state observation = Unavailable then
                         (if \<not> active then (Inr no_exposure, remove_condition L p conditionExposureReady, w)
                          else (Inl gateway_api_unavailable, p, w))
                       else if ob_state observation = Unknown then
                         (case ob_err observation of
                            None \<Rightarrow> (Inl (ErrorsNew ''discover Gateway API: %!w(<nil>)''), p, w)
                          | Some e \<Rightarrow> (Inl (Errorf ''discover Gateway API'' e), p, w))
                       else
                         let state = \<lparr>xs_manageRoute = True, xs_active = active\<rparr> in
                         if \<not> active then (Inr state, p, w)
                         else if \<not> ServiceEnabled (Some p) then
                           (Inl (ExposureConfigurationError ''ExposureServiceDisabled''
                              ''HTTPRoute exposure requires the workload ClusterIP Service to be enabled.''), p, w)
                         else if NetworkEnabled (Some p) then
                           (Inl (ExposureConfigurationError ''ExposureNetworkPolicyEnabled''
                              ''HTTPRoute exposure requires spec.network.enabled=false; Gateway data-plane ingress policy is platform-managed.''), p, w)
                         else (case sp_exposure (w_spec p) of
                             None \<Rightarrow> (Inl NilDereference, p, w)
                           | Some exposure \<Rightarrow>
                               let reader = reader_or_client (rc_gatewayReader r) (rc_client r) in
                               (case read_unstructured reader gatewayGVK (w_namespace p, ex_gateway exposure) w of
                                  (Inl e, w) \<Rightarrow>
                                    if IsNotFound e then
                                      (Inl (ExposureConfigurationError ''GatewayNotFound''
                                         ''The referenced Gateway is unavailable in the workload namespace.''), p, w)
                                    else (Inl (Errorf ''get Gateway metadata'' e), p, w)
                                | (Inr gateway, w) \<Rightarrow>
                                    if \<not> hasTrueCondition L gateway ''Programmed'' then
                                      (Inl (ExposureConfigurationError ''GatewayNotReady''
                                         ''The referenced Gateway is not Programmed; inspect the platform Gateway status.''), p, w)
                                    else (Inr state, p, w)))))))"

definition setExposureCondition :: "lib \<Rightarrow> AIWorkload \<Rightarrow> string \<Rightarrow> string \<Rightarrow> string \<Rightarrow> AIWorkload" where
  "setExposureCondition L p status reason message =
     set_condition L p conditionExposureReady status reason message"

text \<open>The \<open>switch\<close> of \<open>observeExposure\<close>: requeue delay in seconds, status, reason and message.\<close>

fun exposure_verdict :: "string \<times> string \<times> bool \<Rightarrow> nat \<times> string \<times> string \<times> string" where
  "exposure_verdict (accepted, resolved, observed) =
     (if \<not> observed then
        (15, ConditionFalse, ''HTTPRoutePending'', ''The owned HTTPRoute is awaiting a matching Gateway status observation.'')
      else if accepted = ConditionFalse then
        (60, ConditionFalse, ''HTTPRouteRejected'', ''The platform Gateway rejected the owned HTTPRoute; inspect Gateway listener policy and route configuration.'')
      else if accepted \<noteq> ConditionTrue then
        (15, ConditionFalse, ''HTTPRoutePending'', ''The owned HTTPRoute is awaiting Gateway acceptance.'')
      else if resolved = ConditionFalse then
        (60, ConditionFalse, ''HTTPRouteReferencesNotResolved'', ''The platform Gateway cannot resolve the HTTPRoute backend reference.'')
      else if resolved \<noteq> ConditionTrue then
        (15, ConditionFalse, ''HTTPRoutePending'', ''The owned HTTPRoute is awaiting backend reference resolution.'')
      else
        (60, ConditionTrue, ''HTTPRouteReady'', ''The owned HTTPRoute is accepted and its backend reference is resolved.''))"

definition observeExposure :: "lib \<Rightarrow> 's reconciler \<Rightarrow> exposureState \<Rightarrow> ('s, nat) workload_step" where
  "observeExposure L r state p w =
     (if \<not> xs_manageRoute state then (Inr 0, p, w)
      else if \<not> xs_active state then (Inr 0, remove_condition L p conditionExposureReady, w)
      else let reader = reader_or_client (rc_gatewayReader r) (rc_client r) in
        (case read_unstructured reader HTTPRouteGVK (child_key p) w of
           (Inl e, w) \<Rightarrow>
             if IsNotFound e then
               (Inr 15, setExposureCondition L p ConditionFalse ''HTTPRoutePending''
                  ''The owned HTTPRoute is awaiting Gateway API observation.'', w)
             else (Inl (Errorf ''observe HTTPRoute status'' e), p, w)
         | (Inr route, w) \<Rightarrow>
             (case sp_exposure (w_spec p) of
                None \<Rightarrow> (Inl NilDereference, p, w)
              | Some exposure \<Rightarrow>
                  (case exposure_verdict (httpRouteConditions L route (ex_gateway exposure) (ex_sectionName exposure)) of
                     (requeue, status, reason, message) \<Rightarrow>
                       (Inr requeue, setExposureCondition L p status reason message, w)))))"

subsection \<open>Facts\<close>

lemma readyCondition_eq: "readyCondition L u = hasTrueCondition L u ''Ready''"
  by (simp add: readyCondition_def hasTrueCondition_def)

interpretation exposure_gate:
  condition_owner L conditionExposureReady "validateExposure L r" for L and r :: "'s reconciler"
proof
  fix p w x p' w'
  assume a: "validateExposure L r p w = (x, p', w')"
  then show "p' = p \<or> p' = remove_condition L p conditionExposureReady
      \<or> (\<exists>s rs m. p' = set_condition L p conditionExposureReady s rs m)"
    by (auto simp: validateExposure_def Let_def split: if_splits prod.splits sum.splits option.splits)
  from a show "adds (read_in (w_namespace p)) w w'"
    by (auto simp: validateExposure_def Let_def split: if_splits prod.splits sum.splits option.splits
        dest!: adds_discovery adds_read_unstructured intro: adds_trans)
next
  fix p w e p' w'
  assume "validateExposure L r p w = (Inl e, p', w')"
  then show "p' = p"
    by (auto simp: validateExposure_def Let_def split: if_splits prod.splits sum.splits option.splits)
qed

interpretation exposure_observer:
  condition_owner L conditionExposureReady "observeExposure L r state" for L state and r :: "'s reconciler"
  by unfold_locales
    (auto simp: observeExposure_def setExposureCondition_def Let_def
      split: if_splits prod.splits sum.splits option.splits dest!: adds_read_unstructured
      simp del: exposure_verdict.simps)

text \<open>An active route is managed only behind a Service, without a NetworkPolicy, on a programmed Gateway.\<close>

lemma validateExposure_active:
  assumes "validateExposure L r p w = (Inr state, p', w')" and "xs_active state"
  shows "xs_manageRoute state" and "HTTPRouteEnabled (Some p)" and "ServiceEnabled (Some p)"
    and "\<not> NetworkEnabled (Some p)" and "p' = p"
    and "\<exists>exposure gateway w1. sp_exposure (w_spec p) = Some exposure
      \<and> read_unstructured (reader_or_client (rc_gatewayReader r) (rc_client r)) gatewayGVK
          (w_namespace p, ex_gateway exposure) w1 = (Inr gateway, w')
      \<and> hasTrueCondition L gateway ''Programmed''"
  using assms
  by (auto simp: validateExposure_def Let_def no_exposure_def split: if_splits prod.splits sum.splits option.splits)

lemma validateExposure_inactive:
  assumes "validateExposure L r p w = (Inr state, p', w')" and "\<not> xs_active state"
  shows "\<not> HTTPRouteEnabled (Some p)"
  using assms
  by (auto simp: validateExposure_def Let_def no_exposure_def split: if_splits prod.splits sum.splits option.splits)

lemma exposure_ready_iff:
  "exposure_verdict v = (n, st, rs, m) \<Longrightarrow> st = ''True'' \<longleftrightarrow> v = (''True'', ''True'', True)"
  by (cases v) (auto split: if_splits)

lemma exposure_requeue_bounds:
  "exposure_verdict v = (n, st, rs, m) \<Longrightarrow> n = 15 \<or> n = 60"
  by (cases v) (auto split: if_splits)

end
