(* ===== verification/Reconcile.thy ===== *)
theory Reconcile
  imports Observe Tenant Exposure
begin

text \<open>
  \<open>internal/controller/aiworkload_controller.go\<close>: \<open>Reconcile\<close>, "guards parent lifecycle, builds/validates
  a plan, then applies in dependency order". The stages are definitions of their own: \<open>prepare\<close> (the
  three validations, each followed by its status patch), \<open>build_plan\<close>, \<open>apply_plan\<close> (the loop over
  the engine) and \<open>converge\<close> (build, apply, check the Secrets). Log lines are not modelled.
\<close>

definition effectiveWatchNamespaces :: "'s reconciler \<Rightarrow> string list" where
  "effectiveWatchNamespaces r =
     (if rc_watchNamespaces r \<noteq> [] then rc_watchNamespaces r
      else if rc_watchNamespace r = '''' then [] else [rc_watchNamespace r])"

definition watchesNamespace :: "'s reconciler \<Rightarrow> string \<Rightarrow> bool" where
  "watchesNamespace r namespace = list_ex (\<lambda>watched. namespace = watched) (effectiveWatchNamespaces r)"

definition childKind :: "client_object option \<Rightarrow> string" where
  "childKind ob =
     (let k = childOrder ob in
      if k = 0 then ''ServiceAccount''
      else if k = 1 then ''Deployment''
      else if k = 2 then ''Service''
      else if k = 3 then ''NetworkPolicy''
      else if k = 4 then ''HorizontalPodAutoscaler''
      else if k = 5 then ''PodDisruptionBudget''
      else if k = 6 then ''HTTPRoute''
      else ''Unknown'')"

fun outcome_text :: "Outcome \<Rightarrow> string" where
  "outcome_text Created = ''created''"
| "outcome_text Patched = ''patched''"
| "outcome_text Deleted = ''deleted''"
| "outcome_text Unchanged = ''unchanged''"

subsection \<open>The stages\<close>

text \<open>One validation with the status patch that follows it.\<close>

definition validate_and_patch :: "lib \<Rightarrow> 's reconciler \<Rightarrow> ('s, 'a) workload_step \<Rightarrow> ('s, 'a) workload_step" where
  "validate_and_patch L r validate p w =
     (case validate p w of
        (Inl e, p', w) \<Rightarrow> (Inl e, p', w)
      | (Inr x, p', w) \<Rightarrow>
          (case patchStatus L r p p' w of
             (Inl e, p', w) \<Rightarrow> (Inl e, p', w)
           | (Inr _, p', w) \<Rightarrow> (Inr x, p', w)))"

definition prepare ::
  "lib \<Rightarrow> 's reconciler \<Rightarrow> ('s, resolvedExternalSecret list \<times> exposureState) workload_step" where
  "prepare L r p w =
     (case validate_and_patch L r (validateTenant L r) p w of
        (Inl e, p, w) \<Rightarrow> (Inl e, p, w)
      | (Inr _, p, w) \<Rightarrow>
          (case validate_and_patch L r (validateExternalSecrets L r) p w of
             (Inl e, p, w) \<Rightarrow> (Inl e, p, w)
           | (Inr external, p, w) \<Rightarrow>
               (case validate_and_patch L r (validateExposure L r) p w of
                  (Inl e, p, w) \<Rightarrow> (Inl e, p, w)
                | (Inr exposure, p, w) \<Rightarrow> (Inr (external, exposure), p, w))))"

definition desired_workload :: "AIWorkload \<Rightarrow> resolvedExternalSecret list \<Rightarrow> AIWorkload" where
  "desired_workload p external =
     p\<lparr>w_spec := (w_spec p)\<lparr>sp_secretRefs := sp_secretRefs (w_spec p) @ map re_targetSecret external\<rparr>\<rparr>"

definition build_plan ::
  "lib \<Rightarrow> (AIWorkload option \<Rightarrow> go_error + Intent list) \<Rightarrow> AIWorkload \<Rightarrow> resolvedExternalSecret list \<Rightarrow>
   exposureState \<Rightarrow> go_error + Intent list" where
  "build_plan L build p external exposure =
     (let desired = desired_workload p external in
      bindr (build (Some desired)) (\<lambda>plan.
      bindr (if xs_manageRoute exposure
             then bindr (HTTPRouteIntent L (Some desired)) (\<lambda>route. Inr (plan @ [route]))
             else Inr plan) (\<lambda>plan.
      bindr (ValidatePlan p plan) (\<lambda>plan.
        Inr (decorateExternalSecretRevision plan (externalSecretRevision external))))))"

definition record_resource :: "'s reconciler \<Rightarrow> Intent \<Rightarrow> string \<Rightarrow> 's world \<Rightarrow> 's world" where
  "record_resource r i outcome w =
     (if rc_telemetry r then emit (ResourceMetricE (childKind (i_object i)) outcome) w else w)"

fun apply_plan ::
  "lib \<Rightarrow> 's reconciler \<Rightarrow> AIWorkload \<Rightarrow> Intent list \<Rightarrow> 's world \<Rightarrow> go_error option \<times> 's world" where
  "apply_plan L r p [] w = (None, w)"
| "apply_plan L r p (i # plan) w =
     (case Apply L (rc_client r) p i w of
        (Inl e, w) \<Rightarrow> (Some e, record_resource r i ''error'' w)
      | (Inr outcome, w) \<Rightarrow> apply_plan L r p plan (record_resource r i (outcome_text outcome) w))"

definition converge ::
  "lib \<Rightarrow> 's reconciler \<Rightarrow> (AIWorkload option \<Rightarrow> go_error + Intent list) \<Rightarrow> AIWorkload \<Rightarrow>
   resolvedExternalSecret list \<Rightarrow> exposureState \<Rightarrow> 's world \<Rightarrow> go_error option \<times> 's world" where
  "converge L r build p external exposure w =
     (case build_plan L build p external exposure of
        Inl e \<Rightarrow> (Some e, w)
      | Inr plan \<Rightarrow>
          (case apply_plan L r p plan w of
             (Some e, w) \<Rightarrow> (Some e, w)
           | (None, w) \<Rightarrow> validateSecretReferences r p w))"

text \<open>The part of \<open>Reconcile\<close> after the children are in place.\<close>

definition observe ::
  "lib \<Rightarrow> 's reconciler \<Rightarrow> exposureState \<Rightarrow> AIWorkload \<Rightarrow> 's world \<Rightarrow> (Result \<times> go_error option) \<times> 's world" where
  "observe L r exposure p w =
     (case validate_and_patch L r (observeExposure L r exposure) p w of
        (Inl e, p, w) \<Rightarrow> reportFailure L r p e w
      | (Inr exposureRequeue, p, w) \<Rightarrow>
          (case observeAndReportStatus L r p w of
             (Some e, p, w) \<Rightarrow> reportFailure L r p e w
           | (None, p, w) \<Rightarrow> ((\<lparr>requeueAfter = exposureRequeue\<rparr>, None), w)))"

definition Reconcile ::
  "lib \<Rightarrow> 's reconciler \<Rightarrow> object_key \<Rightarrow> 's world \<Rightarrow> (Result \<times> go_error option) \<times> 's world" where
  "Reconcile L r req w =
     (if effectiveWatchNamespaces r = [] then ((no_requeue, Some (ErrorsNew ''watch namespaces are required'')), w)
      else if \<not> watchesNamespace r (fst req) then ((no_requeue, None), w)
      else (case call_get ''AIWorkload'' (cl_getWorkload (rc_client r)) req w of
          (Inl e, w) \<Rightarrow> ((no_requeue, retryError (IgnoreNotFound L e)), w)
        | (Inr p, w) \<Rightarrow>
            (case rc_builder r of
               None \<Rightarrow> ((no_requeue, None), w)
             | Some build \<Rightarrow>
                 if m_deletionTimestamp (w_meta p) \<noteq> None then ((no_requeue, None), w)
                 else (case prepare L r p w of
                     (Inl e, p, w) \<Rightarrow> reportFailure L r p e w
                   | (Inr (external, exposure), p, w) \<Rightarrow>
                       (case converge L r build p external exposure w of
                          (Some e, w) \<Rightarrow>
                            if errors_Is e ErrChildDeleting then ((\<lparr>requeueAfter = 2\<rparr>, None), w)
                            else reportFailure L r p e w
                        | (None, w) \<Rightarrow> observe L r exposure p w)))))"

subsection \<open>The identity of the workload through a reconciliation\<close>

definition same_workload :: "AIWorkload \<Rightarrow> AIWorkload \<Rightarrow> bool" where
  "same_workload q p = (workload_key q = workload_key p \<and> w_uid q = w_uid p)"

lemma same_workload_refl [simp]: "same_workload p p"
  by (simp add: same_workload_def)

lemma same_workload_trans: "same_workload a b \<Longrightarrow> same_workload b c \<Longrightarrow> same_workload a c"
  by (simp add: same_workload_def)

text \<open>Everything a reconciliation of \<open>p\<close> may do to the outside.\<close>

definition reconcile_effect :: "lib \<Rightarrow> AIWorkload \<Rightarrow> effect \<Rightarrow> bool" where
  "reconcile_effect L p e =
     (observe_effect p e \<or> child_call_ok L p e \<or> (\<exists>kind outcome. e = ResourceMetricE kind outcome))"

lemma child_call_ok_cong: "same_workload q p \<Longrightarrow> child_call_ok L q e = child_call_ok L p e"
  by (cases e) (simp_all add: same_workload_def owns_def split: option.splits)

lemma observe_effect_same: "same_workload q p \<Longrightarrow> observe_effect q e = observe_effect p e"
  by (simp add: same_workload_def observe_effect_def)

lemma reconcile_effect_same: "same_workload q p \<Longrightarrow> reconcile_effect L q e = reconcile_effect L p e"
  by (simp add: reconcile_effect_def child_call_ok_cong observe_effect_same)

lemma adds_observe_same:
  "same_workload q p \<Longrightarrow> adds (observe_effect q) w w' \<Longrightarrow> adds (observe_effect p) w w'"
  by (erule adds_mono) (simp add: observe_effect_same)

lemma adds_reconcile_same:
  "same_workload q p \<Longrightarrow> adds (reconcile_effect L q) w w' \<Longrightarrow> adds (reconcile_effect L p) w w'"
  by (erule adds_mono) (simp add: reconcile_effect_same)

lemma adds_reconcile_observe [log_intros]: "adds (observe_effect p) w w' \<Longrightarrow> adds (reconcile_effect L p) w w'"
  by (erule adds_mono) (simp add: reconcile_effect_def)

context condition_owner
begin

lemma validated_left:
  assumes "workload_client_laws (rc_client r)" and "validate_and_patch L r step p w = (x, p', w')"
  shows "same_workload p' p"
proof -
  obtain y p1 w1 where v: "step p w = (y, p1, w1)" by (metis prod.exhaust)
  obtain z p2 w2 where c: "patchStatus L r p p1 w1 = (z, p2, w2)" by (metis prod.exhaust)
  from patchStatus_left(1,2) [OF assms(1) c] keeps_desired(1) [OF v] v c assms(2) show ?thesis
    by (auto simp: validate_and_patch_def same_workload_def split: sum.splits)
qed

lemma validated_effects:
  assumes "workload_client_laws (rc_client r)" and "validate_and_patch L r step p w = (x, p', w')"
  shows "adds (observe_effect p) w w'"
proof -
  obtain y p1 w1 where v: "step p w = (y, p1, w1)" by (metis prod.exhaust)
  obtain z p2 w2 where c: "patchStatus L r p p1 w1 = (z, p2, w2)" by (metis prod.exhaust)
  from quiet [OF v] have "adds (observe_effect p) w w1" by (rule adds_observe_read)
  moreover from patchStatus_effects [OF assms(1) c] keeps_desired [OF v]
  have "adds (observe_effect p) w1 w2" by (simp add: adds_observe_report)
  ultimately show ?thesis
    using v c assms(2)
    by (auto simp: validate_and_patch_def split: sum.splits intro: log_intros)
qed

end

subsection \<open>The stages stay inside the boundary\<close>

lemma prepare_confined:
  assumes "workload_client_laws (rc_client r)" and "prepare L r p w = (x, p', w')"
  shows "same_workload p' p \<and> adds (observe_effect p) w w'"
proof -
  obtain a p1 w1 where 1: "validate_and_patch L r (validateTenant L r) p w = (a, p1, w1)" by (metis prod.exhaust)
  obtain b p2 w2 where 2: "validate_and_patch L r (validateExternalSecrets L r) p1 w1 = (b, p2, w2)"
    by (metis prod.exhaust)
  obtain c p3 w3 where 3: "validate_and_patch L r (validateExposure L r) p2 w2 = (c, p3, w3)" by (metis prod.exhaust)
  note s1 = tenant.validated_left [OF assms(1) 1]
  note s2 = same_workload_trans [OF external.validated_left [OF assms(1) 2] s1]
  note s3 = same_workload_trans [OF exposure_gate.validated_left [OF assms(1) 3] s2]
  note e1 = tenant.validated_effects [OF assms(1) 1]
  note e2 = adds_trans [OF e1 adds_observe_same [OF s1 external.validated_effects [OF assms(1) 2]]]
  note e3 = adds_trans [OF e2 adds_observe_same [OF s2 exposure_gate.validated_effects [OF assms(1) 3]]]
  show ?thesis
    using assms(2) 1 2 3 s1 s2 s3 e1 e2 e3 by (auto simp: prepare_def split: sum.splits)
qed

lemma adds_record_resource: "adds (reconcile_effect L p) w (record_resource r i outcome w)"
  by (simp add: record_resource_def reconcile_effect_def adds_emit)

lemma Apply_confined:
  assumes "Apply L c p i w = (x, w')"
  shows "adds (reconcile_effect L p) w w'"
  using Apply_calls [OF assms] by (rule adds_mono) (simp add: reconcile_effect_def)

lemma apply_plan_confined:
  "apply_plan L r p plan w = (x, w') \<Longrightarrow> adds (reconcile_effect L p) w w'"
proof (induction plan arbitrary: w)
  case (Cons i plan)
  obtain y w1 where a: "Apply L (rc_client r) p i w = (y, w1)" by fastforce
  have e: "adds (reconcile_effect L p) w (record_resource r i t w1)" for t
    using Apply_confined [OF a] adds_record_resource by (rule adds_trans)
  from Cons a e show ?case
    by (auto split: sum.splits intro: log_intros)
qed simp

lemma converge_confined:
  assumes "converge L r build p external exposure w = (x, w')"
  shows "adds (reconcile_effect L p) w w'"
proof (cases "build_plan L build p external exposure")
  case (Inl e)
  with assms show ?thesis by (simp add: converge_def)
next
  case (Inr plan)
  obtain y w1 where a: "apply_plan L r p plan w = (y, w1)" by fastforce
  obtain z w2 where s: "validateSecretReferences r p w1 = (z, w2)" by fastforce
  have "adds (read_in (w_namespace p)) w1 w2"
    using s unfolding validateSecretReferences_def by (rule check_secrets_effects)
  then have "adds (reconcile_effect L p) w1 w2"
    by (intro adds_reconcile_observe adds_observe_read)
  with apply_plan_confined [OF a] assms Inr a s show ?thesis
    by (auto simp: converge_def split: option.splits intro: log_intros)
qed

lemma reportFailure_confined:
  assumes "workload_client_laws (rc_client r)" and "reportFailure L r q e w = (x, w')" and "same_workload q p"
  shows "adds (observe_effect p) w w'"
  using reportFailure_effects [OF assms(1,2)] assms(3) by (blast intro: adds_observe_same adds_observe_report)

lemma observe_confined:
  assumes "workload_client_laws (rc_client r)" and "observe L r exposure p w = (x, w')"
  shows "adds (observe_effect p) w w'"
proof -
  obtain a p1 w1 where 1: "validate_and_patch L r (observeExposure L r exposure) p w = (a, p1, w1)"
    by (metis prod.exhaust)
  obtain b p2 w2 where 2: "observeAndReportStatus L r p1 w1 = (b, p2, w2)" by (metis prod.exhaust)
  note s1 = exposure_observer.validated_left [OF assms(1) 1]
  have s2: "same_workload p2 p"
    using observeAndReportStatus_left [OF assms(1) 2] s1 by (simp add: same_workload_def)
  note e1 = exposure_observer.validated_effects [OF assms(1) 1]
  have e2: "adds (observe_effect p) w w2"
    using adds_trans [OF e1 adds_observe_same [OF s1 observeAndReportStatus_effects [OF assms(1) 2]]] .
  show ?thesis
    using assms(2) 1 2 e1 e2 adds_trans [OF e1 reportFailure_confined [OF assms(1) _ s1]]
      adds_trans [OF e2 reportFailure_confined [OF assms(1) _ s2]]
    by (auto simp: observe_def split: sum.splits option.splits)
qed

text \<open>The ways through \<open>Reconcile\<close>.\<close>

lemma Reconcile_cases [consumes 1, case_names unscoped unwatched unread idle invalid deleting failed observed]:
  assumes "Reconcile L r req w = (res, w')"
  obtains "effectiveWatchNamespaces r = []" and "w' = w"
      and "res = (no_requeue, Some (ErrorsNew ''watch namespaces are required''))"
  | "\<not> watchesNamespace r (fst req)" and "w' = w" and "res = (no_requeue, None)"
  | e where "watchesNamespace r (fst req)"
      and "call_get ''AIWorkload'' (cl_getWorkload (rc_client r)) req w = (Inl e, w')"
      and "res = (no_requeue, retryError (IgnoreNotFound L e))"
  | p where "watchesNamespace r (fst req)"
      and "call_get ''AIWorkload'' (cl_getWorkload (rc_client r)) req w = (Inr p, w')"
      and "rc_builder r = None \<or> m_deletionTimestamp (w_meta p) \<noteq> None" and "res = (no_requeue, None)"
  | p w1 e p1 w2 where "watchesNamespace r (fst req)"
      and "call_get ''AIWorkload'' (cl_getWorkload (rc_client r)) req w = (Inr p, w1)"
      and "m_deletionTimestamp (w_meta p) = None"
      and "prepare L r p w1 = (Inl e, p1, w2)" and "reportFailure L r p1 e w2 = (res, w')"
  | p w1 build external exposure p1 w2 e where "watchesNamespace r (fst req)"
      and "call_get ''AIWorkload'' (cl_getWorkload (rc_client r)) req w = (Inr p, w1)"
      and "m_deletionTimestamp (w_meta p) = None" and "rc_builder r = Some build"
      and "prepare L r p w1 = (Inr (external, exposure), p1, w2)"
      and "converge L r build p1 external exposure w2 = (Some e, w')"
      and "errors_Is e ErrChildDeleting" and "res = (\<lparr>requeueAfter = 2\<rparr>, None)"
  | p w1 build external exposure p1 w2 e w3 where "watchesNamespace r (fst req)"
      and "call_get ''AIWorkload'' (cl_getWorkload (rc_client r)) req w = (Inr p, w1)"
      and "m_deletionTimestamp (w_meta p) = None" and "rc_builder r = Some build"
      and "prepare L r p w1 = (Inr (external, exposure), p1, w2)"
      and "converge L r build p1 external exposure w2 = (Some e, w3)"
      and "\<not> errors_Is e ErrChildDeleting" and "reportFailure L r p1 e w3 = (res, w')"
  | p w1 build external exposure p1 w2 w3 where "watchesNamespace r (fst req)"
      and "call_get ''AIWorkload'' (cl_getWorkload (rc_client r)) req w = (Inr p, w1)"
      and "m_deletionTimestamp (w_meta p) = None" and "rc_builder r = Some build"
      and "prepare L r p w1 = (Inr (external, exposure), p1, w2)"
      and "converge L r build p1 external exposure w2 = (None, w3)" and "observe L r exposure p1 w3 = (res, w')"
  using assms unfolding Reconcile_def
  by (auto split: if_splits sum.splits prod.splits option.splits)

subsection \<open>What a reconciliation does and returns\<close>

lemma adds_get_workload:
  assumes "call_get ''AIWorkload'' f req w = (x, w1)" and "workload_key p = req"
  shows "adds (reconcile_effect L p) w w1"
  using assms(1) unfolding call_get_def
  by (rule adds_call [rotated]) (use assms(2) in \<open>auto simp: reconcile_effect_def observe_effect_def\<close>)

lemma Reconcile_effects:
  assumes "workload_client_laws (rc_client r)" and "Reconcile L r req w = (res, w')"
    and "cl_getWorkload (rc_client r) (wd_env w) req = (Inr p, s)"
  shows "adds (reconcile_effect L p) w w'"
proof -
  note key = get_workload_key [OF assms(1,3)]
  have get: "q = p" "adds (reconcile_effect L p) w w1"
    if "call_get ''AIWorkload'' (cl_getWorkload (rc_client r)) req w = (Inr q, w1)" for q w1
    using that assms(3) adds_get_workload [OF that key] by (auto simp: call_get_def call_def)
  have prep: "same_workload p1 p" "adds (reconcile_effect L p) w1 w2" if "prepare L r p w1 = (x, p1, w2)" for x p1 w1 w2
    using prepare_confined [OF assms(1) that] by (auto intro: adds_reconcile_observe)
  from assms(2) show ?thesis
  proof (cases rule: Reconcile_cases)
    case (unread e)
    with assms(3) show ?thesis by (auto simp: call_get_def call_def)
  next
    case (idle q)
    then show ?thesis by (simp add: get)
  next
    case (invalid q w1 e p1 w2)
    note prep = prep [OF invalid(4) [unfolded get(1) [OF invalid(2)]]]
    from reportFailure_confined [OF assms(1) invalid(5) prep(1)]
    show ?thesis using get(2) [OF invalid(2)] prep(2) by (blast intro: log_intros)
  next
    case (deleting q w1 build external exposure p1 w2 e)
    note prep = prep [OF deleting(5) [unfolded get(1) [OF deleting(2)]]]
    from adds_reconcile_same [OF prep(1) converge_confined [OF deleting(6)]]
    show ?thesis using get(2) [OF deleting(2)] prep(2) by (blast intro: log_intros)
  next
    case (failed q w1 build external exposure p1 w2 e w3)
    note prep = prep [OF failed(5) [unfolded get(1) [OF failed(2)]]]
    from adds_reconcile_same [OF prep(1) converge_confined [OF failed(6)]]
      reportFailure_confined [OF assms(1) failed(8) prep(1)]
    show ?thesis using get(2) [OF failed(2)] prep(2) by (blast intro: log_intros)
  next
    case (observed q w1 build external exposure p1 w2 w3)
    note prep = prep [OF observed(5) [unfolded get(1) [OF observed(2)]]]
    from adds_reconcile_same [OF prep(1) converge_confined [OF observed(6)]]
      adds_observe_same [OF prep(1) observe_confined [OF assms(1) observed(7)]]
    show ?thesis using get(2) [OF observed(2)] prep(2) by (blast intro: log_intros)
  qed simp_all
qed

text \<open>The result of a reconciliation: a requeue from a fixed set of delays, or a curated error.\<close>

definition curated_error :: "go_error \<Rightarrow> bool" where
  "curated_error e =
     (e = ErrorsNew ''watch namespaces are required''
      \<or> (\<exists>cause c. e = SafeRetry cause c \<and> c \<in> set retry_categories))"

definition bounded_result :: "Result \<times> go_error option \<Rightarrow> bool" where
  "bounded_result x =
     (case x of (res, err) \<Rightarrow>
        (err = None \<and> requeueAfter res \<in> {0, 2, 15, 60})
        \<or> (requeueAfter res = 0 \<and> (\<exists>e. err = Some e \<and> curated_error e)))"

lemma retryError_bounded: "bounded_result (no_requeue, retryError e)"
proof (cases e)
  case (Some a)
  obtain c where "retryError (Some a) = Some (SafeRetry a c)" "c \<in> set retry_categories"
    by (rule retryError_Some)
  with Some show ?thesis by (auto simp: bounded_result_def no_requeue_def curated_error_def)
qed (simp add: bounded_result_def no_requeue_def)

lemma reportFailure_bounded:
  assumes "reportFailure L r p e w = (x, w')"
  shows "bounded_result x"
proof -
  obtain y left w1 where c: "patchStatus L r p (failure_status L p e) w = (y, left, w1)" by (metis prod.exhaust)
  obtain res err where x: "x = (res, err)" by (cases x)
  from reportFailure_result [OF assms [unfolded x] c] retryError_bounded show ?thesis
    unfolding x by (auto split: sum.splits if_splits simp: bounded_result_def simp del: retryError.simps)
qed

lemma observeExposure_requeue: "observeExposure L r state p w = (Inr n, p', w') \<Longrightarrow> n \<in> {0, 15, 60}"
  by (auto simp: observeExposure_def Let_def simp del: exposure_verdict.simps
      split: if_splits prod.splits sum.splits option.splits dest!: exposure_requeue_bounds)

lemma observe_bounded:
  assumes "observe L r exposure p w = (x, w')"
  shows "bounded_result x"
proof -
  obtain a p1 w1 where 1: "observeExposure L r exposure p w = (a, p1, w1)" by (metis prod.exhaust)
  show ?thesis
    using assms 1 observeExposure_requeue [of L r exposure p w]
    by (auto simp: observe_def validate_and_patch_def split: sum.splits prod.splits option.splits
        dest!: reportFailure_bounded) (simp_all add: bounded_result_def)
qed

lemma Reconcile_bounded: "bounded_result (fst (Reconcile L r req w))"
proof -
  obtain x w' where run: "Reconcile L r req w = (x, w')" by fastforce
  then have "bounded_result x"
  proof (cases rule: Reconcile_cases)
    case (unread e)
    then show ?thesis using retryError_bounded by simp
  next
    case (invalid p w1 e p1 w2)
    from invalid(5) show ?thesis by (rule reportFailure_bounded)
  next
    case (failed p w1 build external exposure p1 w2 e w3)
    from failed(8) show ?thesis by (rule reportFailure_bounded)
  next
    case (observed p w1 build external exposure p1 w2 w3)
    from observed(7) show ?thesis by (rule observe_bounded)
  qed (simp_all add: bounded_result_def no_requeue_def curated_error_def)
  with run show ?thesis by simp
qed

end
