(* ===== verification/Watches.thy ===== *)
theory Watches
  imports Reconcile
begin

text \<open>
  \<open>internal/controller/watches.go\<close>: which events of a workload start a reconciliation, the index from
  Secret names to workloads, and the mapping of a Secret event to reconcile requests.
\<close>

text \<open>
  \<open>predicate.Funcs\<close> with only an \<open>UpdateFunc\<close>: the other kinds of event pass. An update carries the
  metadata of the old and of the new object.
\<close>

datatype watch_event = CreateEvent | UpdateEvent ObjectMeta ObjectMeta | DeleteEvent | GenericEvent

fun primaryPredicate :: "watch_event \<Rightarrow> bool" where
  "primaryPredicate (UpdateEvent old new) =
     (m_uid old \<noteq> m_uid new \<or> m_generation old \<noteq> m_generation new
      \<or> m_deletionTimestamp old \<noteq> m_deletionTimestamp new)"
| "primaryPredicate _ = True"

text \<open>The loop body shared by the two loops of \<open>secretIndex\<close>: the keys so far and the set \<open>seen\<close>.\<close>

definition index_key :: "string \<Rightarrow> string list \<times> string set \<Rightarrow> string list \<times> string set" where
  "index_key name acc =
     (case acc of (keys, seen) \<Rightarrow>
        if name \<noteq> '''' \<and> name \<notin> seen then (keys @ [name], insert name seen) else (keys, seen))"

text \<open>\<open>None\<close> is an object that is not an AIWorkload.\<close>

fun secretIndex :: "AIWorkload option \<Rightarrow> string list" where
  "secretIndex None = []"
| "secretIndex (Some p) =
     fst (fold index_key (map es_targetSecret (sp_externalSecrets (w_spec p)))
           (fold index_key (sp_secretRefs (w_spec p)) ([], {})))"

text \<open>The Secret is given by its namespace and name; a failed \<open>List\<close> is logged and yields no request.\<close>

definition RequestsForSecret :: "'s reconciler \<Rightarrow> object_key \<Rightarrow> 's world \<Rightarrow> object_key list \<times> 's world" where
  "RequestsForSecret r secret w =
     (if \<not> watchesNamespace r (fst secret) then ([], w)
      else (case call (ListE ''AIWorkload'' (fst secret) (snd secret))
                   (\<lambda>s. cl_listBySecret (rc_client r) s (fst secret) (snd secret)) w of
          (Inl e, w) \<Rightarrow> ([], w)
        | (Inr parents, w) \<Rightarrow> (map (\<lambda>p. (w_namespace p, w_name p)) parents, w)))"

subsection \<open>Facts\<close>

definition indexed :: "string list \<times> string set \<Rightarrow> bool" where
  "indexed acc = (distinct (fst acc) \<and> set (fst acc) = snd acc \<and> '''' \<notin> snd acc)"

lemma index_fold:
  assumes "indexed acc"
  shows "indexed (fold index_key names acc) \<and> snd (fold index_key names acc) = snd acc \<union> (set names - {''''})"
  using assms
proof (induction names arbitrary: acc)
  case (Cons n ns)
  obtain keys seen where acc: "acc = (keys, seen)" by (cases acc)
  have step: "indexed (index_key n acc)" "snd (index_key n acc) = snd acc \<union> ({n} - {''''})"
    using Cons.prems unfolding acc by (auto simp: indexed_def index_key_def)
  have "snd acc \<union> ({n} - {''''}) \<union> (set ns - {''''}) = snd acc \<union> (set (n # ns) - {''''})" by auto
  with Cons.IH [OF step(1)] step(2) show ?case by simp
qed simp

lemma secretIndex_exact:
  "distinct (secretIndex (Some p))"
  "set (secretIndex (Some p)) =
     (set (sp_secretRefs (w_spec p)) \<union> es_targetSecret ` set (sp_externalSecrets (w_spec p))) - {''''}"
proof -
  let ?a = "fold index_key (sp_secretRefs (w_spec p)) ([], {})"
  have a: "indexed ?a \<and> snd ?a = set (sp_secretRefs (w_spec p)) - {''''}"
    using index_fold [of "([], {})"] by (simp add: indexed_def)
  with index_fold [of ?a "map es_targetSecret (sp_externalSecrets (w_spec p))"]
  show "distinct (secretIndex (Some p))" and "set (secretIndex (Some p)) =
     (set (sp_secretRefs (w_spec p)) \<union> es_targetSecret ` set (sp_externalSecrets (w_spec p))) - {''''}"
    by (auto simp: indexed_def)
qed

text \<open>
  What the field index promises: the list call returns, of the workloads \<open>stock s\<close> in the cluster,
  those of the namespace under whose index keys the Secret name is.
\<close>

definition index_laws :: "'s client \<Rightarrow> ('s \<Rightarrow> AIWorkload list) \<Rightarrow> bool" where
  "index_laws c stock =
     (\<forall>s ns name parents s'. cl_listBySecret c s ns name = (Inr parents, s') \<longrightarrow>
        parents = filter (\<lambda>p. w_namespace p = ns \<and> name \<in> set (secretIndex (Some p))) (stock s))"

lemma RequestsForSecret_cases:
  assumes "RequestsForSecret r (ns, name) w = (reqs, w')"
  obtains "reqs = []" and "\<not> watchesNamespace r ns" and "w' = w"
  | e s' where "reqs = []" and "watchesNamespace r ns" and "cl_listBySecret (rc_client r) (wd_env w) ns name = (Inl e, s')"
      and "wd_log w' = wd_log w @ [ListE ''AIWorkload'' ns name]"
  | parents s' where "reqs = map workload_key parents" and "watchesNamespace r ns"
      and "cl_listBySecret (rc_client r) (wd_env w) ns name = (Inr parents, s')"
      and "wd_log w' = wd_log w @ [ListE ''AIWorkload'' ns name]"
  using assms by (auto simp: RequestsForSecret_def call_def split: if_splits prod.splits sum.splits)

end
