(* ===== verification/Telemetry.thy ===== *)
theory Telemetry
  imports Reconcile
begin

text \<open>
  \<open>internal/telemetry/telemetry.go\<close>: the counters and gauges of the controller. A counter vector is a
  finite map from label values to counts; a label never counted is absent. Prometheus itself
  (registration, exposition) is not modelled beyond the success of \<open>Register\<close>.
\<close>

record Metrics =
  mx_resources :: "(string \<times> string, nat) fmap"
  mx_failures :: "(string, nat) fmap"
  mx_active :: int
  mx_ready :: int
  mx_degraded :: int

definition counter :: "('k, nat) fmap \<Rightarrow> 'k \<Rightarrow> nat" where
  "counter m k = deref (fmlookup m k) 0"

definition inc :: "'k \<Rightarrow> ('k, nat) fmap \<Rightarrow> ('k, nat) fmap" where
  "inc k m = fmupd k (counter m k + 1) m"

text \<open>\<open>register\<close> stands for \<open>registerer.Register\<close>, by the name of the metric.\<close>

definition New_metrics :: "(string \<Rightarrow> go_error option) \<Rightarrow> go_error + Metrics" where
  "New_metrics register =
     (case first_some register
         [''awcp_controller_resource_reconciliations_total'', ''awcp_controller_reconcile_failures_total'',
          ''awcp_controller_managed_workloads'', ''awcp_controller_ready_workloads'',
          ''awcp_controller_degraded_workloads''] of
        Some e \<Rightarrow> Inl (Errorf ''register AWCP metric'' e)
      | None \<Rightarrow>
          Inr \<lparr>mx_resources = fmempty, mx_failures = fmempty, mx_active = 0, mx_ready = 0, mx_degraded = 0\<rparr>)"

definition RecordResource :: "Metrics \<Rightarrow> string \<Rightarrow> string \<Rightarrow> Metrics" where
  "RecordResource m kind operation = m\<lparr>mx_resources := inc (kind, operation) (mx_resources m)\<rparr>"

definition RecordFailure :: "Metrics \<Rightarrow> string \<Rightarrow> Metrics" where
  "RecordFailure m reason = m\<lparr>mx_failures := inc reason (mx_failures m)\<rparr>"

text \<open>
  \<open>list\<close> is \<open>reader.List\<close> in one namespace. The first failing namespace ends the refresh and leaves
  every gauge as it was.
\<close>

fun count_namespaces ::
  "lib \<Rightarrow> (string \<Rightarrow> go_error + AIWorkload list) \<Rightarrow> string list \<Rightarrow> int \<times> int \<times> int \<Rightarrow> go_error + int \<times> int \<times> int" where
  "count_namespaces L list [] acc = Inr acc"
| "count_namespaces L list (namespace # namespaces) (active, ready, degraded) =
     bindr (list namespace) (\<lambda>items.
       count_namespaces L list namespaces
         (fold (\<lambda>p (active, ready, degraded).
              (active,
               ready + (if IsStatusConditionTrue L (w_conditions p) ''Ready'' then 1 else 0),
               degraded + (if IsStatusConditionTrue L (w_conditions p) ''Degraded'' then 1 else 0)))
            items (active + int (length items), ready, degraded)))"

definition RefreshNamespaces ::
  "lib \<Rightarrow> (string \<Rightarrow> go_error + AIWorkload list) \<Rightarrow> string list \<Rightarrow> Metrics \<Rightarrow> go_error option \<times> Metrics" where
  "RefreshNamespaces L list namespaces m =
     (case count_namespaces L list namespaces (0, 0, 0) of
        Inl e \<Rightarrow> (Some e, m)
      | Inr (active, ready, degraded) \<Rightarrow>
          (None, m\<lparr>mx_active := active, mx_ready := ready, mx_degraded := degraded\<rparr>))"

definition Refresh ::
  "lib \<Rightarrow> (string \<Rightarrow> go_error + AIWorkload list) \<Rightarrow> string \<Rightarrow> Metrics \<Rightarrow> go_error option \<times> Metrics" where
  "Refresh L list namespace m = RefreshNamespaces L list [namespace] m"

text \<open>
  \<open>GaugeRefresher.Start\<close>: one refresh at the start and one per tick until the context is done. The
  cache at each refresh is one element of the list; an error is logged and dropped.
\<close>

record GaugeRefresher =
  gr_namespace :: string
  gr_namespaces :: "string list"

definition refresher_namespaces :: "GaugeRefresher \<Rightarrow> string list" where
  "refresher_namespaces r = (if gr_namespaces r = [] then [gr_namespace r] else gr_namespaces r)"

fun refresher_run ::
  "lib \<Rightarrow> GaugeRefresher \<Rightarrow> (string \<Rightarrow> go_error + AIWorkload list) list \<Rightarrow> Metrics \<Rightarrow> Metrics" where
  "refresher_run L r [] m = m"
| "refresher_run L r (list # caches) m =
     refresher_run L r caches (snd (RefreshNamespaces L list (refresher_namespaces r) m))"

subsection \<open>The recorder interface\<close>

text \<open>
  \<open>telemetry.Recorder\<close>: "deliberately small so telemetry never becomes a reconciliation dependency".
  Each call counts one event under its label and leaves every other count alone.
\<close>

locale recorder =
  fixes recordResource :: "'m \<Rightarrow> string \<Rightarrow> string \<Rightarrow> 'm"
    and recordFailure :: "'m \<Rightarrow> string \<Rightarrow> 'm"
    and resources :: "'m \<Rightarrow> string \<times> string \<Rightarrow> nat"
    and failures :: "'m \<Rightarrow> string \<Rightarrow> nat"
  assumes resource_counted:
      "resources (recordResource m k t) x = resources m x + (if x = (k, t) then 1 else 0)"
    and resource_other: "failures (recordResource m k t) y = failures m y"
    and failure_counted: "failures (recordFailure m rs) y = failures m y + (if y = rs then 1 else 0)"
    and failure_other: "resources (recordFailure m rs) x = resources m x"
begin

fun record_effect :: "effect \<Rightarrow> 'm \<Rightarrow> 'm" where
  "record_effect (ResourceMetricE k t) m = recordResource m k t"
| "record_effect (FailureMetricE rs) m = recordFailure m rs"
| "record_effect _ m = m"

lemma recorded_resources:
  "resources (fold record_effect es m) x =
     resources m x + length (filter (\<lambda>e. e = ResourceMetricE (fst x) (snd x)) es)"
proof (induction es arbitrary: m)
  case (Cons e es)
  then show ?case
    by (cases e; cases x) (auto simp: resource_counted failure_other)
qed simp

lemma recorded_failures:
  "failures (fold record_effect es m) y = failures m y + length (filter (\<lambda>e. e = FailureMetricE y) es)"
proof (induction es arbitrary: m)
  case (Cons e es)
  then show ?case by (cases e) (auto simp: resource_other failure_counted)
qed simp

end

interpretation prometheus:
  recorder RecordResource RecordFailure "\<lambda>m. counter (mx_resources m)" "\<lambda>m. counter (mx_failures m)"
  by unfold_locales (auto simp: RecordResource_def RecordFailure_def inc_def counter_def deref_def)

subsection \<open>The gauges are the counts\<close>

definition workloads_in :: "(string \<Rightarrow> go_error + AIWorkload list) \<Rightarrow> string list \<Rightarrow> AIWorkload list" where
  "workloads_in list namespaces = concat (map (\<lambda>n. case list n of Inr items \<Rightarrow> items | Inl _ \<Rightarrow> []) namespaces)"

definition with_condition :: "lib \<Rightarrow> string \<Rightarrow> AIWorkload list \<Rightarrow> int" where
  "with_condition L t ps = int (length (filter (\<lambda>p. IsStatusConditionTrue L (w_conditions p) t) ps))"

lemma count_items:
  "fold (\<lambda>p (active, ready, degraded).
      (active, ready + (if IsStatusConditionTrue L (w_conditions p) ''Ready'' then 1 else 0),
       degraded + (if IsStatusConditionTrue L (w_conditions p) ''Degraded'' then 1 else 0))) ps (a, x, y) =
   (a, x + with_condition L ''Ready'' ps, y + with_condition L ''Degraded'' ps)"
  by (induction ps arbitrary: x y) (auto simp: with_condition_def)

lemma count_namespaces_Inr:
  assumes "\<forall>n \<in> set namespaces. \<exists>items. list n = Inr items"
  shows "count_namespaces L list namespaces (a, x, y) =
     Inr (a + int (length (workloads_in list namespaces)),
          x + with_condition L ''Ready'' (workloads_in list namespaces),
          y + with_condition L ''Degraded'' (workloads_in list namespaces))"
  using assms
  by (induction namespaces arbitrary: a x y)
    (auto simp: workloads_in_def count_items with_condition_def)

lemma count_namespaces_Inl:
  "n \<in> set namespaces \<Longrightarrow> list n = Inl e \<Longrightarrow> \<exists>e'. count_namespaces L list namespaces acc = Inl e'"
proof (induction namespaces arbitrary: acc)
  case (Cons m ms)
  then show ?case by (cases acc; cases "list m") (auto simp: count_items)
qed simp

end
