(* ===== verification/Setup.thy ===== *)
theory Setup
  imports Watches Telemetry
begin

text \<open>
  \<open>SetupWithManager\<close> of the controller with the events it turns into requests, and the process-wide metrics
  (\<open>telemetry.Default\<close>).
\<close>

subsection \<open>The watches of the controller\<close>

text \<open>What \<open>SetupWithManager\<close> hands to the controller builder.\<close>

record controller_setup =
  cu_name :: string
  cu_recorder :: string
  cu_indexField :: string
  cu_for :: string
  cu_owns :: "string list"
  cu_metadata :: "string list"

definition SecretReferenceIndex :: string where
  "SecretReferenceIndex = ''spec.secretRefs''"

text \<open>
  The field indexer and the builder may fail; a recorder that was set is kept (\<open>eventRecorder\<close> is its name,
  empty if there is none).
\<close>

definition SetupWithManager ::
  "go_error option \<Rightarrow> (controller_setup \<Rightarrow> go_error option) \<Rightarrow> string \<Rightarrow> string \<Rightarrow> go_error + controller_setup" where
  "SetupWithManager indexField complete controllerName eventRecorder =
     (case indexField of
        Some e \<Rightarrow> Inl e
      | None \<Rightarrow>
          let setup =
            \<lparr>cu_name = (if controllerName = '''' then ''aiworkload'' else controllerName),
             cu_recorder = (if eventRecorder = '''' then ''awcp-controller'' else eventRecorder),
             cu_indexField = SecretReferenceIndex, cu_for = ''AIWorkload'',
             cu_owns = [''Deployment'', ''Service'', ''ServiceAccount'', ''NetworkPolicy'', ''HorizontalPodAutoscaler'',
                        ''PodDisruptionBudget''],
             cu_metadata = [''Secret'']\<rparr>
          in (case complete setup of Some e \<Rightarrow> Inl e | None \<Rightarrow> Inr setup))"

text \<open>
  The events the cache delivers: one of a workload, one of any other object, one of a Secret's metadata.
  \<open>ownerRequests\<close> stands for the handler that \<open>Owns\<close> installs.
\<close>

datatype cluster_event =
    WorkloadEvent object_key watch_event
  | ObjectEvent client_object
  | SecretEvent object_key

definition requests_for ::
  "(client_object \<Rightarrow> object_key list) \<Rightarrow> 's reconciler \<Rightarrow> controller_setup \<Rightarrow> cluster_event \<Rightarrow> 's world \<Rightarrow>
   object_key list \<times> 's world" where
  "requests_for ownerRequests r setup ev w =
     (case ev of
        WorkloadEvent key change \<Rightarrow> (if cu_for setup = ''AIWorkload'' \<and> primaryPredicate change then [key] else [], w)
      | ObjectEvent ob \<Rightarrow> (if read_kind ob \<in> set (cu_owns setup) then ownerRequests ob else [], w)
      | SecretEvent key \<Rightarrow> if ''Secret'' \<in> set (cu_metadata setup) then RequestsForSecret r key w else ([], w))"

text \<open>\<open>handler.EnqueueRequestForOwner\<close> with \<open>OnlyControllerOwner\<close>: the request of the controlling workload.\<close>

definition owner_handler_law :: "lib \<Rightarrow> (client_object \<Rightarrow> object_key list) \<Rightarrow> bool" where
  "owner_handler_law L ownerRequests =
     (\<forall>ob r. GetControllerOf L (m_ownerReferences (obj_meta ob)) = Some r \<longrightarrow> or_kind r = ''AIWorkload'' \<longrightarrow>
        or_apiVersion r = GroupVersion \<longrightarrow> ownerRequests ob = [(m_namespace (obj_meta ob), or_name r)])"

subsection \<open>The process-wide metrics\<close>

text \<open>\<open>sync.Once\<close> counts a call that panics as done; \<open>Inl\<close> is the panic.\<close>

record default_metrics =
  df_done :: bool
  df_metrics :: "Metrics option"

definition Default :: "(string \<Rightarrow> go_error option) \<Rightarrow> default_metrics \<Rightarrow> (go_error + Metrics option) \<times> default_metrics" where
  "Default register s =
     (if df_done s then (Inr (df_metrics s), s)
      else (case New_metrics register of
          Inl e \<Rightarrow> (Inl e, \<lparr>df_done = True, df_metrics = None\<rparr>)
        | Inr m \<Rightarrow> (Inr (Some m), \<lparr>df_done = True, df_metrics = Some m\<rparr>)))"

subsection \<open>Facts\<close>

text \<open>However often it is called, \<open>Default\<close> registers once.\<close>

lemma Default_once: "Default register s = (x, s') \<Longrightarrow> Default register' s' = (Inr (df_metrics s'), s')"
  by (auto simp: Default_def split: if_splits sum.splits)

lemma SetupWithManager_owns:
  assumes "SetupWithManager indexField complete name eventRecorder = Inr setup" and "0 \<le> childOrder (Some ob)" and "childOrder (Some ob) < 6"
  shows "read_kind ob \<in> set (cu_owns setup)"
  using assms by (cases ob) (auto simp: SetupWithManager_def Let_def split: option.splits if_splits)

lemma owned_request:
  assumes "owner_handler_law L ownerRequests" and "owns L p ob"
  shows "ownerRequests ob = [workload_key p]"
  using assms unfolding owner_handler_law_def owns_def by (auto split: option.splits)

end
