(* ===== verification/Scheme.thy ===== *)
theory Scheme
  imports Api_Types Go_Errors
begin

text \<open>
  \<open>groupversion_info.go\<close> and the \<open>init\<close> function of \<open>aiworkload_types.go\<close>: how the Go types of the API group
  get into a \<open>runtime.Scheme\<close>. The scheme and its builder are library types; \<open>runtime_lib\<close> has the calls the
  package makes, on arbitrary states \<open>'x\<close> of a scheme and \<open>'b\<close> of a builder.
\<close>

type_synonym 'x scheme_step = "'x \<Rightarrow> go_error option \<times> 'x"

record ('b, 'x) runtime_lib =
  NewScheme :: 'x
  NewSchemeBuilder :: "'x scheme_step list \<Rightarrow> 'b"
  Register :: "'b \<Rightarrow> 'x scheme_step list \<Rightarrow> 'b"
  builder_AddToScheme :: "'b \<Rightarrow> 'x scheme_step"
  AddToGroupVersion :: "string \<Rightarrow> 'x \<Rightarrow> 'x"
  AddKnownTypes :: "string \<Rightarrow> string list \<Rightarrow> 'x \<Rightarrow> 'x"

text \<open>The package variable, as its initializer leaves it and as the \<open>init\<close> function leaves it.\<close>

definition SchemeBuilder :: "('b, 'x) runtime_lib \<Rightarrow> 'b" where
  "SchemeBuilder R = NewSchemeBuilder R [\<lambda>scheme. (None, AddToGroupVersion R GroupVersion scheme)]"

definition package_init :: "('b, 'x) runtime_lib \<Rightarrow> 'b \<Rightarrow> 'b" where
  "package_init R builder =
     Register R builder [\<lambda>s. (None, AddKnownTypes R GroupVersion [''AIWorkload'', ''AIWorkloadList''] s)]"

text \<open>
  \<open>AddToScheme\<close> is a method value: it is bound to the address of the package variable before \<open>init\<close> runs, so a
  call after the start of the program sees the builder that \<open>init\<close> has left.
\<close>

definition AddToScheme :: "('b, 'x) runtime_lib \<Rightarrow> 'x scheme_step" where
  "AddToScheme R = builder_AddToScheme R (package_init R (SchemeBuilder R))"

text \<open>What the library documents: a builder is a list of functions, applied in order up to the first error.\<close>

fun run_steps :: "'x scheme_step list \<Rightarrow> 'x scheme_step" where
  "run_steps [] s = (None, s)"
| "run_steps (f # fs) s = (case f s of (Some e, s') \<Rightarrow> (Some e, s') | (None, s') \<Rightarrow> run_steps fs s')"

definition scheme_builder_laws :: "('b, 'x) runtime_lib \<Rightarrow> bool" where
  "scheme_builder_laws R =
     (\<exists>steps. (\<forall>fs. steps (NewSchemeBuilder R fs) = fs) \<and> (\<forall>b fs. steps (Register R b fs) = steps b @ fs)
        \<and> (\<forall>b. builder_AddToScheme R b = run_steps (steps b)))"

text \<open>Both types are registered under the group version, after the types every group has.\<close>

lemma AddToScheme_registers:
  assumes "scheme_builder_laws R"
  shows "AddToScheme R s =
    (None, AddKnownTypes R GroupVersion [''AIWorkload'', ''AIWorkloadList''] (AddToGroupVersion R GroupVersion s))"
  using assms unfolding scheme_builder_laws_def AddToScheme_def package_init_def SchemeBuilder_def by auto

end
