(* ===== verification/Manager.thy ===== *)
theory Manager
  imports Setup Scheme Res_Plan
begin

text \<open>
  \<open>internal/manager/manager.go\<close>: the options of the manager process and their validation, the wiring
  of \<open>New\<close>, and the readiness of the process as a state machine. Durations are in nanoseconds, as
  \<open>time.Duration\<close> is; they are only compared, so no overflow arises.
\<close>

definition second :: int where
  "second = 1000000000"

record Options =
  o_watchNamespace :: string
  o_watchNamespaces :: "string list"
  o_managerNamespace :: string
  o_probeAddress :: string
  o_metricsBindAddress :: string
  o_leaderElection :: bool
  o_leaseDuration :: int
  o_renewDeadline :: int
  o_retryPeriod :: int
  o_controllerName :: string
  o_builder :: "(AIWorkload option \<Rightarrow> go_error + Intent list) option"

definition EffectiveWatchNamespaces :: "Options \<Rightarrow> string list" where
  "EffectiveWatchNamespaces o' =
     (if o_watchNamespaces o' \<noteq> [] then o_watchNamespaces o' else [o_watchNamespace o'])"

definition ParseWatchNamespaces :: "string \<Rightarrow> string list" where
  "ParseWatchNamespaces value = (if value = '''' then [] else SplitChar (CHR '','') value)"

definition effectiveLeaderElectionTiming :: "Options \<Rightarrow> int \<times> int \<times> int" where
  "effectiveLeaderElectionTiming o' =
     (if o_leaseDuration o' = 0 then 15 * second else o_leaseDuration o',
      if o_renewDeadline o' = 0 then 10 * second else o_renewDeadline o',
      if o_retryPeriod o' = 0 then 2 * second else o_retryPeriod o')"

text \<open>The loop of \<open>Validate\<close> over the watched namespaces.\<close>

fun validate_namespaces :: "lib \<Rightarrow> string set \<Rightarrow> string list \<Rightarrow> go_error option" where
  "validate_namespaces L seen [] = None"
| "validate_namespaces L seen (value # values) =
     (if \<not> IsDNS1123Label L value
      then Some (ErrorsNew ''WATCH_NAMESPACES entries must be non-empty DNS-label namespaces'')
      else if value \<in> seen
      then Some (ErrorsNew (''WATCH_NAMESPACES contains duplicate namespace '' @ [CHR 0x22] @ value @ [CHR 0x22]))
      else validate_namespaces L (insert value seen) values)"

definition Validate :: "lib \<Rightarrow> Options \<Rightarrow> go_error option" where
  "Validate L o' =
     (if o_watchNamespace o' \<noteq> '''' \<and> o_watchNamespaces o' \<noteq> []
      then Some (ErrorsNew ''set either WATCH_NAMESPACE or WATCH_NAMESPACES, not both'')
      else (case validate_namespaces L {} (EffectiveWatchNamespaces o') of
          Some e \<Rightarrow> Some e
        | None \<Rightarrow>
            if \<not> IsDNS1123Label L (o_managerNamespace o')
            then Some (ErrorsNew ''MANAGER_NAMESPACE must be one non-empty DNS-label namespace'')
            else (case effectiveLeaderElectionTiming o' of (leaseDuration, renewDeadline, retryPeriod) \<Rightarrow>
                if leaseDuration \<le> 0 \<or> renewDeadline \<le> 0 \<or> retryPeriod \<le> 0
                   \<or> renewDeadline \<ge> leaseDuration \<or> retryPeriod \<ge> renewDeadline
                then Some (ErrorsNew ''leader election timing requires 0 < retry period < renew deadline < lease duration'')
                else None)))"

subsection \<open>The wiring\<close>

text \<open>
  What \<open>New\<close> hands to controller-runtime: the options of \<open>ctrl.NewManager\<close>, the namespaces and the
  builder of the reconciler, the namespaces of the gauge refresher, and the registered checks.
\<close>

record 'x manager_config =
  mc_scheme :: 'x
  mc_cacheNamespaces :: "string set"
  mc_metricsAddress :: string
  mc_secureServing :: bool
  mc_probeAddress :: string
  mc_leaderElection :: bool
  mc_leaderElectionNamespace :: string
  mc_releaseOnCancel :: bool
  mc_timing :: "int \<times> int \<times> int"
  mc_watchNamespaces :: "string list"
  mc_builder :: "AIWorkload option \<Rightarrow> go_error + Intent list"
  mc_setup :: "controller_setup option"
  mc_gaugeNamespaces :: "string list"
  mc_checks :: "string list"

text \<open>The library calls of \<open>New\<close> that can fail, in order.\<close>

record ('b, 'x) manager_env =
  me_runtime :: "('b, 'x) runtime_lib"
  me_clientGoScheme :: "'x scheme_step"
  me_newManager :: "'x manager_config \<Rightarrow> go_error option"
  me_discovery :: "go_error option"
  me_register :: "string \<Rightarrow> go_error option"
  me_indexField :: "go_error option"
  me_complete :: "controller_setup \<Rightarrow> go_error option"
  me_addReadiness :: "go_error option"
  me_addGauges :: "go_error option"
  me_addHealthz :: "go_error option"
  me_addReadyz :: "go_error option"

fun first_error :: "go_error option list \<Rightarrow> go_error option" where
  "first_error [] = None"
| "first_error (Some e # es) = Some e"
| "first_error (None # es) = first_error es"

text \<open>
  \<open>None\<close> is the panic of \<open>telemetry.Default\<close>; the process-wide metrics are state that outlives the call. The
  reconciler is set up without a recorder, its controller name is the one of the options.
\<close>

definition New ::
  "lib \<Rightarrow> ('b, 'x) manager_env \<Rightarrow> default_metrics \<Rightarrow> Options \<Rightarrow> (go_error + 'x manager_config) option \<times> default_metrics" where
  "New L env d options =
     (case Validate L options of
        Some e \<Rightarrow> (Some (Inl e), d)
      | None \<Rightarrow>
          let builder = deref (o_builder options) (Build L);
              watchNamespaces = EffectiveWatchNamespaces options;
              metricsAddress = (if o_metricsBindAddress options = '''' then ''0'' else o_metricsBindAddress options)
          in (case me_clientGoScheme env (NewScheme (me_runtime env)) of
            (Some e, _) \<Rightarrow> (Some (Inl e), d)
          | (None, scheme) \<Rightarrow> (case AddToScheme (me_runtime env) scheme of
            (Some e, _) \<Rightarrow> (Some (Inl e), d)
          | (None, scheme) \<Rightarrow>
              let config =
                \<lparr>mc_scheme = scheme, mc_cacheNamespaces = set watchNamespaces, mc_metricsAddress = metricsAddress,
                 mc_secureServing = (metricsAddress \<noteq> ''0''), mc_probeAddress = o_probeAddress options,
                 mc_leaderElection = o_leaderElection options,
                 mc_leaderElectionNamespace = o_managerNamespace options, mc_releaseOnCancel = True,
                 mc_timing = effectiveLeaderElectionTiming options, mc_watchNamespaces = watchNamespaces,
                 mc_builder = builder, mc_setup = None,
                 mc_gaugeNamespaces = watchNamespaces, mc_checks = [''process'', ''cache-and-leader'']\<rparr>
              in (case first_error [me_newManager env config, me_discovery env] of
            Some e \<Rightarrow> (Some (Inl e), d)
          | None \<Rightarrow> (case Default (me_register env) d of
            (Inl panic, d) \<Rightarrow> (None, d)
          | (Inr telemetry, d) \<Rightarrow>
              (case SetupWithManager (me_indexField env) (me_complete env) (o_controllerName options) '''' of
            Inl e \<Rightarrow> (Some (Inl e), d)
          | Inr setup \<Rightarrow> (case me_addReadiness env of
            Some e \<Rightarrow> (Some (Inl e), d)
          | None \<Rightarrow> (case Default (me_register env) d of
            (Inl panic, d) \<Rightarrow> (None, d)
          | (Inr metrics, d) \<Rightarrow>
              (case first_error [me_addGauges env, me_addHealthz env, me_addReadyz env] of
            Some e \<Rightarrow> (Some (Inl e), d)
          | None \<Rightarrow> (Some (Inr (config\<lparr>mc_setup := Some setup\<rparr>)), d))))))))))"

subsection \<open>Facts on options\<close>

lemma validate_namespaces_None_iff:
  "validate_namespaces L seen vs = None \<longleftrightarrow>
     list_all (IsDNS1123Label L) vs \<and> distinct vs \<and> set vs \<inter> seen = {}"
  by (induction vs arbitrary: seen) auto

lemma Validate_None_iff:
  "Validate L o' = None \<longleftrightarrow>
     (o_watchNamespace o' = '''' \<or> o_watchNamespaces o' = [])
     \<and> list_all (IsDNS1123Label L) (EffectiveWatchNamespaces o') \<and> distinct (EffectiveWatchNamespaces o')
     \<and> IsDNS1123Label L (o_managerNamespace o')
     \<and> (case effectiveLeaderElectionTiming o' of (lease, renew, retry) \<Rightarrow> 0 < retry \<and> retry < renew \<and> renew < lease)"
proof (cases "validate_namespaces L {} (EffectiveWatchNamespaces o')")
  case None
  then show ?thesis
    using validate_namespaces_None_iff [of L "{}" "EffectiveWatchNamespaces o'"]
    by (auto simp: Validate_def split: prod.splits)
next
  case (Some e)
  then show ?thesis
    using validate_namespaces_None_iff [of L "{}" "EffectiveWatchNamespaces o'"]
    by (auto simp: Validate_def)
qed

text \<open>\<open>validation.IsDNS1123Label\<close> rejects the empty string, so an unset scope is never accepted.\<close>

definition label_laws :: "lib \<Rightarrow> bool" where
  "label_laws L = (\<forall>s. IsDNS1123Label L s \<longleftrightarrow> dns_label s \<and> length s \<le> 63)"

lemma Parse_Join:
  assumes "\<forall>v \<in> set values. CHR '','' \<notin> set v" and "values \<noteq> []" and "values \<noteq> ['''']"
  shows "ParseWatchNamespaces (JoinChar (CHR '','') values) = values"
proof -
  have "SplitChar (CHR '','') (JoinChar (CHR '','') values) = values"
    using assms(1,2) by (simp add: Split_Join)
  moreover have "JoinChar (CHR '','') values \<noteq> ''''"
    using calculation assms(3) by (metis SplitChar.simps(1))
  ultimately show ?thesis by (simp add: ParseWatchNamespaces_def)
qed

subsection \<open>Facts on the wiring\<close>

lemma New_config:
  assumes "New L env d o' = (Some (Inr config), d')"
  shows "Validate L o' = None" and "mc_watchNamespaces config = EffectiveWatchNamespaces o'"
    and "mc_timing config = effectiveLeaderElectionTiming o'" and "mc_leaderElection config = o_leaderElection o'"
    and "mc_leaderElectionNamespace config = o_managerNamespace o'" and "mc_builder config = deref (o_builder o') (Build L)"
    and "mc_secureServing config = (mc_metricsAddress config \<noteq> ''0'')"
    and "mc_cacheNamespaces config = set (mc_watchNamespaces config)" and "mc_gaugeNamespaces config = mc_watchNamespaces config"
    and "\<exists>base. me_clientGoScheme env (NewScheme (me_runtime env)) = (None, base)
       \<and> AddToScheme (me_runtime env) base = (None, mc_scheme config)"
    and "\<exists>setup. mc_setup config = Some setup
       \<and> SetupWithManager (me_indexField env) (me_complete env) (o_controllerName o') '''' = Inr setup"
  using assms by (auto simp: New_def Let_def split: option.splits prod.splits sum.splits)

text \<open>\<open>New\<close> panics only if a metric cannot be registered.\<close>

lemma New_panic:
  assumes "New L env d o' = (None, d')" and "\<not> df_done d"
  shows "\<exists>e. New_metrics (me_register env) = Inl e"
  using assms by (auto simp: New_def Let_def Default_def split: option.splits prod.splits sum.splits)

subsection \<open>Readiness\<close>

text \<open>
  \<open>startupReadiness\<close>: the manager starts the runnable after it has acquired leadership (or leader
  election is off). \<open>Start\<close> is a thread of its own; the states are its program points and
  \<open>rd_ready\<close> is the atomic flag the readiness probe reads.
\<close>

datatype readiness_point = NotStarted | Syncing | Serving | Stopped | Failed go_error

record readiness =
  rd_point :: readiness_point
  rd_ready :: bool

definition readiness_init :: readiness where
  "readiness_init = \<lparr>rd_point = NotStarted, rd_ready = False\<rparr>"

inductive readiness_step :: "readiness \<Rightarrow> readiness \<Rightarrow> bool" where
  start: "rd_point s = NotStarted \<Longrightarrow> readiness_step s (s\<lparr>rd_point := Syncing\<rparr>)"
| synced: "rd_point s = Syncing \<Longrightarrow> readiness_step s (s\<lparr>rd_point := Serving, rd_ready := True\<rparr>)"
| unsynced: "rd_point s = Syncing \<Longrightarrow>
     readiness_step s (s\<lparr>rd_point := Failed (ErrorsNew ''cache did not synchronize'')\<rparr>)"
| finished: "rd_point s = Serving \<Longrightarrow> readiness_step s (s\<lparr>rd_point := Stopped, rd_ready := False\<rparr>)"

definition check :: "readiness \<Rightarrow> go_error option" where
  "check s = (if \<not> rd_ready s then Some (ErrorsNew ''manager startup is not complete'') else None)"

inductive_cases readiness_stepE: "readiness_step s t"

definition readiness_inv :: "readiness \<Rightarrow> bool" where
  "readiness_inv s = (rd_ready s = (rd_point s = Serving))"

lemma readiness_inv_step: "readiness_step s t \<Longrightarrow> readiness_inv s \<Longrightarrow> readiness_inv t"
  by (cases rule: readiness_step.cases) (auto simp: readiness_inv_def)

lemma readiness_inv_reachable: "readiness_step\<^sup>*\<^sup>* readiness_init s \<Longrightarrow> readiness_inv s"
  by (induction rule: rtranclp_induct)
    (simp add: readiness_init_def readiness_inv_def, rule readiness_inv_step)

text \<open>Once the process has stopped serving it never becomes ready again.\<close>

lemma readiness_final:
  assumes "readiness_step\<^sup>*\<^sup>* s t" and "rd_point s = Stopped \<or> (\<exists>e. rd_point s = Failed e)"
  shows "t = s"
  using assms by (induction rule: rtranclp_induct) (auto elim!: readiness_stepE)

end
