(* ===== verification/Reconcile_Order.thy ===== *)
theory Reconcile_Order
  imports Reconcile "HOL-Library.Sublist"
begin

text \<open>
  The order of the writes of a reconciliation that uses the production builder: children are written
  in dependency order, each at most once. The plan of \<open>build_plan\<close> is shown to consist of safe intents
  whose callbacks meet the contract \<open>intent_mutator\<close>, decorated Deployment and HTTPRoute included.
\<close>

subsection \<open>The plan that is applied\<close>

definition intent_contract :: "AIWorkload \<Rightarrow> Intent \<Rightarrow> bool" where
  "intent_contract p i =
     (safe_intent p i \<and> (\<not> i_absent i \<longrightarrow> (\<exists>f. i_mutate i = Some f \<and> intent_mutator f)))"

text \<open>The callback of a Deployment intent is the one of the builder.\<close>

definition builder_deployment :: "Intent \<Rightarrow> bool" where
  "builder_deployment i =
     (\<forall>d. i_object i = Some (DeploymentObj d) \<longrightarrow>
        (\<exists>q requests limits. i_mutate i = Some (deployment_callback q requests limits)))"

lemma decorate_first_all:
  assumes "\<And>i d q requests limits. P i \<Longrightarrow> i_object i = Some (DeploymentObj d) \<Longrightarrow>
      i_mutate i = Some (deployment_callback q requests limits) \<Longrightarrow>
      P (i\<lparr>i_mutate := Some (decorated_mutate (i_mutate i) revision)\<rparr>)"
    and "\<forall>i \<in> set plan. P i \<and> builder_deployment i"
  shows "\<forall>i \<in> set (decorate_first revision plan). P i"
  using assms(2)
proof (induction plan)
  case (Cons i plan)
  show ?case
  proof (cases "\<exists>d. i_object i = Some (DeploymentObj d)")
    case True
    then obtain d where d: "i_object i = Some (DeploymentObj d)" ..
    with Cons.prems obtain q requests limits where "i_mutate i = Some (deployment_callback q requests limits)"
      by (auto simp: builder_deployment_def)
    with assms(1) [of i d q requests limits] d Cons.prems
    have "P (i\<lparr>i_mutate := Some (decorated_mutate (i_mutate i) revision)\<rparr>)" by simp
    with d Cons.prems show ?thesis by simp
  next
    case False
    then have "decorate_first revision (i # plan) = i # decorate_first revision plan"
      by (auto split: option.splits client_object.splits)
    with Cons show ?thesis by simp
  qed
qed simp

lemma desired_workload_fields [simp]:
  "w_meta (desired_workload p external) = w_meta p" "w_status (desired_workload p external) = w_status p"
  by (simp_all add: desired_workload_def)

lemma safe_intent_desired: "safe_intent (desired_workload p external) i = safe_intent p i"
  by (simp add: safe_intent_def intent_ok_def cong: option.case_cong)

lemma built_contract:
  assumes "Build L (Some (desired_workload p external)) = Inr plan" and "i \<in> set plan"
  shows "intent_contract p i \<and> builder_deployment i"
proof -
  have "safe_intent p i"
    using workload_builder.built_safe [OF assms] by (simp add: safe_intent_desired)
  moreover have "\<not> i_absent i \<longrightarrow> (\<exists>f. i_mutate i = Some f \<and> intent_mutator f)"
    using workload_builder.callbacks [OF assms] by blast
  moreover from assms have "builder_deployment i"
  proof (elim Build_Inr)
    fix requests limits service autoscaling availability
    assume "serviceIntent (desired_workload p external) = Inr service"
      and "autoscalingIntent L (desired_workload p external) = Inr autoscaling"
      and "availabilityIntent (desired_workload p external) = Inr availability"
      and "plan = [serviceAccountIntent (desired_workload p external),
                   deploymentIntent (desired_workload p external) requests limits, service,
                   networkPolicyIntent (desired_workload p external), autoscaling, availability]"
    with assms(2) show ?thesis
      unfolding builder_deployment_def serviceAccountIntent_def deploymentIntent_def
      by (auto simp: intent_shapes) blast
  qed
  ultimately show ?thesis by (simp add: intent_contract_def)
qed

lemma route_contract:
  assumes "nested_field_laws L" and "HTTPRouteIntent L (Some (desired_workload p external)) = Inr i"
  shows "intent_contract p i \<and> builder_deployment i \<and> intent_kind i = 6"
proof -
  note shape = HTTPRouteIntent_shape [OF assms(2)]
  have "intent_mutator (http_route_callback L (desired_workload p external))"
    using assms(1) by (rule route_mutator)
  moreover have "safe_intent p i"
    using shape by (cases "i_absent i")
      (auto simp: safe_intent_def intent_ok_def fresh_route_def Let_def)
  ultimately show ?thesis
    using shape by (auto simp: intent_contract_def builder_deployment_def fresh_route_def)
qed

lemma built_kind_bound: "Build L (Some q) = Inr plan \<Longrightarrow> i \<in> set plan \<Longrightarrow> intent_kind i \<le> 5"
proof -
  assume "Build L (Some q) = Inr plan" and "i \<in> set plan"
  then have "intent_kind i \<in> set [0, 1, 2, 3, 4, 5 :: int]"
    using Build_kinds [of L q plan] by (metis image_eqI set_map)
  then show ?thesis by auto
qed

text \<open>The stages of an accepted plan.\<close>

lemma build_plan_stages:
  assumes "build_plan L build p external exposure = Inr plan"
  obtains plan1 plan2 ordered where "build (Some (desired_workload p external)) = Inr plan1"
    and "(if xs_manageRoute exposure
          then bindr (HTTPRouteIntent L (Some (desired_workload p external))) (\<lambda>route. Inr (plan1 @ [route]))
          else Inr plan1) = Inr plan2"
    and "ValidatePlan p plan2 = Inr ordered"
    and "plan = decorateExternalSecretRevision ordered (externalSecretRevision external)"
  using assms by (auto simp: build_plan_def Let_def bindr_Inr_iff simp del: HTTPRouteIntent.simps)

text \<open>
  What holds of the intents of the builder and of the route, and survives the revision annotation,
  holds of every intent of the plan that is applied.
\<close>

lemma build_plan_all:
  assumes "nested_field_laws L" and "build_plan L (Build L) p external exposure = Inr plan"
    and built: "\<And>plan i. Build L (Some (desired_workload p external)) = Inr plan \<Longrightarrow> i \<in> set plan \<Longrightarrow> P i"
    and route: "\<And>i. HTTPRouteIntent L (Some (desired_workload p external)) = Inr i \<Longrightarrow> P i"
    and decorated: "\<And>i d q requests limits revision. P i \<Longrightarrow> intent_contract p i \<Longrightarrow> i_object i = Some (DeploymentObj d) \<Longrightarrow>
      i_mutate i = Some (deployment_callback q requests limits) \<Longrightarrow>
      P (i\<lparr>i_mutate := Some (decorated_mutate (i_mutate i) revision)\<rparr>)"
  shows "(\<forall>i \<in> set plan. P i \<and> intent_contract p i) \<and> sorted_wrt (<) (map intent_kind plan)"
proof -
  let ?d = "desired_workload p external" and ?Q = "\<lambda>i. P i \<and> intent_contract p i"
  from assms(2) obtain plan1 plan2 ordered where b: "Build L (Some ?d) = Inr plan1"
    and r: "(if xs_manageRoute exposure
             then bindr (HTTPRouteIntent L (Some ?d)) (\<lambda>route. Inr (plan1 @ [route])) else Inr plan1) = Inr plan2"
    and v: "ValidatePlan p plan2 = Inr ordered"
    and plan: "plan = decorateExternalSecretRevision ordered (externalSecretRevision external)"
    by (rule build_plan_stages)
  have "\<forall>i \<in> set plan2. ?Q i \<and> builder_deployment i"
    using r built [OF b] built_contract [OF b] route route_contract [OF assms(1)]
    by (auto simp: bindr_Inr_iff split: if_splits simp del: HTTPRouteIntent.simps)
  moreover have "set ordered = set plan2" using sorted_distinct_kinds(3) [OF v] by (metis mset_eq_setD)
  ultimately have c: "\<forall>i \<in> set ordered. ?Q i \<and> builder_deployment i" by simp
  have "?Q (i\<lparr>i_mutate := Some (decorated_mutate (i_mutate i) revision)\<rparr>)"
    if "?Q i" "i_object i = Some (DeploymentObj d)" "i_mutate i = Some (deployment_callback q requests limits)"
    for i d q requests limits revision
    using that decorated [of i d q requests limits revision] revised_rollout.intent_mutator_axioms
    by (auto simp: intent_contract_def safe_intent_mutate)
  from decorate_first_all [where P = ?Q, OF this c] c have "\<forall>i \<in> set plan. ?Q i"
    unfolding plan by (simp add: decorateExternalSecretRevision_def)
  moreover have "sorted_wrt (<) (map intent_kind plan)"
    using sorted_distinct_kinds(1,2) [OF v] unfolding plan
    by (simp add: strict_sorted_iff decorateExternalSecretRevision_def)
  ultimately show ?thesis by blast
qed

lemma build_plan_Inr:
  assumes "nested_field_laws L" and "build_plan L (Build L) p external exposure = Inr plan"
  shows "(\<forall>i \<in> set plan. intent_contract p i) \<and> sorted_wrt (<) (map intent_kind plan)"
  using build_plan_all [where P = "\<lambda>i. True", OF assms] by simp

subsection \<open>The writes of a plan\<close>

fun child_write :: "effect \<Rightarrow> nat option" where
  "child_write (CreateE ob) = Some (go_type ob)"
| "child_write (PatchE _ ob) = Some (go_type ob)"
| "child_write (DeleteE ob _ _) = Some (go_type ob)"
| "child_write _ = None"

definition child_writes :: "effect list \<Rightarrow> nat list" where
  "child_writes es = List.map_filter child_write es"

lemma child_writes_simps [simp]:
  "child_writes [] = []"
  "child_writes (e # es) = (case child_write e of None \<Rightarrow> child_writes es | Some t \<Rightarrow> t # child_writes es)"
  by (simp_all add: child_writes_def map_filter_def split: option.splits)

lemma child_writes_append [simp]: "child_writes (xs @ ys) = child_writes xs @ child_writes ys"
  by (induction xs) (auto split: option.splits)

lemma observe_no_child_write: "observe_effect p e \<Longrightarrow> child_write e = None"
  by (cases e) (simp_all add: observe_effect_def)

text \<open>The log grows by writes of the children of the given types, in this order.\<close>

definition grows :: "nat list \<Rightarrow> 's world \<Rightarrow> 's world \<Rightarrow> bool" where
  "grows ts w w' = (\<exists>es. wd_log w' = wd_log w @ es \<and> child_writes es = ts)"

lemma grows_trans: "grows ts u v \<Longrightarrow> grows ts' v w \<Longrightarrow> grows (ts @ ts') u w"
  unfolding grows_def by force

lemma grows_observe: "adds (observe_effect p) w w' \<Longrightarrow> grows [] w w'"
proof -
  assume "adds (observe_effect p) w w'"
  then obtain es where "wd_log w' = wd_log w @ es" and "list_all (observe_effect p) es"
    by (auto simp: adds_def)
  moreover from this(2) have "child_writes es = []"
    by (induction es) (auto simp: observe_no_child_write)
  ultimately show ?thesis by (auto simp: grows_def)
qed

lemma grows_record: "grows [] w (record_resource r i outcome w)"
  by (auto simp: record_resource_def grows_def)

lemma grows_get: "client_get c ob k w = (x, w') \<Longrightarrow> grows [] w w'"
  by (drule client_get_log) (auto simp: grows_def)

lemma apply_missing_grows:
  assumes "\<not> i_absent i \<Longrightarrow> i_mutate i = Some f" and "intent_mutator f"
    and "apply_missing L c p i target w = (x, w')"
  shows "grows [] w w' \<or> grows [go_type target] w w'"
proof -
  have "go_type ob = go_type target" if "f target = Inr ob" for ob
    using intent_mutator.keeps_type [OF assms(2) that] by (rule obj_type_go_type)
  with assms(1,3) show ?thesis
    by (auto simp: apply_missing_def run_mutate_def set_controller_Some grows_def Let_def
        split: if_splits sum.splits option.splits prod.splits dest!: call_log)
qed

lemma apply_existing_grows:
  assumes "\<not> i_absent i \<Longrightarrow> i_mutate i = Some f" and "intent_mutator f"
    and "apply_existing L c p i current w = (x, w')"
  shows "grows [] w w' \<or> grows [go_type current] w w'"
proof -
  have "go_type ob = go_type current" if "f current = Inr ob" for ob
    using intent_mutator.keeps_type [OF assms(2) that] by (rule obj_type_go_type)
  with assms(1,3) show ?thesis
    by (auto simp: apply_existing_def run_mutate_def set_controller_Some grows_def Let_def
        split: if_splits sum.splits option.splits prod.splits dest!: call_log)
qed

lemma contract_kind:
  assumes "intent_contract p i" and "i_object i = Some target"
  shows "int (go_type target) = intent_kind i"
  using assms by (cases target) (auto simp: intent_contract_def elim!: safe_intentD split: if_splits)

lemma contract_nonneg: "intent_contract p i \<Longrightarrow> 0 \<le> intent_kind i"
  unfolding intent_contract_def by (metis safe_intentD)

lemma ascending_nat:
  fixes f :: "'a \<Rightarrow> int"
  assumes "\<forall>i \<in> set xs. 0 \<le> f i" and "sorted_wrt (<) (map f xs)"
  shows "sorted_wrt (<) (map (\<lambda>i. nat (f i)) xs)"
  using assms by (induction xs) auto

lemma contract_mutate:
  assumes "intent_contract p i"
  obtains f where "intent_mutator f" and "\<not> i_absent i \<Longrightarrow> i_mutate i = Some f"
proof (cases "i_absent i")
  case True
  with that account.intent_mutator_axioms show ?thesis by blast
next
  case False
  with assms that show ?thesis by (auto simp: intent_contract_def)
qed

lemma Apply_grows:
  assumes "intent_contract p i" and "Apply L c p i w = (x, w')"
  shows "grows [] w w' \<or> grows [nat (intent_kind i)] w w'"
proof -
  from assms(1) obtain f where f: "intent_mutator f" "\<not> i_absent i \<longrightarrow> i_mutate i = Some f"
    by (rule contract_mutate) blast
  then have f': "\<not> i_absent i \<Longrightarrow> i_mutate i = Some f" by blast
  from assms(2) show ?thesis
  proof (cases rule: Apply_cases)
    case stop
    then show ?thesis by (simp add: grows_def)
  next
    case (read_error target e)
    then show ?thesis by (auto dest: grows_get)
  next
    case (missing target e w1)
    from contract_kind [OF assms(1) missing(2)] have "nat (intent_kind i) = go_type target" by simp
    with apply_missing_grows [OF f' f(1) missing(5)] grows_trans [OF grows_get [OF missing(4)]] show ?thesis
      by fastforce
  next
    case (existing target current w1)
    from contract_kind [OF assms(1) existing(2)] existing(4) have "nat (intent_kind i) = go_type current" by simp
    with apply_existing_grows [OF f' f(1) existing(6)] grows_trans [OF grows_get [OF existing(5)]] show ?thesis
      by fastforce
  qed
qed

lemma apply_plan_grows:
  assumes "\<forall>i \<in> set plan. intent_contract p i" and "apply_plan L r p plan w = (x, w')"
  shows "\<exists>ts. grows ts w w' \<and> subseq ts (map (\<lambda>i. nat (intent_kind i)) plan)"
  using assms
proof (induction plan arbitrary: w)
  case Nil
  then show ?case by (auto simp: grows_def)
next
  case (Cons i plan)
  obtain y w1 where a: "Apply L (rc_client r) p i w = (y, w1)" by fastforce
  from Apply_grows [OF _ a] Cons.prems(1) obtain ts where ts: "grows ts w w1" "ts = [] \<or> ts = [nat (intent_kind i)]"
    by auto
  then have rec: "grows ts w (record_resource r i t w1)" for t
    using grows_trans [OF ts(1) grows_record] by simp
  show ?case
  proof (cases y)
    case (Inl e)
    with Cons.prems(2) a rec ts(2) show ?thesis by auto
  next
    case (Inr outcome)
    with Cons.prems a have "apply_plan L r p plan (record_resource r i (outcome_text outcome) w1) = (x, w')" by simp
    with Cons obtain us where "grows us (record_resource r i (outcome_text outcome) w1) w'"
      and us: "subseq us (map (\<lambda>i. nat (intent_kind i)) plan)" by auto
    from grows_trans [OF rec this(1)] have "grows (ts @ us) w w'" .
    moreover have "subseq (ts @ us) (map (\<lambda>i. nat (intent_kind i)) (i # plan))"
      using us ts(2) by (auto intro: subseq_Cons2)
    ultimately show ?thesis by blast
  qed
qed

lemma subseq_ascending: "subseq xs ys \<Longrightarrow> sorted_wrt (<) ys \<Longrightarrow> sorted_wrt (<) (xs :: nat list)"
  by (induction rule: list_emb.induct) (auto dest: list_emb_set)

lemma converge_grows:
  assumes "nested_field_laws L" and "converge L r (Build L) p external exposure w = (x, w')"
  shows "\<exists>ts. grows ts w w' \<and> sorted_wrt (<) ts"
proof (cases "build_plan L (Build L) p external exposure")
  case (Inl e)
  with assms show ?thesis by (auto simp: converge_def grows_def intro!: exI [of _ "[]"])
next
  case (Inr plan)
  obtain y w1 where a: "apply_plan L r p plan w = (y, w1)" by fastforce
  obtain z w2 where s: "validateSecretReferences r p w1 = (z, w2)" by fastforce
  have g2: "grows [] w1 w2"
    using s check_secrets_effects unfolding validateSecretReferences_def
    by (blast intro: grows_observe adds_observe_read)
  note built = build_plan_Inr [OF assms(1) Inr]
  with apply_plan_grows [OF _ a] obtain ts where ts: "grows ts w w1" "subseq ts (map (\<lambda>i. nat (intent_kind i)) plan)"
    by blast
  from built contract_nonneg have "sorted_wrt (<) (map (\<lambda>i. nat (intent_kind i)) plan)"
    by (intro ascending_nat) auto
  with ts(2) have "sorted_wrt (<) ts" by (rule subseq_ascending)
  with ts(1) grows_trans [OF ts(1) g2] assms(2) Inr a s show ?thesis
    by (auto simp: converge_def split: option.splits)
qed

lemma Reconcile_grows:
  assumes "workload_client_laws (rc_client r)" and "nested_field_laws L" and "rc_builder r = Some (Build L)"
    and "Reconcile L r req w = (res, w')"
  shows "\<exists>ts. grows ts w w' \<and> sorted_wrt (<) ts"
proof -
  have get: "grows [] w w1" if "call_get ''AIWorkload'' (cl_getWorkload (rc_client r)) req w = (y, w1)" for y w1
    using call_get_log [OF that] by (auto simp: grows_def)
  have prep: "grows [] w w2 \<and> same_workload p1 p"
    if "call_get ''AIWorkload'' (cl_getWorkload (rc_client r)) req w = (Inr p, w1)" "prepare L r p w1 = (y, p1, w2)"
    for p w1 y p1 w2
    using grows_trans [OF get [OF that(1)] grows_observe] prepare_confined [OF assms(1) that(2)] by force
  have extend: "grows ts w w2" if "grows ts w w1" "adds (observe_effect q) w1 w2" for ts w1 w2 q
    using grows_trans [OF that(1) grows_observe [OF that(2)]] by simp
  have report: "grows ts w w2" if "grows ts w w1" "reportFailure L r q e w1 = (y, w2)" for ts w1 w2 q e y
    using extend [OF that(1) reportFailure_confined [OF assms(1) that(2) same_workload_refl]] .
  have conv: "\<exists>ts. grows ts w w3 \<and> sorted_wrt (<) ts"
    if "grows [] w w2" "converge L r build q external exposure w2 = (y, w3)" "rc_builder r = Some build"
    for w2 w3 q external exposure y build
    using converge_grows [OF assms(2)] that assms(3) grows_trans [OF that(1)] by fastforce
  from assms(4) show ?thesis
  proof (cases rule: Reconcile_cases)
    case (unread e)
    with get show ?thesis by (intro exI [of _ "[]"]) auto
  next
    case (idle p)
    with get show ?thesis by (intro exI [of _ "[]"]) auto
  next
    case (invalid p w1 e p1 w2)
    from prep [OF invalid(2,4)] report [OF _ invalid(5)] show ?thesis by (intro exI [of _ "[]"]) auto
  next
    case (deleting p w1 build external exposure p1 w2 e)
    from prep [OF deleting(2,5)] conv [OF _ deleting(6,4)] show ?thesis by blast
  next
    case (failed p w1 build external exposure p1 w2 e w3)
    from prep [OF failed(2,5)] conv [OF _ failed(6,4)] report [OF _ failed(8)] show ?thesis by blast
  next
    case (observed p w1 build external exposure p1 w2 w3)
    from prep [OF observed(2,5)] conv [OF _ observed(6,4)] extend [OF _ observe_confined [OF assms(1) observed(7)]]
    show ?thesis by blast
  qed (auto simp: grows_def intro!: exI [of _ "[]"])
qed

end
