(* ===== verification/Examples.thy ===== *)
theory Examples
  imports Manager Telemetry Reconcile_Order "HOL-Library.AList"
begin

text \<open>
  A concrete library, workload and API server: the instances at which the theorems with hypotheses on
  third-party code are applied. \<open>example_lib\<close> implements the documented behaviour on a small scale,
  and \<open>example_client\<close> is an in-memory API server that stores one workload and its children.
\<close>

subsection \<open>A library\<close>

definition decimal_value :: "string \<Rightarrow> nat" where
  "decimal_value s = foldl (\<lambda>n c. 10 * n + (of_char c - 48)) 0 s"

fun example_walk :: "json \<Rightarrow> string list \<Rightarrow> json option" where
  "example_walk j [] = Some j"
| "example_walk (JMap m) (k # ks) = (case map_of m k of None \<Rightarrow> None | Some j \<Rightarrow> example_walk j ks)"
| "example_walk _ (k # ks) = None"

fun example_set_field :: "json \<Rightarrow> json \<Rightarrow> string list \<Rightarrow> json" where
  "example_set_field (JMap m) v [k] = JMap (AList.update k v m)"
| "example_set_field j v ks = j"

definition example_reference :: "string \<Rightarrow> string \<Rightarrow> OwnerReference" where
  "example_reference name uid =
     \<lparr>or_apiVersion = GroupVersion, or_kind = ''AIWorkload'', or_name = name, or_uid = uid,
      or_controller = Some True, or_blockOwnerDeletion = Some True\<rparr>"

text \<open>A condition that says the same already is left as it is.\<close>

fun example_set_condition :: "Condition list \<Rightarrow> Condition \<Rightarrow> Condition list" where
  "example_set_condition [] c = [c]"
| "example_set_condition (d # cs) c =
     (if c_type d = c_type c then (if same_condition d c then d else c) # cs else d # example_set_condition cs c)"

definition example_lib :: lib where
  "example_lib =
     \<lparr>ParseQuantity =
        (\<lambda>s. if s \<noteq> '''' \<and> list_all (\<lambda>c. (48 :: nat) \<le> of_char c \<and> of_char c \<le> (57 :: nat)) s then Some (Quantity s) else None),
      QuantitySign = (\<lambda>q. case q of Quantity s \<Rightarrow> if decimal_value s = 0 then 0 else 1),
      QuantityCmp = (\<lambda>q r. case (q, r) of (Quantity s, Quantity t) \<Rightarrow> int (decimal_value s) - int (decimal_value t)),
      SetStatusCondition = example_set_condition,
      RemoveStatusCondition = (\<lambda>cs t. filter (\<lambda>d. c_type d \<noteq> t) cs),
      FindStatusCondition = (\<lambda>cs t. find (\<lambda>d. c_type d = t) cs),
      IsStatusConditionTrue =
        (\<lambda>cs t. case find (\<lambda>d. c_type d = t) cs of None \<Rightarrow> False | Some d \<Rightarrow> c_status d = ''True''),
      NestedString =
        (\<lambda>j ks. case example_walk j ks of None \<Rightarrow> NestedAbsent | Some (JString s) \<Rightarrow> NestedFound s | _ \<Rightarrow> NestedError),
      NestedSlice =
        (\<lambda>j ks. case example_walk j ks of None \<Rightarrow> NestedAbsent | Some (JArray xs) \<Rightarrow> NestedFound xs | _ \<Rightarrow> NestedError),
      SetNestedField = example_set_field,
      GetControllerOf = (\<lambda>refs. find (\<lambda>r. or_controller r = Some True) refs),
      SetControllerReference =
        (\<lambda>ons name uid ns refs.
           case find (\<lambda>r. or_controller r = Some True) refs of
             None \<Rightarrow> Some (refs @ [example_reference name uid])
           | Some r \<Rightarrow> if refers_to name uid r then Some refs else None),
      SemanticEqualStatus = (=), SemanticEqualObject = (=),
      IgnoreNotFound = (\<lambda>e. if IsNotFound e then None else Some e),
      IsDNS1123Label = (\<lambda>s. dns_label s \<and> length s \<le> 63)\<rparr>"

lemma example_find_law: "find_condition_law example_lib"
  by (simp add: find_condition_law_def example_lib_def)

lemma example_semantic: "semantic_refl example_lib"
  by (simp add: semantic_refl_def example_lib_def)

lemma example_cmp: "quantity_cmp_refl example_lib"
  by (simp add: quantity_cmp_refl_def example_lib_def split: Quantity.splits)

lemma example_labels: "label_laws example_lib"
  by (simp add: label_laws_def example_lib_def)

lemma example_set_field_idem: "example_set_field (example_set_field j v ks) v ks = example_set_field j v ks"
proof (cases "(j, v, ks)" rule: example_set_field.cases)
  case (1 m w k)
  have "AList.update k v (AList.update k v m) = AList.update k v m"
    by (induction m) auto
  with 1 show ?thesis by simp
qed simp_all

lemma example_nested: "nested_field_laws example_lib"
  by (simp add: nested_field_laws_def example_lib_def example_set_field_idem)

lemma find_filter_other: "u \<noteq> t \<Longrightarrow> find (\<lambda>d. c_type d = u) (filter (\<lambda>d. c_type d \<noteq> t) cs) = find (\<lambda>d. c_type d = u) cs"
  by (induction cs) auto

lemma find_set_condition:
  "find (\<lambda>d. c_type d = t) (example_set_condition cs c) =
     (if t = c_type c
      then (case find (\<lambda>d. c_type d = t) cs of None \<Rightarrow> Some c | Some d \<Rightarrow> Some (if same_condition d c then d else c))
      else find (\<lambda>d. c_type d = t) cs)"
  by (induction cs) auto

lemma find_snoc:
  "find P (xs @ [y]) = (case find P xs of Some z \<Rightarrow> Some z | None \<Rightarrow> if P y then Some y else None)"
  by (induction xs) simp_all

lemma example_conditions: "condition_laws example_lib"
proof -
  have set: "SetStatusCondition example_lib = example_set_condition" by (simp add: example_lib_def)
  have fnd: "FindStatusCondition example_lib = (\<lambda>cs t. find (\<lambda>d. c_type d = t) cs)"
    and rem: "RemoveStatusCondition example_lib = (\<lambda>cs t. filter (\<lambda>d. c_type d \<noteq> t) cs)"
    and tru: "IsStatusConditionTrue example_lib =
      (\<lambda>cs t. case find (\<lambda>d. c_type d = t) cs of None \<Rightarrow> False | Some d \<Rightarrow> c_status d = ''True'')"
    by (simp_all add: example_lib_def)
  have gone: "find (\<lambda>d. c_type d = t) (filter (\<lambda>d. c_type d \<noteq> t) cs) = None" for t cs
    by (induction cs) auto
  show ?thesis
    unfolding condition_laws_def fnd rem tru set
    by (auto simp: find_set_condition gone find_filter_other same_condition_def split: option.splits)
qed

lemma example_references: "controller_reference_laws example_lib"
proof -
  have "find (\<lambda>r. or_controller r = Some True) (refs @ [example_reference name uid]) = Some (example_reference name uid)"
    if "find (\<lambda>r. or_controller r = Some True) refs = None" for refs name uid
    using that by (simp add: find_snoc example_reference_def)
  moreover have "refers_to name uid (example_reference name uid)" for name uid
    by (simp add: refers_to_def example_reference_def)
  ultimately show ?thesis
    by (auto simp: controller_reference_laws_def example_lib_def split: option.splits if_splits)
qed

subsection \<open>A workload\<close>

definition example_spec :: AIWorkloadSpec where
  "example_spec =
     \<lparr>sp_environment = ''prod'', sp_tenant = '''', sp_policy = '''', sp_image = ''registry.local/model:1'',
      sp_replicas = Some 2, sp_autoscaling = None, sp_availability = None, sp_container = \<lparr>cs_port = 8080\<rparr>,
      sp_resources = None, sp_health = None, sp_service = None, sp_exposure = None, sp_secretRefs = [],
      sp_externalSecrets = [], sp_network = None\<rparr>"

definition example_workload :: AIWorkload where
  "example_workload =
     \<lparr>w_meta = (named_meta ''model'' ''team-a'')\<lparr>m_uid := ''u-1'', m_resourceVersion := ''7'', m_generation := 3\<rparr>,
      w_spec = example_spec,
      w_status = \<lparr>st_observedGeneration = 0, st_desiredReplicas = 0, st_readyReplicas = 0, st_endpoint = '''',
                  st_conditions = []\<rparr>\<rparr>"

lemma example_workload_simps [simp]:
  "w_name example_workload = ''model''" "w_namespace example_workload = ''team-a''"
  "w_uid example_workload = ''u-1''" "w_generation example_workload = 3"
  "w_spec example_workload = example_spec" "m_deletionTimestamp (w_meta example_workload) = None"
  "w_conditions example_workload = []"
  by (simp_all add: example_workload_def)

subsection \<open>An API server\<close>

record cluster =
  k_workload :: AIWorkload
  k_children :: "client_object list"

definition not_found :: go_error where
  "not_found = ApiError \<lparr>ae_notFound = True, ae_alreadyExists = False, ae_conflict = False, ae_forbidden = False,
     ae_invalid = False, ae_timeout = False, ae_serverTimeout = False, ae_tooManyRequests = False,
     ae_text = ''not found''\<rparr>"

definition conflict :: go_error where
  "conflict = ApiError \<lparr>ae_notFound = False, ae_alreadyExists = False, ae_conflict = True, ae_forbidden = False,
     ae_invalid = False, ae_timeout = False, ae_serverTimeout = False, ae_tooManyRequests = False,
     ae_text = ''the object has been modified''\<rparr>"

lemma example_errors [simp]:
  "IsNotFound not_found" "\<not> IsConflict not_found" "IsConflict conflict" "\<not> IsNotFound conflict"
  by (simp_all add: not_found_def conflict_def api_predicates)

definition fetch :: "(client_object \<Rightarrow> 'a option) \<Rightarrow> (cluster, 'a) getter" where
  "fetch pick s key =
     (case first_some pick (k_children s) of None \<Rightarrow> (Inl not_found, s) | Some x \<Rightarrow> (Inr x, s))"

definition example_client :: "cluster client" where
  "example_client =
     \<lparr>cl_getWorkload =
        (\<lambda>s key. if (w_namespace (k_workload s), w_name (k_workload s)) = key
                 then (Inr (k_workload s), s) else (Inl not_found, s)),
      cl_getServiceAccount = fetch (\<lambda>ob. case ob of ServiceAccountObj x \<Rightarrow> Some x | _ \<Rightarrow> None),
      cl_getDeployment = fetch (\<lambda>ob. case ob of DeploymentObj x \<Rightarrow> Some x | _ \<Rightarrow> None),
      cl_getService = fetch (\<lambda>ob. case ob of ServiceObj x \<Rightarrow> Some x | _ \<Rightarrow> None),
      cl_getNetworkPolicy = fetch (\<lambda>ob. case ob of NetworkPolicyObj x \<Rightarrow> Some x | _ \<Rightarrow> None),
      cl_getHPA = fetch (\<lambda>ob. case ob of HPAObj x \<Rightarrow> Some x | _ \<Rightarrow> None),
      cl_getPDB = fetch (\<lambda>ob. case ob of PDBObj x \<Rightarrow> Some x | _ \<Rightarrow> None),
      cl_getUnstructured = (\<lambda>gvk. fetch (\<lambda>ob. case ob of UnstructuredObj x \<Rightarrow> Some x | _ \<Rightarrow> None)),
      cl_getOther = (\<lambda>kind. fetch (\<lambda>ob. None)),
      cl_getSecretMetadata = (\<lambda>s key. (Inr (named_meta (snd key) (fst key)), s)),
      cl_getConfigMapData = (\<lambda>s key. (Inr (fmap_of_list [(''tenant'', ''blue''), (''profile'', ''small'')]), s)),
      cl_create = (\<lambda>s ob. (None, s\<lparr>k_children := k_children s @ [ob]\<rparr>)),
      cl_patch = (\<lambda>s before after.
        (None, s\<lparr>k_children := map (\<lambda>ob. if ob = before then after else ob) (k_children s)\<rparr>)),
      cl_delete = (\<lambda>s ob uid rv. (None, s\<lparr>k_children := removeAll ob (k_children s)\<rparr>)),
      cl_patchStatus = (\<lambda>s before after. ((None, after), s\<lparr>k_workload := after\<rparr>)),
      cl_listBySecret =
        (\<lambda>s ns name. (Inr (filter (\<lambda>p. w_namespace p = ns \<and> name \<in> set (secretIndex (Some p))) [k_workload s]), s))\<rparr>"

definition example_world :: "cluster world" where
  "example_world = \<lparr>wd_env = \<lparr>k_workload = example_workload, k_children = []\<rparr>, wd_log = []\<rparr>"

definition example_reconciler :: "cluster reconciler" where
  "example_reconciler =
     \<lparr>rc_client = example_client, rc_tenantReader = None, rc_externalSecretsReader = None, rc_gatewayReader = None,
      rc_capabilityLookup = None, rc_watchNamespace = '''', rc_watchNamespaces = [''team-a''],
      rc_builder = Some (Build example_lib), rc_recorder = True, rc_telemetry = True\<rparr>"

lemma example_client_laws: "workload_client_laws example_client"
  by (auto simp: workload_client_laws_def example_client_def split: if_splits)

lemma example_index_laws: "index_laws example_client (\<lambda>s. [k_workload s])"
  by (auto simp: index_laws_def example_client_def)

end
