(* ===== verification/Correct_Resources.thy ===== *)
theory Correct_Resources
  imports Examples
begin

text \<open>
  The correctness properties of the resource builders: names, metadata, the plan and the mutation of
  each kind of child.
\<close>

subsection \<open>Names and metadata\<close>

text \<open>
  C25. For every workload name the API admits, the child name is a DNS-1123 label: lower-case
  alphanumerics and dashes, alphanumeric at both ends, and at most 63 characters (62 in fact).
\<close>

theorem child_name_dns_label:
  "dns_subdomain name \<Longrightarrow> dns_label (ChildName name) \<and> length (ChildName name) \<le> 62"
  by (simp add: ChildName_dns_label ChildName_length)

theorem child_name_dns_label_witness:
  "dns_subdomain ''model.v2'' \<and> dns_label (ChildName ''model.v2'') \<and> length (ChildName ''model.v2'') \<le> 62"
proof -
  have name: "dns_subdomain ''model.v2''" by (simp add: dns_subdomain_def dns_label_def lower_alnum_def)
  with child_name_dns_label [OF name] show ?thesis by simp
qed

text \<open>
  \<open>managedMetadata\<close> owns exactly its seven labels and one annotation: it writes those as the workload
  determines them (dropping the two optional ones when they are unset), leaves every other label and
  annotation and the identity of the object alone, and a second run changes nothing.
\<close>

lemma managed_metadata_owned:
  "fmlookup (m_labels (managedMetadata m p)) k =
     (if k \<in> managed_label_keys then fmlookup (managed_labels p fmempty) k else fmlookup (m_labels m) k)
   \<and> fmlookup (m_annotations (managedMetadata m p)) k =
     (if k = WorkloadNameAnnotation then Some (w_name p) else fmlookup (m_annotations m) k)
   \<and> same_identity (managedMetadata m p) m
   \<and> managedMetadata (managedMetadata m p) p = managedMetadata m p"
proof -
  have "fmlookup (managed_labels p (m_labels m)) k =
      (if k \<in> managed_label_keys then fmlookup (managed_labels p fmempty) k else fmlookup (m_labels m) k)"
    by (cases "k \<in> managed_label_keys")
      (simp_all only: managed_labels_foreign managed_labels_owned [of k p "m_labels m" fmempty] if_True if_False simp_thms)
  moreover have "m_labels (managedMetadata m p) = managed_labels p (m_labels m)"
    by (simp add: managedMetadata_def)
  moreover have "fmlookup (m_annotations (managedMetadata m p)) k =
      (if k = WorkloadNameAnnotation then Some (w_name p) else fmlookup (m_annotations m) k)"
    by (simp add: managedMetadata_def)
  ultimately show ?thesis by (simp only: managedMetadata_identity managedMetadata_idem simp_thms)
qed

subsection \<open>The plan\<close>



text \<open>
  Whatever the production builder returns for an identified workload, the engine accepts: the
  plan passes \<open>ValidatePlan\<close> unchanged, and holds one intent each for ServiceAccount, Deployment,
  Service, NetworkPolicy, HorizontalPodAutoscaler and PodDisruptionBudget, in this order.
\<close>

lemma build_accepted:
  assumes "Build L (Some p) = Inr plan" and "w_uid p \<noteq> ''''" "w_namespace p \<noteq> ''''" "w_name p \<noteq> ''''"
  shows "ValidatePlan p plan = Inr plan \<and> map intent_kind plan = [0, 1, 2, 3, 4, 5]"
proof -
  have kinds: "map intent_kind plan = [0, 1, 2, 3, 4, 5]" using assms(1) by (rule Build_kinds)
  then have "sorted (map intent_kind plan)" by simp
  then have "sort_key intent_kind plan = plan" by (rule sort_key_id_if_sorted)
  with workload_builder.built_plan_accepted [OF assms] kinds show ?thesis by simp
qed

lemma example_build:
  "Build example_lib (Some example_workload) =
     Inr [serviceAccountIntent example_workload, deploymentIntent example_workload fmempty fmempty,
          \<lparr>i_object = Some (ServiceObj (zero_service (named_meta (ChildName ''model'') ''team-a''))),
           i_mutate = Some (service_callback example_workload), i_absent = False\<rparr>,
          networkPolicyIntent example_workload,
          \<lparr>i_object = Some (HPAObj (zero_hpa (named_meta (ChildName ''model'') ''team-a''))), i_mutate = None, i_absent = True\<rparr>,
          \<lparr>i_object = Some (PDBObj (zero_pdb (named_meta (ChildName ''model'') ''team-a''))), i_mutate = None, i_absent = True\<rparr>]"
  by (simp add: example_spec_def resourceLists_def serviceIntent_def autoscalingIntent_def availabilityIntent_def)

lemma build_accepted_witness:
  "\<exists>plan. Build example_lib (Some example_workload) = Inr plan \<and> ValidatePlan example_workload plan = Inr plan
     \<and> map intent_kind plan = [0, 1, 2, 3, 4, 5]"
  using build_accepted [OF example_build] example_build by auto

text \<open>
  C18. Every callback the production builder hands to the engine keeps its contract: on any object it
  accepts, it changes neither identity nor Go type, and running it again on its own result, also after
  the API server has assigned UID, resourceVersion and the like, changes nothing.
\<close>

theorem build_callbacks_contract:
  assumes "Build L (Some p) = Inr plan" and "i \<in> set plan" and "\<not> i_absent i"
  shows "\<exists>f. i_mutate i = Some f
     \<and> (\<forall>ob ob'. f ob = Inr ob' \<longrightarrow>
          same_identity (obj_meta ob') (obj_meta ob) \<and> obj_type ob' = obj_type ob \<and> f ob' = Inr ob'
          \<and> (\<forall>m. assigned (obj_meta ob') m \<longrightarrow> f (set_obj_meta ob' m) = Inr (set_obj_meta ob' m)))"
proof -
  obtain f where f: "i_mutate i = Some f" "intent_mutator f"
    using workload_builder.callbacks [OF assms] by blast
  note laws = intent_mutator.keeps_identity [OF f(2)] intent_mutator.keeps_type [OF f(2)]
    intent_mutator.idempotent [OF f(2)] intent_mutator.settled [OF f(2)]
  from f(1) laws show ?thesis by blast
qed

theorem build_callbacks_contract_witness:
  "\<exists>f. i_mutate (serviceAccountIntent example_workload) = Some f
     \<and> (\<forall>ob'. f (ServiceAccountObj (zero_service_account (named_meta ''a'' ''team-a''))) = Inr ob' \<longrightarrow> f ob' = Inr ob')"
proof -
  have "\<not> i_absent (serviceAccountIntent example_workload)" by (simp add: serviceAccountIntent_def)
  from build_callbacks_contract [OF example_build _ this] show ?thesis by auto
qed

subsection \<open>The Deployment\<close>

text \<open>The Pod hardening every Deployment of the controller carries.\<close>

definition hardened_container :: "Container \<Rightarrow> bool" where
  "hardened_container c =
     (case ct_securityContext c of
        None \<Rightarrow> False
      | Some sc \<Rightarrow>
          sc_runAsNonRoot sc = Some True \<and> sc_privileged sc = Some False
          \<and> sc_allowPrivilegeEscalation sc = Some False
          \<and> sc_capabilities sc = Some \<lparr>cap_add = [], cap_drop = [''ALL'']\<rparr>
          \<and> sc_seccompProfile sc = Some RuntimeDefaultSeccomp)"

definition hardened_pod :: "AIWorkload \<Rightarrow> PodSpec \<Rightarrow> bool" where
  "hardened_pod p pod =
     (pod_serviceAccountName pod = ChildName (w_name p)
      \<and> pod_automountServiceAccountToken pod = Some False
      \<and> (case pod_securityContext pod of
           None \<Rightarrow> False
         | Some psc \<Rightarrow> psc_runAsNonRoot psc = Some True \<and> psc_seccompProfile psc = Some RuntimeDefaultSeccomp)
      \<and> list_ex (\<lambda>c. ct_name c = ContainerName \<and> ct_image c = sp_image (w_spec p) \<and> hardened_container c)
          (pod_containers pod))"

lemma mutate_app_hardened: "hardened_container (mutate_app p requests limits c) \<and> ct_image (mutate_app p requests limits c) = sp_image (w_spec p)"
  by (simp add: hardened_container_def mutate_app_def)

lemma mutate_pod_hardened: "hardened_pod p (mutate_pod p requests limits pod)"
proof -
  obtain c app where "c \<in> set (app_containers p requests limits (pod_containers pod))" and "ct_name c = ContainerName"
    and "c = mutate_app p requests limits app"
    using app_containers_has_app by blast
  then have "list_ex (\<lambda>c. ct_name c = ContainerName \<and> ct_image c = sp_image (w_spec p) \<and> hardened_container c)
      (app_containers p requests limits (pod_containers pod))"
    using mutate_app_hardened unfolding list_ex_iff by metis
  then show ?thesis by (simp add: hardened_pod_def mutate_pod_def)
qed



definition autoscaled_workload :: AIWorkload where
  "autoscaled_workload =
     example_workload\<lparr>w_spec := example_spec
       \<lparr>sp_replicas := None,
        sp_autoscaling := Some \<lparr>as_enabled = Some True, as_minReplicas = Some 2, as_maxReplicas = Some 5,
          as_metrics = [\<lparr>am_type = ''CPU'', am_targetUtilization = Some 70, am_metricName = '''', am_targetValue = None\<rparr>],
          as_scaleDownStabilizationSeconds = None\<rparr>\<rparr>\<rparr>"

definition scaled_deployment :: Deployment where
  "scaled_deployment =
     (zero_deployment ((named_meta (ChildName ''model'') ''team-a'')\<lparr>m_uid := ''d-1''\<rparr>))
       \<lparr>d_selector := Some \<lparr>ls_matchLabels = SelectorLabels autoscaled_workload, ls_matchExpressions = []\<rparr>,
        d_replicas := Some 4\<rparr>"

lemma scaled_deployment_mutates:
  obtains t where "mutateDeployment scaled_deployment autoscaled_workload fmempty fmempty = Inr t"
  by (simp add: mutateDeployment_def Let_def scaled_deployment_def selector_compatible_self)






subsection \<open>The other children\<close>

text \<open>
  C23. Mutating a Service never touches what the cluster has allocated to it: the cluster IPs, the IP
  families and their policy survive, as does everything unmanaged, and the result is a ClusterIP Service
  on the identity labels with the one configured port. It fails, with \<open>ErrImmutableServiceAllocation\<close>,
  exactly for a Service of another type or a headless one.
\<close>

theorem service_allocation_preserved:
  "case mutateService s p of
     Inr t \<Rightarrow>
       s_clusterIP t = s_clusterIP s \<and> s_clusterIPs t = s_clusterIPs s \<and> s_ipFamilies t = s_ipFamilies s
       \<and> s_ipFamilyPolicy t = s_ipFamilyPolicy s \<and> s_rest t = s_rest s
       \<and> HasAllocatedClusterNetwork t = HasAllocatedClusterNetwork s
       \<and> s_type t = ''ClusterIP'' \<and> s_selector t = SelectorLabels p
       \<and> map spt_port (s_ports t) = [ServicePort (Some p)]
       \<and> s_type s \<in> {'''', ''ClusterIP''} \<and> s_clusterIP s \<noteq> ''None''
   | Inl e \<Rightarrow>
       e = ErrImmutableServiceAllocation \<and> (s_type s \<notin> {'''', ''ClusterIP''} \<or> s_clusterIP s = ''None'')"
  by (auto simp: mutateService_def HasAllocatedClusterNetwork_def)

theorem service_allocation_preserved_witness:
  "case mutateService ((zero_service (named_meta ''c'' ''team-a''))\<lparr>s_clusterIP := ''10.0.0.7''\<rparr>) example_workload of
     Inr t \<Rightarrow> s_clusterIP t = ''10.0.0.7'' | Inl e \<Rightarrow> False"
proof -
  let ?s = "(zero_service (named_meta ''c'' ''team-a''))\<lparr>s_clusterIP := ''10.0.0.7''\<rparr>"
  obtain t where t: "mutateService ?s example_workload = Inr t"
    by (simp add: mutateService_def zero_service_def)
  from service_allocation_preserved [of ?s example_workload] show ?thesis unfolding t by simp
qed

text \<open>
  C24. A disruption budget is accepted exactly if one of the two bounds is set and, at the replica floor
  (\<open>minReplicas\<close> under autoscaling, \<open>replicas\<close> otherwise), it keeps at least one Pod up and asks for no
  more Pods than there are; every other setting is \<open>ErrInvalidConfiguration\<close>.
\<close>

theorem availability_guarantee:
  "validateAvailability (Some p) =
     (case sp_availability (w_spec p) of
        None \<Rightarrow> Some ErrInvalidConfiguration
      | Some spec \<Rightarrow>
          if (av_minAvailable spec = None) \<noteq> (av_maxUnavailable spec = None)
             \<and> guaranteed_pods spec (AvailabilityReplicaFloor p) \<in> {1 .. AvailabilityReplicaFloor p}
          then None else Some ErrInvalidConfiguration)"
  by (auto simp: guaranteed_pods_def Let_def split: option.splits)

text \<open>
  Once the builder has accepted the autoscaling section, its callback never dereferences a nil
  pointer: on any HorizontalPodAutoscaler it either fails with \<open>ErrInvalidConfiguration\<close>, because a
  metric has an unsupported form, or gives one that scales the Deployment of this workload between the
  configured bounds on one translated metric per configured one, in order.
\<close>

lemma autoscaler_mirrors_spec:
  assumes "autoscalingIntent L p = Inr i" and "\<not> i_absent i" and "sp_autoscaling (w_spec p) = Some spec"
  shows "\<exists>f. i_mutate i = Some f \<and>
     (case f (HPAObj h) of
        Inl e \<Rightarrow> e = ErrInvalidConfiguration \<and> list_ex (\<lambda>m. hpa_metric L m = Inl ErrInvalidConfiguration) (as_metrics spec)
      | Inr ob \<Rightarrow>
          (\<exists>t. ob = HPAObj t
             \<and> h_scaleTargetRef t = \<lparr>cv_apiVersion = ''apps/v1'', cv_kind = ''Deployment'', cv_name = ChildName (w_name p)\<rparr>
             \<and> h_minReplicas t = as_minReplicas spec \<and> Some (h_maxReplicas t) = as_maxReplicas spec
             \<and> list_all2 (\<lambda>m metric. hpa_metric L m = Inr metric) (as_metrics spec) (h_metrics t)
             \<and> h_metrics t \<noteq> []))"
proof -
  note shape = autoscalingIntent_shape [OF assms(1)]
  from assms obtain lo hi where bounds: "as_minReplicas spec = Some lo" "as_maxReplicas spec = Some hi"
    "as_metrics spec \<noteq> []"
    by (auto simp: autoscalingIntent_def Let_def split: if_splits)
  show ?thesis
  proof (cases "hpaMetrics L (as_metrics spec)")
    case (Inl e)
    then obtain m e' where "m \<in> set (as_metrics spec)" and "hpa_metric L m = Inl e'"
      using hpaMetrics_fails_iff [of L "as_metrics spec"] by auto
    with Inl assms(2,3) shape(3) show ?thesis
      by (auto simp: hpa_callback_def mutateHPA_def list_ex_iff dest: hpaMetrics_error hpa_metric_error)
  next
    case (Inr metrics)
    then have "list_all2 (\<lambda>m metric. hpa_metric L m = Inr metric) (as_metrics spec) metrics"
      by (simp add: hpaMetrics_Inr)
    moreover from this bounds(3) have "metrics \<noteq> []" by auto
    ultimately show ?thesis
      using Inr assms(2,3) shape(3) bounds by (auto simp: hpa_callback_def mutateHPA_def)
  qed
qed

lemma autoscaler_mirrors_spec_witness:
  "\<exists>i f t. autoscalingIntent example_lib autoscaled_workload = Inr i \<and> i_mutate i = Some f
     \<and> f (HPAObj (zero_hpa (named_meta ''c'' ''team-a''))) = Inr (HPAObj t)
     \<and> h_minReplicas t = Some 2 \<and> h_maxReplicas t = 5"
proof -
  let ?cpu = "\<lparr>am_type = ''CPU'', am_targetUtilization = Some 70, am_metricName = '''', am_targetValue = None\<rparr>"
  let ?h = "HPAObj (zero_hpa (named_meta ''c'' ''team-a''))"
  obtain spec where spec: "sp_autoscaling (w_spec autoscaled_workload) = Some spec"
    and b: "as_minReplicas spec = Some 2" "as_maxReplicas spec = Some 5" "as_metrics spec = [?cpu]"
    by (simp add: autoscaled_workload_def)
  obtain i where i: "autoscalingIntent example_lib autoscaled_workload = Inr i" "\<not> i_absent i"
    by (simp add: autoscalingIntent_def autoscaled_workload_def)
  have cpu: "hpa_metric example_lib ?cpu \<noteq> Inl ErrInvalidConfiguration"
    by (simp add: hpa_metric_def metric_types)
  note f = autoscalingIntent_shape(3) [OF i]
  from autoscaler_mirrors_spec [OF i spec, of "zero_hpa (named_meta ''c'' ''team-a'')"]
  obtain t where "hpa_callback example_lib autoscaled_workload ?h = Inr (HPAObj t)"
    "h_minReplicas t = Some 2" "h_maxReplicas t = 5"
    unfolding f b by (cases "hpa_callback example_lib autoscaled_workload ?h") (auto simp: cpu)
  with i(1) f show ?thesis by blast
qed

end
