(* ===== verification/Correct_Engine.thy ===== *)
theory Correct_Engine
  imports Correct_Resources
begin

text \<open>
  The correctness properties of \<open>Engine.Apply\<close>: the ownership boundary, faithful outcomes, no adoption,
  and convergence.
\<close>

text \<open>
  C9. Whatever the API server answers, \<open>Apply\<close> stays inside the ownership boundary of the workload: it
  reads only the child name of the workload in its namespace; it creates only fresh objects under that
  name with the workload as their controller; it patches only live objects the workload controls, without
  changing their identity; it deletes only live objects the workload controls, never a ServiceAccount or
  a Deployment, and under the UID and resourceVersion it has just read.
\<close>

theorem apply_ownership_boundary: "adds (child_call_ok L p) w (snd (Apply L c p i w))"
proof -
  obtain r w' where "Apply L c p i w = (r, w')" by fastforce
  from this Apply_calls [OF this] show ?thesis by simp
qed

text \<open>
  One \<open>Apply\<close> makes at most one read followed by at most one write, and the outcome tells the
  truth: \<open>created\<close>, \<open>patched\<close> and \<open>deleted\<close> are reported only after the one write of that kind, and if
  no write was made the outcome is \<open>unchanged\<close> or an error.
\<close>

lemma apply_single_write:
  "\<exists>es. wd_log (snd (Apply L c p i w)) = wd_log w @ es \<and> apply_trace (fst (Apply L c p i w)) es"
proof -
  obtain r w' where a: "Apply L c p i w = (r, w')" by fastforce
  from Apply_trace [OF a] show ?thesis unfolding a by simp
qed

text \<open>
  C10. There is no adoption: if the child name is occupied by an object that this workload (by UID, name
  and kind) does not control, \<open>Apply\<close> fails with \<open>ErrOwnershipConflict\<close> right after the read, and writes
  nothing.
\<close>

theorem apply_never_adopts:
  assumes "safe_intent p i" and "i_object i = Some target"
    and "w_uid p \<noteq> ''''" "w_namespace p \<noteq> ''''" "w_name p \<noteq> ''''" and "m_deletionTimestamp (w_meta p) = None"
    and "client_get c target (child_key p) w = (Inr current, w')" and "\<not> owns L p current"
  shows "Apply L c p i w = (Inl ErrOwnershipConflict, w') \<and> wd_log w' = wd_log w @ [ReadE (read_kind target) (child_key p)]"
proof -
  have "m_namespace (obj_meta target) = w_namespace p" "m_name (obj_meta target) = ChildName (w_name p)"
    using assms(1,2) by (auto elim: safe_intentD)
  moreover have "ValidatePlan p [i] = Inr [i]"
    using assms(1,3-5) by (simp add: ValidatePlan_single)
  ultimately show ?thesis
    using assms(2,6-8) client_get_log [OF assms(7)] by (simp add: Apply_def apply_existing_def)
qed

definition foreign_account :: ServiceAccount where
  "foreign_account = zero_service_account ((named_meta (ChildName ''model'') ''team-a'')\<lparr>m_uid := ''other''\<rparr>)"

definition occupied_world :: "cluster world" where
  "occupied_world =
     \<lparr>wd_env = \<lparr>k_workload = example_workload, k_children = [ServiceAccountObj foreign_account]\<rparr>, wd_log = []\<rparr>"

lemma example_account_safe: "safe_intent example_workload (serviceAccountIntent example_workload)"
  using workload_builder.built_safe [OF example_build] by simp

lemma example_account_target:
  "i_object (serviceAccountIntent example_workload) =
     Some (ServiceAccountObj (zero_service_account (named_meta (ChildName ''model'') ''team-a'')))"
  by (simp add: serviceAccountIntent_def)

theorem apply_never_adopts_witness:
  "fst (Apply example_lib example_client example_workload (serviceAccountIntent example_workload) occupied_world) =
     Inl ErrOwnershipConflict"
proof -
  let ?t = "ServiceAccountObj (zero_service_account (named_meta (ChildName ''model'') ''team-a''))"
  obtain w' where get: "client_get example_client ?t (child_key example_workload) occupied_world =
      (Inr (ServiceAccountObj foreign_account), w')"
    by (simp add: call_get_def call_def example_client_def fetch_def occupied_world_def)
  have "\<not> owns example_lib example_workload (ServiceAccountObj foreign_account)"
    by (simp add: owns_def foreign_account_def example_lib_def)
  from apply_never_adopts [OF example_account_safe example_account_target _ _ _ _ get this] show ?thesis
    by simp
qed

text \<open>
  Reconciliation converges: if an \<open>Apply\<close> of an intent of the production builder has created or
  patched the child, and the API server then returns the object that was written (with the metadata the
  server assigns), the next \<open>Apply\<close> of the same intent reports \<open>unchanged\<close> and makes no write.
\<close>

lemma apply_converges:
  assumes "Build L (Some p) = Inr plan" and "i \<in> set plan" and "i_object i = Some target"
    and "w_uid p \<noteq> ''''" "w_namespace p \<noteq> ''''" "w_name p \<noteq> ''''"
    and "controller_reference_laws L" and "semantic_refl L"
    and "Apply L c p i w = (r, w')" and "wd_log w' = wd_log w @ es" and "e \<in> set es" and "written e = Some child"
    and "client_get c target (child_key p) w' = (Inr current, w'')" and "stored child current"
  shows "Apply L c p i w' = (Inr Unchanged, w'') \<and> wd_log w'' = wd_log w' @ [ReadE (read_kind target) (child_key p)]"
proof -
  from Apply_writes_applied [OF assms(9-12)] have "\<not> i_absent i" by (auto simp: applied_def)
  then obtain f where f: "i_mutate i = Some f" "intent_mutator f"
    using workload_builder.callbacks [OF assms(1,2)] by blast
  have key: "(m_namespace (obj_meta target), m_name (obj_meta target)) = child_key p"
    using workload_builder.built_safe [OF assms(1,2)] assms(3) by (auto elim: safe_intentD)
  from intent_mutator.Apply_settled [OF f(2,1) assms(3,9-12) _ assms(14,4-8)] assms(13) key client_get_log [OF assms(13)]
  show ?thesis by simp
qed

lemma example_controller:
  "SetControllerReference example_lib ons name uid ns [] = Some [example_reference name uid]"
  by (simp add: example_lib_def)

definition example_account :: client_object where
  "example_account =
     ServiceAccountObj \<lparr>sa_meta = (managedMetadata (named_meta (ChildName ''model'') ''team-a'') example_workload)
         \<lparr>m_ownerReferences := [example_reference ''model'' ''u-1'']\<rparr>,
       sa_automountServiceAccountToken = Some False, sa_rest = ''''\<rparr>"

lemma example_apply_log:
  "Apply example_lib example_client example_workload (serviceAccountIntent example_workload)
     \<lparr>wd_env = \<lparr>k_workload = example_workload, k_children = []\<rparr>, wd_log = log\<rparr> =
     (Inr Created,
      \<lparr>wd_env = \<lparr>k_workload = example_workload, k_children = [example_account]\<rparr>,
       wd_log = log @ [ReadE ''ServiceAccount'' (child_key example_workload), CreateE example_account]\<rparr>)"
proof -
  have plan: "ValidatePlan example_workload [serviceAccountIntent example_workload] = Inr [serviceAccountIntent example_workload]"
    using example_account_safe by (simp add: ValidatePlan_single)
  have get: "client_get example_client (ServiceAccountObj (zero_service_account (named_meta (ChildName ''model'') ''team-a'')))
      (''team-a'', ChildName ''model'') \<lparr>wd_env = \<lparr>k_workload = example_workload, k_children = []\<rparr>, wd_log = log\<rparr> =
      (Inl not_found, \<lparr>wd_env = \<lparr>k_workload = example_workload, k_children = []\<rparr>,
         wd_log = log @ [ReadE ''ServiceAccount'' (''team-a'', ChildName ''model'')]\<rparr>)"
    by (simp add: call_get_def call_def example_client_def fetch_def)
  have create: "apply_missing example_lib example_client example_workload (serviceAccountIntent example_workload)
      (ServiceAccountObj (zero_service_account (named_meta (ChildName ''model'') ''team-a'')))
      \<lparr>wd_env = \<lparr>k_workload = example_workload, k_children = []\<rparr>, wd_log = log\<rparr> =
      (Inr Created, \<lparr>wd_env = \<lparr>k_workload = example_workload, k_children = [example_account]\<rparr>,
         wd_log = log @ [CreateE example_account]\<rparr>)" for log
    by (simp add: apply_missing_def run_mutate_def serviceAccountIntent_def service_account_callback_def
        zero_service_account_def Let_def set_controller_def example_controller example_account_def call_def
        example_client_def)
  from plan get create show ?thesis
    by (simp add: Apply_def example_account_target del: client_get.simps)
qed

lemma example_apply:
  "Apply example_lib example_client example_workload (serviceAccountIntent example_workload) example_world =
     (Inr Created,
      \<lparr>wd_env = \<lparr>k_workload = example_workload, k_children = [example_account]\<rparr>,
       wd_log = [ReadE ''ServiceAccount'' (child_key example_workload), CreateE example_account]\<rparr>)"
  using example_apply_log [of "[]"] by (simp add: example_world_def)

lemma apply_converges_witness:
  "fst (Apply example_lib example_client example_workload (serviceAccountIntent example_workload)
     (snd (Apply example_lib example_client example_workload (serviceAccountIntent example_workload) example_world))) =
   Inr Unchanged"
proof -
  let ?w = "\<lparr>wd_env = \<lparr>k_workload = example_workload, k_children = [example_account]\<rparr>,
       wd_log = [ReadE ''ServiceAccount'' (child_key example_workload), CreateE example_account]\<rparr>"
  have log: "wd_log ?w = wd_log example_world @ [ReadE ''ServiceAccount'' (child_key example_workload), CreateE example_account]"
    by (simp add: example_world_def)
  obtain w'' where get: "client_get example_client (ServiceAccountObj (zero_service_account (named_meta (ChildName ''model'') ''team-a'')))
      (child_key example_workload) ?w = (Inr example_account, w'')"
    by (simp add: call_get_def call_def example_client_def fetch_def example_account_def)
  have stored: "stored example_account example_account"
    by (simp add: stored_def example_account_def)
  have mem: "serviceAccountIntent example_workload \<in> set
      [serviceAccountIntent example_workload, deploymentIntent example_workload fmempty fmempty,
          \<lparr>i_object = Some (ServiceObj (zero_service (named_meta (ChildName ''model'') ''team-a''))),
           i_mutate = Some (service_callback example_workload), i_absent = False\<rparr>,
          networkPolicyIntent example_workload,
          \<lparr>i_object = Some (HPAObj (zero_hpa (named_meta (ChildName ''model'') ''team-a''))), i_mutate = None, i_absent = True\<rparr>,
          \<lparr>i_object = Some (PDBObj (zero_pdb (named_meta (ChildName ''model'') ''team-a''))), i_mutate = None, i_absent = True\<rparr>]"
    by simp
  from apply_converges [OF example_build mem example_account_target _ _ _ example_references example_semantic
      example_apply log _ _ get stored, of "CreateE example_account"] example_apply
  show ?thesis by simp
qed

end
