(* ===== verification/Correct_Status.thy ===== *)
theory Correct_Status
  imports Correct_Engine
begin

text \<open>
  The correctness properties of the status the controller reports: the assessment of the Deployment,
  the report of a success and of a failure, the status patch, and the failure counter.
\<close>

subsection \<open>The assessment\<close>

text \<open>
  C26. The assessment of a Deployment is one of five verdicts, in which at most one of Ready,
  Progressing and Degraded is true; Ready is true exactly if replicas are desired, the rollout has not
  passed its deadline, and the Deployment is available with its current generation observed and all
  four replica counts at the desired number.
\<close>

theorem assess_deployment_verdict:
  "(sa_reason (assessDeployment p d), sa_ready (assessDeployment p d), sa_progressing (assessDeployment p d),
      sa_degraded (assessDeployment p d)) \<in>
     {(''ScaledToZero'', ''False'', ''False'', ''False''),
      (''ProgressDeadlineExceeded'', ''False'', ''False'', ''True''),
      (''WorkloadReady'', ''True'', ''False'', ''False''),
      (''DeploymentUnavailable'', ''False'', ''True'', ''False''),
      (''Reconciling'', ''False'', ''True'', ''False'')}
   \<and> (sa_ready (assessDeployment p d) = ''True'' \<longleftrightarrow>
        desiredReplicas p \<noteq> 0 \<and> \<not> progress_deadline_exceeded d
        \<and> (\<exists>c. findDeploymentCondition (dst_conditions (d_status d)) ''Available'' = Some c \<and> dc_status c = ''True'')
        \<and> m_generation (d_meta d) \<le> dst_observedGeneration (d_status d)
        \<and> [dst_updatedReplicas (d_status d), dst_replicas (d_status d), dst_readyReplicas (d_status d),
           dst_availableReplicas (d_status d)] = replicate 4 (desiredReplicas p))"
proof -
  have "deploymentReady d (desiredReplicas p) \<longleftrightarrow>
      (\<exists>c. findDeploymentCondition (dst_conditions (d_status d)) ''Available'' = Some c \<and> dc_status c = ''True'')
        \<and> m_generation (d_meta d) \<le> dst_observedGeneration (d_status d)
        \<and> [dst_updatedReplicas (d_status d), dst_replicas (d_status d), dst_readyReplicas (d_status d),
           dst_availableReplicas (d_status d)] = replicate 4 (desiredReplicas p)"
    by (auto simp: deploymentReady_def numeral_eq_Suc split: option.splits)
  then show ?thesis
    by (intro conjI assessDeployment_verdict [OF refl]) (simp only: assessDeployment_ready_iff)
qed

text \<open>
  Under autoscaling the desired count stays \<open>spec.replicas\<close> (1 when unset), so a Deployment the
  autoscaler has scaled to any other number is never assessed Ready, however healthy it is.
\<close>

lemma autoscaled_rollout_never_ready:
  assumes "AutoscalingEnabled (Some p)" and "dst_replicas (d_status d) \<noteq> deref (sp_replicas (w_spec p)) 1"
  shows "sa_ready (assessDeployment p d) = ''False''"
  using assms(2) by (auto simp: assessDeployment_def Let_def deploymentReady_def desiredReplicas_def split: option.splits)

text \<open>A rollout of four replicas, all up to date, ready and available, under an autoscaler for 2 to 5.\<close>

definition healthy_rollout :: Deployment where
  "healthy_rollout =
     scaled_deployment\<lparr>d_status :=
       \<lparr>dst_observedGeneration = 1, dst_replicas = 4, dst_updatedReplicas = 4, dst_readyReplicas = 4,
        dst_availableReplicas = 4,
        dst_conditions = [\<lparr>dc_type = ''Available'', dc_status = ''True'', dc_reason = ''''\<rparr>]\<rparr>\<rparr>"

lemma autoscaled_rollout_never_ready_witness:
  "AutoscalingEnabled (Some autoscaled_workload) \<and> deploymentReady healthy_rollout 4
   \<and> sa_ready (assessDeployment autoscaled_workload healthy_rollout) = ''False''"
proof -
  have a: "AutoscalingEnabled (Some autoscaled_workload)"
    and n: "dst_replicas (d_status healthy_rollout) \<noteq> deref (sp_replicas (w_spec autoscaled_workload)) 1"
    and r: "deploymentReady healthy_rollout 4"
    by (simp_all add: autoscaled_workload_def healthy_rollout_def deploymentReady_def scaled_deployment_def
        zero_deployment_def named_meta_def zero_meta_def)
  from a r autoscaled_rollout_never_ready [OF a n] show ?thesis by blast
qed

subsection \<open>Reporting success\<close>

text \<open>
  C27. The status reported after the children were observed is the assessment, for the current
  generation: Ready, Progressing and Degraded carry the verdict with its reason, the counts and the
  endpoint are those of the specification and of the observed Deployment, and no other condition, nor
  metadata or specification, changes.
\<close>

theorem observed_status_truthful:
  assumes "condition_laws L" and "t \<notin> {''Ready'', ''Progressing'', ''Degraded''}"
  shows "reports L (observed_status L p d) ''Ready'' (sa_ready (assessDeployment p d))
       (sa_reason (assessDeployment p d)) (sa_message (assessDeployment p d))
     \<and> reports L (observed_status L p d) ''Progressing'' (sa_progressing (assessDeployment p d))
       (sa_reason (assessDeployment p d)) (sa_message (assessDeployment p d))
     \<and> reports L (observed_status L p d) ''Degraded'' (sa_degraded (assessDeployment p d))
       (sa_reason (assessDeployment p d)) (sa_message (assessDeployment p d))
     \<and> st_observedGeneration (w_status (observed_status L p d)) = w_generation p
     \<and> st_desiredReplicas (w_status (observed_status L p d)) = desiredReplicas p
     \<and> st_readyReplicas (w_status (observed_status L p d)) = dst_readyReplicas (d_status d)
     \<and> st_endpoint (w_status (observed_status L p d)) = ServiceEndpoint p
     \<and> condition_of L (observed_status L p d) t = condition_of L p t
     \<and> w_meta (observed_status L p d) = w_meta p \<and> w_spec (observed_status L p d) = w_spec p"
  using observed_status_reports [OF assms(1), of p d] observed_status_other [OF assms(1), of t p d] assms(2)
  by (simp add: observed_status_counters frame_simps condition_types)

theorem observed_status_truthful_witness:
  "reports example_lib (observed_status example_lib example_workload healthy_rollout) ''Ready'' ''False''
     ''Reconciling'' ''Deployment rollout is progressing toward the desired replica count.''"
proof -
  have "assessDeployment example_workload healthy_rollout =
      \<lparr>sa_reason = ''Reconciling'', sa_message = ''Deployment rollout is progressing toward the desired replica count.'',
       sa_ready = ''False'', sa_progressing = ''True'', sa_degraded = ''False''\<rparr>"
    by (simp add: assessDeployment_def desiredReplicas_def example_spec_def healthy_rollout_def
        progress_deadline_exceeded_def deploymentReady_def deployment_unavailable_def)
  then show ?thesis
    using observed_status_truthful [OF example_conditions, of "''TenantReady''" example_workload healthy_rollout] by simp
qed

subsection \<open>Reporting failure\<close>


lemma example_classify:
  "classify_failure (Errorf ''observe workload Deployment'' not_found) =
     (''ReconcileFailed'', ''Kubernetes API operation failed; inspect access, availability and controller logs.'', False)"
  by (simp add: classify_failure_def not_found_def api_predicates)


text \<open>
  What a failure report returns: if its status patch fails, the safe retry error of that failure;
  otherwise a permanent failure is requeued after a minute without an error, and any other failure is
  returned as a safe retry error, so that the work queue backs off.
\<close>

lemma failure_result:
  "fst (reportFailure L r p cause w) =
     (case fst (patchStatus L r p (failure_status L p cause) w) of
        Inl e \<Rightarrow> (no_requeue, retryError (Some e))
      | Inr _ \<Rightarrow> if permanent_cause cause then (\<lparr>requeueAfter = 60\<rparr>, None) else (no_requeue, retryError (Some cause)))"
proof -
  obtain x left w1 where c: "patchStatus L r p (failure_status L p cause) w = (x, left, w1)" by (metis prod.exhaust)
  obtain res err w' where f: "reportFailure L r p cause w = ((res, err), w')" by (metis prod.exhaust)
  from reportFailure_result [OF f c] c f show ?thesis by (simp del: retryError.simps)
qed

subsection \<open>The status patch\<close>




subsection \<open>The failure counter\<close>

lemma status_patch_no_metric:
  "status_patch_trace L c before after left res es \<Longrightarrow> filter (\<lambda>e. e = FailureMetricE y) es = []"
  by (erule status_patch_trace.cases) simp_all

text \<open>
  With telemetry on, a failure whose report reaches the API increments the failure counter of its
  curated reason by exactly one, and no other; with telemetry off, or when the status patch fails, no
  failure counter changes.
\<close>

lemma failure_counted_once:
  "\<exists>es. wd_log (snd (reportFailure L r p cause w)) = wd_log w @ es
     \<and> counter (mx_failures (fold prometheus.record_effect es m)) y =
       counter (mx_failures m) y
       + (if rc_telemetry r \<and> \<not> isl (fst (patchStatus L r p (failure_status L p cause) w))
             \<and> y = fst (classify_failure cause) then 1 else 0)"
proof -
  obtain x left w1 where c: "patchStatus L r p (failure_status L p cause) w = (x, left, w1)" by (metis prod.exhaust)
  from patchStatus_trace [OF c] obtain es where es: "wd_log w1 = wd_log w @ es"
    and t: "status_patch_trace L (rc_client r) p (failure_status L p cause) left x es" by blast
  obtain reason message permanent where k: "classify_failure cause = (reason, message, permanent)"
    by (metis prod.exhaust)
  let ?ev = "if rc_recorder r \<and> x = Inr True then [EventE ''Warning'' reason ''Reconcile'' message] else []"
  let ?mt = "if rc_telemetry r \<and> \<not> isl x then [FailureMetricE reason] else []"
  have "wd_log (snd (reportFailure L r p cause w)) = wd_log w @ es @ ?ev @ ?mt"
    using c es k by (cases x) (auto simp: reportFailure_def Let_def)
  moreover have "length (filter (\<lambda>e. e = FailureMetricE y) (es @ ?ev @ ?mt)) =
      (if rc_telemetry r \<and> \<not> isl x \<and> y = reason then 1 else 0)"
    using status_patch_no_metric [OF t] by auto
  ultimately show ?thesis
    using c k by (intro exI [of _ "es @ ?ev @ ?mt"]) (simp add: prometheus.recorded_failures)
qed

end
