(* ===== verification/Correct_Gates.thy ===== *)
theory Correct_Gates
  imports Correct_Status
begin

text \<open>
  The correctness properties of the validations that run before a plan is built (tenant, external
  secrets, exposure, capabilities), of the Secret watch, and of the process around the controller.
\<close>

subsection \<open>Tenants\<close>

definition tenant_workload :: AIWorkload where
  "tenant_workload = example_workload\<lparr>w_spec := example_spec\<lparr>sp_tenant := ''blue''\<rparr>\<rparr>"

text \<open>
  C31. A workload that names a tenant passes \<open>validateTenant\<close> only if the tenant profile of its own
  namespace was read, names the same tenant and selects one of the three sizes; the workload then reports
  TenantReady for its generation, and every other condition is as it was.
\<close>

theorem tenant_admission:
  assumes "condition_laws L" and "sp_tenant (w_spec p) \<noteq> ''''" and "validateTenant L r p w = (Inr (), p', w')"
    and "t \<noteq> ''TenantReady''"
  shows "(\<exists>data. call_get ''ConfigMap'' (rd_getConfigMapData (reader_or_client (rc_tenantReader r) (rc_client r)))
         (w_namespace p, ''awcp-tenant-profile'') w = (Inr data, w')
         \<and> map_value data ''tenant'' = sp_tenant (w_spec p)
         \<and> map_value data ''profile'' \<in> {''small'', ''medium'', ''large''})
     \<and> reports L p' ''TenantReady'' ''True'' ''TenantConfigured'' ''The workload tenant matches the namespace-local GitOps profile.''
     \<and> condition_of L p' t = condition_of L p t"
proof -
  note a = validateTenant_admits [OF assms(3,2)]
  have "condition_of L p' t = condition_of L p t"
    using tenant.keeps_other [OF assms(3,1)] assms(4) by (simp add: condition_types)
  with a set_condition_reports [OF assms(1)] show ?thesis
    by (auto simp: tenant_admitted_def tenantProfileConfigMap_def condition_types)
qed

theorem tenant_admission_witness:
  "\<exists>p' w'. validateTenant example_lib example_reconciler tenant_workload example_world = (Inr (), p', w')
     \<and> reports example_lib p' ''TenantReady'' ''True'' ''TenantConfigured'' ''The workload tenant matches the namespace-local GitOps profile.''"
proof -
  obtain p' w' where v: "validateTenant example_lib example_reconciler tenant_workload example_world = (Inr (), p', w')"
    by (simp add: validateTenant_def tenant_workload_def Let_def reader_or_client_def example_reconciler_def
        client_reader_def call_get_def call_def example_client_def map_value_def deref_def)
  have "sp_tenant (w_spec tenant_workload) \<noteq> ''''" by (simp add: tenant_workload_def)
  from tenant_admission [OF example_conditions this v, of "''Ready''"] v show ?thesis by auto
qed

subsection \<open>External secrets\<close>

text \<open>
  When \<open>validateExternalSecrets\<close> succeeds it has resolved every reference in order, none of the
  targets is also a direct Secret reference, so the Secrets the plan is built with are the direct ones
  followed by the targets; and it has changed no condition but its own.
\<close>

lemma external_secret_targets:
  assumes "condition_laws L" and "validateExternalSecrets L r p w = (Inr xs, p', w')" and "t \<noteq> ''ExternalSecretsReady''"
  shows "sp_secretRefs (w_spec (desired_workload p' xs)) =
       sp_secretRefs (w_spec p) @ map es_targetSecret (sp_externalSecrets (w_spec p))
     \<and> set (map re_targetSecret xs) \<inter> set (sp_secretRefs (w_spec p)) = {}
     \<and> condition_of L p' t = condition_of L p t"
proof -
  have "w_spec p' = w_spec p" using external.keeps_desired(2) [OF assms(2)] .
  moreover have "condition_of L p' t = condition_of L p t"
    using external.keeps_other [OF assms(2,1)] assms(3) by (simp add: condition_types)
  ultimately show ?thesis
    using validateExternalSecrets_targets [OF assms(2)] by (simp add: desired_workload_def)
qed

text \<open>A cluster with one ready object that answers both as ExternalSecret and as SecretStore.\<close>

definition secret_document :: Unstructured where
  "secret_document =
     \<lparr>u_gvk = externalSecretGVK, u_meta = named_meta ''db'' ''team-a'',
      u_object = JMap [(''spec'', JMap [(''secretStoreRef'', JMap [(''name'', JString ''vault''), (''kind'', JString ''SecretStore'')])]),
        (''status'', JMap [(''conditions'', JArray [JMap [(''type'', JString ''Ready''), (''status'', JString ''True'')]])])]\<rparr>"

definition secret_world :: "cluster world" where
  "secret_world = \<lparr>wd_env = \<lparr>k_workload = example_workload, k_children = [UnstructuredObj secret_document]\<rparr>, wd_log = []\<rparr>"

definition secret_workload :: AIWorkload where
  "secret_workload =
     example_workload\<lparr>w_spec := example_spec\<lparr>sp_externalSecrets := [\<lparr>es_externalSecret = ''db'', es_targetSecret = ''db''\<rparr>]\<rparr>\<rparr>"

definition capable_reconciler :: "cluster reconciler" where
  "capable_reconciler = example_reconciler\<lparr>rc_capabilityLookup := Some (\<lambda>resource s. (Inr True, s))\<rparr>"

lemma capable_resources:
  "\<exists>w'. detect_resources (\<lambda>resource s. (Inr True, s)) rs w = ((Available, None), w') \<and> wd_env w' = wd_env w"
proof (induction rs arbitrary: w)
  case (Cons a rs)
  from Cons [of "\<lparr>wd_env = wd_env w, wd_log = wd_log w @ [DiscoverE (ar_groupVersion a) (ar_resource a)]\<rparr>"]
  show ?case by (simp add: call_def)
qed simp

lemma capable_detect:
  "RequirementFor f = Some rq \<Longrightarrow> \<exists>w'. Detect (\<lambda>resource s. (Inr True, s)) rq w =
     (\<lparr>ob_requirement = rq, ob_state = Available, ob_err = None\<rparr>, w') \<and> wd_env w' = wd_env w"
  using capable_resources [of "rq_resources rq" w] by (auto simp: Detect_def)

lemma secret_document_facts:
  "readyCondition example_lib secret_document" "store_reference example_lib secret_document = Inr ''vault''"
  "target_secret example_lib secret_document = Inr ''db''"
  by (simp_all add: readyCondition_def store_reference_def target_secret_def secret_document_def example_lib_def)

lemma fetch_document:
  "k_children (wd_env w) = [UnstructuredObj u] \<Longrightarrow>
     \<exists>w'. read_unstructured (client_reader example_client) gvk key w = (Inr u, w') \<and> wd_env w' = wd_env w"
  by (simp add: read_unstructured_def client_reader_def call_get_def call_def example_client_def fetch_def)

lemma secret_resolves:
  assumes "k_children (wd_env w) = [UnstructuredObj secret_document]"
  shows "\<exists>w'. resolve_reference example_lib capable_reconciler (client_reader example_client) secret_workload
    \<lparr>es_externalSecret = ''db'', es_targetSecret = ''db''\<rparr> w =
      (Inr \<lparr>re_targetSecret = ''db'', re_resourceVersion = ''''\<rparr>, w')"
proof -
  obtain w1 where 1: "read_unstructured (client_reader example_client) externalSecretGVK (''team-a'', ''db'') w =
      (Inr secret_document, w1)" "wd_env w1 = wd_env w"
    using fetch_document [OF assms] by blast
  with assms obtain w2 where 2: "read_unstructured (client_reader example_client) secretStoreGVK (''team-a'', ''vault'') w1 =
      (Inr secret_document, w2)"
    using fetch_document [of w1] by force
  show ?thesis
    using 1(1) 2 by (simp add: resolve_reference_def secret_workload_def example_spec_def secret_document_facts
        call_get_def call_def capable_reconciler_def example_reconciler_def example_client_def)
qed

lemma external_secret_targets_witness:
  "\<exists>xs p' w'. validateExternalSecrets example_lib capable_reconciler secret_workload secret_world = (Inr xs, p', w')
     \<and> sp_secretRefs (w_spec (desired_workload p' xs)) = [''db'']"
proof -
  obtain rq where rq: "RequirementFor ExternalSecrets = Some rq" using RequirementFor_total by blast
  obtain w1 where d: "Detect (\<lambda>resource s. (Inr True, s)) rq secret_world =
      (\<lparr>ob_requirement = rq, ob_state = Available, ob_err = None\<rparr>, w1)" "wd_env w1 = wd_env secret_world"
    using capable_detect [OF rq] by blast
  then have "k_children (wd_env w1) = [UnstructuredObj secret_document]" by (simp add: secret_world_def)
  from secret_resolves [OF this] obtain w2 where
    "resolve_reference example_lib capable_reconciler (client_reader example_client) secret_workload
      \<lparr>es_externalSecret = ''db'', es_targetSecret = ''db''\<rparr> w1 =
      (Inr \<lparr>re_targetSecret = ''db'', re_resourceVersion = ''''\<rparr>, w2)" by blast
  then obtain xs p' where v: "validateExternalSecrets example_lib capable_reconciler secret_workload secret_world = (Inr xs, p', w2)"
    using rq d by (simp add: validateExternalSecrets_def secret_workload_def capable_reconciler_def
        example_reconciler_def reader_or_client_def)
  from external_secret_targets [OF example_conditions v, of "''Ready''"] v show ?thesis
    by (auto simp: secret_workload_def example_spec_def)
qed

text \<open>
  C32. The revision hashes an unambiguous encoding: the byte string fed to SHA-256 determines the list of
  targets and versions (none of them contains a NUL byte), and the annotation value is 64 hexadecimal
  characters, or empty exactly if there is no external Secret.
\<close>

theorem external_revision_encoding:
  "inj_on revision_bytes {xs. list_all nul_free xs}
   \<and> length (externalSecretRevision xs) = (if xs = [] then 0 else 64)
   \<and> list_all lower_alnum (externalSecretRevision xs)"
proof -
  have "inj_on revision_bytes {xs. list_all nul_free xs}"
    by (rule inj_onI) (simp add: revision_bytes_inj)
  moreover have "list_all lower_alnum (externalSecretRevision xs)"
    by (auto simp: externalSecretRevision_def list_all_iff dest: hex_bytes_alnum)
  moreover have "length (externalSecretRevision xs) = (if xs = [] then 0 else 64)"
    using externalSecretRevision_length [of xs] by (simp add: externalSecretRevision_def)
  ultimately show ?thesis by blast
qed

text \<open>
  With external Secrets, the Deployment intent of the plan writes the revision into the Pod template
  (so that a new version of a target Secret rolls the Pods) next to the annotation of the workload name,
  changes nothing else of what the undecorated callback computes, and is still a fixed point of itself.
\<close>

lemma external_revision_rolls_deployment:
  "case decorated_mutate (Some (deployment_callback p requests limits)) revision (DeploymentObj d) of
     Inl e \<Rightarrow> mutateDeployment d p requests limits = Inl e
   | Inr ob \<Rightarrow>
       (\<exists>t u. mutateDeployment d p requests limits = Inr t \<and> ob = DeploymentObj u
          \<and> fmlookup (m_annotations (d_templateMeta u)) externalSecretRevisionKey = Some revision
          \<and> fmlookup (m_annotations (d_templateMeta u)) WorkloadNameAnnotation = Some (w_name p)
          \<and> d_pod u = d_pod t \<and> d_meta u = d_meta t \<and> m_labels (d_templateMeta u) = m_labels (d_templateMeta t)
          \<and> decorated_mutate (Some (deployment_callback p requests limits)) revision ob = Inr ob)"
proof (cases "mutateDeployment d p requests limits")
  case (Inl e)
  then show ?thesis by (simp add: decorated_mutate_def deployment_callback_def)
next
  case (Inr t)
  let ?u = "t\<lparr>d_templateMeta := revised revision (d_templateMeta t)\<rparr>"
  have run: "decorated_mutate (Some (deployment_callback p requests limits)) revision (DeploymentObj d) = Inr (DeploymentObj ?u)"
    using Inr by (auto simp: decorated_Inr)
  have "fmlookup (m_annotations (d_templateMeta t)) WorkloadNameAnnotation = Some (w_name p)"
    by (simp add: mutateDeployment_Inr(3) [OF Inr] managedMetadata_def)
  with Inr run revised_rollout.idempotent [OF run] revision_key_foreign show ?thesis by auto
qed

subsection \<open>Exposure\<close>

text \<open>
  C33. A workload is exposed through an HTTPRoute only behind its Service, with its NetworkPolicy turned
  off, and on a Gateway of its own namespace that was read and is Programmed. Whenever the validation
  succeeds, the route is active exactly if the specification asks for it, and an active route is always
  managed.
\<close>

theorem exposure_admission:
  assumes "validateExposure L r p w = (Inr state, p', w')"
  shows "xs_active state = HTTPRouteEnabled (Some p)
     \<and> (xs_active state \<longrightarrow>
          xs_manageRoute state \<and> ServiceEnabled (Some p) \<and> \<not> NetworkEnabled (Some p)
          \<and> (\<exists>exposure gateway w1. sp_exposure (w_spec p) = Some exposure
               \<and> read_unstructured (reader_or_client (rc_gatewayReader r) (rc_client r)) gatewayGVK
                   (w_namespace p, ex_gateway exposure) w1 = (Inr gateway, w')
               \<and> hasTrueCondition L gateway ''Programmed''))"
proof (cases "xs_active state")
  case True
  from validateExposure_active [OF assms True] True show ?thesis by simp
next
  case False
  from validateExposure_inactive [OF assms False] False show ?thesis by simp
qed

definition gateway_document :: Unstructured where
  "gateway_document =
     \<lparr>u_gvk = gatewayGVK, u_meta = named_meta ''edge'' ''team-a'',
      u_object = JMap [(''status'', JMap [(''conditions'', JArray [JMap [(''type'', JString ''Programmed''), (''status'', JString ''True'')]])])]\<rparr>"

definition exposed_workload :: AIWorkload where
  "exposed_workload =
     example_workload\<lparr>w_spec := example_spec
       \<lparr>sp_network := Some \<lparr>nw_enabled = Some False\<rparr>,
        sp_exposure := Some \<lparr>ex_mode = ''HTTPRoute'', ex_gateway = ''edge'', ex_sectionName = ''https'',
          ex_hostname = ''model.example.io'', ex_path = ''/''\<rparr>\<rparr>\<rparr>"

definition gateway_world :: "cluster world" where
  "gateway_world = \<lparr>wd_env = \<lparr>k_workload = exposed_workload, k_children = [UnstructuredObj gateway_document]\<rparr>, wd_log = []\<rparr>"

theorem exposure_admission_witness:
  "\<exists>state p' w'. validateExposure example_lib capable_reconciler exposed_workload gateway_world = (Inr state, p', w')
     \<and> xs_active state \<and> xs_manageRoute state"
proof -
  obtain rq where rq: "RequirementFor GatewayAPI = Some rq" using RequirementFor_total by blast
  obtain w1 where d: "Detect (\<lambda>resource s. (Inr True, s)) rq gateway_world =
      (\<lparr>ob_requirement = rq, ob_state = Available, ob_err = None\<rparr>, w1)" "wd_env w1 = wd_env gateway_world"
    using capable_detect [OF rq] by blast
  then have "k_children (wd_env w1) = [UnstructuredObj gateway_document]" by (simp add: gateway_world_def)
  from fetch_document [OF this] obtain w2 where
    g: "read_unstructured (client_reader example_client) gatewayGVK (''team-a'', ''edge'') w1 = (Inr gateway_document, w2)"
    by blast
  have on: "HTTPRouteEnabled (Some exposed_workload)" by (simp add: exposed_workload_def ExposureHTTPRoute_def)
  have "hasTrueCondition example_lib gateway_document ''Programmed''"
    by (simp add: hasTrueCondition_def gateway_document_def example_lib_def)
  then obtain state p' where v: "validateExposure example_lib capable_reconciler exposed_workload gateway_world = (Inr state, p', w2)"
    using rq d g on
    by (simp add: validateExposure_def Let_def exposed_workload_def capable_reconciler_def example_reconciler_def
        reader_or_client_def example_spec_def)
  from exposure_admission [OF v] on v show ?thesis by auto
qed

subsection \<open>Capabilities\<close>

text \<open>
  Detection is on demand and read-only. It reports Available exactly if every API resource of the
  requirement was found, Unknown exactly if a discovery call failed (with that error), and every optional
  feature has a requirement to detect it by.
\<close>

lemma capability_detection:
  "(ob_state (fst (Detect lookup rq w)) = Available \<longleftrightarrow> all_found lookup (rq_resources rq) (wd_env w))
   \<and> (ob_state (fst (Detect lookup rq w)) = Unknown \<longleftrightarrow> ob_err (fst (Detect lookup rq w)) \<noteq> None)
   \<and> adds is_discovery w (snd (Detect lookup rq w))
   \<and> (\<exists>r. RequirementFor f = Some r \<and> rq_feature r = f \<and> rq_resources r \<noteq> [])"
proof -
  obtain st er w' where d: "detect_resources lookup (rq_resources rq) w = ((st, er), w')" by (metis prod.exhaust)
  then have det: "Detect lookup rq w = (\<lparr>ob_requirement = rq, ob_state = st, ob_err = er\<rparr>, w')"
    by (simp add: Detect_def)
  from detect_available_iff [of lookup "rq_resources rq" w] detect_unknown_iff [of lookup "rq_resources rq" w st er]
    Detect_calls [OF det] RequirementFor_total [of f] d
  show ?thesis unfolding det by simp
qed

end
