(* ===== verification/Correct_Process.thy ===== *)
theory Correct_Process
  imports Correct_Gates
begin

text \<open>
  The correctness properties of what surrounds a reconciliation: the Secret watch, the options and the
  wiring of the manager, its readiness, and the gauges.
\<close>

subsection \<open>The Secret watch\<close>

text \<open>
  The index of a workload holds each Secret it depends on, directly or as the target of an external
  Secret, exactly once, and nothing else.
\<close>

lemma secret_index_exact:
  "distinct (secretIndex (Some p))
   \<and> set (secretIndex (Some p)) =
       (set (sp_secretRefs (w_spec p)) \<union> es_targetSecret ` set (sp_externalSecrets (w_spec p))) - {''''}"
  using secretIndex_exact by blast

text \<open>
  C34. A Secret event wakes exactly the workloads of its namespace that depend on the Secret; an event
  from a namespace that is not watched makes no API call at all.
\<close>

theorem requests_for_secret_exact:
  assumes "index_laws (rc_client r) stock" and "name \<noteq> ''''"
  shows "fst (RequestsForSecret r (ns, name) w) =
       (if watchesNamespace r ns \<and> \<not> isl (fst (cl_listBySecret (rc_client r) (wd_env w) ns name))
        then map workload_key (filter (\<lambda>p. w_namespace p = ns
               \<and> (name \<in> set (sp_secretRefs (w_spec p)) \<or> name \<in> es_targetSecret ` set (sp_externalSecrets (w_spec p))))
             (stock (wd_env w)))
        else [])
     \<and> wd_log (snd (RequestsForSecret r (ns, name) w)) =
       wd_log w @ (if watchesNamespace r ns then [ListE ''AIWorkload'' ns name] else [])"
proof -
  obtain reqs w' where run: "RequestsForSecret r (ns, name) w = (reqs, w')" by fastforce
  have idx: "name \<in> set (secretIndex (Some p)) \<longleftrightarrow>
      name \<in> set (sp_secretRefs (w_spec p)) \<or> name \<in> es_targetSecret ` set (sp_externalSecrets (w_spec p))" for p
    using assms(2) secretIndex_exact(2) by simp
  have stock: "parents = filter (\<lambda>p. w_namespace p = ns \<and> name \<in> set (secretIndex (Some p))) (stock s)"
    if "cl_listBySecret (rc_client r) s ns name = (Inr parents, s')" for s parents s'
    using assms(1) that unfolding index_laws_def by blast
  from run show ?thesis
  proof (cases rule: RequestsForSecret_cases)
    case (3 parents s')
    with run stock [OF 3(3), unfolded idx] show ?thesis by simp
  qed (use run in simp_all)
qed

theorem requests_for_secret_exact_witness:
  "fst (RequestsForSecret example_reconciler (''team-a'', ''db'')
     (secret_world\<lparr>wd_env := (wd_env secret_world)\<lparr>k_workload := secret_workload\<rparr>\<rparr>)) = [(''team-a'', ''model'')]"
proof -
  have "index_laws (rc_client example_reconciler) (\<lambda>s. [k_workload s])"
    using example_index_laws by (simp add: example_reconciler_def)
  from requests_for_secret_exact [OF this, of "''db''" "''team-a''"
      "secret_world\<lparr>wd_env := (wd_env secret_world)\<lparr>k_workload := secret_workload\<rparr>\<rparr>"]
  show ?thesis
    by (simp add: watchesNamespace_def effectiveWatchNamespaces_def example_reconciler_def example_client_def
        secret_world_def secret_workload_def)
qed

subsection \<open>The manager\<close>

text \<open>
  C35. A manager that starts has one consistent, bounded scope: the namespaces of the cache, of the
  reconciler and of the gauges are the same non-empty list of distinct DNS labels, a reconciler with
  this list serves exactly the cached namespaces, leader election is in a valid namespace with ordered
  positive timings, metrics are served, if at all, only securely, the controller is set up, and its scheme
  knows the workload and its list under the API group, although both are registered only after \<open>AddToScheme\<close>
  was bound.
\<close>

theorem manager_scope_consistent:
  assumes "label_laws L" and "scheme_builder_laws (me_runtime env)" and "New L env d options = (Some (Inr mc), d')"
    and "rc_watchNamespaces r = mc_watchNamespaces mc"
  shows "mc_cacheNamespaces mc = set (mc_watchNamespaces mc) \<and> mc_gaugeNamespaces mc = mc_watchNamespaces mc
     \<and> mc_watchNamespaces mc \<noteq> [] \<and> distinct (mc_watchNamespaces mc)
     \<and> list_all (\<lambda>ns. dns_label ns \<and> length ns \<le> 63) (mc_watchNamespaces mc)
     \<and> (watchesNamespace r ns \<longleftrightarrow> ns \<in> mc_cacheNamespaces mc)
     \<and> dns_label (mc_leaderElectionNamespace mc)
     \<and> (case mc_timing mc of (lease, renew, retry) \<Rightarrow> 0 < retry \<and> retry < renew \<and> renew < lease)
     \<and> mc_secureServing mc = (mc_metricsAddress mc \<noteq> ''0'')
     \<and> (\<exists>setup. mc_setup mc = Some setup \<and> cu_for setup = ''AIWorkload'')
     \<and> (\<exists>base. me_clientGoScheme env (NewScheme (me_runtime env)) = (None, base)
          \<and> mc_scheme mc = AddKnownTypes (me_runtime env) GroupVersion [''AIWorkload'', ''AIWorkloadList'']
              (AddToGroupVersion (me_runtime env) GroupVersion base))"
proof -
  note mc = New_config [OF assms(3)]
  have ne: "EffectiveWatchNamespaces options \<noteq> []" by (simp add: EffectiveWatchNamespaces_def)
  have "watchesNamespace r ns \<longleftrightarrow> ns \<in> set (mc_watchNamespaces mc)"
    using assms(4) ne mc(2) by (auto simp: watchesNamespace_def effectiveWatchNamespaces_def list_ex_iff)
  moreover have "\<exists>base. me_clientGoScheme env (NewScheme (me_runtime env)) = (None, base)
      \<and> mc_scheme mc = AddKnownTypes (me_runtime env) GroupVersion [''AIWorkload'', ''AIWorkloadList'']
          (AddToGroupVersion (me_runtime env) GroupVersion base)"
    using mc(10) by (auto simp: AddToScheme_registers [OF assms(2)])
  moreover have "\<exists>setup. mc_setup mc = Some setup \<and> cu_for setup = ''AIWorkload''"
    using mc(11) by (auto simp: SetupWithManager_def Let_def split: option.splits)
  ultimately show ?thesis
    using mc(1-9) ne assms(1) unfolding Validate_None_iff label_laws_def by (simp add: list_all_iff split: prod.splits)
qed

definition example_options :: Options where
  "example_options =
     \<lparr>o_watchNamespace = '''', o_watchNamespaces = [''team-a'', ''team-b''], o_managerNamespace = ''awcp'',
      o_probeAddress = '':8081'', o_metricsBindAddress = '':8443'', o_leaderElection = True, o_leaseDuration = 0,
      o_renewDeadline = 0, o_retryPeriod = 0, o_controllerName = '''', o_builder = None\<rparr>"

text \<open>A library whose builder is the list of its functions and whose scheme is the list of its entries.\<close>

type_synonym entries = "(string \<times> string list) list"

definition example_runtime :: "(entries scheme_step list, entries) runtime_lib" where
  "example_runtime =
     \<lparr>NewScheme = [], NewSchemeBuilder = (\<lambda>fs. fs), Register = (@), builder_AddToScheme = run_steps,
      AddToGroupVersion = (\<lambda>gv s. s @ [(gv, [''WatchEvent''])]), AddKnownTypes = (\<lambda>gv ts s. s @ [(gv, ts)])\<rparr>"

lemma example_builder: "scheme_builder_laws example_runtime"
  unfolding scheme_builder_laws_def example_runtime_def by (intro exI [of _ "\<lambda>b. b"]) simp

definition quiet_env :: "(entries scheme_step list, entries) manager_env" where
  "quiet_env =
     \<lparr>me_runtime = example_runtime, me_clientGoScheme = (\<lambda>s. (None, s)), me_newManager = (\<lambda>_. None), me_discovery = None,
      me_register = (\<lambda>_. None), me_indexField = None, me_complete = (\<lambda>_. None), me_addReadiness = None,
      me_addGauges = None, me_addHealthz = None, me_addReadyz = None\<rparr>"

abbreviation unregistered :: default_metrics where
  "unregistered \<equiv> \<lparr>df_done = False, df_metrics = None\<rparr>"

lemma quiet_start: "Validate L options = None \<Longrightarrow> \<exists>mc d'. New L quiet_env unregistered options = (Some (Inr mc), d')"
  by (simp add: New_def quiet_env_def Let_def AddToScheme_registers [OF example_builder] Default_def New_metrics_def
      SetupWithManager_def)

lemma example_options_valid: "Validate example_lib example_options = None"
  by (simp add: Validate_None_iff example_options_def EffectiveWatchNamespaces_def effectiveLeaderElectionTiming_def
      second_def example_lib_def dns_label_def lower_alnum_def)

theorem manager_scope_consistent_witness:
  "\<exists>mc d'. New example_lib quiet_env unregistered example_options = (Some (Inr mc), d')
     \<and> (watchesNamespace (example_reconciler\<lparr>rc_watchNamespaces := mc_watchNamespaces mc\<rparr>) ''team-b''
        \<longleftrightarrow> ''team-b'' \<in> mc_cacheNamespaces mc)"
proof -
  obtain mc d' where mc: "New example_lib quiet_env unregistered example_options = (Some (Inr mc), d')"
    using quiet_start [OF example_options_valid] by blast
  have "scheme_builder_laws (me_runtime quiet_env)" using example_builder by (simp add: quiet_env_def)
  from manager_scope_consistent [OF example_labels this mc,
      of "example_reconciler\<lparr>rc_watchNamespaces := mc_watchNamespaces mc\<rparr>" "''team-b''"] mc
  show ?thesis by auto
qed


lemma readiness_serves: "readiness_step\<^sup>*\<^sup>* readiness_init \<lparr>rd_point = Serving, rd_ready = True\<rparr>"
proof -
  have "readiness_step readiness_init (readiness_init\<lparr>rd_point := Syncing\<rparr>)"
    by (rule readiness_step.start) (simp add: readiness_init_def)
  moreover have "readiness_step (readiness_init\<lparr>rd_point := Syncing\<rparr>)
      (readiness_init\<lparr>rd_point := Syncing, rd_point := Serving, rd_ready := True\<rparr>)"
    by (rule readiness_step.synced) simp
  ultimately show ?thesis by (simp add: readiness_init_def)
qed


subsection \<open>The gauges\<close>

text \<open>
  A refresh sets the three gauges to the numbers of workloads, of Ready and of Degraded workloads
  over all watched namespaces; if one namespace cannot be listed, the refresh reports the error and
  leaves every gauge as it was.
\<close>

lemma gauges_are_counts:
  "RefreshNamespaces L list namespaces m =
     (if list_all (\<lambda>n. \<not> isl (list n)) namespaces
      then (None, m\<lparr>mx_active := int (length (workloads_in list namespaces)),
                    mx_ready := with_condition L ''Ready'' (workloads_in list namespaces),
                    mx_degraded := with_condition L ''Degraded'' (workloads_in list namespaces)\<rparr>)
      else (fst (RefreshNamespaces L list namespaces m), m))
   \<and> (fst (RefreshNamespaces L list namespaces m) = None \<longleftrightarrow> list_all (\<lambda>n. \<not> isl (list n)) namespaces)"
proof (cases "list_all (\<lambda>n. \<not> isl (list n)) namespaces")
  case True
  then have "\<forall>n \<in> set namespaces. \<exists>items. list n = Inr items"
    by (auto simp: list_all_iff isl_def) (metis sum.exhaust)
  from count_namespaces_Inr [OF this, of L 0 0 0] True show ?thesis
    by (simp add: RefreshNamespaces_def)
next
  case False
  then obtain n e where "n \<in> set namespaces" "list n = Inl e" by (auto simp: list_all_iff isl_def)
  with count_namespaces_Inl [of n namespaces list e L "(0, 0, 0)"] obtain e' where
    "count_namespaces L list namespaces (0, 0, 0) = Inl e'" by blast
  with False show ?thesis by (simp add: RefreshNamespaces_def)
qed

end
