(* ===== verification/Process.thy ===== *)
theory Process
  imports Manager
begin

text \<open>
  The start of the process: \<open>main\<close> of \<open>cmd/main.go\<close>.
\<close>

subsection \<open>The entry point\<close>

text \<open>The flags as \<open>flag.Parse\<close> leaves them: set on the command line, or not.\<close>

record flag_values =
  fl_probeAddress :: "string option"
  fl_metricsBindAddress :: "string option"
  fl_leaderElect :: "bool option"
  fl_leaseDuration :: "int option"
  fl_renewDeadline :: "int option"
  fl_retryPeriod :: "int option"

definition main_options :: "(string \<Rightarrow> string) \<Rightarrow> flag_values \<Rightarrow> Options" where
  "main_options getenv flags =
     \<lparr>o_watchNamespace = getenv ''WATCH_NAMESPACE'',
      o_watchNamespaces = ParseWatchNamespaces (getenv ''WATCH_NAMESPACES''),
      o_managerNamespace = getenv ''MANAGER_NAMESPACE'',
      o_probeAddress = deref (fl_probeAddress flags) '':8081'',
      o_metricsBindAddress = deref (fl_metricsBindAddress flags) '':8443'',
      o_leaderElection = deref (fl_leaderElect flags) True,
      o_leaseDuration = deref (fl_leaseDuration flags) (15 * second),
      o_renewDeadline = deref (fl_renewDeadline flags) (10 * second),
      o_retryPeriod = deref (fl_retryPeriod flags) (2 * second),
      o_controllerName = '''', o_builder = None\<rparr>"

text \<open>The surroundings of the process, the calls that may fail with their error.\<close>

record ('b, 'x) process_env =
  pe_getenv :: "string \<Rightarrow> string"
  pe_flags :: flag_values
  pe_config :: "go_error option"
  pe_manager :: "('b, 'x) manager_env"
  pe_start :: "'x manager_config \<Rightarrow> go_error option"

text \<open>
  How the process ended: its exit code (2 is the one of a panic), its log messages, and the manager it has
  started.
\<close>

record 'x process_end =
  px_code :: int
  px_log :: "string list"
  px_started :: "'x manager_config option"

definition main_process :: "lib \<Rightarrow> ('b, 'x) process_env \<Rightarrow> 'x process_end" where
  "main_process L env =
     (let options = main_options (pe_getenv env) (pe_flags env) in
      case Validate L options of
        Some e \<Rightarrow> \<lparr>px_code = 1, px_log = [''Invalid namespace configuration''], px_started = None\<rparr>
      | None \<Rightarrow>
          (case pe_config env of
             Some e \<Rightarrow> \<lparr>px_code = 1, px_log = [''Could not load Kubernetes configuration''], px_started = None\<rparr>
           | None \<Rightarrow>
               (case fst (New L (pe_manager env) \<lparr>df_done = False, df_metrics = None\<rparr> options) of
                  None \<Rightarrow> \<lparr>px_code = 2, px_log = [], px_started = None\<rparr>
                | Some (Inl e) \<Rightarrow> \<lparr>px_code = 1, px_log = [''Could not create manager''], px_started = None\<rparr>
                | Some (Inr mgr) \<Rightarrow>
                    (case pe_start env mgr of
                       Some e \<Rightarrow> \<lparr>px_code = 1, px_log = [''Starting AWCP manager'', ''Manager stopped with error''],
                                 px_started = Some mgr\<rparr>
                     | None \<Rightarrow> \<lparr>px_code = 0, px_log = [''Starting AWCP manager''], px_started = Some mgr\<rparr>))))"

end
