(* ===== verification/Plan_Reading.thy ===== *)
theory Plan_Reading
  imports Res_Plan
begin

text \<open>
  What the builders read of a workload: its identity and the meaning of its specification, not its status,
  its other metadata, or how an optional field is spelled. Two workloads with the same reading have the
  same plan, callbacks included.
\<close>

definition scaling_reading :: "AIWorkload \<Rightarrow> (int option \<times> int option \<times> AutoscalingMetricSpec list \<times> int option) option" where
  "scaling_reading p =
     map_option (\<lambda>a. (as_minReplicas a, as_maxReplicas a, as_metrics a, as_scaleDownStabilizationSeconds a))
       (sp_autoscaling (w_spec p))"

definition budget_reading :: "AIWorkload \<Rightarrow> (int option \<times> int option) option" where
  "budget_reading p = map_option (\<lambda>a. (av_minAvailable a, av_maxUnavailable a)) (sp_availability (w_spec p))"

definition same_reading :: "AIWorkload \<Rightarrow> AIWorkload \<Rightarrow> bool" where
  "same_reading q p =
     (w_name q = w_name p \<and> w_namespace q = w_namespace p \<and> w_uid q = w_uid p
      \<and> sp_environment (w_spec q) = sp_environment (w_spec p) \<and> sp_tenant (w_spec q) = sp_tenant (w_spec p)
      \<and> sp_image (w_spec q) = sp_image (w_spec p) \<and> sp_container (w_spec q) = sp_container (w_spec p)
      \<and> sp_resources (w_spec q) = sp_resources (w_spec p) \<and> sp_health (w_spec q) = sp_health (w_spec p)
      \<and> sp_exposure (w_spec q) = sp_exposure (w_spec p) \<and> sp_secretRefs (w_spec q) = sp_secretRefs (w_spec p)
      \<and> deref (sp_replicas (w_spec q)) 1 = deref (sp_replicas (w_spec p)) 1
      \<and> ServiceEnabled (Some q) = ServiceEnabled (Some p) \<and> ServicePort (Some q) = ServicePort (Some p)
      \<and> NetworkEnabled (Some q) = NetworkEnabled (Some p)
      \<and> AutoscalingEnabled (Some q) = AutoscalingEnabled (Some p) \<and> scaling_reading q = scaling_reading p
      \<and> AvailabilityEnabled (Some q) = AvailabilityEnabled (Some p) \<and> budget_reading q = budget_reading p)"

lemma same_reading_metadata:
  assumes "same_reading q p"
  shows "SelectorLabels q = SelectorLabels p" and "managedMetadata m q = managedMetadata m p"
  using assms by (simp_all add: same_reading_def SelectorLabels_def managed_labels_def managedMetadata_def)

lemma same_reading_app: "same_reading q p \<Longrightarrow> mutate_app q requests limits app = mutate_app p requests limits app"
  by (simp add: same_reading_def mutate_app_def app_ports_def)

lemma same_reading_pod: "same_reading q p \<Longrightarrow> mutate_pod q requests limits pod = mutate_pod p requests limits pod"
  using same_reading_app [of q p]
  by (simp add: same_reading_def mutate_pod_def app_containers_def split: option.splits)

lemma same_reading_floor:
  assumes "same_reading q p"
  shows "(case sp_autoscaling (w_spec q) of None \<Rightarrow> 1 | Some a \<Rightarrow> deref (as_minReplicas a) 1) =
         (case sp_autoscaling (w_spec p) of None \<Rightarrow> 1 | Some a \<Rightarrow> deref (as_minReplicas a) 1)"
    and "AvailabilityReplicaFloor q = AvailabilityReplicaFloor p"
proof -
  have "scaling_reading q = scaling_reading p" and "AutoscalingEnabled (Some q) = AutoscalingEnabled (Some p)"
    and "deref (sp_replicas (w_spec q)) 1 = deref (sp_replicas (w_spec p)) 1"
    using assms by (simp_all add: same_reading_def del: AutoscalingEnabled.simps)
  then show "(case sp_autoscaling (w_spec q) of None \<Rightarrow> 1 | Some a \<Rightarrow> deref (as_minReplicas a) 1) =
         (case sp_autoscaling (w_spec p) of None \<Rightarrow> 1 | Some a \<Rightarrow> deref (as_minReplicas a) 1)"
    and "AvailabilityReplicaFloor q = AvailabilityReplicaFloor p"
    by (cases "sp_autoscaling (w_spec q)"; cases "sp_autoscaling (w_spec p)";
        simp add: scaling_reading_def AvailabilityReplicaFloor_def del: AutoscalingEnabled.simps)+
qed

lemma same_reading_selector: "same_reading q p \<Longrightarrow> selector_compatible q s = selector_compatible p s"
  using same_reading_metadata(1) [of q p] by (simp add: same_reading_def selector_compatible_def split: option.splits)

lemma same_reading_deployment:
  assumes "same_reading q p"
  shows "mutateDeployment d q requests limits = mutateDeployment d p requests limits"
proof -
  have "AutoscalingEnabled (Some q) = AutoscalingEnabled (Some p)"
    "deref (sp_replicas (w_spec q)) 1 = deref (sp_replicas (w_spec p)) 1"
    using assms by (simp_all add: same_reading_def del: AutoscalingEnabled.simps)
  then show ?thesis
    using same_reading_metadata [OF assms] same_reading_pod [OF assms] same_reading_floor(1) [OF assms]
      same_reading_selector [OF assms]
    by (simp add: mutateDeployment_def Let_def del: AutoscalingEnabled.simps)
qed

lemma same_reading_budget:
  assumes "same_reading q p"
  shows "validateAvailability (Some q) = validateAvailability (Some p)" and "mutatePDB b q = mutatePDB b p"
proof -
  have r: "budget_reading q = budget_reading p" using assms by (simp add: same_reading_def)
  then show v: "validateAvailability (Some q) = validateAvailability (Some p)"
    using same_reading_floor(2) [OF assms]
    by (cases "sp_availability (w_spec q)"; cases "sp_availability (w_spec p)") (auto simp: budget_reading_def)
  show "mutatePDB b q = mutatePDB b p"
    using r same_reading_metadata [OF assms] v unfolding mutatePDB_def
    by (cases "sp_availability (w_spec q)"; cases "sp_availability (w_spec p)")
      (auto simp: budget_reading_def Let_def simp del: validateAvailability.simps split: option.splits)
qed

lemma same_reading_scaler:
  assumes "same_reading q p"
  shows "mutateHPA L h q = mutateHPA L h p"
proof -
  have "scaling_reading q = scaling_reading p" and "w_name q = w_name p"
    using assms by (simp_all add: same_reading_def)
  then show ?thesis
    using same_reading_metadata(2) [OF assms]
    by (cases "sp_autoscaling (w_spec q)"; cases "sp_autoscaling (w_spec p)")
      (auto simp: scaling_reading_def mutateHPA_def bindr_def split: sum.splits option.splits)
qed

lemma same_reading_callbacks:
  assumes "same_reading q p"
  shows "service_account_callback q = service_account_callback p"
    and "deployment_callback q = deployment_callback p" and "service_callback q = service_callback p"
    and "network_policy_callback q = network_policy_callback p"
    and "pdb_callback q = pdb_callback p" and "hpa_callback L q = hpa_callback L p"
proof -
  note eqs = same_reading_metadata [OF assms] same_reading_deployment [OF assms] same_reading_budget(2) [OF assms]
    same_reading_scaler [OF assms]
  have "ServicePort (Some q) = ServicePort (Some p)" using assms by (simp add: same_reading_def)
  then show "service_account_callback q = service_account_callback p"
    and "deployment_callback q = deployment_callback p" and "service_callback q = service_callback p"
    and "network_policy_callback q = network_policy_callback p"
    and "pdb_callback q = pdb_callback p" and "hpa_callback L q = hpa_callback L p"
    by (simp_all add: fun_eq_iff service_account_callback_def deployment_callback_def service_callback_def
        network_policy_callback_def pdb_callback_def hpa_callback_def mutateService_def network_policy_spec_def
        eqs del: ServicePort.simps split: client_object.splits)
qed

lemma same_reading_autoscaling:
  assumes "same_reading q p"
  shows "autoscalingIntent L q = autoscalingIntent L p"
proof -
  have "scaling_reading q = scaling_reading p" "w_name q = w_name p" "w_namespace q = w_namespace p"
    "AutoscalingEnabled (Some q) = AutoscalingEnabled (Some p)"
    using assms by (simp_all add: same_reading_def del: AutoscalingEnabled.simps)
  then show ?thesis
    using same_reading_callbacks(6) [OF assms]
    by (cases "sp_autoscaling (w_spec q)"; cases "sp_autoscaling (w_spec p)")
      (simp_all add: scaling_reading_def autoscalingIntent_def Let_def del: AutoscalingEnabled.simps)
qed

lemma Build_same_reading:
  assumes "same_reading q p"
  shows "Build L (Some q) = Build L (Some p)"
proof -
  have names: "w_name q = w_name p" "w_namespace q = w_namespace p"
    and readings: "ServiceEnabled (Some q) = ServiceEnabled (Some p)" "ServicePort (Some q) = ServicePort (Some p)"
    "NetworkEnabled (Some q) = NetworkEnabled (Some p)" "AvailabilityEnabled (Some q) = AvailabilityEnabled (Some p)"
    and res: "sp_resources (w_spec q) = sp_resources (w_spec p)"
    using assms by (simp_all add: same_reading_def)
  note eqs = names readings same_reading_callbacks [OF assms] same_reading_budget(1) [OF assms]
  have "serviceIntent q = serviceIntent p" "networkPolicyIntent q = networkPolicyIntent p"
    "serviceAccountIntent q = serviceAccountIntent p" "deploymentIntent q = deploymentIntent p"
    by (simp_all add: fun_eq_iff serviceIntent_def networkPolicyIntent_def serviceAccountIntent_def
        deploymentIntent_def Let_def eqs del: ServiceEnabled.simps ServicePort.simps NetworkEnabled.simps)
  moreover have "availabilityIntent q = availabilityIntent p"
    by (simp add: availabilityIntent_def Let_def eqs del: AvailabilityEnabled.simps validateAvailability.simps
        split: option.splits)
  ultimately show ?thesis by (simp add: res same_reading_autoscaling [OF assms])
qed

end
