(* ===== verification/Cluster.thy ===== *)
theory Cluster
  imports Reconcile_Order Plan_Reading
begin

text \<open>
  The children as the API server holds them. \<open>store\<close> maps an object type and a key to the live object,
  \<open>serves\<close> is what one call may do to it (optimistic concurrency: a create needs a free name, a patch
  and a delete the object that was read), and \<open>api_server\<close> ties the calls of a client to a store.
  \<open>settled\<close> is the desired state of one child; a plan that has been applied without an error leaves
  every child settled, and applying a settled plan writes nothing.
\<close>

type_synonym store = "object_type \<Rightarrow> object_key \<Rightarrow> client_object option"

abbreviation key_of :: "client_object \<Rightarrow> object_key" where
  "key_of ob \<equiv> (m_namespace (obj_meta ob), m_name (obj_meta ob))"

definition put :: "client_object \<Rightarrow> client_object option \<Rightarrow> store \<Rightarrow> store" where
  "put at x s = (\<lambda>t k. if t = obj_type at \<and> k = key_of at then x else s t k)"

text \<open>A deleted object that still has finalizers stays, marked as being deleted.\<close>

definition terminating :: "string \<Rightarrow> client_object \<Rightarrow> client_object" where
  "terminating t ob = set_obj_meta ob ((obj_meta ob)\<lparr>m_deletionTimestamp := Some t\<rparr>)"

inductive serves :: "effect \<Rightarrow> store \<Rightarrow> store \<Rightarrow> bool" where
  nothing: "serves e s s"
| created: "s (obj_type ob) (key_of ob) = None \<Longrightarrow> stored ob live \<Longrightarrow> serves (CreateE ob) s (put ob (Some live) s)"
| patched: "s (obj_type before) (key_of before) = Some before \<Longrightarrow> stored after live \<Longrightarrow>
     serves (PatchE before after) s (put before (Some live) s)"
| deleted: "s (obj_type ob) (key_of ob) = Some ob \<Longrightarrow> uid = m_uid (obj_meta ob) \<Longrightarrow>
     rv = m_resourceVersion (obj_meta ob) \<Longrightarrow> serves (DeleteE ob uid rv) s (put ob None s)"
| finalizing: "s (obj_type ob) (key_of ob) = Some ob \<Longrightarrow> uid = m_uid (obj_meta ob) \<Longrightarrow>
     rv = m_resourceVersion (obj_meta ob) \<Longrightarrow> serves (DeleteE ob uid rv) s (put ob (Some (terminating t ob)) s)"

inductive_cases serves_writeE:
  "serves (CreateE ob) s s'" "serves (PatchE before after) s s'" "serves (DeleteE ob uid rv) s s'"

text \<open>
  A client in front of a store: a read changes nothing and returns what is stored (or fails, and says
  "not found" only of a free name); a write is served as above, and one that reports success has
  happened; a delete reports "not found" only for a free name.
\<close>

definition reads_from :: "'s client \<Rightarrow> ('s \<Rightarrow> store) \<Rightarrow> bool" where
  "reads_from c store =
     (\<forall>ob k w r w'. client_get c ob k w = (r, w') \<longrightarrow>
        store (wd_env w') = store (wd_env w)
        \<and> (case r of
             Inr live \<Rightarrow> store (wd_env w) (obj_type ob) k = Some live \<and> key_of live = k \<and> obj_type live = obj_type ob
           | Inl e \<Rightarrow> IsNotFound e \<longrightarrow> store (wd_env w) (obj_type ob) k = None))"

definition creates_in :: "'s client \<Rightarrow> ('s \<Rightarrow> store) \<Rightarrow> bool" where
  "creates_in c store =
     (\<forall>s ob r s'. cl_create c s ob = (r, s') \<longrightarrow>
        serves (CreateE ob) (store s) (store s')
        \<and> (r = None \<longrightarrow> (\<exists>live. stored ob live \<and> store s' = put ob (Some live) (store s))))"

definition patches_in :: "'s client \<Rightarrow> ('s \<Rightarrow> store) \<Rightarrow> bool" where
  "patches_in c store =
     (\<forall>s before after r s'. cl_patch c s before after = (r, s') \<longrightarrow>
        serves (PatchE before after) (store s) (store s')
        \<and> (r = None \<longrightarrow> (\<exists>live. stored after live \<and> store s' = put before (Some live) (store s))))"

definition deletes_in :: "'s client \<Rightarrow> ('s \<Rightarrow> store) \<Rightarrow> bool" where
  "deletes_in c store =
     (\<forall>s ob uid rv r s'. cl_delete c s ob uid rv = (r, s') \<longrightarrow>
        serves (DeleteE ob uid rv) (store s) (store s')
        \<and> (r = None \<longrightarrow> store s' = put ob None (store s) \<or> (\<exists>t. store s' = put ob (Some (terminating t ob)) (store s)))
        \<and> (\<forall>e. r = Some e \<longrightarrow> IsNotFound e \<longrightarrow> store s' = store s \<and> store s (obj_type ob) (key_of ob) = None))"

definition api_server :: "'s client \<Rightarrow> ('s \<Rightarrow> store) \<Rightarrow> bool" where
  "api_server c store =
     (reads_from c store \<and> creates_in c store \<and> patches_in c store \<and> deletes_in c store
      \<and> (\<forall>s k r s'. cl_getSecretMetadata c s k = (r, s') \<longrightarrow> store s' = store s))"

lemma put_simps [simp]:
  "put at x s (obj_type at) (key_of at) = x"
  "t \<noteq> obj_type at \<or> k \<noteq> key_of at \<Longrightarrow> put at x s t k = s t k"
  by (auto simp: put_def)

lemma put_other: "put at x s t k \<noteq> s t k \<Longrightarrow> t = obj_type at \<and> k = key_of at"
  by (auto simp: put_def split: if_splits)

subsection \<open>The desired state of a child\<close>

text \<open>A live object in which the engine finds nothing to change.\<close>

definition quiescent :: "lib \<Rightarrow> AIWorkload \<Rightarrow> Intent \<Rightarrow> client_object \<Rightarrow> bool" where
  "quiescent L p i ob =
     (owns L p ob \<and> m_deletionTimestamp (obj_meta ob) = None
      \<and> (case run_mutate i ob of
           Inl _ \<Rightarrow> False
         | Inr ob' \<Rightarrow>
             same_identity (obj_meta ob') (obj_meta ob)
             \<and> (case set_controller L p ob' of None \<Rightarrow> False | Some child \<Rightarrow> SemanticEqualObject L ob child)))"

definition settled :: "lib \<Rightarrow> AIWorkload \<Rightarrow> Intent \<Rightarrow> store \<Rightarrow> bool" where
  "settled L p i s =
     (case i_object i of
        None \<Rightarrow> False
      | Some target \<Rightarrow>
          (case s (obj_type target) (child_key p) of
             None \<Rightarrow> i_absent i
           | Some ob \<Rightarrow>
               if i_absent i then m_deletionTimestamp (obj_meta ob) \<noteq> None else quiescent L p i ob))"

lemma quiescent_apply: "\<not> i_absent i \<Longrightarrow> quiescent L p i ob \<Longrightarrow> apply_existing L c p i ob w = (Inr Unchanged, w)"
  by (auto simp: quiescent_def apply_existing_def Let_def split: sum.splits option.splits prod.splits)

lemma unchanged_quiescent:
  "\<not> i_absent i \<Longrightarrow> apply_existing L c p i ob w = (Inr Unchanged, w') \<Longrightarrow> quiescent L p i ob \<and> w' = w"
  by (auto simp: quiescent_def apply_existing_def Let_def split: if_splits sum.splits option.splits prod.splits)

subsection \<open>One child\<close>

lemma Apply_ready:
  assumes "safe_intent p i" and "i_object i = Some target" and "m_deletionTimestamp (w_meta p) = None"
    and "w_uid p \<noteq> ''''" "w_namespace p \<noteq> ''''" "w_name p \<noteq> ''''"
  shows "Apply L c p i w =
     (case client_get c target (child_key p) w of
        (Inl e, w') \<Rightarrow> if IsNotFound e then apply_missing L c p i target w' else (Inl e, w')
      | (Inr current, w') \<Rightarrow> apply_existing L c p i current w')"
proof -
  have "m_namespace (obj_meta target) = w_namespace p" "m_name (obj_meta target) = ChildName (w_name p)"
    using assms(1,2) by (auto elim: safe_intentD)
  moreover have "ValidatePlan p [i] = Inr [i]" using assms by (simp add: ValidatePlan_single)
  ultimately show ?thesis using assms(2,3) by (simp add: Apply_def)
qed

text \<open>Creating, patching and deleting, with what the store holds afterwards.\<close>

lemma apply_missing_created:
  assumes "apply_missing L c p i target w = (Inr r, w')" and "\<not> i_absent i"
  obtains ob child where "run_mutate i target = Inr ob" and "applied L p i child"
    and "obj_type child = obj_type ob" and "key_of child = (w_namespace p, m_name (obj_meta target))"
    and "cl_create c (wd_env w) child = (None, wd_env w')"
proof -
  obtain ob child where run: "run_mutate i target = Inr ob" and key: "key_of ob = (w_namespace p, m_name (obj_meta target))"
    and set: "set_controller L p ob = Some child" and create: "cl_create c (wd_env w) child = (None, wd_env w')"
    using assms
    by (auto simp: apply_missing_def Let_def call_def split: if_splits sum.splits option.splits prod.splits)
  moreover from set obtain refs where "child = set_obj_meta ob ((obj_meta ob)\<lparr>m_ownerReferences := refs\<rparr>)"
    by (auto simp: set_controller_Some)
  moreover have "applied L p i child"
    using run key set assms(2) unfolding applied_def by blast
  ultimately show ?thesis by (intro that [of ob child]) simp_all
qed

lemma apply_existing_patched:
  assumes "apply_existing L c p i current w = (Inr r, w')" and "\<not> i_absent i" and "r \<noteq> Unchanged"
  obtains child where "applied L p i child" and "cl_patch c (wd_env w) current child = (None, wd_env w')"
proof -
  obtain ob child where run: "run_mutate i current = Inr ob" and own: "owns L p current"
    and same: "same_identity (obj_meta ob) (obj_meta current)"
    and set: "set_controller L p ob = Some child" and patch: "cl_patch c (wd_env w) current child = (None, wd_env w')"
    using assms
    by (auto simp: apply_existing_def Let_def call_def split: if_splits sum.splits option.splits prod.splits)
  have "m_namespace (obj_meta ob) = w_namespace p"
    using same owns_namespace [OF own] by (simp add: same_identity_def)
  with run set assms(2) have "applied L p i child" unfolding applied_def by blast
  with patch show ?thesis by (rule that [rotated])
qed

lemma apply_existing_deleted:
  assumes "apply_existing L c p i current w = (Inr r, w')" and "i_absent i"
  obtains x where "cl_delete c (wd_env w) current (m_uid (obj_meta current)) (m_resourceVersion (obj_meta current)) = (x, wd_env w')"
    and "x = None \<or> (\<exists>e. x = Some e \<and> IsNotFound e)"
  using assms
  by (auto simp: apply_existing_def Let_def call_def split: if_splits option.splits prod.splits)

lemma api_server_get:
  assumes "api_server c store" and "client_get c ob k w = (r, w')"
  shows "store (wd_env w') = store (wd_env w)"
    and "r = Inr live \<Longrightarrow> store (wd_env w) (obj_type ob) k = Some live \<and> key_of live = k \<and> obj_type live = obj_type ob"
    and "r = Inl e \<Longrightarrow> IsNotFound e \<Longrightarrow> store (wd_env w) (obj_type ob) k = None"
proof -
  from assms(1) have "reads_from c store" by (simp add: api_server_def)
  with assms(2) have "store (wd_env w') = store (wd_env w)
      \<and> (case r of
           Inr live \<Rightarrow> store (wd_env w) (obj_type ob) k = Some live \<and> key_of live = k \<and> obj_type live = obj_type ob
         | Inl e \<Rightarrow> IsNotFound e \<longrightarrow> store (wd_env w) (obj_type ob) k = None)"
    unfolding reads_from_def by blast
  then show "store (wd_env w') = store (wd_env w)"
    and "r = Inr live \<Longrightarrow> store (wd_env w) (obj_type ob) k = Some live \<and> key_of live = k \<and> obj_type live = obj_type ob"
    and "r = Inl e \<Longrightarrow> IsNotFound e \<Longrightarrow> store (wd_env w) (obj_type ob) k = None"
    by auto
qed

lemma api_server_create:
  assumes "api_server c store" and "cl_create c s ob = (None, s')"
  obtains live where "stored ob live" and "store s' = put ob (Some live) (store s)"
proof -
  from assms(1) have "creates_in c store" by (simp add: api_server_def)
  with assms(2) that show ?thesis unfolding creates_in_def by blast
qed

lemma api_server_patch:
  assumes "api_server c store" and "cl_patch c s before after = (None, s')"
  obtains live where "stored after live" and "store s' = put before (Some live) (store s)"
proof -
  from assms(1) have "patches_in c store" by (simp add: api_server_def)
  with assms(2) that show ?thesis unfolding patches_in_def by blast
qed

lemma api_server_delete:
  assumes "api_server c store" and "cl_delete c s ob uid rv = (x, s')"
    and "x = None \<or> (\<exists>e. x = Some e \<and> IsNotFound e)"
  shows "case store s' (obj_type ob) (key_of ob) of None \<Rightarrow> True | Some live \<Rightarrow> m_deletionTimestamp (obj_meta live) \<noteq> None"
    and "t \<noteq> obj_type ob \<or> k \<noteq> key_of ob \<Longrightarrow> store s' t k = store s t k"
proof -
  from assms(1) have "deletes_in c store" by (simp add: api_server_def)
  with assms(2,3) have "store s' = put ob None (store s) \<or> (\<exists>t. store s' = put ob (Some (terminating t ob)) (store s))
      \<or> store s' = store s \<and> store s (obj_type ob) (key_of ob) = None"
    unfolding deletes_in_def by blast
  then show "case store s' (obj_type ob) (key_of ob) of None \<Rightarrow> True | Some live \<Rightarrow> m_deletionTimestamp (obj_meta live) \<noteq> None"
    and "t \<noteq> obj_type ob \<or> k \<noteq> key_of ob \<Longrightarrow> store s' t k = store s t k"
    by (auto simp: terminating_def)
qed

text \<open>The state of the library and of the workload that the engine relies on.\<close>

definition engine_ready :: "lib \<Rightarrow> AIWorkload \<Rightarrow> bool" where
  "engine_ready L p =
     (controller_reference_laws L \<and> semantic_refl L
      \<and> w_uid p \<noteq> '''' \<and> w_namespace p \<noteq> '''' \<and> w_name p \<noteq> '''' \<and> m_deletionTimestamp (w_meta p) = None)"

lemma settled_slot:
  assumes "i_object i = Some target" and "i_mutate i = Some f" and "intent_mutator f"
    and "applied L p i child" and "stored child live" and "engine_ready L p"
    and "s (obj_type target) (child_key p) = Some live"
  shows "settled L p i s"
proof -
  have "quiescent L p i live"
    using unchanged_quiescent [of i L undefined p live undefined] assms(4)
      intent_mutator.settled_unchanged [OF assms(3,2,4,5)] assms(6)
    by (auto simp: engine_ready_def applied_def)
  with assms(1,4,7) show ?thesis by (auto simp: settled_def applied_def)
qed

text \<open>The child of \<open>i\<close> is settled afterwards, and every other slot is as it was.\<close>

definition settles :: "lib \<Rightarrow> AIWorkload \<Rightarrow> Intent \<Rightarrow> object_type \<Rightarrow> store \<Rightarrow> store \<Rightarrow> bool" where
  "settles L p i ty s s' =
     (settled L p i s' \<and> (\<forall>t k. t \<noteq> ty \<or> k \<noteq> child_key p \<longrightarrow> s' t k = s t k))"

lemma contract_mutator:
  "intent_contract p i \<Longrightarrow> \<not> i_absent i \<Longrightarrow> \<exists>f. i_mutate i = Some f \<and> intent_mutator f"
  by (simp add: intent_contract_def)

lemma missing_settles:
  assumes "api_server c store" and "engine_ready L p" and "intent_contract p i" and "i_object i = Some target"
    and "key_of target = child_key p" and "store (wd_env w) (obj_type target) (child_key p) = None"
    and "apply_missing L c p i target w = (Inr r, w')"
  shows "settles L p i (obj_type target) (store (wd_env w)) (store (wd_env w'))"
proof (cases "i_absent i")
  case True
  with assms(7) have "w' = w" by (simp add: apply_missing_def)
  with True assms(4,6) show ?thesis by (simp add: settles_def settled_def)
next
  case False
  with assms(3) obtain f where f: "i_mutate i = Some f" "intent_mutator f" by (blast dest: contract_mutator)
  from assms(7) False obtain ob child where ob: "run_mutate i target = Inr ob" and ap: "applied L p i child"
    and ty: "obj_type child = obj_type ob" and ky: "key_of child = (w_namespace p, m_name (obj_meta target))"
    and cr: "cl_create c (wd_env w) child = (None, wd_env w')"
    by (rule apply_missing_created)
  obtain live where live: "stored child live" "store (wd_env w') = put child (Some live) (store (wd_env w))"
    using assms(1) cr by (rule api_server_create)
  have slot: "obj_type child = obj_type target" "key_of child = child_key p"
    using ty ky assms(5) ob f intent_mutator.keeps_type [OF f(2)] by (auto simp: run_mutate_def)
  then have "store (wd_env w') (obj_type target) (child_key p) = Some live"
    using live(2) by (metis put_simps(1))
  from settled_slot [where s = "store (wd_env w')", OF assms(4) f ap live(1) assms(2) this] live(2) slot show ?thesis
    by (auto simp: put_def settles_def)
qed

lemma existing_settles:
  assumes "api_server c store" and "engine_ready L p" and "intent_contract p i" and "i_object i = Some target"
    and "store (wd_env w) (obj_type target) (child_key p) = Some current"
    and "key_of current = child_key p" and "obj_type current = obj_type target"
    and "apply_existing L c p i current w = (Inr r, w')"
  shows "settles L p i (obj_type target) (store (wd_env w)) (store (wd_env w'))"
proof (cases "i_absent i")
  case True
  from assms(8) True obtain x where
    d: "cl_delete c (wd_env w) current (m_uid (obj_meta current)) (m_resourceVersion (obj_meta current)) = (x, wd_env w')"
    and x: "x = None \<or> (\<exists>e. x = Some e \<and> IsNotFound e)"
    by (rule apply_existing_deleted)
  note del = api_server_delete [OF assms(1) d x]
  from del(1) assms(4,6,7) True have "settled L p i (store (wd_env w'))"
    by (auto simp: settled_def split: option.splits)
  with del(2) assms(6,7) show ?thesis unfolding settles_def by metis
next
  case present: False
  show ?thesis
  proof (cases "r = Unchanged")
    case True
    with unchanged_quiescent [OF present] assms(8) have "quiescent L p i current" "w' = w" by blast+
    with present assms(4,5) show ?thesis by (simp add: settled_def settles_def)
  next
    case False
    from assms(3) present obtain f where f: "i_mutate i = Some f" "intent_mutator f" by (blast dest: contract_mutator)
    from assms(8) present False obtain child where ap: "applied L p i child"
      and pa: "cl_patch c (wd_env w) current child = (None, wd_env w')"
      by (rule apply_existing_patched)
    obtain live where live: "stored child live" "store (wd_env w') = put current (Some live) (store (wd_env w))"
      using assms(1) pa by (rule api_server_patch)
    have "store (wd_env w') (obj_type target) (child_key p) = Some live"
      using live(2) assms(6,7) by (metis put_simps(1))
    from settled_slot [where s = "store (wd_env w')", OF assms(4) f ap live(1) assms(2) this] live(2) assms(6,7) show ?thesis
      by (auto simp: put_def settles_def)
  qed
qed

lemma Apply_settles:
  assumes "api_server c store" and "engine_ready L p" and "intent_contract p i" and "i_object i = Some target"
    and "Apply L c p i w = (Inr r, w')"
  shows "settles L p i (obj_type target) (store (wd_env w)) (store (wd_env w'))"
proof -
  have safe: "safe_intent p i" using assms(3) by (simp add: intent_contract_def)
  then have key: "key_of target = child_key p" using assms(4) by (auto elim: safe_intentD)
  obtain g w1 where get: "client_get c target (child_key p) w = (g, w1)" by fastforce
  note keep = api_server_get [OF assms(1) get]
  have "m_deletionTimestamp (w_meta p) = None" "w_uid p \<noteq> ''''" "w_namespace p \<noteq> ''''" "w_name p \<noteq> ''''"
    using assms(2) by (simp_all add: engine_ready_def)
  from assms(5) [unfolded Apply_ready [OF safe assms(4) this] get]
  have run: "(case g of Inl e \<Rightarrow> if IsNotFound e then apply_missing L c p i target w1 else (Inl e, w1)
      | Inr current \<Rightarrow> apply_existing L c p i current w1) = (Inr r, w')"
    by simp
  show ?thesis
  proof (cases g)
    case (Inl e)
    with run have nf: "IsNotFound e" and miss: "apply_missing L c p i target w1 = (Inr r, w')" by (auto split: if_splits)
    from missing_settles [OF assms(1-4) key _ miss] keep(1) keep(3) [OF Inl nf] show ?thesis by simp
  next
    case (Inr current)
    with run have ex: "apply_existing L c p i current w1 = (Inr r, w')" by simp
    from existing_settles [OF assms(1-4) _ _ _ ex] keep(1) keep(2) [OF Inr] show ?thesis by simp
  qed
qed

text \<open>On a settled child the engine only reads.\<close>

lemma Apply_quiet:
  assumes "api_server c store" and "settled L p i (store (wd_env w))" and "Apply L c p i w = (r, w')"
  shows "store (wd_env w') = store (wd_env w) \<and> grows [] w w'"
  using assms(3)
proof (cases rule: Apply_cases)
  case stop
  then show ?thesis by (simp add: grows_def)
next
  case (read_error target e)
  with api_server_get(1) [OF assms(1)] show ?thesis by (auto dest: grows_get)
next
  case (missing target e w1)
  from api_server_get(3) [OF assms(1) missing(4) refl missing(6)] assms(2) missing(2) have "i_absent i"
    by (simp add: settled_def)
  with missing(5) have "w' = w1" by (simp add: apply_missing_def)
  with api_server_get(1) [OF assms(1) missing(4)] grows_get [OF missing(4)] show ?thesis by simp
next
  case (existing target current w1)
  note keep = api_server_get [OF assms(1) existing(5)]
  have "settled L p i (store (wd_env w)) \<Longrightarrow> w' = w1"
    using keep(2) [OF refl] existing(2,6) quiescent_apply [of i L p current _ w1]
    by (cases "i_absent i") (auto simp: settled_def apply_existing_def split: if_splits)
  with assms(2) keep(1) grows_get [OF existing(5)] show ?thesis by simp
qed

subsection \<open>A whole plan\<close>

lemma record_resource_env [simp]: "wd_env (record_resource r i outcome w) = wd_env w"
  by (simp add: record_resource_def)

lemma intent_type_kind:
  "i_object i = Some a \<Longrightarrow> i_object j = Some b \<Longrightarrow> obj_type a = obj_type b \<Longrightarrow> intent_kind i = intent_kind j"
  by (cases a; cases b) simp_all

lemma settled_slot_cong:
  assumes "i_object i = Some target" and "s' (obj_type target) (child_key p) = s (obj_type target) (child_key p)"
  shows "settled L p i s' = settled L p i s"
  using assms by (simp add: settled_def)

lemma apply_plan_settles:
  assumes "api_server (rc_client r) store" and "engine_ready L p" and "\<forall>i \<in> set plan. intent_contract p i"
    and "distinct (map intent_kind plan)" and "apply_plan L r p plan w = (None, w')"
  shows "(\<forall>i \<in> set plan. settled L p i (store (wd_env w')))
     \<and> (\<forall>t k. k \<noteq> child_key p \<or> (\<forall>i \<in> set plan. \<forall>target. i_object i = Some target \<longrightarrow> obj_type target \<noteq> t) \<longrightarrow>
          store (wd_env w') t k = store (wd_env w) t k)"
  using assms(3-5)
proof (induction plan arbitrary: w)
  case (Cons i plan)
  from Cons.prems(1) obtain target where target: "i_object i = Some target"
    by (auto simp: intent_contract_def elim: safe_intentD)
  from Cons.prems(3) obtain outcome w1 where a: "Apply L (rc_client r) p i w = (Inr outcome, w1)"
    and rest: "apply_plan L r p plan (record_resource r i (outcome_text outcome) w1) = (None, w')"
    by (auto split: prod.splits sum.splits)
  have one: "settles L p i (obj_type target) (store (wd_env w)) (store (wd_env w1))"
    using Apply_settles [OF assms(1,2) _ target a] Cons.prems(1) by simp
  have IH: "\<forall>j \<in> set plan. settled L p j (store (wd_env w'))"
    "\<forall>t k. k \<noteq> child_key p \<or> (\<forall>j \<in> set plan. \<forall>target. i_object j = Some target \<longrightarrow> obj_type target \<noteq> t) \<longrightarrow>
       store (wd_env w') t k = store (wd_env w1) t k"
    using Cons.IH [OF _ _ rest] Cons.prems(1,2) by simp_all
  have "intent_kind i \<notin> intent_kind ` set plan" using Cons.prems(2) by simp
  then have "obj_type b \<noteq> obj_type target" if "j \<in> set plan" "i_object j = Some b" for j b
    using intent_type_kind [OF that(2) target] that(1) by (metis image_eqI)
  with IH(2) have "store (wd_env w') (obj_type target) (child_key p) = store (wd_env w1) (obj_type target) (child_key p)"
    by blast
  with one target have "settled L p i (store (wd_env w'))"
    by (simp add: settles_def settled_slot_cong [where s' = "store (wd_env w')"])
  with one IH target show ?case unfolding settles_def by (metis list.set_intros(1,2) set_ConsD)
qed simp

lemma apply_plan_quiet:
  assumes "api_server (rc_client r) store" and "\<forall>i \<in> set plan. settled L p i (store (wd_env w))"
    and "apply_plan L r p plan w = (x, w')"
  shows "store (wd_env w') = store (wd_env w) \<and> grows [] w w'"
  using assms(2,3)
proof (induction plan arbitrary: w)
  case Nil
  then show ?case by (simp add: grows_def)
next
  case (Cons i plan)
  obtain y w1 where a: "Apply L (rc_client r) p i w = (y, w1)" by fastforce
  have q: "store (wd_env w1) = store (wd_env w)" "grows [] w w1"
    using Apply_quiet [OF assms(1) _ a] Cons.prems(1) by simp_all
  then have rec: "grows [] w (record_resource r i t w1)" for t
    using grows_trans [OF q(2) grows_record] by simp
  show ?case
  proof (cases y)
    case (Inl e)
    with Cons.prems(2) a q rec show ?thesis by auto
  next
    case (Inr outcome)
    with Cons.prems a have "apply_plan L r p plan (record_resource r i (outcome_text outcome) w1) = (x, w')" by simp
    from Cons.IH [OF _ this] Cons.prems(1) q rec grows_trans [OF rec] show ?thesis by fastforce
  qed
qed

subsection \<open>Building, applying and checking the Secrets\<close>

text \<open>A later version of the same workload: the same specification under the same identity.\<close>

definition same_desired :: "AIWorkload \<Rightarrow> AIWorkload \<Rightarrow> bool" where
  "same_desired q p = (w_spec q = w_spec p \<and> w_name q = w_name p \<and> w_namespace q = w_namespace p \<and> w_uid q = w_uid p)"

lemma same_desired_reading: "same_desired q p \<Longrightarrow> same_reading q p"
  by (simp add: same_desired_def same_reading_def scaling_reading_def budget_reading_def)

lemma same_desired_external: "same_desired q p \<Longrightarrow> same_desired (desired_workload q x) (desired_workload p x)"
  by (simp add: same_desired_def desired_workload_def)

lemma ValidatePlan_same: "same_desired q p \<Longrightarrow> ValidatePlan q plan = ValidatePlan p plan"
proof -
  assume "same_desired q p"
  then have "intent_ok q seen i = intent_ok p seen i" for seen i
    by (simp add: intent_ok_def same_desired_def cong: option.case_cong)
  then have "intents_ok q seen plan = intents_ok p seen plan" for seen
    by (induction plan arbitrary: seen) simp_all
  with \<open>same_desired q p\<close> show ?thesis by (simp add: ValidatePlan_def same_desired_def)
qed

lemma http_route_callback_same:
  assumes "same_desired q p"
  shows "http_route_callback L q = http_route_callback L p"
  using assms
  by (auto simp: fun_eq_iff http_route_callback_def mutateHTTPRoute_def http_route_spec_def same_desired_def
      managed_labels_def SelectorLabels_def split: client_object.splits option.splits)

lemma HTTPRouteIntent_same:
  assumes "same_desired q p"
  shows "HTTPRouteIntent L (Some q) = HTTPRouteIntent L (Some p)"
  using assms http_route_callback_same [OF assms, of L]
  by (cases "sp_exposure (w_spec p)") (simp_all add: same_desired_def fresh_route_def Let_def)

lemma build_plan_same:
  assumes "same_desired q p"
  shows "build_plan L (Build L) q external exposure = build_plan L (Build L) p external exposure"
proof -
  have plan: "ValidatePlan q = ValidatePlan p" using ValidatePlan_same [OF assms] by (rule ext)
  show ?thesis
    unfolding build_plan_def Let_def plan Build_same_reading [OF same_desired_reading [OF same_desired_external [OF assms]]]
      HTTPRouteIntent_same [OF same_desired_external [OF assms]]
    by (rule refl)
qed

lemma settled_same: "same_desired q p \<Longrightarrow> settled L q i s = settled L p i s"
  by (simp add: same_desired_def settled_def quiescent_def owns_def set_controller_def
      cong: option.case_cong sum.case_cong)

lemma check_secrets_store:
  assumes "api_server c store" and "check_secrets c ns names w = (x, w')"
  shows "store (wd_env w') = store (wd_env w)"
  using assms(2)
proof (induction names arbitrary: w)
  case (Cons n ns')
  obtain y w1 where get: "call_get ''Secret'' (cl_getSecretMetadata c) (ns, n) w = (y, w1)" by fastforce
  have "store (wd_env w1) = store (wd_env w)"
    using assms(1) get by (auto simp: api_server_def call_get_def call_def split: prod.splits)
  with Cons get show ?case by (auto split: sum.splits if_splits)
qed simp

lemma converge_settles:
  assumes "api_server (rc_client r) store" and "engine_ready L p" and "nested_field_laws L"
    and "converge L r (Build L) p external exposure w = (None, w')"
  shows "\<exists>plan. build_plan L (Build L) p external exposure = Inr plan
     \<and> (\<forall>i \<in> set plan. settled L p i (store (wd_env w')))
     \<and> (\<forall>t k. k \<noteq> child_key p \<longrightarrow> store (wd_env w') t k = store (wd_env w) t k)"
proof -
  from assms(4) obtain plan w1 where plan: "build_plan L (Build L) p external exposure = Inr plan"
    and a: "apply_plan L r p plan w = (None, w1)" and s: "validateSecretReferences r p w1 = (None, w')"
    by (auto simp: converge_def split: sum.splits option.splits prod.splits)
  note built = build_plan_Inr [OF assms(3) plan]
  then have "distinct (map intent_kind plan)" by (simp add: strict_sorted_iff)
  from apply_plan_settles [OF assms(1,2) _ this a] built
    check_secrets_store [OF assms(1) s [unfolded validateSecretReferences_def]] plan
  show ?thesis by auto
qed

lemma converge_quiet:
  assumes "api_server (rc_client r) store" and "build_plan L (Build L) p external exposure = Inr plan"
    and "\<forall>i \<in> set plan. settled L p i (store (wd_env w))"
    and "converge L r (Build L) p external exposure w = (x, w')"
  shows "grows [] w w' \<and> store (wd_env w') = store (wd_env w)"
proof -
  obtain y w1 where a: "apply_plan L r p plan w = (y, w1)" by fastforce
  obtain z w2 where s: "validateSecretReferences r p w1 = (z, w2)" by fastforce
  note quiet = apply_plan_quiet [OF assms(1,3) a]
  have "grows [] w1 w2"
    using s check_secrets_effects unfolding validateSecretReferences_def
    by (blast intro: grows_observe adds_observe_read)
  with quiet have "grows [] w w2" using grows_trans [of "[]" w w1 "[]" w2] by simp
  with quiet check_secrets_store [OF assms(1) s [unfolded validateSecretReferences_def]] assms(2,4) a s show ?thesis
    by (auto simp: converge_def split: option.splits)
qed

end
