(* ===== verification/Admission.thy ===== *)
theory Admission
  imports Res_Plan
begin

text \<open>
  The schema of \<open>api/v1alpha1/aiworkload_types.go\<close>: the \<open>+kubebuilder\<close> markers of the types, which the
  API server enforces on every object it stores. \<open>default_spec\<close> is what the \<open>default\<close> markers fill in,
  and \<open>spec_admitted\<close> what the \<open>validation\<close> markers demand, one predicate per marked type. An optional
  string of length at least one is absent in JSON exactly if it is empty in Go. The CEL functions on
  quantities are those of \<open>apimachinery\<close>, so they are read as the library's \<open>ParseQuantity\<close> and
  \<open>QuantityCmp\<close>. Strings are valid UTF-8, as JSON strings are: a length counts the bytes that start a
  character, and a character is forbidden by its byte sequence.
\<close>

subsection \<open>String constraints\<close>

definition rune_count :: "string \<Rightarrow> nat" where
  "rune_count s = length (filter (\<lambda>c. (of_char c :: nat) div 64 \<noteq> 2) s)"

definition length_within :: "nat \<Rightarrow> nat \<Rightarrow> string \<Rightarrow> bool" where
  "length_within lo hi s = (lo \<le> rune_count s \<and> rune_count s \<le> hi)"

text \<open>An optional string field: absent, or of the given form.\<close>

definition optional_string :: "(string \<Rightarrow> bool) \<Rightarrow> string \<Rightarrow> bool" where
  "optional_string ok s = (s = '''' \<or> ok s)"

text \<open>The characters of the image pattern: POSIX space, Unicode separators, and U+0085.\<close>

definition image_separators :: "string list" where
  "image_separators =
     map (map char_of)
       [[9], [10], [11], [12], [13], [32 :: nat],
        [194, 133], [194, 160], [225, 154, 128],
        [226, 128, 128], [226, 128, 129], [226, 128, 130], [226, 128, 131], [226, 128, 132], [226, 128, 133],
        [226, 128, 134], [226, 128, 135], [226, 128, 136], [226, 128, 137], [226, 128, 138],
        [226, 128, 168], [226, 128, 169], [226, 128, 175], [226, 129, 159], [227, 128, 128]]"

definition image_ok :: "string \<Rightarrow> bool" where
  "image_ok s = (length_within 1 2048 s \<and> list_all (\<lambda>separator. \<not> Contains s separator) image_separators)"

definition label_ok :: "nat \<Rightarrow> string \<Rightarrow> bool" where
  "label_ok hi s = (length_within 1 hi s \<and> dns_label s)"

definition subdomain_ok :: "string \<Rightarrow> bool" where
  "subdomain_ok s = (length_within 1 253 s \<and> dns_subdomain s)"

definition path_ok :: "string \<Rightarrow> bool" where
  "path_ok s = (length_within 1 2048 s \<and> HasPrefix s ''/'')"

definition ascii_letter :: "char \<Rightarrow> bool" where
  "ascii_letter c = (let n = (of_char c :: nat) in (65 \<le> n \<and> n \<le> 90) \<or> (97 \<le> n \<and> n \<le> 122))"

definition metric_name_ok :: "string \<Rightarrow> bool" where
  "metric_name_ok s =
     (length_within 1 253 s \<and> s \<noteq> [] \<and> ascii_letter (hd s)
      \<and> list_all (\<lambda>c. ascii_letter c \<or> lower_alnum c \<or> c \<in> set ''_.-'') s)"

text \<open>An optional integer field with a minimum and a maximum.\<close>

definition optional_int :: "int \<Rightarrow> int \<Rightarrow> int option \<Rightarrow> bool" where
  "optional_int lo hi n = (case n of None \<Rightarrow> True | Some k \<Rightarrow> lo \<le> k \<and> k \<le> hi)"

definition optional_struct :: "('a \<Rightarrow> bool) \<Rightarrow> 'a option \<Rightarrow> bool" where
  "optional_struct ok x = (case x of None \<Rightarrow> True | Some y \<Rightarrow> ok y)"

lemma optional_simps [simp]:
  "optional_int lo hi None" "optional_int lo hi (Some k) \<longleftrightarrow> lo \<le> k \<and> k \<le> hi"
  "optional_struct ok None" "optional_struct ok (Some y) = ok y"
  by (simp_all add: optional_int_def optional_struct_def)

subsection \<open>The validation markers\<close>

definition quantity_admitted :: "lib \<Rightarrow> ResourceQuantity \<Rightarrow> bool" where
  "quantity_admitted L s =
     (length_within 1 64 s
      \<and> (case (ParseQuantity L s, ParseQuantity L ''0'') of
           (Some q, Some zero) \<Rightarrow> \<not> QuantityCmp L q zero < 0
         | _ \<Rightarrow> False))"

definition quantities_admitted :: "lib \<Rightarrow> ResourceQuantities \<Rightarrow> bool" where
  "quantities_admitted L m =
     (distinct (map fst m) \<and> length m \<le> 2
      \<and> list_all (\<lambda>(name, value). (name = ''cpu'' \<or> name = ''memory'') \<and> quantity_admitted L value) m)"

definition request_within_limit :: "lib \<Rightarrow> ResourceQuantities \<Rightarrow> string \<times> ResourceQuantity \<Rightarrow> bool" where
  "request_within_limit L limits entry =
     (case map_of limits (fst entry) of
        None \<Rightarrow> True
      | Some limit \<Rightarrow>
          (case (ParseQuantity L (snd entry), ParseQuantity L limit) of
             (Some q, Some l) \<Rightarrow> QuantityCmp L q l \<le> 0
           | _ \<Rightarrow> True))"

definition resources_admitted :: "lib \<Rightarrow> ResourceRequirements \<Rightarrow> bool" where
  "resources_admitted L r =
     (quantities_admitted L (rr_requests r) \<and> quantities_admitted L (rr_limits r)
      \<and> list_all (request_within_limit L (rr_limits r)) (rr_requests r))"

definition probe_admitted :: "HTTPProbeSpec \<Rightarrow> bool" where
  "probe_admitted h = path_ok (hp_path h)"

definition health_admitted :: "HealthSpec \<Rightarrow> bool" where
  "health_admitted h = (optional_struct probe_admitted (hs_readiness h) \<and> optional_struct probe_admitted (hs_liveness h))"

definition service_admitted :: "ServiceSpec \<Rightarrow> bool" where
  "service_admitted s = optional_int 1 65535 (sv_port s)"

definition metric_admitted :: "lib \<Rightarrow> AutoscalingMetricSpec \<Rightarrow> bool" where
  "metric_admitted L m =
     (am_type m \<in> set [AutoscalingCPU, AutoscalingMemory, AutoscalingPods, AutoscalingExternal]
      \<and> optional_int 1 100 (am_targetUtilization m)
      \<and> optional_string metric_name_ok (am_metricName m)
      \<and> optional_struct (quantity_admitted L) (am_targetValue m)
      \<and> (if am_type m = ''CPU'' \<or> am_type m = ''Memory''
         then am_targetUtilization m \<noteq> None \<and> am_metricName m = '''' \<and> am_targetValue m = None
         else am_metricName m \<noteq> '''' \<and> am_targetValue m \<noteq> None \<and> am_targetUtilization m = None))"

definition autoscaling_admitted :: "lib \<Rightarrow> AutoscalingSpec \<Rightarrow> bool" where
  "autoscaling_admitted L a =
     (optional_int 1 20 (as_minReplicas a) \<and> optional_int 1 20 (as_maxReplicas a)
      \<and> length (as_metrics a) \<le> 4 \<and> list_all (metric_admitted L) (as_metrics a)
      \<and> optional_int 0 3600 (as_scaleDownStabilizationSeconds a)
      \<and> (as_enabled a = None \<or> as_enabled a = Some False
         \<or> (as_minReplicas a \<noteq> None \<and> as_maxReplicas a \<noteq> None \<and> 0 < length (as_metrics a)))
      \<and> (case (as_minReplicas a, as_maxReplicas a) of (Some lo, Some hi) \<Rightarrow> lo \<le> hi | _ \<Rightarrow> True))"

definition availability_admitted :: "AvailabilitySpec \<Rightarrow> bool" where
  "availability_admitted a =
     (optional_int 1 20 (av_minAvailable a) \<and> optional_int 0 19 (av_maxUnavailable a)
      \<and> (av_enabled a = None \<or> av_enabled a = Some False
         \<or> (av_minAvailable a \<noteq> None) \<noteq> (av_maxUnavailable a \<noteq> None)))"

definition exposure_admitted :: "ExposureSpec \<Rightarrow> bool" where
  "exposure_admitted e =
     (ex_mode e \<in> set [ExposureClusterLocal, ExposureHTTPRoute]
      \<and> optional_string subdomain_ok (ex_gateway e) \<and> optional_string (label_ok 253) (ex_sectionName e)
      \<and> optional_string subdomain_ok (ex_hostname e) \<and> optional_string path_ok (ex_path e)
      \<and> (ex_mode e \<noteq> ''HTTPRoute''
         \<or> (ex_gateway e \<noteq> '''' \<and> ex_sectionName e \<noteq> '''' \<and> ex_hostname e \<noteq> '''' \<and> ex_path e \<noteq> ''''))
      \<and> (ex_mode e \<noteq> ''ClusterLocal''
         \<or> (ex_gateway e = '''' \<and> ex_sectionName e = '''' \<and> ex_hostname e = '''' \<and> ex_path e = '''')))"

definition external_secret_admitted :: "ExternalSecretReference \<Rightarrow> bool" where
  "external_secret_admitted e = (subdomain_ok (es_externalSecret e) \<and> subdomain_ok (es_targetSecret e))"

definition spec_admitted :: "lib \<Rightarrow> AIWorkloadSpec \<Rightarrow> bool" where
  "spec_admitted L s =
     (optional_string (label_ok 63) (sp_environment s) \<and> optional_string (label_ok 63) (sp_tenant s)
      \<and> optional_string (\<lambda>x. x = ''baseline'' \<or> x = ''restricted'') (sp_policy s)
      \<and> image_ok (sp_image s) \<and> optional_int 0 20 (sp_replicas s)
      \<and> optional_struct (autoscaling_admitted L) (sp_autoscaling s)
      \<and> optional_struct availability_admitted (sp_availability s)
      \<and> 1 \<le> cs_port (sp_container s) \<and> cs_port (sp_container s) \<le> 65535
      \<and> optional_struct (resources_admitted L) (sp_resources s)
      \<and> optional_struct health_admitted (sp_health s) \<and> optional_struct service_admitted (sp_service s)
      \<and> optional_struct exposure_admitted (sp_exposure s)
      \<and> length (sp_secretRefs s) \<le> 32 \<and> list_all subdomain_ok (sp_secretRefs s) \<and> distinct (sp_secretRefs s)
      \<and> length (sp_externalSecrets s) \<le> 16 \<and> list_all external_secret_admitted (sp_externalSecrets s)
      \<and> distinct (map es_externalSecret (sp_externalSecrets s))
      \<and> distinct (map es_targetSecret (sp_externalSecrets s)))"

text \<open>The scalar fields of the status.\<close>

definition status_admitted :: "AIWorkloadStatus \<Rightarrow> bool" where
  "status_admitted t =
     (0 \<le> st_observedGeneration t \<and> 0 \<le> st_desiredReplicas t \<and> st_desiredReplicas t \<le> 20
      \<and> 0 \<le> st_readyReplicas t \<and> rune_count (st_endpoint t) \<le> 512
      \<and> length (st_conditions t) \<le> 16 \<and> list_all (\<lambda>c. c_observedGeneration c \<noteq> 0) (st_conditions t))"

subsection \<open>The default markers\<close>

definition or_default :: "'a \<Rightarrow> 'a option \<Rightarrow> 'a option" where
  "or_default d x = (case x of None \<Rightarrow> Some d | Some y \<Rightarrow> Some y)"

definition default_service :: "ServiceSpec \<Rightarrow> ServiceSpec" where
  "default_service s = s\<lparr>sv_enabled := or_default True (sv_enabled s), sv_port := or_default 80 (sv_port s)\<rparr>"

definition default_autoscaling :: "AutoscalingSpec \<Rightarrow> AutoscalingSpec" where
  "default_autoscaling a =
     a\<lparr>as_enabled := or_default False (as_enabled a), as_minReplicas := or_default 1 (as_minReplicas a)\<rparr>"

definition default_availability :: "AvailabilitySpec \<Rightarrow> AvailabilitySpec" where
  "default_availability a = a\<lparr>av_enabled := or_default False (av_enabled a)\<rparr>"

definition default_network :: "NetworkSpec \<Rightarrow> NetworkSpec" where
  "default_network n = n\<lparr>nw_enabled := or_default True (nw_enabled n)\<rparr>"

definition default_spec :: "AIWorkloadSpec \<Rightarrow> AIWorkloadSpec" where
  "default_spec s =
     s\<lparr>sp_replicas := or_default 1 (sp_replicas s),
       sp_autoscaling := map_option default_autoscaling (sp_autoscaling s),
       sp_availability := map_option default_availability (sp_availability s),
       sp_service :=
         Some (default_service (case sp_service s of None \<Rightarrow> \<lparr>sv_enabled = None, sv_port = None\<rparr> | Some x \<Rightarrow> x)),
       sp_network :=
         Some (default_network (case sp_network s of None \<Rightarrow> \<lparr>nw_enabled = None\<rparr> | Some x \<Rightarrow> x))\<rparr>"

subsection \<open>What admission gives the builders\<close>

text \<open>\<open>Quantity.Sign\<close> is the sign of the comparison with the parsed zero.\<close>

definition quantity_zero_law :: "lib \<Rightarrow> bool" where
  "quantity_zero_law L =
     (\<forall>zero. ParseQuantity L ''0'' = Some zero \<longrightarrow> (\<forall>q. (QuantityCmp L q zero < 0) = (QuantitySign L q < 0)))"

lemma quantity_admitted_parsed:
  assumes "quantity_zero_law L" and "quantity_admitted L s"
  obtains q where "ParseQuantity L s = Some q" and "0 \<le> QuantitySign L q"
  using assms by (auto simp: quantity_admitted_def quantity_zero_law_def not_less split: option.splits)

lemma quantities_admitted_ok:
  assumes "quantity_zero_law L" and "quantities_admitted L m"
  shows "list_all (quantity_ok L) m"
  using assms
  by (auto simp: quantities_admitted_def quantity_ok_def list_all_iff elim!: quantity_admitted_parsed)

lemma parsed_lookup:
  "fmlookup (fmap_of_list (parsed L m)) name = map_option (\<lambda>v. the (ParseQuantity L v)) (map_of m name)"
  by (induction m) (auto simp: parsed_def fmlookup_of_list)

lemma resources_admitted_listed:
  assumes "quantity_zero_law L" and "resources_admitted L r"
  shows "\<exists>x. resourceLists L (Some r) = Inr x"
proof -
  let ?req = "fmap_of_list (parsed L (rr_requests r))"
  have req: "quantities_admitted L (rr_requests r)" and lim: "quantities_admitted L (rr_limits r)"
    and within: "list_all (request_within_limit L (rr_limits r)) (rr_requests r)"
    using assms(2) by (simp_all add: resources_admitted_def)
  note ok = quantities_admitted_ok [OF assms(1) req] quantities_admitted_ok [OF assms(1) lim]
  have d: "distinct (map fst (rr_limits r))" using lim by (simp add: quantities_admitted_def)
  have "QuantityCmp L request limit \<le> 0"
    if l: "(name, limit) \<in> set (parsed L (rr_limits r))" and q: "fmlookup ?req name = Some request" for name limit request
  proof -
    from l obtain lv where lv: "(name, lv) \<in> set (rr_limits r)" "limit = the (ParseQuantity L lv)"
      by (auto simp: parsed_def)
    from q obtain rv where rv: "map_of (rr_requests r) name = Some rv" "request = the (ParseQuantity L rv)"
      by (auto simp: parsed_lookup)
    have "request_within_limit L (rr_limits r) (name, rv)"
      using within map_of_SomeD [OF rv(1)] by (auto simp: list_all_iff)
    moreover have "map_of (rr_limits r) name = Some lv" using d lv(1) by simp
    moreover have "quantity_ok L (name, rv)" "quantity_ok L (name, lv)"
      using ok map_of_SomeD [OF rv(1)] lv(1) by (simp_all add: list_all_iff)
    then have "ParseQuantity L rv \<noteq> None" "ParseQuantity L lv \<noteq> None"
      by (auto simp: quantity_ok_def split: option.splits)
    ultimately show ?thesis using rv(2) lv(2) by (auto simp: request_within_limit_def)
  qed
  with ok show ?thesis unfolding resourceLists_eq [OF d] Let_def by auto
qed

lemma metric_admitted_translates:
  assumes "quantity_zero_law L" and "metric_admitted L m"
  shows "\<exists>x. hpa_metric L m = Inr x"
proof (cases "am_type m = ''CPU'' \<or> am_type m = ''Memory''")
  case True
  with assms(2) show ?thesis by (auto simp: metric_admitted_def hpa_metric_def metric_types)
next
  case False
  with assms(2) obtain v where v: "am_targetValue m = Some v" and "am_metricName m \<noteq> ''''"
    and "quantity_admitted L v" and "am_type m = ''Pods'' \<or> am_type m = ''External''"
    by (auto simp: metric_admitted_def metric_types)
  with False assms(1) show ?thesis
    by (auto simp: hpa_metric_def metric_types Let_def elim!: quantity_admitted_parsed)
qed

lemma autoscaling_admitted_builds:
  assumes "spec_admitted L (w_spec p)"
  shows "\<exists>i. autoscalingIntent L p = Inr i"
proof (cases "sp_autoscaling (w_spec p)")
  case (Some a)
  with assms have "autoscaling_admitted L a" by (simp add: spec_admitted_def)
  with Some show ?thesis
    by (cases "as_enabled a") (auto simp: autoscaling_admitted_def autoscalingIntent_def Let_def)
qed (simp add: autoscalingIntent_def)

lemma service_admitted_builds: "spec_admitted L (w_spec p) \<Longrightarrow> \<exists>i. serviceIntent p = Inr i"
  by (cases "sp_service (w_spec p)")
    (auto simp: spec_admitted_def service_admitted_def serviceIntent_def Let_def split: option.splits)

lemma availability_admitted_builds:
  assumes "spec_admitted L (w_spec p)"
  shows "availabilityIntent p = Inl e \<longleftrightarrow>
     e = ErrInvalidConfiguration \<and> AvailabilityEnabled (Some p)
     \<and> (\<exists>spec. sp_availability (w_spec p) = Some spec
          \<and> guaranteed_pods spec (AvailabilityReplicaFloor p) \<notin> {1 .. AvailabilityReplicaFloor p})"
proof (cases "AvailabilityEnabled (Some p)")
  case False
  then show ?thesis by (simp add: availabilityIntent_def del: AvailabilityEnabled.simps)
next
  case True
  then obtain a where a: "sp_availability (w_spec p) = Some a" and on: "av_enabled a = Some True"
    by (auto simp: deref_def split: option.splits)
  with assms have one: "(av_minAvailable a = None) \<noteq> (av_maxUnavailable a = None)"
    by (auto simp: spec_admitted_def availability_admitted_def)
  have "validateAvailability (Some p) = None
      \<longleftrightarrow> guaranteed_pods a (AvailabilityReplicaFloor p) \<in> {1 .. AvailabilityReplicaFloor p}"
    unfolding validateAvailability_None using a one by auto
  moreover have "availabilityIntent p = Inl e \<longleftrightarrow> validateAvailability (Some p) = Some e"
    using True by (auto simp: availabilityIntent_def Let_def
        simp del: AvailabilityEnabled.simps validateAvailability.simps split: option.splits)
  moreover have "validateAvailability (Some p) = Some e \<longleftrightarrow> validateAvailability (Some p) \<noteq> None \<and> e = ErrInvalidConfiguration"
    using validateAvailability_error [of "Some p"] by (auto simp del: validateAvailability.simps)
  ultimately show ?thesis using True a by auto
qed

lemma spec_admitted_resources:
  assumes "quantity_zero_law L" and "spec_admitted L (w_spec p)"
  shows "\<exists>x. resourceLists L (sp_resources (w_spec p)) = Inr x"
proof (cases "sp_resources (w_spec p)")
  case None
  then show ?thesis by (simp add: resourceLists_def)
next
  case (Some r)
  with assms(2) have "resources_admitted L r" by (simp add: spec_admitted_def)
  with Some resources_admitted_listed [OF assms(1)] show ?thesis by simp
qed

text \<open>For an admitted workload the budget is the only thing \<open>Build\<close> can reject.\<close>

lemma Build_admitted:
  assumes "quantity_zero_law L" and "spec_admitted L (w_spec p)"
  shows "Build L (Some p) = Inl e \<longleftrightarrow> availabilityIntent p = Inl e"
proof -
  from spec_admitted_resources [OF assms] service_admitted_builds [OF assms(2)] autoscaling_admitted_builds [OF assms(2)]
  obtain x s a where "resourceLists L (sp_resources (w_spec p)) = Inr x" "serviceIntent p = Inr s"
    "autoscalingIntent L p = Inr a" by blast
  then show ?thesis by (cases x; cases "availabilityIntent p") simp_all
qed

lemma admitted_autoscaler_accepts:
  assumes "quantity_zero_law L" and "sp_autoscaling (w_spec p) = Some a" and "as_enabled a = Some True"
    and "autoscaling_admitted L a"
  shows "\<exists>t. mutateHPA L h p = Inr t"
proof -
  from assms(3,4) obtain lo hi where "as_minReplicas a = Some lo" "as_maxReplicas a = Some hi"
    by (auto simp: autoscaling_admitted_def)
  moreover obtain ms where "hpaMetrics L (as_metrics a) = Inr ms"
  proof (cases "hpaMetrics L (as_metrics a)")
    case (Inl e)
    then obtain m where "m \<in> set (as_metrics a)" "\<exists>e. hpa_metric L m = Inl e"
      using hpaMetrics_fails_iff by blast
    with assms(4) metric_admitted_translates [OF assms(1)] show ?thesis
      by (fastforce simp: autoscaling_admitted_def list_all_iff)
  qed (use that in blast)
  ultimately show ?thesis using assms(2) by (auto simp: mutateHPA_def)
qed

lemma autoscaling_enabled_spec:
  "AutoscalingEnabled (Some p) \<Longrightarrow> \<exists>a. sp_autoscaling (w_spec p) = Some a \<and> as_enabled a = Some True"
  by (auto simp: deref_def split: option.splits)

lemma admitted_hpa_accepts:
  assumes "quantity_zero_law L" and "spec_admitted L (w_spec p)" and "AutoscalingEnabled (Some p)"
  shows "\<exists>t. mutateHPA L h p = Inr t"
  using autoscaling_enabled_spec [OF assms(3)] admitted_autoscaler_accepts [OF assms(1)] assms(2)
  by (auto simp: spec_admitted_def)

end
