(* ===== verification/Correct_Admission.thy ===== *)
theory Correct_Admission
  imports Admission Plan_Reading Correct_Status
begin

text \<open>
  Properties of the schema together with the code behind it: what an admitted workload may still fail
  with, that the defaults of the schema are the fallbacks of the code, and that the status the controller
  writes is again admitted.
\<close>

subsection \<open>Admitted workloads build\<close>

lemma example_zero: "quantity_zero_law example_lib"
  by (auto simp: quantity_zero_law_def example_lib_def decimal_value_def split: Quantity.splits)

text \<open>
  C12. For a workload the schema admits, \<open>Build\<close> fails exactly if availability is enabled with a budget
  that does not fit the replica floor (the one rule the schema cannot express), and then with
  \<open>ErrInvalidConfiguration\<close>; the callback of the autoscaler accepts every object of its kind; and the
  route intent fails exactly if a route is asked for without a Service.
\<close>

theorem admitted_workload_builds:
  assumes "quantity_zero_law L" and "spec_admitted L (w_spec p)"
  shows "(Build L (Some p) = Inl e \<longleftrightarrow>
        e = ErrInvalidConfiguration \<and> AvailabilityEnabled (Some p)
        \<and> (\<exists>spec. sp_availability (w_spec p) = Some spec
             \<and> guaranteed_pods spec (AvailabilityReplicaFloor p) \<notin> {1 .. AvailabilityReplicaFloor p}))
     \<and> (AutoscalingEnabled (Some p) \<longrightarrow> (\<exists>t. hpa_callback L p (HPAObj h) = Inr (HPAObj t)))
     \<and> (HTTPRouteIntent L (Some p) = Inl e \<longleftrightarrow>
        e = ErrInvalidConfiguration \<and> HTTPRouteEnabled (Some p) \<and> \<not> ServiceEnabled (Some p))"
proof (intro conjI)
  show "Build L (Some p) = Inl e \<longleftrightarrow>
        e = ErrInvalidConfiguration \<and> AvailabilityEnabled (Some p)
        \<and> (\<exists>spec. sp_availability (w_spec p) = Some spec
             \<and> guaranteed_pods spec (AvailabilityReplicaFloor p) \<notin> {1 .. AvailabilityReplicaFloor p})"
    unfolding Build_admitted [OF assms] by (rule availability_admitted_builds [OF assms(2)])
  show "AutoscalingEnabled (Some p) \<longrightarrow> (\<exists>t. hpa_callback L p (HPAObj h) = Inr (HPAObj t))"
    using admitted_hpa_accepts [OF assms] by (metis hpa_callback_Inr)
  show "HTTPRouteIntent L (Some p) = Inl e \<longleftrightarrow>
        e = ErrInvalidConfiguration \<and> HTTPRouteEnabled (Some p) \<and> \<not> ServiceEnabled (Some p)"
  proof (cases "sp_exposure (w_spec p)")
    case (Some x)
    with assms(2) have "exposure_admitted x" by (simp add: spec_admitted_def)
    with Some show ?thesis
      by (auto simp: exposure_admitted_def ExposureHTTPRoute_def Let_def simp del: ServiceEnabled.simps)
  qed (simp add: Let_def)
qed

text \<open>An autoscaled workload whose budget asks for more Pods than its floor of two.\<close>

definition greedy_workload :: AIWorkload where
  "greedy_workload =
     autoscaled_workload\<lparr>w_spec := (w_spec autoscaled_workload)
       \<lparr>sp_availability := Some \<lparr>av_enabled = Some True, av_minAvailable = Some 3, av_maxUnavailable = None\<rparr>\<rparr>\<rparr>"

lemma greedy_admitted: "spec_admitted example_lib (w_spec greedy_workload)"
  by code_simp

theorem admitted_workload_builds_witness:
  "spec_admitted example_lib (w_spec greedy_workload)
   \<and> Build example_lib (Some greedy_workload) = Inl ErrInvalidConfiguration
   \<and> (\<exists>t. hpa_callback example_lib greedy_workload (HPAObj (zero_hpa zero_meta)) = Inr (HPAObj t))"
proof -
  have "AvailabilityEnabled (Some greedy_workload)" "AutoscalingEnabled (Some greedy_workload)"
    "guaranteed_pods \<lparr>av_enabled = Some True, av_minAvailable = Some 3, av_maxUnavailable = None\<rparr>
       (AvailabilityReplicaFloor greedy_workload) \<notin> {1 .. AvailabilityReplicaFloor greedy_workload}"
    "sp_availability (w_spec greedy_workload) =
       Some \<lparr>av_enabled = Some True, av_minAvailable = Some 3, av_maxUnavailable = None\<rparr>"
    by (simp_all add: greedy_workload_def autoscaled_workload_def AvailabilityReplicaFloor_def guaranteed_pods_def)
  with admitted_workload_builds [OF example_zero greedy_admitted] greedy_admitted show ?thesis by blast
qed

subsection \<open>Defaults\<close>

abbreviation defaulted :: "AIWorkload \<Rightarrow> AIWorkload" where
  "defaulted p \<equiv> p\<lparr>w_spec := default_spec (w_spec p)\<rparr>"

lemma or_default_simps [simp]:
  "or_default d (Some x) = Some x" "or_default d None = Some d" "deref (or_default d y) d = deref y d"
  by (simp_all add: or_default_def deref_def split: option.splits)

lemma default_spec_simps [simp]:
  "sp_environment (default_spec s) = sp_environment s" "sp_tenant (default_spec s) = sp_tenant s"
  "sp_image (default_spec s) = sp_image s" "sp_container (default_spec s) = sp_container s"
  "sp_resources (default_spec s) = sp_resources s" "sp_health (default_spec s) = sp_health s"
  "sp_exposure (default_spec s) = sp_exposure s" "sp_secretRefs (default_spec s) = sp_secretRefs s"
  "sp_externalSecrets (default_spec s) = sp_externalSecrets s"
  "sp_autoscaling (default_spec s) = map_option default_autoscaling (sp_autoscaling s)"
  "sp_availability (default_spec s) = map_option default_availability (sp_availability s)"
  by (simp_all add: default_spec_def)

lemma default_parts [simp]:
  "as_metrics (default_autoscaling a) = as_metrics a" "as_maxReplicas (default_autoscaling a) = as_maxReplicas a"
  "as_minReplicas (default_autoscaling a) = or_default 1 (as_minReplicas a)"
  "as_enabled (default_autoscaling a) = or_default False (as_enabled a)"
  "as_scaleDownStabilizationSeconds (default_autoscaling a) = as_scaleDownStabilizationSeconds a"
  "av_minAvailable (default_availability b) = av_minAvailable b"
  "av_maxUnavailable (default_availability b) = av_maxUnavailable b"
  "av_enabled (default_availability b) = or_default False (av_enabled b)"
  by (simp_all add: default_autoscaling_def default_availability_def)

lemma defaulted_readings:
  "ServiceEnabled (Some (defaulted p)) = ServiceEnabled (Some p)"
  "ServicePort (Some (defaulted p)) = ServicePort (Some p)"
  "NetworkEnabled (Some (defaulted p)) = NetworkEnabled (Some p)"
  "AutoscalingEnabled (Some (defaulted p)) = AutoscalingEnabled (Some p)"
  "AvailabilityEnabled (Some (defaulted p)) = AvailabilityEnabled (Some p)"
  "HTTPRouteEnabled (Some (defaulted p)) = HTTPRouteEnabled (Some p)"
  "AvailabilityReplicaFloor (defaulted p) = AvailabilityReplicaFloor p"
  "desiredReplicas (defaulted p) = desiredReplicas p"
  "deref (sp_replicas (default_spec (w_spec p))) 1 = deref (sp_replicas (w_spec p)) 1"
proof -
  show "ServiceEnabled (Some (defaulted p)) = ServiceEnabled (Some p)"
    "ServicePort (Some (defaulted p)) = ServicePort (Some p)"
    "NetworkEnabled (Some (defaulted p)) = NetworkEnabled (Some p)"
    by (auto simp: default_spec_def default_service_def default_network_def or_default_def split: option.splits)
  show "desiredReplicas (defaulted p) = desiredReplicas p"
    and replicas: "deref (sp_replicas (default_spec (w_spec p))) 1 = deref (sp_replicas (w_spec p)) 1"
    by (simp_all add: default_spec_def desiredReplicas_def)
  show "AvailabilityReplicaFloor (defaulted p) = AvailabilityReplicaFloor p"
    by (simp add: AvailabilityReplicaFloor_def replicas split: option.splits)
qed (simp_all add: AvailabilityReplicaFloor_def split: option.splits)

lemma defaulted_reading:
  assumes "\<And>a. sp_autoscaling (w_spec p) = Some a \<Longrightarrow> as_minReplicas a \<noteq> None"
  shows "same_reading (defaulted p) p"
proof -
  have "scaling_reading (defaulted p) = scaling_reading p"
    using assms by (cases "sp_autoscaling (w_spec p)") (auto simp: scaling_reading_def)
  moreover have "budget_reading (defaulted p) = budget_reading p"
    by (cases "sp_availability (w_spec p)") (simp_all add: budget_reading_def)
  ultimately show ?thesis unfolding same_reading_def defaulted_readings by (simp add: defaulted_readings(9))
qed

text \<open>
  C39. The fallbacks of the code are the defaults of the schema: unless autoscaling is given without
  \<open>minReplicas\<close> (which the schema fills in and \<open>Build\<close> demands), the controller derives from a workload
  that was stored before defaulting exactly the plan, the endpoint and the desired count it derives from
  the defaulted one, with the same callbacks.
\<close>

theorem schema_defaults_agree:
  assumes "\<And>a. sp_autoscaling (w_spec p) = Some a \<Longrightarrow> as_minReplicas a \<noteq> None"
  shows "Build L (Some (defaulted p)) = Build L (Some p)
     \<and> ServiceEndpoint (defaulted p) = ServiceEndpoint p
     \<and> desiredReplicas (defaulted p) = desiredReplicas p
     \<and> assessDeployment (defaulted p) d = assessDeployment p d
     \<and> NetworkEnabled (Some (defaulted p)) = NetworkEnabled (Some p)"
proof (intro conjI)
  show "Build L (Some (defaulted p)) = Build L (Some p)"
    by (rule Build_same_reading [OF defaulted_reading [OF assms]])
  show "ServiceEndpoint (defaulted p) = ServiceEndpoint p"
    using defaulted_readings(1,2) [of p]
    by (simp add: ServiceEndpoint_def del: ServiceEnabled.simps ServicePort.simps)
  show "assessDeployment (defaulted p) d = assessDeployment p d"
    by (simp add: assessDeployment_def Let_def defaulted_readings)
qed (rule defaulted_readings)+

theorem schema_defaults_agree_witness:
  "Build example_lib (Some (defaulted autoscaled_workload)) = Build example_lib (Some autoscaled_workload)
   \<and> sp_service (w_spec autoscaled_workload) = None
   \<and> sp_service (w_spec (defaulted autoscaled_workload)) = Some \<lparr>sv_enabled = Some True, sv_port = Some 80\<rparr>"
proof -
  have min: "as_minReplicas a \<noteq> None" if "sp_autoscaling (w_spec autoscaled_workload) = Some a" for a
    using that by (auto simp: autoscaled_workload_def)
  have "sp_service (w_spec autoscaled_workload) = None"
    by (simp add: autoscaled_workload_def example_spec_def)
  with schema_defaults_agree [of autoscaled_workload example_lib] min show ?thesis
    by (simp add: default_spec_def default_service_def del: Build.simps)
qed

subsection \<open>The status stays inside the schema\<close>

lemma rune_count_le: "rune_count s \<le> length s"
  by (simp add: rune_count_def)

lemma nat_decimal_length: "n < 10 ^ k \<Longrightarrow> 0 < k \<Longrightarrow> length (nat_decimal n) \<le> k"
proof (induction n arbitrary: k rule: nat_decimal.induct)
  case (1 n)
  show ?case
  proof (cases "n < 10")
    case True
    with 1(3) show ?thesis by (subst nat_decimal.simps) simp
  next
    case False
    then obtain j where k: "k = Suc j" "0 < j"
      using 1(2,3) by (cases k; cases "k - 1") auto
    then have "length (nat_decimal (n div 10)) \<le> j"
      using 1(1) [OF False, of j] 1(2) by (simp add: less_mult_imp_div_less mult.commute)
    with False k show ?thesis by (subst nat_decimal.simps) simp
  qed
qed

lemma endpoint_length:
  assumes "spec_admitted L (w_spec p)" and "length (w_namespace p) \<le> 63"
  shows "length (ServiceEndpoint p) \<le> 136"
proof -
  have "1 \<le> ServicePort (Some p) \<and> ServicePort (Some p) \<le> 65535"
    using assms(1) by (auto simp: spec_admitted_def service_admitted_def optional_struct_def optional_int_def split: option.splits)
  then have "length (int_decimal (ServicePort (Some p))) \<le> 5"
    by (auto simp: int_decimal_def intro!: nat_decimal_length simp del: ServicePort.simps)
  with assms(2) ChildName_length [of "w_name p"] show ?thesis
    by (simp add: ServiceEndpoint_def del: ServicePort.simps)
qed

text \<open>
  \<open>meta.SetStatusCondition\<close> on a list with one condition per type replaces the condition of the type or
  adds it; it touches no other.
\<close>

definition condition_list_law :: "lib \<Rightarrow> bool" where
  "condition_list_law L =
     (\<forall>cs c. distinct (map c_type cs) \<longrightarrow>
        distinct (map c_type (SetStatusCondition L cs c))
        \<and> set (map c_type (SetStatusCondition L cs c)) = insert (c_type c) (set (map c_type cs))
        \<and> (\<forall>d \<in> set (SetStatusCondition L cs c). d \<in> set cs \<or> same_condition d c))"

text \<open>A condition list the schema keeps admitting: room for the eight managed types is left.\<close>

definition conditions_ok :: "Condition list \<Rightarrow> bool" where
  "conditions_ok cs =
     (distinct (map c_type cs) \<and> card (set (map c_type cs) - set managed_condition_types) \<le> 8
      \<and> list_all (\<lambda>c. c_observedGeneration c \<noteq> 0) cs)"

lemma conditions_ok_length: "conditions_ok cs \<Longrightarrow> length cs \<le> 16"
proof -
  assume ok: "conditions_ok cs"
  have "length cs = card (set (map c_type cs))"
    using ok by (metis conditions_ok_def distinct_card length_map)
  also have "\<dots> \<le> card ((set (map c_type cs) - set managed_condition_types) \<union> set managed_condition_types)"
    by (rule card_mono) auto
  also have "\<dots> \<le> card (set (map c_type cs) - set managed_condition_types) + card (set managed_condition_types)"
    by (rule card_Un_le)
  also have "\<dots> \<le> 8 + 8"
    using ok card_length [of managed_condition_types]
    by (intro add_mono) (simp_all add: conditions_ok_def managed_condition_types_def)
  finally show ?thesis by simp
qed

lemma set_condition_ok:
  assumes "condition_list_law L" and "w_generation p \<noteq> 0" and "t \<in> set managed_condition_types"
    and "conditions_ok (w_conditions p)"
  shows "conditions_ok (w_conditions (set_condition L p t status reason message))"
proof -
  let ?c = "condition_for p t status reason message" and ?cs = "w_conditions p"
  from assms(1,4) have laws: "distinct (map c_type (SetStatusCondition L ?cs ?c))"
    "set (map c_type (SetStatusCondition L ?cs ?c)) = insert t (set (map c_type ?cs))"
    "\<forall>d \<in> set (SetStatusCondition L ?cs ?c). d \<in> set ?cs \<or> same_condition d ?c"
    by (simp_all add: condition_list_law_def conditions_ok_def condition_for_def)
  have "insert t (set (map c_type ?cs)) - set managed_condition_types = set (map c_type ?cs) - set managed_condition_types"
    using assms(3) by auto
  with laws assms(2,4) show ?thesis
    unfolding conditions_ok_def set_condition_def set_conditions_simps laws(2)
    by (auto simp: list_all_iff same_condition_def condition_for_def)
qed

text \<open>What the two reports leave of the scalar fields.\<close>

lemma set_condition_scalars [simp]:
  "st_observedGeneration (w_status (set_condition L p t s r m)) = st_observedGeneration (w_status p)"
  "st_desiredReplicas (w_status (set_condition L p t s r m)) = st_desiredReplicas (w_status p)"
  "st_readyReplicas (w_status (set_condition L p t s r m)) = st_readyReplicas (w_status p)"
  "st_endpoint (w_status (set_condition L p t s r m)) = st_endpoint (w_status p)"
  by (simp_all add: set_condition_def)

lemma desired_in_schema: "spec_admitted L (w_spec p) \<Longrightarrow> 0 \<le> desiredReplicas p \<and> desiredReplicas p \<le> 20"
  by (auto simp: spec_admitted_def optional_int_def desiredReplicas_def deref_def split: option.splits)

lemma endpoint_in_schema:
  "spec_admitted L (w_spec p) \<Longrightarrow> length (w_namespace p) \<le> 63 \<Longrightarrow> rune_count (ServiceEndpoint p) \<le> 512"
  using endpoint_length [of L p] rune_count_le [of "ServiceEndpoint p"] by simp

lemma observed_conditions_ok:
  assumes "condition_list_law L" and "w_generation p \<noteq> 0" and "conditions_ok (w_conditions p)"
  shows "conditions_ok (w_conditions (observed_status L p d))"
  using assms
  by (auto simp: observed_status_def setAssessmentConditions_def Let_def managed_condition_types_def frame_simps
      intro!: set_condition_ok)

lemma failure_conditions_ok:
  assumes "condition_list_law L" and "w_generation p \<noteq> 0" and "conditions_ok (w_conditions p)"
  shows "conditions_ok (w_conditions (failure_conditions L p e))"
proof -
  obtain reason message permanent where c: "classify_failure e = (reason, message, permanent)"
    by (metis prod.exhaust)
  let ?q = "set_failure_conditions L p reason message permanent"
  have m: "t \<in> set managed_condition_types" if "t \<in> {conditionReady, conditionProgressing, conditionDegraded,
      conditionTenantReady, conditionExternalSecretsReady, conditionExposureReady}" for t
    using that by (auto simp: managed_condition_types_def)
  have step: "w_generation (set_condition L q t s reason message) \<noteq> 0
      \<and> conditions_ok (w_conditions (set_condition L q t s reason message))"
    if "w_generation q \<noteq> 0 \<and> conditions_ok (w_conditions q)" "t \<in> set managed_condition_types" for q t s
    using that set_condition_ok [OF assms(1)] by (simp add: frame_simps)
  have "w_generation ?q \<noteq> 0 \<and> conditions_ok (w_conditions ?q)"
    unfolding set_failure_conditions_def fold_simps Let_def id_apply comp_apply
    using assms(2,3) by (intro step m) simp_all
  then show ?thesis
    unfolding failure_conditions_def c prod.case Let_def by (simp add: step m)
qed


lemma set_condition_types:
  "map c_type (example_set_condition cs c) =
     (if c_type c \<in> set (map c_type cs) then map c_type cs else map c_type cs @ [c_type c])"
  by (induction cs) (auto simp: same_condition_def)

lemma set_condition_members: "d \<in> set (example_set_condition cs c) \<Longrightarrow> d \<in> set cs \<or> same_condition d c"
  by (induction cs) (auto simp: same_condition_def split: if_splits)

lemma example_condition_list: "condition_list_law example_lib"
proof -
  have set: "SetStatusCondition example_lib = example_set_condition" by (simp add: example_lib_def)
  show ?thesis
    unfolding condition_list_law_def set using set_condition_members by (auto simp: set_condition_types simp del: set_map)
qed

lemma example_admitted: "spec_admitted example_lib (w_spec example_workload)"
  by code_simp


end
