(* ===== verification/Panic_Freedom.thy ===== *)
theory Panic_Freedom
  imports Correct_Admission
begin

text \<open>
  The nil pointers and nil callbacks of the sources: \<open>NilDereference\<close> is the value of a Go panic in the
  model, and this theory shows that building and applying the production plan never yields it.
\<close>

subsection \<open>What the callbacks return\<close>

text \<open>Errors the callbacks of the production plan can return.\<close>

abbreviation callback_errors :: "go_error set" where
  "callback_errors \<equiv> {ErrInvalidConfiguration, ErrImmutableSelector, ErrImmutableServiceAllocation}"

lemma callback_error:
  "service_account_callback p ob = Inl e \<Longrightarrow> e \<in> callback_errors"
  "deployment_callback p requests limits ob = Inl e \<Longrightarrow> e \<in> callback_errors"
  "service_callback p ob = Inl e \<Longrightarrow> e \<in> callback_errors"
  "network_policy_callback p ob = Inl e \<Longrightarrow> e \<in> callback_errors"
  by (auto simp: service_account_callback_def deployment_callback_def service_callback_def
      network_policy_callback_def mutateDeployment_def mutateService_def Let_def
      split: client_object.splits if_splits)

lemma pdb_error:
  assumes "availabilityIntent p = Inr i" and "i_mutate i = Some f" and "f ob = Inl e"
  shows "e \<in> callback_errors"
proof -
  have f: "f = pdb_callback p" and v: "validateAvailability (Some p) = None"
    using assms(1,2)
    by (auto simp: availabilityIntent_def Let_def simp del: validateAvailability.simps split: if_splits option.splits)
  then obtain a where "sp_availability (w_spec p) = Some a" "(av_minAvailable a = None) \<noteq> (av_maxUnavailable a = None)"
    unfolding validateAvailability_None by blast
  with v assms(3) show ?thesis
    unfolding f pdb_callback_def mutatePDB_def
    by (auto simp: Let_def simp del: validateAvailability.simps split: client_object.splits option.splits)
qed

lemma hpa_error:
  assumes "autoscalingIntent L p = Inr i" and "i_mutate i = Some f" and "f ob = Inl e"
  shows "e \<in> callback_errors"
proof -
  from assms(1,2) obtain a lo hi where "sp_autoscaling (w_spec p) = Some a" "as_minReplicas a = Some lo"
    "as_maxReplicas a = Some hi" and "f = hpa_callback L p"
    by (auto simp: autoscalingIntent_def Let_def split: if_splits option.splits)
  with assms(3) show ?thesis
    by (cases "hpaMetrics L (as_metrics a)")
      (auto simp: hpa_callback_def mutateHPA_def split: client_object.splits dest: hpaMetrics_error)
qed

lemma route_error:
  assumes "HTTPRouteIntent L (Some p) = Inr i" and "i_mutate i = Some f" and "f ob = Inl e"
  shows "e \<in> callback_errors"
  using assms
  by (auto simp: Let_def http_route_callback_def split: if_splits option.splits client_object.splits)

text \<open>An intent whose callback, if it runs, returns one of these errors or none.\<close>

definition calm :: "Intent \<Rightarrow> bool" where
  "calm i = (i_object i \<noteq> None \<and> (\<forall>f ob e. i_mutate i = Some f \<longrightarrow> f ob = Inl e \<longrightarrow> e \<in> callback_errors))"

lemma Build_calm:
  assumes "Build L (Some p) = Inr plan" and "i \<in> set plan"
  shows "calm i"
  using assms
proof (elim Build_Inr)
  fix requests limits service autoscaling availability
  assume s: "serviceIntent p = Inr service" and a: "autoscalingIntent L p = Inr autoscaling"
    and b: "availabilityIntent p = Inr availability"
    and plan: "plan = [serviceAccountIntent p, deploymentIntent p requests limits, service, networkPolicyIntent p,
                 autoscaling, availability]"
  have "calm (serviceAccountIntent p)" "calm (deploymentIntent p requests limits)" "calm (networkPolicyIntent p)"
    by (auto simp: calm_def serviceAccountIntent_def deploymentIntent_def networkPolicyIntent_def Let_def
        split: if_splits dest: callback_error)
  moreover have "calm service"
    using s by (auto simp: calm_def serviceIntent_def Let_def split: if_splits dest: callback_error)
  moreover have "calm autoscaling" "calm availability"
    using hpa_error [OF a] pdb_error [OF b] autoscalingIntent_shape(1) [OF a] availabilityIntent_shape(1) [OF b]
    unfolding calm_def by blast+
  ultimately show ?thesis using assms(2) plan by auto
qed

lemma decorated_calm:
  assumes "calm i" and "i_mutate i = Some (deployment_callback q requests limits)"
  shows "calm (i\<lparr>i_mutate := Some (decorated_mutate (i_mutate i) revision)\<rparr>)"
proof -
  have "e \<in> callback_errors" if "decorated_mutate (i_mutate i) revision ob = Inl e" for ob e
    using that callback_error(2) [of q requests limits ob e]
    by (cases "deployment_callback q requests limits ob") (auto simp: assms(2) decorated_mutate_def deployment_callback_Inr)
  with assms(1) show ?thesis by (auto simp: calm_def)
qed

lemma Build_error: "Build L p = Inl e \<Longrightarrow> e = ErrInvalidConfiguration"
proof (cases p)
  case (Some q)
  have "availabilityIntent q = Inl e \<Longrightarrow> e = ErrInvalidConfiguration"
    by (auto simp: availabilityIntent_def Let_def simp del: validateAvailability.simps
        split: if_splits option.splits dest: validateAvailability_error)
  moreover have "autoscalingIntent L q = Inl e \<Longrightarrow> e = ErrInvalidConfiguration"
    by (auto simp: autoscalingIntent_def Let_def split: if_splits option.splits)
  moreover have "serviceIntent q = Inl e \<Longrightarrow> e = ErrInvalidConfiguration"
    by (auto simp: serviceIntent_def Let_def split: if_splits)
  moreover have "default_requests L limits requests = Inl e \<Longrightarrow> e = ErrInvalidConfiguration" for limits requests
    by (induction L limits requests rule: default_requests.induct) (auto split: option.splits if_splits)
  then have "resourceLists L s = Inl e \<Longrightarrow> e = ErrInvalidConfiguration" for s
    by (auto simp: resourceLists_def parse_quantities_eq bindr_Inl_iff split: option.splits if_splits)
  moreover assume "Build L p = Inl e"
  ultimately show ?thesis using Some by (auto simp: bindr_Inl_iff split: prod.splits)
qed simp

lemma HTTPRouteIntent_error: "HTTPRouteIntent L p = Inl e \<Longrightarrow> e = ErrInvalidConfiguration"
  by (cases p) (auto simp: Let_def split: if_splits option.splits)

lemma build_plan_calm:
  assumes "nested_field_laws L"
  shows "case build_plan L (Build L) p external exposure of
     Inl e \<Rightarrow> e = ErrInvalidConfiguration | Inr plan \<Rightarrow> \<forall>i \<in> set plan. calm i"
proof (cases "build_plan L (Build L) p external exposure")
  case (Inl e)
  then show ?thesis
    using Build_error HTTPRouteIntent_error ValidatePlan_error
    by (auto simp: build_plan_def Let_def bindr_Inl_iff simp del: Build.simps HTTPRouteIntent.simps split: if_splits)
next
  case (Inr plan)
  have "calm i" if "HTTPRouteIntent L (Some (desired_workload p external)) = Inr i" for i
    using HTTPRouteIntent_shape(1) [OF that] route_error [OF that] by (auto simp: calm_def)
  with build_plan_all [where P = calm, OF assms Inr Build_calm] decorated_calm Inr show ?thesis by simp
qed

text \<open>The API client returns errors, it does not panic.\<close>

definition calm_client :: "'s client \<Rightarrow> bool" where
  "calm_client c =
     ((\<forall>ob k w. fst (client_get c ob k w) \<noteq> Inl NilDereference)
      \<and> (\<forall>s ob. fst (cl_create c s ob) \<noteq> Some NilDereference)
      \<and> (\<forall>s ob ob'. fst (cl_patch c s ob ob') \<noteq> Some NilDereference)
      \<and> (\<forall>s ob u v. fst (cl_delete c s ob u v) \<noteq> Some NilDereference)
      \<and> (\<forall>s k. fst (cl_getSecretMetadata c s k) \<noteq> Inl NilDereference))"

lemma run_mutate_calm: "calm i \<Longrightarrow> safe_intent p i \<Longrightarrow> \<not> i_absent i \<Longrightarrow> run_mutate i ob \<noteq> Inl NilDereference"
proof
  assume "calm i" "safe_intent p i" "\<not> i_absent i" and run: "run_mutate i ob = Inl NilDereference"
  then obtain f where "i_mutate i = Some f" by (auto elim: safe_intentD)
  with run \<open>calm i\<close> have "NilDereference \<in> callback_errors" unfolding calm_def run_mutate_def by (metis option.simps(5))
  then show False by simp
qed

lemma apply_missing_calm:
  assumes "calm_client c" and "calm i" and "safe_intent p i"
  shows "fst (apply_missing L c p i target w) \<noteq> Inl NilDereference"
proof -
  have "fst (call (CreateE child) (\<lambda>s. cl_create c s child) w) \<noteq> Some NilDereference" for child
    using assms(1) by (simp add: call_fst calm_client_def)
  then show ?thesis
    using run_mutate_calm [OF assms(2,3)]
    by (auto simp: apply_missing_def Let_def split: sum.splits option.splits prod.splits) (metis fst_conv)
qed

lemma apply_existing_calm:
  assumes "calm_client c" and "calm i" and "safe_intent p i"
  shows "fst (apply_existing L c p i current w) \<noteq> Inl NilDereference"
proof -
  have "fst (call (PatchE b a) (\<lambda>s. cl_patch c s b a) w) \<noteq> Some NilDereference"
    "fst (call (DeleteE b u v) (\<lambda>s. cl_delete c s b u v) w) \<noteq> Some NilDereference" for a b u v
    using assms(1) by (simp_all add: call_fst calm_client_def)
  then show ?thesis
    using run_mutate_calm [OF assms(2,3)]
    by (auto simp: apply_existing_def Let_def split: sum.splits option.splits prod.splits) (metis fst_conv)+
qed

lemma Apply_calm:
  assumes "calm_client c" and "calm i"
  shows "fst (Apply L c p i w) \<noteq> Inl NilDereference"
proof (cases "ValidatePlan p [i]")
  case (Inl e)
  then show ?thesis by (auto simp: Apply_def dest: ValidatePlan_error)
next
  case (Inr x)
  then have safe: "safe_intent p i" by (simp add: ValidatePlan_single)
  obtain target where target: "i_object i = Some target" using assms(2) by (auto simp: calm_def)
  obtain g w1 where get: "client_get c target (m_namespace (obj_meta target), m_name (obj_meta target)) w = (g, w1)"
    by fastforce
  then have "g \<noteq> Inl NilDereference" using assms(1) unfolding calm_client_def by (metis fst_conv)
  with Inr target get apply_missing_calm [OF assms safe] apply_existing_calm [OF assms safe] show ?thesis
    by (cases g) (simp_all add: Apply_def)
qed

lemma apply_plan_calm:
  assumes "calm_client (rc_client r)" and "\<forall>i \<in> set plan. calm i"
  shows "fst (apply_plan L r p plan w) \<noteq> Some NilDereference"
  using assms(2)
proof (induction plan arbitrary: w)
  case (Cons i plan)
  then show ?case
    using Apply_calm [OF assms(1), of i L p w] by (auto split: sum.splits prod.splits)
qed simp

lemma check_secrets_calm: "fst (check_secrets c ns names w) \<noteq> Some NilDereference"
  by (induction names arbitrary: w) (auto split: sum.splits prod.splits)

text \<open>
  C13. No reconciliation panics: for every specification, admitted or not, building and applying the
  production plan (the decorated Deployment and the route included) never dereferences a nil pointer and
  never calls a nil callback, provided the API client does not; and the plan itself can only be refused
  with \<open>ErrInvalidConfiguration\<close>.
\<close>

theorem converge_never_panics:
  assumes "nested_field_laws L" and "calm_client (rc_client r)"
  shows "fst (converge L r (Build L) p external exposure w) \<noteq> Some NilDereference
     \<and> build_plan L (Build L) p external exposure \<in> {Inl ErrInvalidConfiguration} \<union> range Inr"
proof (cases "build_plan L (Build L) p external exposure")
  case (Inl e)
  with build_plan_calm [OF assms(1), of p external exposure] show ?thesis by (auto simp: converge_def)
next
  case (Inr plan)
  with build_plan_calm [OF assms(1), of p external exposure] have "\<forall>i \<in> set plan. calm i" by simp
  from apply_plan_calm [OF assms(2) this, of L p w] Inr show ?thesis
    by (auto simp: converge_def validateSecretReferences_def check_secrets_calm
        split: prod.splits option.splits)
qed

lemma map_sum_Inl_iff: "map_sum id f r = Inl e \<longleftrightarrow> r = Inl e"
  by (cases r) auto

lemma example_calm: "calm_client (rc_client example_reconciler)"
proof -
  have fetch: "fst (fetch f s k) \<noteq> Inl NilDereference" for f :: "client_object \<Rightarrow> 'a option" and s k
    by (simp add: fetch_def not_found_def split: option.splits)
  have "fst (client_get example_client ob k w) \<noteq> Inl NilDereference" for ob k w
    by (cases ob) (simp_all add: example_client_def call_get_def call_fst fetch map_sum_Inl_iff)
  then show ?thesis
    by (simp add: calm_client_def example_reconciler_def) (simp add: example_client_def)
qed

theorem converge_never_panics_witness:
  "fst (converge example_lib example_reconciler (Build example_lib) greedy_workload [] \<lparr>xs_manageRoute = True, xs_active = False\<rparr>
     example_world) \<noteq> Some NilDereference"
  using converge_never_panics [OF example_nested example_calm] by blast

end
