(* ===== verification/Progress.thy ===== *)
theory Progress
  imports Cluster Panic_Freedom
begin

text \<open>
  When a reconciliation succeeds. On an API server that answers (\<open>healthy\<close>) the engine has exactly one
  way left to fail on a child: the object under the child's name is not its own, is being deleted, or is
  refused by the callback (an immutable selector or Service allocation). \<open>receptive\<close> says that none of
  these holds; then \<open>Apply\<close> returns an outcome, so the whole plan is applied and is settled afterwards.
\<close>

text \<open>\<open>SetControllerReference\<close> fails only for an object that another controller owns.\<close>

definition controller_reference_total :: "lib \<Rightarrow> bool" where
  "controller_reference_total L =
     (\<forall>name uid ns refs.
        (case GetControllerOf L refs of None \<Rightarrow> True | Some r \<Rightarrow> refers_to name uid r) \<longrightarrow>
        SetControllerReference L ns name uid ns refs \<noteq> None)"

text \<open>An object without owner references has no controller.\<close>

definition no_controller_law :: "lib \<Rightarrow> bool" where
  "no_controller_law L = (GetControllerOf L [] = None)"

text \<open>An API server that answers every call and has no reason of its own to refuse a write.\<close>

definition healthy :: "'s client \<Rightarrow> ('s \<Rightarrow> store) \<Rightarrow> bool" where
  "healthy c store =
     ((\<forall>ob k w e. fst (client_get c ob k w) = Inl e \<longrightarrow> IsNotFound e)
      \<and> (\<forall>s ob. store s (obj_type ob) (key_of ob) = None \<longrightarrow> m_deletionTimestamp (obj_meta ob) = None \<longrightarrow>
           fst (cl_create c s ob) = None)
      \<and> (\<forall>s before after. store s (obj_type before) (key_of before) = Some before \<longrightarrow>
           obj_type after = obj_type before \<longrightarrow> key_of after = key_of before \<longrightarrow>
           m_deletionTimestamp (obj_meta after) = None \<longrightarrow> fst (cl_patch c s before after) = None)
      \<and> (\<forall>s ob. store s (obj_type ob) (key_of ob) = Some ob \<longrightarrow>
           fst (cl_delete c s ob (m_uid (obj_meta ob)) (m_resourceVersion (obj_meta ob))) = None))"

definition receptive :: "lib \<Rightarrow> AIWorkload \<Rightarrow> Intent \<Rightarrow> store \<Rightarrow> bool" where
  "receptive L p i s =
     (case i_object i of
        None \<Rightarrow> False
      | Some target \<Rightarrow>
          (case s (obj_type target) (child_key p) of
             None \<Rightarrow> i_absent i \<or> \<not> isl (run_mutate i target)
           | Some live \<Rightarrow>
               owns L p live \<and> m_deletionTimestamp (obj_meta live) = None
               \<and> (i_absent i \<or> \<not> isl (run_mutate i live))))"

subsection \<open>One child\<close>

lemma owns_controlled: "owns L p ob \<Longrightarrow> \<exists>r. GetControllerOf L (m_ownerReferences (obj_meta ob)) = Some r \<and> refers_to (w_name p) (w_uid p) r"
  by (auto simp: owns_def refers_to_def split: option.splits)

lemma owned_controller:
  assumes "controller_reference_total L" and "owns L p live" and "same_identity (obj_meta ob) (obj_meta live)"
  shows "\<exists>refs. set_controller L p ob = Some (set_obj_meta ob ((obj_meta ob)\<lparr>m_ownerReferences := refs\<rparr>))"
proof -
  have "m_namespace (obj_meta ob) = w_namespace p" "m_ownerReferences (obj_meta ob) = m_ownerReferences (obj_meta live)"
    using assms(2,3) by (simp_all add: owns_def same_identity_def)
  moreover obtain refs where "SetControllerReference L (w_namespace p) (w_name p) (w_uid p) (w_namespace p)
      (m_ownerReferences (obj_meta live)) = Some refs"
    using assms(1) owns_controlled [OF assms(2)] unfolding controller_reference_total_def by fastforce
  ultimately show ?thesis by (auto simp: set_controller_def)
qed

lemma fresh_controller:
  assumes "controller_reference_total L" and "no_controller_law L"
    and "m_namespace (obj_meta ob) = w_namespace p" and "m_ownerReferences (obj_meta ob) = []"
  shows "\<exists>refs. set_controller L p ob = Some (set_obj_meta ob ((obj_meta ob)\<lparr>m_ownerReferences := refs\<rparr>))"
proof -
  obtain refs where "SetControllerReference L (w_namespace p) (w_name p) (w_uid p) (w_namespace p) [] = Some refs"
    using assms(1,2) unfolding controller_reference_total_def no_controller_law_def by fastforce
  with assms(3,4) show ?thesis by (auto simp: set_controller_def)
qed

lemma call_success: "fst (f (wd_env w)) = None \<Longrightarrow> \<exists>w'. call e f w = (None, w')"
  by (cases "f (wd_env w)") (simp add: call_def)

lemma missing_progress:
  assumes "healthy c store" and "controller_reference_total L" and "no_controller_law L"
    and "intent_contract p i" and "i_object i = Some target"
    and "store (wd_env w) (obj_type target) (child_key p) = None" and "i_absent i \<or> \<not> isl (run_mutate i target)"
  shows "\<exists>r w'. apply_missing L c p i target w = (Inr r, w')"
proof (cases "i_absent i")
  case False
  with assms(4) obtain f where f: "i_mutate i = Some f" "intent_mutator f" by (blast dest: contract_mutator)
  from False assms(7) obtain ob where ob: "run_mutate i target = Inr ob" by (cases "run_mutate i target") auto
  then have same: "same_identity (obj_meta ob) (obj_meta target)" and type: "obj_type ob = obj_type target"
    using f intent_mutator.keeps_identity [OF f(2)] intent_mutator.keeps_type [OF f(2)] by (auto simp: run_mutate_def)
  have "intent_ok p [] i" using assms(4) by (simp add: intent_contract_def safe_intent_def)
  then have clean: "m_name (obj_meta target) = ChildName (w_name p)" "m_namespace (obj_meta target) = w_namespace p"
    "m_uid (obj_meta target) = ''''" "m_resourceVersion (obj_meta target) = ''''" "m_ownerReferences (obj_meta target) = []"
    "m_finalizers (obj_meta target) = []" "m_deletionTimestamp (obj_meta target) = None"
    using assms(5) by (auto simp: intent_ok_def Let_def)
  obtain refs where set: "set_controller L p ob = Some (set_obj_meta ob ((obj_meta ob)\<lparr>m_ownerReferences := refs\<rparr>))"
    using fresh_controller [OF assms(2,3)] same clean by (auto simp: same_identity_def)
  let ?child = "set_obj_meta ob ((obj_meta ob)\<lparr>m_ownerReferences := refs\<rparr>)"
  have "fst (cl_create c (wd_env w) ?child) = None"
    using assms(1,6) same clean type unfolding healthy_def by (simp add: same_identity_def)
  then obtain w' where "call (CreateE ?child) (\<lambda>s. cl_create c s ?child) w = (None, w')"
    using call_success [where f = "\<lambda>s. cl_create c s ?child"] by blast
  with False ob set same clean show ?thesis by (simp add: apply_missing_def same_identity_def)
qed (simp add: apply_missing_def)

lemma existing_progress:
  assumes "healthy c store" and "controller_reference_total L" and "intent_contract p i"
    and "store (wd_env w) (obj_type live) (key_of live) = Some live"
    and "owns L p live" and "m_deletionTimestamp (obj_meta live) = None" and "i_absent i \<or> \<not> isl (run_mutate i live)"
  shows "\<exists>r w'. apply_existing L c p i live w = (Inr r, w')"
proof (cases "i_absent i")
  case True
  have "fst (cl_delete c (wd_env w) live (m_uid (obj_meta live)) (m_resourceVersion (obj_meta live))) = None"
    using assms(1,4) unfolding healthy_def by blast
  then obtain w' where "call (DeleteE live (m_uid (obj_meta live)) (m_resourceVersion (obj_meta live)))
      (\<lambda>s. cl_delete c s live (m_uid (obj_meta live)) (m_resourceVersion (obj_meta live))) w = (None, w')"
    using call_success [where f = "\<lambda>s. cl_delete c s live (m_uid (obj_meta live)) (m_resourceVersion (obj_meta live))"]
    by blast
  with True assms(5,6) show ?thesis by (simp add: apply_existing_def)
next
  case False
  with assms(3) obtain f where f: "i_mutate i = Some f" "intent_mutator f" by (blast dest: contract_mutator)
  from False assms(7) obtain ob where ob: "run_mutate i live = Inr ob" by (cases "run_mutate i live") auto
  then have same: "same_identity (obj_meta ob) (obj_meta live)" and type: "obj_type ob = obj_type live"
    using f intent_mutator.keeps_identity [OF f(2)] intent_mutator.keeps_type [OF f(2)] by (auto simp: run_mutate_def)
  obtain refs where set: "set_controller L p ob = Some (set_obj_meta ob ((obj_meta ob)\<lparr>m_ownerReferences := refs\<rparr>))"
    using owned_controller [OF assms(2,5) same] ..
  let ?child = "set_obj_meta ob ((obj_meta ob)\<lparr>m_ownerReferences := refs\<rparr>)"
  have "fst (cl_patch c (wd_env w) live ?child) = None"
    using assms(1,4,6) same type unfolding healthy_def by (simp add: same_identity_def)
  then obtain w' where "call (PatchE live ?child) (\<lambda>s. cl_patch c s live ?child) w = (None, w')"
    using call_success [where f = "\<lambda>s. cl_patch c s live ?child"] by blast
  with False ob set same assms(5,6) show ?thesis by (simp add: apply_existing_def Let_def)
qed

lemma Apply_progress:
  assumes "api_server c store" and "healthy c store" and "controller_reference_total L" and "no_controller_law L"
    and "engine_ready L p" and "intent_contract p i" and "receptive L p i (store (wd_env w))"
  shows "\<exists>r w'. Apply L c p i w = (Inr r, w')"
proof -
  from assms(7) obtain target where target: "i_object i = Some target" by (auto simp: receptive_def split: option.splits)
  obtain g w1 where get: "client_get c target (child_key p) w = (g, w1)" by fastforce
  note keep = api_server_get [OF assms(1) get]
  have "safe_intent p i" "m_deletionTimestamp (w_meta p) = None" "w_uid p \<noteq> ''''" "w_namespace p \<noteq> ''''" "w_name p \<noteq> ''''"
    using assms(5,6) by (simp_all add: engine_ready_def intent_contract_def)
  note ready = Apply_ready [OF this(1) target this(2-)]
  show ?thesis
  proof (cases g)
    case (Inl e)
    then have nf: "IsNotFound e" using assms(2) get unfolding healthy_def by (metis fst_conv)
    from keep(3) [OF Inl nf] have free: "store (wd_env w) (obj_type target) (child_key p) = None" .
    with assms(7) target have "i_absent i \<or> \<not> isl (run_mutate i target)" by (simp add: receptive_def)
    with missing_progress [OF assms(2-4,6) target, of w1] free keep(1) have "\<exists>r w'. apply_missing L c p i target w1 = (Inr r, w')"
      by simp
    with ready [of L c w] get Inl nf show ?thesis by simp
  next
    case (Inr live)
    from keep(2) [OF Inr] have at: "store (wd_env w) (obj_type target) (child_key p) = Some live" "key_of live = child_key p"
      "obj_type live = obj_type target" by auto
    with assms(7) target have "owns L p live" "m_deletionTimestamp (obj_meta live) = None"
      "i_absent i \<or> \<not> isl (run_mutate i live)" by (simp_all add: receptive_def)
    with existing_progress [OF assms(2,3,6), of w1 live] at keep(1) have "\<exists>r w'. apply_existing L c p i live w1 = (Inr r, w')"
      by simp
    with ready [of L c w] get Inr show ?thesis by simp
  qed
qed

subsection \<open>A whole plan\<close>

lemma receptive_slot_cong:
  assumes "i_object i = Some target" and "s' (obj_type target) (child_key p) = s (obj_type target) (child_key p)"
  shows "receptive L p i s' = receptive L p i s"
  using assms by (simp add: receptive_def)

lemma apply_plan_progress:
  assumes "api_server (rc_client r) store" and "healthy (rc_client r) store" and "controller_reference_total L"
    and "no_controller_law L" and "engine_ready L p"
    and "\<forall>i \<in> set plan. intent_contract p i \<and> receptive L p i (store (wd_env w))" and "distinct (map intent_kind plan)"
  shows "\<exists>w'. apply_plan L r p plan w = (None, w')"
  using assms(6,7)
proof (induction plan arbitrary: w)
  case (Cons i plan)
  from Cons.prems(1) have i: "intent_contract p i" "receptive L p i (store (wd_env w))" by simp_all
  from i(2) obtain target where target: "i_object i = Some target" by (auto simp: receptive_def split: option.splits)
  from Apply_progress [OF assms(1-5) i] obtain outcome w1 where a: "Apply L (rc_client r) p i w = (Inr outcome, w1)" by blast
  from Apply_settles [OF assms(1,5) i(1) target a]
  have other: "t \<noteq> obj_type target \<Longrightarrow> store (wd_env w1) t k = store (wd_env w) t k" for t k
    unfolding settles_def by blast
  have "receptive L p j (store (wd_env w1))" if j: "j \<in> set plan" for j
  proof -
    from Cons.prems(1) j have rj: "receptive L p j (store (wd_env w))" by simp
    then obtain b where b: "i_object j = Some b" by (auto simp: receptive_def split: option.splits)
    from Cons.prems(2) j have "intent_kind j \<noteq> intent_kind i" by (simp add: image_iff) metis
    with intent_type_kind [OF b target] have "obj_type b \<noteq> obj_type target" by blast
    with rj b other show ?thesis by (simp add: receptive_slot_cong [where s' = "store (wd_env w1)" and s = "store (wd_env w)"])
  qed
  with Cons.IH [of "record_resource r i (outcome_text outcome) w1"] Cons.prems a show ?case by simp
qed simp

lemma check_secrets_progress:
  assumes "\<forall>s n. n \<in> set names \<longrightarrow> \<not> isl (fst (cl_getSecretMetadata c s (ns, n)))"
  shows "\<exists>w'. check_secrets c ns names w = (None, w')"
  using assms
proof (induction names arbitrary: w)
  case (Cons n names)
  obtain y w1 where get: "call_get ''Secret'' (cl_getSecretMetadata c) (ns, n) w = (y, w1)" by fastforce
  have "fst (call_get ''Secret'' (cl_getSecretMetadata c) (ns, n) w) = fst (cl_getSecretMetadata c (wd_env w) (ns, n))"
    by (simp add: call_get_def call_fst)
  moreover have "\<not> isl (fst (cl_getSecretMetadata c (wd_env w) (ns, n)))" using Cons.prems by simp
  ultimately have "\<not> isl y" using get by simp
  then obtain x where "y = Inr x" by (cases y) simp_all
  with Cons get show ?case by simp
qed simp

lemma converge_progress:
  assumes "api_server (rc_client r) store" and "healthy (rc_client r) store" and "controller_reference_total L"
    and "no_controller_law L" and "engine_ready L p" and "nested_field_laws L"
    and "build_plan L (Build L) p external exposure = Inr plan"
    and "\<forall>i \<in> set plan. receptive L p i (store (wd_env w))"
    and "\<forall>s n. n \<in> set (sp_secretRefs (w_spec p)) \<longrightarrow> \<not> isl (fst (cl_getSecretMetadata (rc_client r) s (w_namespace p, n)))"
  shows "\<exists>w'. converge L r (Build L) p external exposure w = (None, w')"
proof -
  note built = build_plan_Inr [OF assms(6,7)]
  then have "distinct (map intent_kind plan)" by (simp add: strict_sorted_iff)
  with apply_plan_progress [OF assms(1-5)] built assms(8) obtain w1 where "apply_plan L r p plan w = (None, w1)" by blast
  moreover obtain w2 where "validateSecretReferences r p w1 = (None, w2)"
    using check_secrets_progress [OF assms(9)] unfolding validateSecretReferences_def by blast
  ultimately show ?thesis using assms(7) by (simp add: converge_def)
qed

subsection \<open>Rollout and repair\<close>

text \<open>
  What the callbacks of the plan may refuse in a live object, whatever else has drifted: the selector of a
  Deployment that exists, and a Service that is not a ClusterIP Service or is headless. Both are immutable
  in the API, so no controller could repair them in place.
\<close>

definition repairable :: "AIWorkload \<Rightarrow> client_object \<Rightarrow> bool" where
  "repairable p ob =
     (case ob of
        DeploymentObj d \<Rightarrow> fresh_meta (d_meta d) \<or> selector_compatible p (d_selector d)
      | ServiceObj s \<Rightarrow> s_type s \<in> {'''', ''ClusterIP''} \<and> s_clusterIP s \<noteq> ''None''
      | _ \<Rightarrow> True)"

text \<open>An intent whose callback accepts every such object of its type, the fresh one it carries included.\<close>

definition accepts :: "AIWorkload \<Rightarrow> Intent \<Rightarrow> bool" where
  "accepts p i =
     (\<exists>target. i_object i = Some target \<and> repairable p target
        \<and> (i_absent i \<or>
           (\<exists>f. i_mutate i = Some f \<and> (\<forall>ob. obj_type ob = obj_type target \<longrightarrow> repairable p ob \<longrightarrow> \<not> isl (f ob)))))"

text \<open>The child slots of \<open>p\<close> from which the plan can be applied: free, or with a live, own, repairable object.\<close>

definition recoverable :: "lib \<Rightarrow> AIWorkload \<Rightarrow> store \<Rightarrow> bool" where
  "recoverable L p s =
     (\<forall>t. case s t (child_key p) of
        None \<Rightarrow> True
      | Some live \<Rightarrow>
          obj_type live = t \<and> owns L p live \<and> m_deletionTimestamp (obj_meta live) = None \<and> repairable p live)"

lemma accepts_receptive:
  assumes "accepts p i" and "recoverable L p s"
  shows "receptive L p i s"
proof -
  from assms(1) obtain target where target: "i_object i = Some target" "repairable p target"
    and ok: "i_absent i \<or> (\<exists>f. i_mutate i = Some f \<and> (\<forall>ob. obj_type ob = obj_type target \<longrightarrow> repairable p ob \<longrightarrow> \<not> isl (f ob)))"
    unfolding accepts_def by blast
  from assms(2) have "case s (obj_type target) (child_key p) of None \<Rightarrow> True
    | Some live \<Rightarrow> obj_type live = obj_type target \<and> owns L p live \<and> m_deletionTimestamp (obj_meta live) = None \<and> repairable p live"
    unfolding recoverable_def by blast
  with target ok show ?thesis by (auto simp: receptive_def run_mutate_def split: option.splits)
qed

lemma of_type_iff:
  "obj_type ob = ServiceAccountType \<longleftrightarrow> (\<exists>x. ob = ServiceAccountObj x)"
  "obj_type ob = DeploymentType \<longleftrightarrow> (\<exists>x. ob = DeploymentObj x)"
  "obj_type ob = ServiceType \<longleftrightarrow> (\<exists>x. ob = ServiceObj x)"
  "obj_type ob = NetworkPolicyType \<longleftrightarrow> (\<exists>x. ob = NetworkPolicyObj x)"
  "obj_type ob = HPAType \<longleftrightarrow> (\<exists>x. ob = HPAObj x)"
  "obj_type ob = PDBType \<longleftrightarrow> (\<exists>x. ob = PDBObj x)"
  "obj_type ob = UnstructuredType gvk \<longleftrightarrow> (\<exists>x. ob = UnstructuredObj x \<and> u_gvk x = gvk)"
  by (cases ob; auto)+

lemma serviceAccountIntent_accepts: "accepts p (serviceAccountIntent q)"
  by (auto simp: accepts_def repairable_def serviceAccountIntent_def service_account_callback_def of_type_iff)

lemma deploymentIntent_accepts:
  assumes "w_name q = w_name p" and "w_uid q = w_uid p"
  shows "accepts p (deploymentIntent q requests limits)"
proof -
  have "selector_compatible q = selector_compatible p"
    using assms by (simp add: fun_eq_iff selector_compatible_def SelectorLabels_def split: option.splits)
  then show ?thesis
    by (auto simp: accepts_def repairable_def deploymentIntent_def deployment_callback_def mutateDeployment_def Let_def
        zero_deployment_def named_meta_def zero_meta_def fresh_meta_def of_type_iff)
qed

lemma serviceIntent_accepts: "serviceIntent q = Inr i \<Longrightarrow> accepts p i"
  by (auto simp: accepts_def repairable_def serviceIntent_def service_callback_def mutateService_def Let_def zero_service_def
      of_type_iff split: if_splits)

lemma networkPolicyIntent_accepts: "accepts p (networkPolicyIntent q)"
  by (auto simp: accepts_def repairable_def networkPolicyIntent_def network_policy_callback_def Let_def of_type_iff)

lemma availabilityIntent_accepts:
  assumes "availabilityIntent q = Inr i"
  shows "accepts p i"
proof (cases "AvailabilityEnabled (Some q)")
  case True
  with assms have v: "validateAvailability (Some q) = None" and f: "i_mutate i = Some (pdb_callback q)"
    by (auto simp: availabilityIntent_def Let_def simp del: validateAvailability.simps split: option.splits)
  then obtain a where "sp_availability (w_spec q) = Some a" "(av_minAvailable a = None) \<noteq> (av_maxUnavailable a = None)"
    unfolding validateAvailability_None by blast
  with v f availabilityIntent_shape(1) [OF assms] show ?thesis
    by (auto simp: accepts_def repairable_def pdb_callback_def mutatePDB_def Let_def of_type_iff
        simp del: validateAvailability.simps split: option.splits)
next
  case False
  with assms show ?thesis by (auto simp: accepts_def repairable_def availabilityIntent_def Let_def)
qed

lemma autoscalingIntent_accepts:
  assumes "autoscalingIntent L q = Inr i" and "quantity_zero_law L"
    and "\<And>a. sp_autoscaling (w_spec q) = Some a \<Longrightarrow> autoscaling_admitted L a"
  shows "accepts p i"
proof (cases "AutoscalingEnabled (Some q)")
  case True
  from autoscaling_enabled_spec [OF True] assms(3) admitted_autoscaler_accepts [OF assms(2), of q]
  have "\<exists>t. mutateHPA L h q = Inr t" for h by blast
  then have ok: "\<not> isl (hpa_callback L q (HPAObj h))" for h
    by (simp add: hpa_callback_def isl_map_sum) (metis sum.disc(2))
  have "i_mutate i = Some (hpa_callback L q)" using assms(1) True
    by (auto simp: autoscalingIntent_def Let_def split: option.splits if_splits)
  with autoscalingIntent_shape(1) [OF assms(1)] ok show ?thesis by (auto simp: accepts_def repairable_def of_type_iff)
next
  case False
  with assms show ?thesis by (auto simp: accepts_def repairable_def autoscalingIntent_def Let_def)
qed

lemma Build_accepts:
  assumes "Build L (Some q) = Inr plan" and "w_name q = w_name p" and "w_uid q = w_uid p" and "quantity_zero_law L"
    and "\<And>a. sp_autoscaling (w_spec q) = Some a \<Longrightarrow> autoscaling_admitted L a" and "i \<in> set plan"
  shows "accepts p i"
  using assms(1,6)
  by (elim Build_Inr)
    (auto intro: serviceAccountIntent_accepts deploymentIntent_accepts [OF assms(2,3)] serviceIntent_accepts
      networkPolicyIntent_accepts availabilityIntent_accepts autoscalingIntent_accepts [OF _ assms(4,5)])

lemma HTTPRouteIntent_accepts:
  assumes "HTTPRouteIntent L (Some q) = Inr i"
  shows "accepts p i"
  using assms
  by (auto simp: accepts_def repairable_def Let_def fresh_route_def http_route_callback_def of_type_iff
      split: if_splits option.splits)

lemma decorated_accepts:
  assumes "accepts p i" and "i_object i = Some (DeploymentObj d)" and "\<not> i_absent i"
    and "i_mutate i = Some (deployment_callback q requests limits)"
  shows "accepts p (i\<lparr>i_mutate := Some (decorated_mutate (i_mutate i) revision)\<rparr>)"
proof -
  have "\<not> isl (decorated_mutate (i_mutate i) revision (DeploymentObj e))" if "repairable p (DeploymentObj e)" for e
  proof -
    from assms that have "\<not> isl (deployment_callback q requests limits (DeploymentObj e))" by (auto simp: accepts_def)
    then obtain t where "deployment_callback q requests limits (DeploymentObj e) = Inr t"
      by (cases "deployment_callback q requests limits (DeploymentObj e)") simp_all
    moreover from this obtain u where "t = DeploymentObj u" by (auto simp: deployment_callback_Inr)
    ultimately show ?thesis using assms by (simp add: decorated_mutate_def)
  qed
  with assms show ?thesis by (auto simp: accepts_def of_type_iff)
qed

lemma build_plan_accepts:
  assumes "nested_field_laws L" and "build_plan L (Build L) p external exposure = Inr plan" and "quantity_zero_law L"
    and "spec_admitted L (w_spec p)"
  shows "\<forall>i \<in> set plan. accepts p i"
proof -
  let ?d = "desired_workload p external"
  have same: "w_name ?d = w_name p" "w_uid ?d = w_uid p" by (simp_all add: desired_workload_def)
  have a: "autoscaling_admitted L a" if "sp_autoscaling (w_spec ?d) = Some a" for a
    using assms(4) that by (simp add: spec_admitted_def desired_workload_def)
  have "(\<forall>i \<in> set plan. accepts p i \<and> intent_contract p i) \<and> sorted_wrt (<) (map intent_kind plan)"
    using assms(1,2)
  proof (rule build_plan_all)
    show "accepts p i" if "Build L (Some ?d) = Inr plan'" "i \<in> set plan'" for plan' i
      using that(1) same assms(3) a that(2) by (rule Build_accepts)
    show "accepts p i" if "HTTPRouteIntent L (Some ?d) = Inr i" for i
      using that by (rule HTTPRouteIntent_accepts)
  next
    fix i d q requests limits revision
    assume "accepts p i" "intent_contract p i" and d: "i_object i = Some (DeploymentObj d)"
      and m: "i_mutate i = Some (deployment_callback q requests limits)"
    moreover from this have "\<not> i_absent i" by (auto simp: intent_contract_def elim!: safe_intentD)
    ultimately show "accepts p (i\<lparr>i_mutate := Some (decorated_mutate (i_mutate i) revision)\<rparr>)"
      using decorated_accepts by blast
  qed
  then show ?thesis by blast
qed

end
