(* ===== verification/Memory_Server.thy ===== *)
theory Memory_Server
  imports Progress
begin

text \<open>
  An API server in memory, the instance at which the theorems on the cluster are applied: its state is a
  store, reads return what is stored under the right type and key, writes are atomic and optimistic.
\<close>

subsection \<open>The server\<close>

definition clean :: "store \<Rightarrow> store" where
  "clean s t k =
     (case s t k of None \<Rightarrow> None | Some ob \<Rightarrow> if obj_type ob = t \<and> key_of ob = k then Some ob else None)"

definition look :: "object_type \<Rightarrow> (client_object \<Rightarrow> 'a) \<Rightarrow> (store, 'a) getter" where
  "look t pick s k = (case clean s t k of None \<Rightarrow> (Inl not_found, s) | Some ob \<Rightarrow> (Inr (pick ob), s))"

definition memory_create :: "store \<Rightarrow> client_object \<Rightarrow> go_error option \<times> store" where
  "memory_create s ob =
     (if clean s (obj_type ob) (key_of ob) = None \<and> m_deletionTimestamp (obj_meta ob) = None
      then (None, put ob (Some ob) s) else (Some conflict, s))"

definition memory_patch :: "store \<Rightarrow> client_object \<Rightarrow> client_object \<Rightarrow> go_error option \<times> store" where
  "memory_patch s before after =
     (if clean s (obj_type before) (key_of before) = Some before \<and> obj_type after = obj_type before
         \<and> key_of after = key_of before \<and> m_deletionTimestamp (obj_meta after) = None
      then (None, put before (Some after) s) else (Some conflict, s))"

definition memory_delete :: "store \<Rightarrow> client_object \<Rightarrow> string \<Rightarrow> string \<Rightarrow> go_error option \<times> store" where
  "memory_delete s ob uid rv =
     (case clean s (obj_type ob) (key_of ob) of
        None \<Rightarrow> (Some not_found, s)
      | Some live \<Rightarrow>
          if live = ob \<and> uid = m_uid (obj_meta ob) \<and> rv = m_resourceVersion (obj_meta ob)
          then (None, put ob None s) else (Some conflict, s))"

definition memory_client :: "AIWorkload \<Rightarrow> store client" where
  "memory_client p =
     \<lparr>cl_getWorkload = (\<lambda>s key. if workload_key p = key then (Inr p, s) else (Inl not_found, s)),
      cl_getServiceAccount = look ServiceAccountType (\<lambda>ob. case ob of ServiceAccountObj x \<Rightarrow> x),
      cl_getDeployment = look DeploymentType (\<lambda>ob. case ob of DeploymentObj x \<Rightarrow> x),
      cl_getService = look ServiceType (\<lambda>ob. case ob of ServiceObj x \<Rightarrow> x),
      cl_getNetworkPolicy = look NetworkPolicyType (\<lambda>ob. case ob of NetworkPolicyObj x \<Rightarrow> x),
      cl_getHPA = look HPAType (\<lambda>ob. case ob of HPAObj x \<Rightarrow> x),
      cl_getPDB = look PDBType (\<lambda>ob. case ob of PDBObj x \<Rightarrow> x),
      cl_getUnstructured = (\<lambda>gvk. look (UnstructuredType gvk) (\<lambda>ob. case ob of UnstructuredObj x \<Rightarrow> x)),
      cl_getOther = (\<lambda>kind. look (OtherType kind) obj_meta),
      cl_getSecretMetadata = (\<lambda>s key. (Inr (named_meta (snd key) (fst key)), s)),
      cl_getConfigMapData = (\<lambda>s key. (Inl not_found, s)),
      cl_create = memory_create, cl_patch = memory_patch, cl_delete = memory_delete,
      cl_patchStatus = (\<lambda>s before after. ((None, after), s)),
      cl_listBySecret = (\<lambda>s ns name. (Inr [], s))\<rparr>"

subsection \<open>It is an API server\<close>

lemma clean_Some: "clean s t k = Some ob \<Longrightarrow> obj_type ob = t \<and> key_of ob = k"
  by (auto simp: clean_def split: option.splits if_splits)

lemma clean_put: "(case x of None \<Rightarrow> True | Some ob \<Rightarrow> obj_type ob = obj_type at \<and> key_of ob = key_of at) \<Longrightarrow>
    clean (put at x s) = put at x (clean s)"
  by (auto simp: clean_def put_def fun_eq_iff split: option.splits)

lemma stored_refl: "m_deletionTimestamp (obj_meta ob) = None \<Longrightarrow> stored ob ob"
  by (simp add: stored_def Let_def)

lemma client_get_memory:
  "client_get (memory_client p) ob k w =
     (case clean (wd_env w) (obj_type ob) k of
        None \<Rightarrow> (Inl not_found, \<lparr>wd_env = wd_env w, wd_log = wd_log w @ [ReadE (read_kind ob) k]\<rparr>)
      | Some live \<Rightarrow> (Inr live, \<lparr>wd_env = wd_env w, wd_log = wd_log w @ [ReadE (read_kind ob) k]\<rparr>))"
proof (cases "clean (wd_env w) (obj_type ob) k")
  case None
  then show ?thesis by (cases ob) (simp_all add: memory_client_def call_get_def call_def look_def)
next
  case (Some live)
  then have "obj_type live = obj_type ob" by (simp add: clean_Some)
  with Some show ?thesis
    by (cases ob; cases live) (simp_all add: memory_client_def call_get_def call_def look_def)
qed

lemma memory_reads: "reads_from (memory_client p) clean"
  by (auto simp: reads_from_def client_get_memory dest: clean_Some split: option.splits)

lemma memory_creates: "creates_in (memory_client p) clean"
  by (auto simp: creates_in_def memory_client_def memory_create_def clean_put stored_refl
      split: if_splits intro: serves.intros) (blast intro: stored_refl)

lemma memory_patches: "patches_in (memory_client p) clean"
  by (auto simp: patches_in_def memory_client_def memory_patch_def clean_put stored_refl
      split: if_splits intro: serves.intros) (blast intro: stored_refl)

lemma memory_deletes: "deletes_in (memory_client p) clean"
  by (auto simp: deletes_in_def memory_client_def memory_delete_def clean_put
      split: if_splits option.splits intro: serves.intros)

lemma memory_api_server: "api_server (memory_client p) clean"
  using memory_reads memory_creates memory_patches memory_deletes
  by (auto simp: api_server_def memory_client_def)

lemma memory_healthy: "healthy (memory_client p) clean"
proof -
  have "IsNotFound e" if "fst (client_get (memory_client p) ob k w) = Inl e" for ob k w e
    using that by (auto simp: client_get_memory split: option.splits)
  then show ?thesis
    unfolding healthy_def by (auto simp: memory_client_def memory_create_def memory_patch_def memory_delete_def)
qed

lemma memory_workload: "workload_client_laws (memory_client p)"
  by (auto simp: workload_client_laws_def memory_client_def split: if_splits)

subsection \<open>A controller in front of it\<close>

definition memory_reconciler :: "AIWorkload \<Rightarrow> store reconciler" where
  "memory_reconciler p =
     \<lparr>rc_client = memory_client p, rc_tenantReader = None, rc_externalSecretsReader = None, rc_gatewayReader = None,
      rc_capabilityLookup = None, rc_watchNamespace = '''', rc_watchNamespaces = [''team-a''],
      rc_builder = Some (Build example_lib), rc_recorder = False, rc_telemetry = False\<rparr>"

definition empty_world :: "store world" where
  "empty_world = \<lparr>wd_env = \<lambda>t k. None, wd_log = []\<rparr>"

lemma memory_simps [simp]:
  "rc_client (memory_reconciler p) = memory_client p" "wd_env empty_world = (\<lambda>t k. None)"
  "clean (\<lambda>t k. None) = (\<lambda>t k. None)"
  by (simp_all add: memory_reconciler_def empty_world_def clean_def fun_eq_iff)

lemma example_controller_total: "controller_reference_total example_lib" "no_controller_law example_lib"
  by (auto simp: controller_reference_total_def no_controller_law_def example_lib_def split: option.splits)

lemma example_ready: "engine_ready example_lib example_workload"
  using example_references example_semantic by (simp add: engine_ready_def)

end
