(* ===== verification/Correct_Cluster.thy ===== *)
theory Correct_Cluster
  imports Memory_Server
begin

text \<open>
  What a reconciliation does to the cluster: which objects it may change under any interleaving, the
  desired state a successful one leaves, that it stays there, and when it succeeds.
\<close>

subsection \<open>The frame of a reconciliation\<close>

lemma owned_after:
  assumes "controller_reference_laws L" and "m_namespace (obj_meta ob) = w_namespace p"
    and "SetControllerReference L (w_namespace p) (w_name p) (w_uid p) ns refs = Some (m_ownerReferences (obj_meta ob))"
  shows "owns L p ob"
proof -
  from assms(1,3) obtain r where "GetControllerOf L (m_ownerReferences (obj_meta ob)) = Some r"
    and "refers_to (w_name p) (w_uid p) r" unfolding controller_reference_laws_def by blast
  with assms(2) show ?thesis by (simp add: owns_def refers_to_def)
qed

text \<open>The change of one slot that the ownership boundary allows.\<close>

definition own_change :: "lib \<Rightarrow> AIWorkload \<Rightarrow> object_key \<Rightarrow> client_object option \<Rightarrow> client_object option \<Rightarrow> bool" where
  "own_change L p k before after =
     (fst k = w_namespace p
      \<and> (case before of
           None \<Rightarrow> k = child_key p
         | Some live \<Rightarrow> owns L p live \<and> m_deletionTimestamp (obj_meta live) = None)
      \<and> (case after of None \<Rightarrow> True | Some live \<Rightarrow> owns L p live))"

lemma served_child_call:
  assumes "controller_reference_laws L" and "child_call_ok L p e" and "serves e s s'" and "s' t k \<noteq> s t k"
  shows "own_change L p k (s t k) (s' t k)"
  using assms(3)
proof cases
  case nothing
  with assms(4) show ?thesis by simp
next
  case (created ob live)
  with assms(4) have slot: "t = obj_type ob" "k = key_of ob" by (auto dest: put_other)
  from created(4) have "m_namespace (obj_meta live) = m_namespace (obj_meta ob)"
    "m_ownerReferences (obj_meta live) = m_ownerReferences (obj_meta ob)" by (simp_all add: stored_def Let_def)
  with owned_after [OF assms(1), where ob = live and p = p and ns = "w_namespace p" and refs = "[]"] created(1) assms(2) have "owns L p live" by simp
  with created slot assms(2) show ?thesis by (auto simp: own_change_def put_def)
next
  case (patched before after live)
  with assms(4) have slot: "t = obj_type before" "k = key_of before" by (auto dest: put_other)
  from patched(1) assms(2) have before: "owns L p before" "m_deletionTimestamp (obj_meta before) = None"
    and same: "m_namespace (obj_meta after) = m_namespace (obj_meta before)"
    and refs: "SetControllerReference L (w_namespace p) (w_name p) (w_uid p) (w_namespace p)
      (m_ownerReferences (obj_meta before)) = Some (m_ownerReferences (obj_meta after))"
    by (simp_all add: same_identity_def)
  from patched(4) have "m_namespace (obj_meta live) = m_namespace (obj_meta after)"
    "m_ownerReferences (obj_meta live) = m_ownerReferences (obj_meta after)" by (simp_all add: stored_def Let_def)
  with owned_after [OF assms(1), where ob = live] refs same owns_namespace [OF before(1)] have "owns L p live" by simp
  with patched slot before owns_namespace [OF before(1)] show ?thesis by (auto simp: own_change_def put_def)
next
  case (deleted ob uid rv)
  with assms(4) have "t = obj_type ob" "k = key_of ob" by (auto dest: put_other)
  with deleted assms(2) show ?thesis by (auto simp: own_change_def owns_namespace put_def)
next
  case (finalizing ob uid rv t')
  with assms(4) have "t = obj_type ob" "k = key_of ob" by (auto dest: put_other)
  moreover from finalizing(1) assms(2) have "owns L p ob" "owns L p (terminating t' ob)"
    by (simp_all add: terminating_def owns_def)
  ultimately show ?thesis using finalizing assms(2) by (auto simp: own_change_def owns_namespace put_def)
qed

lemma served_observe:
  assumes "observe_effect p e \<or> e = ResourceMetricE kind outcome" and "serves e s s'"
  shows "s' = s"
  using assms(2,1) by cases (auto simp: observe_effect_def)

lemma served_reconcile_effect:
  assumes "controller_reference_laws L" and "reconcile_effect L p e" and "serves e s s'" and "s' t k \<noteq> s t k"
  shows "own_change L p k (s t k) (s' t k)"
proof -
  consider "child_call_ok L p e" | "s' = s"
    using assms(2) served_observe [OF _ assms(3)] unfolding reconcile_effect_def by blast
  then show ?thesis using served_child_call [OF assms(1) _ assms(3,4)] assms(4) by cases auto
qed

text \<open>
  C4. Nothing but the workload's own children is ever changed, under every interleaving with other
  writers: whatever the cluster holds when a call of a reconciliation arrives (the store before and after
  are arbitrary, they need not be the ones the controller has read), a slot that the call changes lies in
  the namespace of the workload and was either free under the child's name or held an object that the
  workload controls and that is not being deleted; what it holds afterwards is controlled by the workload.
\<close>

theorem reconcile_frame:
  assumes "workload_client_laws (rc_client r)" and "controller_reference_laws L"
    and "Reconcile L r req w = (res, w')" and "cl_getWorkload (rc_client r) (wd_env w) req = (Inr p, s0)"
    and "wd_log w' = wd_log w @ es" and "e \<in> set es" and "serves e s s'" and "s' t k \<noteq> s t k"
  shows "own_change L p k (s t k) (s' t k)"
proof -
  from Reconcile_effects [OF assms(1,3,4)] assms(5,6) have "reconcile_effect L p e"
    by (auto simp: adds_def list_all_iff)
  then show ?thesis using served_reconcile_effect [OF assms(2) _ assms(7,8)] by blast
qed

subsection \<open>The desired state\<close>

text \<open>
  The specification of a reconciliation, as a relation between two states of the cluster: every child of
  the plan is in its desired state afterwards, and every slot that is not one of the plan is as before.
\<close>

definition reaches :: "lib \<Rightarrow> AIWorkload \<Rightarrow> Intent list \<Rightarrow> store \<Rightarrow> store \<Rightarrow> bool" where
  "reaches L p plan s s' =
     ((\<forall>i \<in> set plan. settled L p i s')
      \<and> (\<forall>t k. k \<noteq> child_key p \<or> (\<forall>i \<in> set plan. \<forall>target. i_object i = Some target \<longrightarrow> obj_type target \<noteq> t) \<longrightarrow>
           s' t k = s t k))"

lemma converge_None:
  assumes "converge L r build p external exposure w = (None, w')"
  obtains plan w1 where "build_plan L build p external exposure = Inr plan"
    and "apply_plan L r p plan w = (None, w1)" and "validateSecretReferences r p w1 = (None, w')"
  using assms by (auto simp: converge_def split: sum.splits option.splits prod.splits)

text \<open>The builder and the route intent give a plan that is in dependency order already.\<close>

lemma build_plan_ordered:
  assumes "build_plan L (Build L) p external exposure = Inr plan"
  obtains plan1 routes where "Build L (Some (desired_workload p external)) = Inr plan1"
    and "map intent_kind (plan1 @ routes) = [0, 1, 2, 3, 4, 5] @ (if xs_manageRoute exposure then [6] else [])"
    and "map intent_kind plan1 = [0, 1, 2, 3, 4, 5]" and "ValidatePlan p (plan1 @ routes) = Inr (plan1 @ routes)"
    and "plan = decorateExternalSecretRevision (plan1 @ routes) (externalSecretRevision external)"
proof -
  let ?d = "desired_workload p external"
  from assms obtain plan1 plan2 ordered where b: "Build L (Some ?d) = Inr plan1"
    and r: "(if xs_manageRoute exposure
             then bindr (HTTPRouteIntent L (Some ?d)) (\<lambda>route. Inr (plan1 @ [route])) else Inr plan1) = Inr plan2"
    and v: "ValidatePlan p plan2 = Inr ordered"
    and plan: "plan = decorateExternalSecretRevision ordered (externalSecretRevision external)"
    by (rule build_plan_stages)
  have route: "intent_kind i = 6" if "HTTPRouteIntent L (Some ?d) = Inr i" for i
    using HTTPRouteIntent_shape(1) [OF that] by (simp add: fresh_route_def)
  have kinds: "map intent_kind plan2 = [0, 1, 2, 3, 4, 5] @ (if xs_manageRoute exposure then [6] else [])"
    using r Build_kinds [OF b] route
    by (auto simp: bindr_Inr_iff split: if_splits simp del: HTTPRouteIntent.simps)
  then have "sorted (map intent_kind plan2)" by simp
  then have "sort_key intent_kind plan2 = plan2" by (rule sort_key_id_if_sorted)
  with v have o: "ordered = plan2" by (simp add: ValidatePlan_iff)
  obtain routes where "plan2 = plan1 @ routes"
    using r by (auto simp: bindr_Inr_iff split: if_splits simp del: HTTPRouteIntent.simps)
  with that [OF b _ Build_kinds [OF b]] kinds v o plan show ?thesis by blast
qed

text \<open>The plan names every kind of child once, in dependency order.\<close>

lemma build_plan_kinds:
  assumes "build_plan L (Build L) p external exposure = Inr plan"
  shows "map intent_kind plan = [0, 1, 2, 3, 4, 5] @ (if xs_manageRoute exposure then [6] else [])"
  using assms by (rule build_plan_ordered) (simp add: decorateExternalSecretRevision_def)




subsection \<open>At concrete inputs\<close>

text \<open>A controller whose builder returns the ServiceAccount only.\<close>

abbreviation account_reconciler :: "cluster reconciler" where
  "account_reconciler \<equiv> example_reconciler\<lparr>rc_builder := Some (\<lambda>p. Inr [serviceAccountIntent example_workload])\<rparr>"

lemma example_unconditional: "remove_condition example_lib example_workload t = example_workload"
  by (simp add: remove_condition_def set_conditions_def example_workload_def example_lib_def)

lemma example_prepare: "prepare example_lib r example_workload w = (Inr ([], no_exposure), example_workload, w)"
proof -
  have same: "SemanticEqualStatus example_lib st st" for st by (simp add: example_lib_def)
  have patch: "patchStatus example_lib r example_workload example_workload w = (Inr False, example_workload, w)"
    by (simp add: patchStatus_def same)
  have find: "FindStatusCondition example_lib [] t = None" for t by (simp add: example_lib_def)
  have "validateTenant example_lib r example_workload w = (Inr (), example_workload, w)"
    "validateExternalSecrets example_lib r example_workload w = (Inr [], example_workload, w)"
    "validateExposure example_lib r example_workload w = (Inr no_exposure, example_workload, w)"
    by (simp_all add: validateTenant_def validateExternalSecrets_def validateExposure_def example_unconditional find
        example_spec_def)
  with patch show ?thesis by (simp add: prepare_def validate_and_patch_def)
qed

lemma example_converge:
  assumes "wd_env w = \<lparr>k_workload = example_workload, k_children = []\<rparr>"
  shows "\<exists>w'. converge example_lib account_reconciler (\<lambda>p. Inr [serviceAccountIntent example_workload]) example_workload [] no_exposure w = (None, w')
     \<and> wd_log w' = wd_log w @ [ReadE ''ServiceAccount'' (child_key example_workload), CreateE example_account,
         ResourceMetricE ''ServiceAccount'' ''created'']"
proof -
  from assms have w: "w = \<lparr>wd_env = \<lparr>k_workload = example_workload, k_children = []\<rparr>, wd_log = wd_log w\<rparr>" by simp
  have "ValidatePlan example_workload [serviceAccountIntent example_workload] = Inr [serviceAccountIntent example_workload]"
    using example_account_safe by (simp add: ValidatePlan_single)
  then have plan: "build_plan example_lib (\<lambda>p. Inr [serviceAccountIntent example_workload]) example_workload [] no_exposure =
      Inr [serviceAccountIntent example_workload]"
    by (simp add: build_plan_def no_exposure_def externalSecretRevision_def decorateExternalSecretRevision_def)
  have "childKind (i_object (serviceAccountIntent example_workload)) = ''ServiceAccount''"
    by (simp add: childKind_def example_account_target)
  with plan show ?thesis
    by (subst w) (simp add: converge_def example_apply_log example_reconciler_def record_resource_def
        validateSecretReferences_def example_spec_def)
qed

lemma example_laws: "workload_client_laws (rc_client account_reconciler)"
  using example_client_laws by (simp add: example_reconciler_def)

lemma example_stored_read:
  "cl_getWorkload (rc_client account_reconciler) (wd_env example_world) (''team-a'', ''model'') =
     (Inr example_workload, wd_env example_world)"
  by (simp add: example_reconciler_def example_client_def example_world_def)

lemma example_creates:
  obtains res w' where "Reconcile example_lib account_reconciler (''team-a'', ''model'') example_world = (res, w')"
    and "CreateE example_account \<in> set (wd_log w')"
proof -
  let ?r = account_reconciler and ?req = "(''team-a'', ''model'')"
  let ?w1 = "\<lparr>wd_env = \<lparr>k_workload = example_workload, k_children = []\<rparr>, wd_log = [ReadE ''AIWorkload'' ?req]\<rparr>"
  obtain w2 where conv: "converge example_lib ?r (\<lambda>p. Inr [serviceAccountIntent example_workload]) example_workload [] no_exposure ?w1 = (None, w2)"
    and log: "CreateE example_account \<in> set (wd_log w2)"
    using example_converge [of ?w1] by auto
  obtain res w' where run: "observe example_lib ?r no_exposure example_workload w2 = (res, w')" by fastforce
  have "call_get ''AIWorkload'' (cl_getWorkload (rc_client ?r)) ?req example_world = (Inr example_workload, ?w1)"
    using example_stored_read by (simp add: call_get_def call_def) (simp add: example_world_def)
  moreover have "effectiveWatchNamespaces ?r \<noteq> []" "watchesNamespace ?r ''team-a''" "rc_builder ?r = Some (\<lambda>p. Inr [serviceAccountIntent example_workload])"
    by (simp_all add: effectiveWatchNamespaces_def watchesNamespace_def example_reconciler_def)
  ultimately have "Reconcile example_lib ?r ?req example_world = (res, w')"
    using conv run by (simp add: Reconcile_def example_prepare)
  moreover from observe_confined [OF example_laws run] log have "CreateE example_account \<in> set (wd_log w')"
    by (auto simp: adds_def)
  ultimately show ?thesis by (rule that)
qed

lemma example_account_served:
  "serves (CreateE example_account) s (put example_account (Some example_account) s)"
  if "s ServiceAccountType (child_key example_workload) = None"
  using that by (intro serves.created) (simp_all add: example_account_def stored_def)

theorem reconcile_frame_witness:
  "CreateE example_account \<in> set (wd_log (snd (Reconcile example_lib account_reconciler (''team-a'', ''model'') example_world)))
   \<and> own_change example_lib example_workload (child_key example_workload) None (Some example_account)"
proof -
  obtain res w' where rec: "Reconcile example_lib account_reconciler (''team-a'', ''model'') example_world = (res, w')"
    and mem: "CreateE example_account \<in> set (wd_log w')" by (rule example_creates)
  let ?s = "\<lambda>t k. None" and ?s' = "put example_account (Some example_account) (\<lambda>t k. None)"
  have slot: "?s' ServiceAccountType (child_key example_workload) = Some example_account"
    by (simp add: put_def example_account_def)
  have "wd_log w' = wd_log example_world @ wd_log w'" by (simp add: example_world_def)
  with slot have "own_change example_lib example_workload (child_key example_workload) (?s ServiceAccountType (child_key example_workload)) (?s' ServiceAccountType (child_key example_workload))"
    using reconcile_frame [OF example_laws example_references rec example_stored_read _ mem example_account_served]
    by (metis option.distinct(1))
  with rec mem slot show ?thesis by simp
qed

lemma example_plan:
  obtains plan where "build_plan example_lib (Build example_lib) example_workload [] no_exposure = Inr plan"
proof -
  have "desired_workload example_workload [] = example_workload" by (simp add: desired_workload_def)
  with workload_builder.built_plan_accepted [OF example_build] that show ?thesis
    by (simp add: build_plan_def Let_def no_exposure_def example_build del: Build.simps)
qed

text \<open>A cluster in which somebody has switched the token of the child ServiceAccount on.\<close>

definition drifted_account :: client_object where
  "drifted_account =
     (case example_account of ServiceAccountObj sa \<Rightarrow> ServiceAccountObj (sa\<lparr>sa_automountServiceAccountToken := Some True\<rparr>)
      | other \<Rightarrow> other)"

definition drifted_world :: "store world" where
  "drifted_world = \<lparr>wd_env = put drifted_account (Some drifted_account) (\<lambda>t k. None), wd_log = []\<rparr>"

lemma drifted_facts:
  "obj_type drifted_account = ServiceAccountType" "key_of drifted_account = child_key example_workload"
  "obj_meta drifted_account = obj_meta example_account" "drifted_account \<noteq> example_account"
  by (simp_all add: drifted_account_def example_account_def)

lemma drifted_store: "clean (wd_env drifted_world) = put drifted_account (Some drifted_account) (\<lambda>t k. None)"
  by (simp add: drifted_world_def clean_put)

lemma drifted_recoverable: "recoverable example_lib example_workload (clean (wd_env drifted_world))"
proof -
  have "owns example_lib example_workload drifted_account" "m_deletionTimestamp (obj_meta drifted_account) = None"
    by (simp_all add: owns_def drifted_facts) (simp_all add: example_account_def example_lib_def example_reference_def)
  moreover have "repairable example_workload drifted_account"
    by (simp add: repairable_def drifted_account_def example_account_def)
  ultimately show ?thesis by (auto simp: recoverable_def drifted_store put_def drifted_facts)
qed


lemma memory_rollout:
  obtains w' where "converge example_lib (memory_reconciler example_workload) (Build example_lib) example_workload [] no_exposure
     empty_world = (None, w')"
proof -
  obtain plan where plan: "build_plan example_lib (Build example_lib) example_workload [] no_exposure = Inr plan"
    by (rule example_plan)
  have "\<forall>i \<in> set plan. receptive example_lib example_workload i (clean (wd_env empty_world))"
    using build_plan_accepts [OF example_nested plan example_zero example_admitted] accepts_receptive
    by (simp add: recoverable_def)
  with converge_progress [where r = "memory_reconciler example_workload" and store = clean and w = empty_world,
      OF _ _ example_controller_total example_ready example_nested plan] that show ?thesis
    by (auto simp: memory_api_server memory_healthy example_spec_def)
qed


text \<open>The same workload after its status was written.\<close>

definition newer_workload :: AIWorkload where
  "newer_workload =
     example_workload\<lparr>w_meta := (w_meta example_workload)\<lparr>m_resourceVersion := ''9''\<rparr>,
       w_status := (w_status example_workload)\<lparr>st_desiredReplicas := 2\<rparr>\<rparr>"


end
