(* ===== verification/Correct_Startup.thy ===== *)
theory Correct_Startup
  imports Process Correct_Process Correct_Cluster
begin

text \<open>Properties of the start of the process and of the events that wake the controller.\<close>

subsection \<open>Drift is noticed\<close>

lemma order_type: "obj_type a = obj_type b \<Longrightarrow> childOrder (Some a) = childOrder (Some b)"
  by (cases a; cases b) simp_all

lemma route_kind: "childOrder (Some ob) = 6 \<Longrightarrow> read_kind ob = ''HTTPRoute''"
  by (cases ob) (auto simp: HTTPRouteGVK_def split: if_splits)

lemma active_requeue:
  assumes "observeExposure L r exposure p w = (Inr n, p', w')" and "xs_manageRoute exposure" and "xs_active exposure"
  shows "n \<in> {15, 60}"
  using assms
  by (auto simp: observeExposure_def Let_def simp del: exposure_verdict.simps
      split: if_splits prod.splits sum.splits option.splits dest!: exposure_requeue_bounds)


definition example_owner_requests :: "client_object \<Rightarrow> object_key list" where
  "example_owner_requests ob =
     (case GetControllerOf example_lib (m_ownerReferences (obj_meta ob)) of
        None \<Rightarrow> []
      | Some r \<Rightarrow> if or_kind r = ''AIWorkload'' \<and> or_apiVersion r = GroupVersion then [(m_namespace (obj_meta ob), or_name r)] else [])"


subsection \<open>The process starts with a validated scope\<close>


definition example_env :: "(entries scheme_step list, entries) process_env" where
  "example_env =
     \<lparr>pe_getenv = (\<lambda>name. if name = ''WATCH_NAMESPACES'' then ''team-a,team-b''
                       else if name = ''MANAGER_NAMESPACE'' then ''awcp-system'' else ''''),
      pe_flags = \<lparr>fl_probeAddress = None, fl_metricsBindAddress = None, fl_leaderElect = None, fl_leaseDuration = None,
                  fl_renewDeadline = None, fl_retryPeriod = None\<rparr>,
      pe_config = None, pe_manager = quiet_env, pe_start = (\<lambda>_. None)\<rparr>"


end
