(* ===== verification/Go_Memory.thy ===== *)
theory Go_Memory
  imports Prelude "HOL-Library.AList"
begin

text \<open>
  Memory as Go programs see it, for the code whose point is what it shares: addresses, cells of an
  arbitrary type, a pointer (or map reference) as an optional address, a slice as a window into an
  array cell. \<open>deep_copier\<close> is the contract of a \<open>DeepCopyInto\<close>: the copy represents the same value,
  allocates only, and what it represents depends on the new cells only.
\<close>

record 'c memory =
  next_cell :: nat
  cell_at :: "nat \<Rightarrow> 'c option"

text \<open>A computation on the memory; \<open>None\<close> is the read of an address that holds no such cell.\<close>

type_synonym ('c, 'a) memory_step = "'c memory \<Rightarrow> ('a \<times> 'c memory) option"

definition hreturn :: "'a \<Rightarrow> ('c, 'a) memory_step" where
  "hreturn x h = Some (x, h)"

definition hbind :: "('c, 'a) memory_step \<Rightarrow> ('a \<Rightarrow> ('c, 'b) memory_step) \<Rightarrow> ('c, 'b) memory_step" where
  "hbind c f h = (case c h of None \<Rightarrow> None | Some (x, h) \<Rightarrow> f x h)"

definition hread :: "('c \<Rightarrow> 'a option) \<Rightarrow> nat \<Rightarrow> ('c, 'a) memory_step" where
  "hread prj a h = (case Option.bind (cell_at h a) prj of None \<Rightarrow> None | Some x \<Rightarrow> Some (x, h))"

text \<open>\<open>new\<close> and \<open>make\<close>: a fresh address; its cell is filled by the write that follows.\<close>

definition hnew :: "('c, nat) memory_step" where
  "hnew h = Some (next_cell h, h\<lparr>next_cell := Suc (next_cell h)\<rparr>)"

definition hwrite :: "nat \<Rightarrow> 'c \<Rightarrow> ('c, unit) memory_step" where
  "hwrite a c h = Some ((), h\<lparr>cell_at := (cell_at h)(a \<mapsto> c)\<rparr>)"

subsection \<open>Pointers, slices and maps\<close>

text \<open>\<open>if in.F != nil { *out = new(T); (*in).DeepCopyInto(*out) }\<close>, and the method \<open>DeepCopy\<close>.\<close>

fun copy_pointer ::
  "('a \<Rightarrow> 'c) \<Rightarrow> ('c \<Rightarrow> 'a option) \<Rightarrow> ('a \<Rightarrow> ('c, 'a) memory_step) \<Rightarrow> nat option \<Rightarrow> ('c, nat option) memory_step" where
  "copy_pointer mk prj copy None = hreturn None"
| "copy_pointer mk prj copy (Some a) =
     hbind (hread prj a) (\<lambda>x. hbind hnew (\<lambda>b. hbind (copy x) (\<lambda>y. hbind (hwrite b (mk y)) (\<lambda>_. hreturn (Some b)))))"

text \<open>The loop \<open>for i := range *in { (*in)[i].DeepCopyInto(&(*out)[i]) }\<close>.\<close>

fun copy_elements :: "('a \<Rightarrow> ('c, 'a) memory_step) \<Rightarrow> 'a list \<Rightarrow> ('c, 'a list) memory_step" where
  "copy_elements copy [] = hreturn []"
| "copy_elements copy (x # xs) = hbind (copy x) (\<lambda>y. hbind (copy_elements copy xs) (\<lambda>ys. hreturn (y # ys)))"

record slice =
  sl_array :: nat
  sl_offset :: nat
  sl_length :: nat

definition window :: "slice \<Rightarrow> 'a list \<Rightarrow> 'a list" where
  "window s xs = take (sl_length s) (drop (sl_offset s) xs)"

text \<open>\<open>if in.F != nil { *out = make([]T, len(*in)); ... }\<close>; a nil slice is \<open>None\<close>.\<close>

fun copy_slice ::
  "('a list \<Rightarrow> 'c) \<Rightarrow> ('c \<Rightarrow> 'a list option) \<Rightarrow> ('a \<Rightarrow> ('c, 'a) memory_step) \<Rightarrow> slice option \<Rightarrow> ('c, slice option) memory_step" where
  "copy_slice mk prj copy None = hreturn None"
| "copy_slice mk prj copy (Some s) =
     hbind (hread prj (sl_array s)) (\<lambda>xs. hbind hnew (\<lambda>b.
     hbind (copy_elements copy (window s xs)) (\<lambda>ys. hbind (hwrite b (mk ys)) (\<lambda>_.
       hreturn (Some \<lparr>sl_array = b, sl_offset = 0, sl_length = length ys\<rparr>)))))"

text \<open>The loop \<open>for key, val := range *in { (*out)[key] = val }\<close>, over the entries in iteration order.\<close>

definition copy_entries :: "('k \<times> 'v) list \<Rightarrow> ('k \<times> 'v) list" where
  "copy_entries entries = foldl (\<lambda>out (key, val). AList.update key val out) [] entries"

definition copy_map :: "(('k \<times> 'v) list \<Rightarrow> 'c) \<Rightarrow> ('c \<Rightarrow> ('k \<times> 'v) list option) \<Rightarrow> nat option \<Rightarrow> ('c, nat option) memory_step" where
  "copy_map mk prj = copy_pointer mk prj (\<lambda>entries. hreturn (copy_entries entries))"

subsection \<open>What a piece of memory represents\<close>

definition rep_pointer ::
  "('c \<Rightarrow> 'a option) \<Rightarrow> ('c memory \<Rightarrow> 'a \<Rightarrow> 'v \<Rightarrow> bool) \<Rightarrow> 'c memory \<Rightarrow> nat option \<Rightarrow> 'v option \<Rightarrow> bool" where
  "rep_pointer prj rep h p v =
     (case p of
        None \<Rightarrow> v = None
      | Some a \<Rightarrow> (case (Option.bind (cell_at h a) prj, v) of (Some x, Some u) \<Rightarrow> rep h x u | _ \<Rightarrow> False))"

definition rep_slice ::
  "('c \<Rightarrow> 'a list option) \<Rightarrow> ('c memory \<Rightarrow> 'a \<Rightarrow> 'v \<Rightarrow> bool) \<Rightarrow> 'c memory \<Rightarrow> slice option \<Rightarrow> 'v list \<Rightarrow> bool" where
  "rep_slice prj rep h s vs =
     (case s of
        None \<Rightarrow> vs = []
      | Some s \<Rightarrow>
          (case Option.bind (cell_at h (sl_array s)) prj of
             None \<Rightarrow> False
           | Some xs \<Rightarrow> sl_offset s + sl_length s \<le> length xs \<and> list_all2 (rep h) (window s xs) vs))"

definition rep_map :: "('c \<Rightarrow> ('k \<times> 'v) list option) \<Rightarrow> 'c memory \<Rightarrow> nat option \<Rightarrow> ('k \<times> 'v) list \<Rightarrow> bool" where
  "rep_map prj h p entries =
     (case p of
        None \<Rightarrow> entries = []
      | Some a \<Rightarrow> Option.bind (cell_at h a) prj = Some entries \<and> distinct (map fst entries))"

text \<open>A value without references represents itself.\<close>

definition rep_flat :: "'c memory \<Rightarrow> 'a \<Rightarrow> 'a \<Rightarrow> bool" where
  "rep_flat h x v = (x = v)"

subsection \<open>The contract\<close>

definition well_formed :: "'c memory \<Rightarrow> bool" where
  "well_formed h = (\<forall>a. next_cell h \<le> a \<longrightarrow> cell_at h a = None)"

text \<open>Only new cells.\<close>

definition extends :: "'c memory \<Rightarrow> 'c memory \<Rightarrow> bool" where
  "extends h h' = (next_cell h \<le> next_cell h' \<and> (\<forall>a < next_cell h. cell_at h' a = cell_at h a))"

definition agree :: "nat \<Rightarrow> nat \<Rightarrow> 'c memory \<Rightarrow> 'c memory \<Rightarrow> bool" where
  "agree lo hi h h' = (\<forall>a. lo \<le> a \<longrightarrow> a < hi \<longrightarrow> cell_at h' a = cell_at h a)"

text \<open>\<open>x\<close> represents \<open>v\<close> by the cells allocated between \<open>h\<close> and \<open>h'\<close> alone.\<close>

definition fresh_rep ::
  "('c memory \<Rightarrow> 'a \<Rightarrow> 'v \<Rightarrow> bool) \<Rightarrow> 'c memory \<Rightarrow> 'c memory \<Rightarrow> 'a \<Rightarrow> 'v \<Rightarrow> bool" where
  "fresh_rep rep h h' x v = (\<forall>k. agree (next_cell h) (next_cell h') h' k \<longrightarrow> rep k x v)"

locale deep_copier =
  fixes copy :: "'a \<Rightarrow> ('c, 'a) memory_step"
    and rep :: "'c memory \<Rightarrow> 'a \<Rightarrow> 'v \<Rightarrow> bool"
  assumes copies: "well_formed h \<Longrightarrow> rep h x v \<Longrightarrow>
      \<exists>y h'. copy x h = Some (y, h') \<and> well_formed h' \<and> extends h h' \<and> fresh_rep rep h h' y v"
    and stable: "well_formed h \<Longrightarrow> rep h x v \<Longrightarrow> agree 0 (next_cell h) h k \<Longrightarrow> rep k x v"

subsection \<open>Facts on the memory\<close>

lemma extends_refl [simp]: "extends h h"
  by (simp add: extends_def)

lemma extends_trans: "extends a b \<Longrightarrow> extends b c \<Longrightarrow> extends a c"
  by (force simp: extends_def)

lemma extends_agree: "extends h h' \<Longrightarrow> agree 0 (next_cell h) h h'"
  by (simp add: extends_def agree_def)

lemma agree_refl [simp]: "agree lo hi h h"
  by (simp add: agree_def)

lemma fresh_rep_wider:
  assumes "fresh_rep rep h1 h2 x v" and "extends h h1" and "extends h2 h3"
  shows "fresh_rep rep h h3 x v"
proof -
  have "agree (next_cell h1) (next_cell h2) h2 k" if "agree (next_cell h) (next_cell h3) h3 k" for k
    using that assms(2,3) unfolding agree_def extends_def by (metis le_trans less_le_trans)
  with assms(1) show ?thesis by (simp add: fresh_rep_def)
qed

text \<open>A fresh cell that is filled after the content has been copied.\<close>

lemma filled_cell:
  fixes c :: 'c and h h1 :: "'c memory"
  assumes "well_formed h" and "well_formed h1" and "extends (h\<lparr>next_cell := Suc (next_cell h)\<rparr>) h1"
  defines "h2 \<equiv> h1\<lparr>cell_at := (cell_at h1)(next_cell h \<mapsto> c)\<rparr>"
  shows "well_formed h2" and "extends h h2"
    and "fresh_rep rep (h\<lparr>next_cell := Suc (next_cell h)\<rparr>) h1 y v \<Longrightarrow>
      fresh_rep (\<lambda>k a u. cell_at k a = Some c \<and> rep k y u) h h2 (next_cell h) v"
proof -
  show "well_formed h2" "extends h h2"
    using assms(2,3) by (auto simp: h2_def well_formed_def extends_def)
  assume "fresh_rep rep (h\<lparr>next_cell := Suc (next_cell h)\<rparr>) h1 y v"
  with assms(3) show "fresh_rep (\<lambda>k a u. cell_at k a = Some c \<and> rep k y u) h h2 (next_cell h) v"
    by (auto simp: fresh_rep_def agree_def h2_def extends_def)
qed

lemma well_formed_new: "well_formed h \<Longrightarrow> well_formed (h\<lparr>next_cell := Suc (next_cell h)\<rparr>)"
  by (simp add: well_formed_def)

lemma read_below: "well_formed h \<Longrightarrow> cell_at h a = Some c \<Longrightarrow> a < next_cell h"
  by (metis not_le option.distinct(1) well_formed_def)

lemma copy_entries_same: "distinct (map fst entries) \<Longrightarrow> copy_entries entries = entries"
proof -
  have "foldl (\<lambda>out (key, val). AList.update key val out) out entries = out @ entries"
    if "distinct (map fst entries)" "set (map fst entries) \<inter> set (map fst out) = {}" for out entries
    using that
  proof (induction entries arbitrary: out)
    case (Cons e entries)
    obtain k v where e: "e = (k, v)" by fastforce
    have "AList.update k v out = out @ [(k, v)]"
      using Cons.prems e by (induction out) auto
    with Cons e show ?case by auto
  qed simp
  from this [of entries "[]"] show "distinct (map fst entries) \<Longrightarrow> copy_entries entries = entries"
    by (simp add: copy_entries_def)
qed

subsection \<open>Copying pointers, slices and maps\<close>

context deep_copier
begin

lemma pointer:
  assumes mk: "\<And>x. prj (mk x) = Some x"
  shows "deep_copier (copy_pointer mk prj copy) (rep_pointer prj rep)"
proof
  fix h :: "'c memory" and p v
  assume wf: "well_formed h" and rp: "rep_pointer prj rep h p v"
  show "\<exists>y h'. copy_pointer mk prj copy p h = Some (y, h') \<and> well_formed h' \<and> extends h h' \<and> fresh_rep (rep_pointer prj rep) h h' y v"
  proof (cases p)
    case None
    with wf rp show ?thesis by (auto simp: hreturn_def fresh_rep_def rep_pointer_def)
  next
    case (Some a)
    with rp obtain x u where x: "Option.bind (cell_at h a) prj = Some x" and v: "v = Some u" and r: "rep h x u"
      by (auto simp: rep_pointer_def split: option.splits)
    let ?h = "h\<lparr>next_cell := Suc (next_cell h)\<rparr>"
    have "rep ?h x u" using stable [OF wf r, of ?h] by (simp add: agree_def)
    from copies [OF well_formed_new [OF wf] this] obtain y h1 where c: "copy x ?h = Some (y, h1)"
      and "well_formed h1" "extends ?h h1" "fresh_rep rep ?h h1 y u" by blast
    note cell = filled_cell [OF wf this(2,3), where c = "mk y"]
    have "fresh_rep (rep_pointer prj rep) h (h1\<lparr>cell_at := (cell_at h1)(next_cell h \<mapsto> mk y)\<rparr>) (Some (next_cell h)) v"
      using cell(3) [OF \<open>fresh_rep rep ?h h1 y u\<close>] v mk by (simp add: fresh_rep_def rep_pointer_def)
    with Some x c cell(1,2) show ?thesis by (simp add: hbind_def hread_def hnew_def hwrite_def hreturn_def)
  qed
next
  fix h k :: "'c memory" and p v
  assume wf: "well_formed h" and rp: "rep_pointer prj rep h p v" and ag: "agree 0 (next_cell h) h k"
  have "cell_at k a = Some c" if "cell_at h a = Some c" for a c
    using read_below [OF wf that] that ag by (simp add: agree_def)
  with rp stable [OF wf _ ag] show "rep_pointer prj rep k p v"
    by (auto simp: rep_pointer_def split: option.splits bind_splits)
qed

lemma elements:
  assumes "well_formed h" and "list_all2 (rep h) xs vs"
  shows "\<exists>ys h'. copy_elements copy xs h = Some (ys, h') \<and> well_formed h' \<and> extends h h'
     \<and> fresh_rep (\<lambda>k. list_all2 (rep k)) h h' ys vs"
  using assms
proof (induction xs arbitrary: vs h)
  case Nil
  then show ?case by (auto simp: hreturn_def fresh_rep_def)
next
  case (Cons x xs)
  then obtain u us where vs: "vs = u # us" and r: "rep h x u" "list_all2 (rep h) xs us" by (auto simp: list_all2_Cons1)
  from copies [OF Cons.prems(1) r(1)] obtain y h1 where 1: "copy x h = Some (y, h1)" "well_formed h1" "extends h h1"
    "fresh_rep rep h h1 y u" by blast
  from r(2) have "list_all2 (rep h1) xs us"
    by (rule list_all2_mono) (rule stable [OF Cons.prems(1) _ extends_agree [OF 1(3)]])
  from Cons.IH [OF 1(2) this] obtain ys h2 where 2: "copy_elements copy xs h1 = Some (ys, h2)" "well_formed h2"
    "extends h1 h2" "fresh_rep (\<lambda>k. list_all2 (rep k)) h1 h2 ys us" by blast
  from fresh_rep_wider [OF 1(4) extends_refl 2(3)] fresh_rep_wider [OF 2(4) 1(3) extends_refl] vs
  have "fresh_rep (\<lambda>k. list_all2 (rep k)) h h2 (y # ys) vs" by (simp add: fresh_rep_def)
  with 1 2 extends_trans show ?case by (auto simp: hbind_def hreturn_def)
qed

lemma slices:
  assumes mk: "\<And>xs. prj (mk xs) = Some xs"
  shows "deep_copier (copy_slice mk prj copy) (rep_slice prj rep)"
proof
  fix h :: "'c memory" and s vs
  assume wf: "well_formed h" and rs: "rep_slice prj rep h s vs"
  show "\<exists>y h'. copy_slice mk prj copy s h = Some (y, h') \<and> well_formed h' \<and> extends h h' \<and> fresh_rep (rep_slice prj rep) h h' y vs"
  proof (cases s)
    case None
    with wf rs show ?thesis by (auto simp: hreturn_def fresh_rep_def rep_slice_def)
  next
    case (Some t)
    with rs obtain xs where x: "Option.bind (cell_at h (sl_array t)) prj = Some xs" and r: "list_all2 (rep h) (window t xs) vs"
      by (auto simp: rep_slice_def split: option.splits)
    let ?h = "h\<lparr>next_cell := Suc (next_cell h)\<rparr>"
    from r have "list_all2 (rep ?h) (window t xs) vs"
      by (rule list_all2_mono) (rule stable [OF wf], simp_all add: agree_def)
    from elements [OF well_formed_new [OF wf] this] obtain ys h1 where c: "copy_elements copy (window t xs) ?h = Some (ys, h1)"
      and "well_formed h1" "extends ?h h1" "fresh_rep (\<lambda>k. list_all2 (rep k)) ?h h1 ys vs" by blast
    note cell = filled_cell [OF wf this(2,3), where c = "mk ys"]
    have "fresh_rep (rep_slice prj rep) h (h1\<lparr>cell_at := (cell_at h1)(next_cell h \<mapsto> mk ys)\<rparr>)
        (Some \<lparr>sl_array = next_cell h, sl_offset = 0, sl_length = length ys\<rparr>) vs"
      using cell(3) [OF \<open>fresh_rep (\<lambda>k. list_all2 (rep k)) ?h h1 ys vs\<close>] mk by (simp add: fresh_rep_def rep_slice_def window_def)
    with Some x c cell(1,2) show ?thesis by (simp add: hbind_def hread_def hnew_def hwrite_def hreturn_def)
  qed
next
  fix h k :: "'c memory" and s vs
  assume wf: "well_formed h" and rs: "rep_slice prj rep h s vs" and ag: "agree 0 (next_cell h) h k"
  have "cell_at k a = Some c" if "cell_at h a = Some c" for a c
    using read_below [OF wf that] that ag by (simp add: agree_def)
  with rs stable [OF wf _ ag] show "rep_slice prj rep k s vs"
    by (auto simp: rep_slice_def split: option.splits bind_splits elim!: list_all2_mono)
qed

end

interpretation flat: deep_copier hreturn rep_flat
  by unfold_locales (auto simp: hreturn_def rep_flat_def fresh_rep_def)

lemma entries_copier: "deep_copier (\<lambda>entries. hreturn (copy_entries entries)) (\<lambda>h x v. x = v \<and> distinct (map fst v))"
  by unfold_locales (auto simp: hreturn_def fresh_rep_def copy_entries_same)

text \<open>A nil map reads as the empty one, so a map is a pointer up to nil.\<close>

lemma rep_map_pointer:
  "rep_map prj h p entries \<longleftrightarrow>
     (\<exists>v. rep_pointer prj (\<lambda>h x v. x = v \<and> distinct (map fst v)) h p v \<and> entries = (case v of None \<Rightarrow> [] | Some u \<Rightarrow> u))"
  by (auto simp: rep_map_def rep_pointer_def split: option.splits)

lemma maps_copier:
  assumes mk: "\<And>x. prj (mk x) = Some x"
  shows "deep_copier (copy_map mk prj) (rep_map prj)"
proof -
  note ptr = deep_copier.pointer [OF entries_copier, of prj mk, OF mk]
  show ?thesis
  proof
    fix h :: "'c memory" and p entries
    assume wf: "well_formed h" and "rep_map prj h p entries"
    then obtain v where v: "rep_pointer prj (\<lambda>h x v. x = v \<and> distinct (map fst v)) h p v"
      "entries = (case v of None \<Rightarrow> [] | Some u \<Rightarrow> u)" by (auto simp: rep_map_pointer)
    from deep_copier.copies [OF ptr wf v(1)] obtain y h' where "copy_map mk prj p h = Some (y, h')" "well_formed h'"
      "extends h h'" "fresh_rep (rep_pointer prj (\<lambda>h x v. x = v \<and> distinct (map fst v))) h h' y v"
      unfolding copy_map_def by blast
    moreover from this(4) v(2) have "fresh_rep (rep_map prj) h h' y entries"
      unfolding fresh_rep_def rep_map_pointer by blast
    ultimately show "\<exists>y h'. copy_map mk prj p h = Some (y, h') \<and> well_formed h' \<and> extends h h' \<and> fresh_rep (rep_map prj) h h' y entries"
      by blast
  next
    fix h k :: "'c memory" and p entries
    assume "well_formed h" "rep_map prj h p entries" "agree 0 (next_cell h) h k"
    then show "rep_map prj k p entries"
      using deep_copier.stable [OF ptr] unfolding rep_map_pointer by blast
  qed
qed

subsection \<open>Copying structs\<close>

text \<open>Two parts one after the other.\<close>

definition copy_both :: "('a \<Rightarrow> ('c, 'a) memory_step) \<Rightarrow> ('b \<Rightarrow> ('c, 'b) memory_step) \<Rightarrow> 'a \<times> 'b \<Rightarrow> ('c, 'a \<times> 'b) memory_step" where
  "copy_both c d z = (case z of (x, y) \<Rightarrow> hbind (c x) (\<lambda>x. hbind (d y) (\<lambda>y. hreturn (x, y))))"

definition rep_both ::
  "('c memory \<Rightarrow> 'a \<Rightarrow> 'u \<Rightarrow> bool) \<Rightarrow> ('c memory \<Rightarrow> 'b \<Rightarrow> 'v \<Rightarrow> bool) \<Rightarrow> 'c memory \<Rightarrow> 'a \<times> 'b \<Rightarrow> 'u \<times> 'v \<Rightarrow> bool" where
  "rep_both r s h z w = (r h (fst z) (fst w) \<and> s h (snd z) (snd w))"

lemma both_copier:
  assumes "deep_copier c r" and "deep_copier d s"
  shows "deep_copier (copy_both c d) (rep_both r s)"
proof
  fix h z w
  assume wf: "well_formed h" and "rep_both r s h z w"
  then have r: "r h (fst z) (fst w)" and s: "s h (snd z) (snd w)" by (simp_all add: rep_both_def)
  from deep_copier.copies [OF assms(1) wf r] obtain x h1 where 1: "c (fst z) h = Some (x, h1)" "well_formed h1"
    "extends h h1" "fresh_rep r h h1 x (fst w)" by blast
  from deep_copier.stable [OF assms(2) wf s extends_agree [OF 1(3)]]
  have "s h1 (snd z) (snd w)" .
  from deep_copier.copies [OF assms(2) 1(2) this] obtain y h2 where 2: "d (snd z) h1 = Some (y, h2)" "well_formed h2"
    "extends h1 h2" "fresh_rep s h1 h2 y (snd w)" by blast
  from fresh_rep_wider [OF 1(4) extends_refl 2(3)] fresh_rep_wider [OF 2(4) 1(3) extends_refl]
  have "fresh_rep (rep_both r s) h h2 (x, y) w" by (simp add: fresh_rep_def rep_both_def)
  with 1 2 extends_trans
  show "\<exists>y h'. copy_both c d z h = Some (y, h') \<and> well_formed h' \<and> extends h h' \<and> fresh_rep (rep_both r s) h h' y w"
    by (auto simp: copy_both_def hbind_def hreturn_def split: prod.split)
next
  fix h k z w
  assume "well_formed h" "rep_both r s h z w" "agree 0 (next_cell h) h k"
  then show "rep_both r s k z w"
    using deep_copier.stable [OF assms(1)] deep_copier.stable [OF assms(2)] by (auto simp: rep_both_def)
qed

text \<open>A struct: the parts with references, and the rest, which \<open>*out = *in\<close> has copied.\<close>

lemma struct_copier:
  assumes "deep_copier c r"
    and "\<And>x h. copy x h = hbind (c (parts x)) (\<lambda>p. hreturn (put p x)) h"
    and "\<And>h x v. rep h x v \<longleftrightarrow> r h (parts x) (value_parts v) \<and> rest x v"
    and "\<And>p x. parts (put p x) = p" and "\<And>p x v. rest (put p x) v = rest x v"
  shows "deep_copier copy rep"
proof
  fix h x v
  assume wf: "well_formed h" and "rep h x v"
  then have "r h (parts x) (value_parts v)" and rest: "rest x v" by (simp_all add: assms(3))
  from deep_copier.copies [OF assms(1) wf this(1)] rest
  show "\<exists>y h'. copy x h = Some (y, h') \<and> well_formed h' \<and> extends h h' \<and> fresh_rep rep h h' y v"
    by (auto simp: assms(2-5) hbind_def hreturn_def fresh_rep_def)
next
  fix h k x v
  assume "well_formed h" "rep h x v" "agree 0 (next_cell h) h k"
  then show "rep k x v" using deep_copier.stable [OF assms(1)] by (auto simp: assms(3))
qed

end
