(* ===== verification/Deep_Copy.thy ===== *)
theory Deep_Copy
  imports Go_Memory Api_Types
begin

text \<open>
  \<open>api/v1alpha1/zz_generated.deepcopy.go\<close>: the structs of the API as they lie in memory, and the generated
  copy functions on them. \<open>*out = *in\<close> is the copy of the struct the function starts from, and every
  field with a reference is then replaced by a copy of what it refers to. The copy functions of the
  \<open>metav1\<close> structs the API embeds are parameters; \<open>'x\<close> is their data in memory.
\<close>

subsection \<open>Structs in memory\<close>

record mem_metric =
  mm_type :: AutoscalingMetricType
  mm_targetUtilization :: "nat option"
  mm_metricName :: string
  mm_targetValue :: "nat option"

record mem_autoscaling =
  ma_enabled :: "nat option"
  ma_minReplicas :: "nat option"
  ma_maxReplicas :: "nat option"
  ma_metrics :: "slice option"
  ma_scaleDownStabilizationSeconds :: "nat option"

record mem_availability =
  mv_enabled :: "nat option"
  mv_minAvailable :: "nat option"
  mv_maxUnavailable :: "nat option"

record mem_resources =
  mr_requests :: "nat option"
  mr_limits :: "nat option"

record mem_health =
  mh_readiness :: "nat option"
  mh_liveness :: "nat option"

record mem_service =
  ms_enabled :: "nat option"
  ms_port :: "nat option"

record mem_network =
  mn_enabled :: "nat option"

record mem_spec =
  mp_environment :: string
  mp_tenant :: string
  mp_policy :: string
  mp_image :: string
  mp_replicas :: "nat option"
  mp_autoscaling :: "nat option"
  mp_availability :: "nat option"
  mp_container :: ContainerSpec
  mp_resources :: "nat option"
  mp_health :: "nat option"
  mp_service :: "nat option"
  mp_exposure :: "nat option"
  mp_secretRefs :: "slice option"
  mp_externalSecrets :: "slice option"
  mp_network :: "nat option"

record mem_status =
  mt_observedGeneration :: int
  mt_desiredReplicas :: int
  mt_readyReplicas :: int
  mt_endpoint :: string
  mt_conditions :: "slice option"

type_synonym TypeMeta = "string \<times> string"

record 'x mem_workload =
  mw_typeMeta :: TypeMeta
  mw_meta :: 'x
  mw_spec :: mem_spec
  mw_status :: mem_status

record 'x mem_list =
  ml_typeMeta :: TypeMeta
  ml_listMeta :: 'x
  ml_items :: "slice option"

datatype 'x cell =
    IntCell int
  | BoolCell bool
  | QuantityCell ResourceQuantity
  | ProbeCell HTTPProbeSpec
  | ExposureCell ExposureSpec
  | ContainerCell ContainerSpec
  | ExternalRefCell ExternalSecretReference
  | MetricCell mem_metric
  | AutoscalingCell mem_autoscaling
  | AvailabilityCell mem_availability
  | ResourcesCell mem_resources
  | HealthCell mem_health
  | ServiceCell mem_service
  | NetworkCell mem_network
  | SpecCell mem_spec
  | StatusCell mem_status
  | WorkloadCell "'x mem_workload"
  | WorkloadListCell "'x mem_list"
  | SecretRefsCell "SecretReference list"
  | ExternalRefsCell "ExternalSecretReference list"
  | MetricsCell "mem_metric list"
  | ConditionsCell "'x list"
  | WorkloadsCell "'x mem_workload list"
  | QuantitiesCell ResourceQuantities
  | ForeignCell 'x

definition int_cell :: "'x cell \<Rightarrow> int option" where
  "int_cell c = (case c of IntCell x \<Rightarrow> Some x | _ \<Rightarrow> None)"

definition bool_cell :: "'x cell \<Rightarrow> bool option" where
  "bool_cell c = (case c of BoolCell x \<Rightarrow> Some x | _ \<Rightarrow> None)"

definition quantity_cell :: "'x cell \<Rightarrow> ResourceQuantity option" where
  "quantity_cell c = (case c of QuantityCell x \<Rightarrow> Some x | _ \<Rightarrow> None)"

definition probe_cell :: "'x cell \<Rightarrow> HTTPProbeSpec option" where
  "probe_cell c = (case c of ProbeCell x \<Rightarrow> Some x | _ \<Rightarrow> None)"

definition exposure_cell :: "'x cell \<Rightarrow> ExposureSpec option" where
  "exposure_cell c = (case c of ExposureCell x \<Rightarrow> Some x | _ \<Rightarrow> None)"

definition container_cell :: "'x cell \<Rightarrow> ContainerSpec option" where
  "container_cell c = (case c of ContainerCell x \<Rightarrow> Some x | _ \<Rightarrow> None)"

definition externalRef_cell :: "'x cell \<Rightarrow> ExternalSecretReference option" where
  "externalRef_cell c = (case c of ExternalRefCell x \<Rightarrow> Some x | _ \<Rightarrow> None)"

definition metric_cell :: "'x cell \<Rightarrow> mem_metric option" where
  "metric_cell c = (case c of MetricCell x \<Rightarrow> Some x | _ \<Rightarrow> None)"

definition autoscaling_cell :: "'x cell \<Rightarrow> mem_autoscaling option" where
  "autoscaling_cell c = (case c of AutoscalingCell x \<Rightarrow> Some x | _ \<Rightarrow> None)"

definition availability_cell :: "'x cell \<Rightarrow> mem_availability option" where
  "availability_cell c = (case c of AvailabilityCell x \<Rightarrow> Some x | _ \<Rightarrow> None)"

definition resources_cell :: "'x cell \<Rightarrow> mem_resources option" where
  "resources_cell c = (case c of ResourcesCell x \<Rightarrow> Some x | _ \<Rightarrow> None)"

definition health_cell :: "'x cell \<Rightarrow> mem_health option" where
  "health_cell c = (case c of HealthCell x \<Rightarrow> Some x | _ \<Rightarrow> None)"

definition service_cell :: "'x cell \<Rightarrow> mem_service option" where
  "service_cell c = (case c of ServiceCell x \<Rightarrow> Some x | _ \<Rightarrow> None)"

definition network_cell :: "'x cell \<Rightarrow> mem_network option" where
  "network_cell c = (case c of NetworkCell x \<Rightarrow> Some x | _ \<Rightarrow> None)"

definition spec_cell :: "'x cell \<Rightarrow> mem_spec option" where
  "spec_cell c = (case c of SpecCell x \<Rightarrow> Some x | _ \<Rightarrow> None)"

definition status_cell :: "'x cell \<Rightarrow> mem_status option" where
  "status_cell c = (case c of StatusCell x \<Rightarrow> Some x | _ \<Rightarrow> None)"

definition workload_cell :: "'x cell \<Rightarrow> ('x mem_workload) option" where
  "workload_cell c = (case c of WorkloadCell x \<Rightarrow> Some x | _ \<Rightarrow> None)"

definition workloadList_cell :: "'x cell \<Rightarrow> ('x mem_list) option" where
  "workloadList_cell c = (case c of WorkloadListCell x \<Rightarrow> Some x | _ \<Rightarrow> None)"

definition secretRefs_cell :: "'x cell \<Rightarrow> (SecretReference list) option" where
  "secretRefs_cell c = (case c of SecretRefsCell x \<Rightarrow> Some x | _ \<Rightarrow> None)"

definition externalRefs_cell :: "'x cell \<Rightarrow> (ExternalSecretReference list) option" where
  "externalRefs_cell c = (case c of ExternalRefsCell x \<Rightarrow> Some x | _ \<Rightarrow> None)"

definition metrics_cell :: "'x cell \<Rightarrow> (mem_metric list) option" where
  "metrics_cell c = (case c of MetricsCell x \<Rightarrow> Some x | _ \<Rightarrow> None)"

definition conditions_cell :: "'x cell \<Rightarrow> ('x list) option" where
  "conditions_cell c = (case c of ConditionsCell x \<Rightarrow> Some x | _ \<Rightarrow> None)"

definition workloads_cell :: "'x cell \<Rightarrow> ('x mem_workload list) option" where
  "workloads_cell c = (case c of WorkloadsCell x \<Rightarrow> Some x | _ \<Rightarrow> None)"

definition quantities_cell :: "'x cell \<Rightarrow> ResourceQuantities option" where
  "quantities_cell c = (case c of QuantitiesCell x \<Rightarrow> Some x | _ \<Rightarrow> None)"

lemmas cell_defs =
  int_cell_def bool_cell_def quantity_cell_def probe_cell_def exposure_cell_def container_cell_def externalRef_cell_def metric_cell_def autoscaling_cell_def availability_cell_def resources_cell_def health_cell_def service_cell_def network_cell_def spec_cell_def status_cell_def workload_cell_def workloadList_cell_def secretRefs_cell_def externalRefs_cell_def metrics_cell_def conditions_cell_def workloads_cell_def quantities_cell_def

lemma cell_simps [simp]:
  "int_cell (IntCell x0) = Some x0"
  "bool_cell (BoolCell x1) = Some x1"
  "quantity_cell (QuantityCell x2) = Some x2"
  "probe_cell (ProbeCell x3) = Some x3"
  "exposure_cell (ExposureCell x4) = Some x4"
  "container_cell (ContainerCell x5) = Some x5"
  "externalRef_cell (ExternalRefCell x6) = Some x6"
  "metric_cell (MetricCell x7) = Some x7"
  "autoscaling_cell (AutoscalingCell x8) = Some x8"
  "availability_cell (AvailabilityCell x9) = Some x9"
  "resources_cell (ResourcesCell x10) = Some x10"
  "health_cell (HealthCell x11) = Some x11"
  "service_cell (ServiceCell x12) = Some x12"
  "network_cell (NetworkCell x13) = Some x13"
  "spec_cell (SpecCell x14) = Some x14"
  "status_cell (StatusCell x15) = Some x15"
  "workload_cell (WorkloadCell x16) = Some x16"
  "workloadList_cell (WorkloadListCell x17) = Some x17"
  "secretRefs_cell (SecretRefsCell x18) = Some x18"
  "externalRefs_cell (ExternalRefsCell x19) = Some x19"
  "metrics_cell (MetricsCell x20) = Some x20"
  "conditions_cell (ConditionsCell x21) = Some x21"
  "workloads_cell (WorkloadsCell x22) = Some x22"
  "quantities_cell (QuantitiesCell x23) = Some x23"
  by (simp_all add: cell_defs)

text \<open>The copy functions of \<open>metav1\<close>.\<close>

record 'x apimachinery =
  ObjectMeta_DeepCopyInto :: "'x \<Rightarrow> ('x cell, 'x) memory_step"
  ListMeta_DeepCopyInto :: "'x \<Rightarrow> ('x cell, 'x) memory_step"
  Condition_DeepCopyInto :: "'x \<Rightarrow> ('x cell, 'x) memory_step"

subsection \<open>The generated functions\<close>

definition AutoscalingMetricSpec_DeepCopyInto :: "mem_metric \<Rightarrow> ('x cell, mem_metric) memory_step" where
  "AutoscalingMetricSpec_DeepCopyInto m =
     hbind (copy_pointer IntCell int_cell hreturn (mm_targetUtilization m)) (\<lambda>u.
     hbind (copy_pointer QuantityCell quantity_cell hreturn (mm_targetValue m)) (\<lambda>v.
       hreturn (m\<lparr>mm_targetUtilization := u, mm_targetValue := v\<rparr>)))"

definition AutoscalingMetricSpec_DeepCopy :: "nat option \<Rightarrow> ('x cell, nat option) memory_step" where
  "AutoscalingMetricSpec_DeepCopy = copy_pointer MetricCell metric_cell AutoscalingMetricSpec_DeepCopyInto"

definition AutoscalingSpec_DeepCopyInto :: "mem_autoscaling \<Rightarrow> ('x cell, mem_autoscaling) memory_step" where
  "AutoscalingSpec_DeepCopyInto m =
     hbind (copy_pointer BoolCell bool_cell hreturn (ma_enabled m)) (\<lambda>enabled.
     hbind (copy_pointer IntCell int_cell hreturn (ma_minReplicas m)) (\<lambda>lo.
     hbind (copy_pointer IntCell int_cell hreturn (ma_maxReplicas m)) (\<lambda>hi.
     hbind (copy_slice MetricsCell metrics_cell AutoscalingMetricSpec_DeepCopyInto (ma_metrics m)) (\<lambda>metrics.
     hbind (copy_pointer IntCell int_cell hreturn (ma_scaleDownStabilizationSeconds m)) (\<lambda>seconds.
       hreturn (m\<lparr>ma_enabled := enabled, ma_minReplicas := lo, ma_maxReplicas := hi, ma_metrics := metrics,
                 ma_scaleDownStabilizationSeconds := seconds\<rparr>))))))"

definition AutoscalingSpec_DeepCopy :: "nat option \<Rightarrow> ('x cell, nat option) memory_step" where
  "AutoscalingSpec_DeepCopy = copy_pointer AutoscalingCell autoscaling_cell AutoscalingSpec_DeepCopyInto"

definition AvailabilitySpec_DeepCopyInto :: "mem_availability \<Rightarrow> ('x cell, mem_availability) memory_step" where
  "AvailabilitySpec_DeepCopyInto m =
     hbind (copy_pointer BoolCell bool_cell hreturn (mv_enabled m)) (\<lambda>enabled.
     hbind (copy_pointer IntCell int_cell hreturn (mv_minAvailable m)) (\<lambda>lo.
     hbind (copy_pointer IntCell int_cell hreturn (mv_maxUnavailable m)) (\<lambda>hi.
       hreturn (m\<lparr>mv_enabled := enabled, mv_minAvailable := lo, mv_maxUnavailable := hi\<rparr>))))"

definition AvailabilitySpec_DeepCopy :: "nat option \<Rightarrow> ('x cell, nat option) memory_step" where
  "AvailabilitySpec_DeepCopy = copy_pointer AvailabilityCell availability_cell AvailabilitySpec_DeepCopyInto"

definition ContainerSpec_DeepCopyInto :: "ContainerSpec \<Rightarrow> ('x cell, ContainerSpec) memory_step" where
  "ContainerSpec_DeepCopyInto = hreturn"

definition ContainerSpec_DeepCopy :: "nat option \<Rightarrow> ('x cell, nat option) memory_step" where
  "ContainerSpec_DeepCopy = copy_pointer ContainerCell container_cell ContainerSpec_DeepCopyInto"

definition ExposureSpec_DeepCopyInto :: "ExposureSpec \<Rightarrow> ('x cell, ExposureSpec) memory_step" where
  "ExposureSpec_DeepCopyInto = hreturn"

definition ExposureSpec_DeepCopy :: "nat option \<Rightarrow> ('x cell, nat option) memory_step" where
  "ExposureSpec_DeepCopy = copy_pointer ExposureCell exposure_cell ExposureSpec_DeepCopyInto"

definition ExternalSecretReference_DeepCopyInto ::
  "ExternalSecretReference \<Rightarrow> ('x cell, ExternalSecretReference) memory_step" where
  "ExternalSecretReference_DeepCopyInto = hreturn"

definition ExternalSecretReference_DeepCopy :: "nat option \<Rightarrow> ('x cell, nat option) memory_step" where
  "ExternalSecretReference_DeepCopy = copy_pointer ExternalRefCell externalRef_cell ExternalSecretReference_DeepCopyInto"

definition HTTPProbeSpec_DeepCopyInto :: "HTTPProbeSpec \<Rightarrow> ('x cell, HTTPProbeSpec) memory_step" where
  "HTTPProbeSpec_DeepCopyInto = hreturn"

definition HTTPProbeSpec_DeepCopy :: "nat option \<Rightarrow> ('x cell, nat option) memory_step" where
  "HTTPProbeSpec_DeepCopy = copy_pointer ProbeCell probe_cell HTTPProbeSpec_DeepCopyInto"

definition HealthSpec_DeepCopyInto :: "mem_health \<Rightarrow> ('x cell, mem_health) memory_step" where
  "HealthSpec_DeepCopyInto m =
     hbind (copy_pointer ProbeCell probe_cell hreturn (mh_readiness m)) (\<lambda>readiness.
     hbind (copy_pointer ProbeCell probe_cell hreturn (mh_liveness m)) (\<lambda>liveness.
       hreturn (m\<lparr>mh_readiness := readiness, mh_liveness := liveness\<rparr>)))"

definition HealthSpec_DeepCopy :: "nat option \<Rightarrow> ('x cell, nat option) memory_step" where
  "HealthSpec_DeepCopy = copy_pointer HealthCell health_cell HealthSpec_DeepCopyInto"

definition NetworkSpec_DeepCopyInto :: "mem_network \<Rightarrow> ('x cell, mem_network) memory_step" where
  "NetworkSpec_DeepCopyInto m =
     hbind (copy_pointer BoolCell bool_cell hreturn (mn_enabled m)) (\<lambda>enabled. hreturn (m\<lparr>mn_enabled := enabled\<rparr>))"

definition NetworkSpec_DeepCopy :: "nat option \<Rightarrow> ('x cell, nat option) memory_step" where
  "NetworkSpec_DeepCopy = copy_pointer NetworkCell network_cell NetworkSpec_DeepCopyInto"

text \<open>The method on the map type itself makes a new map also of a nil one; its \<open>DeepCopy\<close> keeps nil.\<close>

fun ResourceQuantities_DeepCopyInto :: "nat option \<Rightarrow> ('x cell, nat option) memory_step" where
  "ResourceQuantities_DeepCopyInto None =
     hbind hnew (\<lambda>b. hbind (hwrite b (QuantitiesCell [])) (\<lambda>_. hreturn (Some b)))"
| "ResourceQuantities_DeepCopyInto (Some a) = copy_map QuantitiesCell quantities_cell (Some a)"

definition ResourceQuantities_DeepCopy :: "nat option \<Rightarrow> ('x cell, nat option) memory_step" where
  "ResourceQuantities_DeepCopy p = (if p = None then hreturn None else ResourceQuantities_DeepCopyInto p)"

definition ResourceRequirements_DeepCopyInto :: "mem_resources \<Rightarrow> ('x cell, mem_resources) memory_step" where
  "ResourceRequirements_DeepCopyInto m =
     hbind (copy_map QuantitiesCell quantities_cell (mr_requests m)) (\<lambda>requests.
     hbind (copy_map QuantitiesCell quantities_cell (mr_limits m)) (\<lambda>limits.
       hreturn (m\<lparr>mr_requests := requests, mr_limits := limits\<rparr>)))"

definition ResourceRequirements_DeepCopy :: "nat option \<Rightarrow> ('x cell, nat option) memory_step" where
  "ResourceRequirements_DeepCopy = copy_pointer ResourcesCell resources_cell ResourceRequirements_DeepCopyInto"

definition ServiceSpec_DeepCopyInto :: "mem_service \<Rightarrow> ('x cell, mem_service) memory_step" where
  "ServiceSpec_DeepCopyInto m =
     hbind (copy_pointer BoolCell bool_cell hreturn (ms_enabled m)) (\<lambda>enabled.
     hbind (copy_pointer IntCell int_cell hreturn (ms_port m)) (\<lambda>port.
       hreturn (m\<lparr>ms_enabled := enabled, ms_port := port\<rparr>)))"

definition ServiceSpec_DeepCopy :: "nat option \<Rightarrow> ('x cell, nat option) memory_step" where
  "ServiceSpec_DeepCopy = copy_pointer ServiceCell service_cell ServiceSpec_DeepCopyInto"

definition AIWorkloadSpec_DeepCopyInto :: "mem_spec \<Rightarrow> ('x cell, mem_spec) memory_step" where
  "AIWorkloadSpec_DeepCopyInto m =
     hbind (copy_pointer IntCell int_cell hreturn (mp_replicas m)) (\<lambda>replicas.
     hbind (copy_pointer AutoscalingCell autoscaling_cell AutoscalingSpec_DeepCopyInto (mp_autoscaling m)) (\<lambda>autoscaling.
     hbind (copy_pointer AvailabilityCell availability_cell AvailabilitySpec_DeepCopyInto (mp_availability m)) (\<lambda>availability.
     hbind (copy_pointer ResourcesCell resources_cell ResourceRequirements_DeepCopyInto (mp_resources m)) (\<lambda>resources.
     hbind (copy_pointer HealthCell health_cell HealthSpec_DeepCopyInto (mp_health m)) (\<lambda>health.
     hbind (copy_pointer ServiceCell service_cell ServiceSpec_DeepCopyInto (mp_service m)) (\<lambda>service.
     hbind (copy_pointer ExposureCell exposure_cell hreturn (mp_exposure m)) (\<lambda>exposure.
     hbind (copy_slice SecretRefsCell secretRefs_cell hreturn (mp_secretRefs m)) (\<lambda>secretRefs.
     hbind (copy_slice ExternalRefsCell externalRefs_cell hreturn (mp_externalSecrets m)) (\<lambda>externalSecrets.
     hbind (copy_pointer NetworkCell network_cell NetworkSpec_DeepCopyInto (mp_network m)) (\<lambda>network.
       hreturn (m\<lparr>mp_replicas := replicas, mp_autoscaling := autoscaling, mp_availability := availability,
                 mp_resources := resources, mp_health := health, mp_service := service, mp_exposure := exposure,
                 mp_secretRefs := secretRefs, mp_externalSecrets := externalSecrets, mp_network := network\<rparr>)))))))))))"

definition AIWorkloadSpec_DeepCopy :: "nat option \<Rightarrow> ('x cell, nat option) memory_step" where
  "AIWorkloadSpec_DeepCopy = copy_pointer SpecCell spec_cell AIWorkloadSpec_DeepCopyInto"

definition AIWorkloadStatus_DeepCopyInto :: "'x apimachinery \<Rightarrow> mem_status \<Rightarrow> ('x cell, mem_status) memory_step" where
  "AIWorkloadStatus_DeepCopyInto M m =
     hbind (copy_slice ConditionsCell conditions_cell (Condition_DeepCopyInto M) (mt_conditions m)) (\<lambda>conditions.
       hreturn (m\<lparr>mt_conditions := conditions\<rparr>))"

definition AIWorkloadStatus_DeepCopy :: "'x apimachinery \<Rightarrow> nat option \<Rightarrow> ('x cell, nat option) memory_step" where
  "AIWorkloadStatus_DeepCopy M = copy_pointer StatusCell status_cell (AIWorkloadStatus_DeepCopyInto M)"

definition AIWorkload_DeepCopyInto :: "'x apimachinery \<Rightarrow> 'x mem_workload \<Rightarrow> ('x cell, 'x mem_workload) memory_step" where
  "AIWorkload_DeepCopyInto M m =
     hbind (ObjectMeta_DeepCopyInto M (mw_meta m)) (\<lambda>meta.
     hbind (AIWorkloadSpec_DeepCopyInto (mw_spec m)) (\<lambda>spec.
     hbind (AIWorkloadStatus_DeepCopyInto M (mw_status m)) (\<lambda>status.
       hreturn (m\<lparr>mw_meta := meta, mw_spec := spec, mw_status := status\<rparr>))))"

definition AIWorkload_DeepCopy :: "'x apimachinery \<Rightarrow> nat option \<Rightarrow> ('x cell, nat option) memory_step" where
  "AIWorkload_DeepCopy M = copy_pointer WorkloadCell workload_cell (AIWorkload_DeepCopyInto M)"

text \<open>A nil pointer becomes a nil interface, not an interface that holds a nil pointer.\<close>

definition AIWorkload_DeepCopyObject :: "'x apimachinery \<Rightarrow> nat option \<Rightarrow> ('x cell, nat option) memory_step" where
  "AIWorkload_DeepCopyObject M p =
     hbind (AIWorkload_DeepCopy M p) (\<lambda>c. case c of Some a \<Rightarrow> hreturn (Some a) | None \<Rightarrow> hreturn None)"

definition AIWorkloadList_DeepCopyInto :: "'x apimachinery \<Rightarrow> 'x mem_list \<Rightarrow> ('x cell, 'x mem_list) memory_step" where
  "AIWorkloadList_DeepCopyInto M m =
     hbind (ListMeta_DeepCopyInto M (ml_listMeta m)) (\<lambda>listMeta.
     hbind (copy_slice WorkloadsCell workloads_cell (AIWorkload_DeepCopyInto M) (ml_items m)) (\<lambda>items.
       hreturn (m\<lparr>ml_listMeta := listMeta, ml_items := items\<rparr>)))"

definition AIWorkloadList_DeepCopy :: "'x apimachinery \<Rightarrow> nat option \<Rightarrow> ('x cell, nat option) memory_step" where
  "AIWorkloadList_DeepCopy M = copy_pointer WorkloadListCell workloadList_cell (AIWorkloadList_DeepCopyInto M)"

definition AIWorkloadList_DeepCopyObject :: "'x apimachinery \<Rightarrow> nat option \<Rightarrow> ('x cell, nat option) memory_step" where
  "AIWorkloadList_DeepCopyObject M p =
     hbind (AIWorkloadList_DeepCopy M p) (\<lambda>c. case c of Some a \<Rightarrow> hreturn (Some a) | None \<Rightarrow> hreturn None)"

subsection \<open>What the structs represent\<close>

text \<open>The scalar pointers, slices and maps of the API.\<close>

lemmas int_pointer = flat.pointer [where mk = IntCell and prj = int_cell, OF cell_simps(1)]
lemmas bool_pointer = flat.pointer [where mk = BoolCell and prj = bool_cell, OF cell_simps(2)]
lemmas quantity_pointer = flat.pointer [where mk = QuantityCell and prj = quantity_cell, OF cell_simps(3)]
lemmas probe_pointer = flat.pointer [where mk = ProbeCell and prj = probe_cell, OF cell_simps(4)]
lemmas exposure_pointer = flat.pointer [where mk = ExposureCell and prj = exposure_cell, OF cell_simps(5)]
lemmas secretRefs_slice = flat.slices [where mk = SecretRefsCell and prj = secretRefs_cell, OF cell_simps(19)]
lemmas externalRefs_slice = flat.slices [where mk = ExternalRefsCell and prj = externalRefs_cell, OF cell_simps(20)]
lemmas quantities_map = maps_copier [where mk = QuantitiesCell and prj = quantities_cell, OF cell_simps(24)]

lemmas copy_simps = copy_both_def rep_both_def hbind_def hreturn_def

definition rep_metric :: "'x cell memory \<Rightarrow> mem_metric \<Rightarrow> AutoscalingMetricSpec \<Rightarrow> bool" where
  "rep_metric h m v =
     (rep_pointer int_cell rep_flat h (mm_targetUtilization m) (am_targetUtilization v)
      \<and> rep_pointer quantity_cell rep_flat h (mm_targetValue m) (am_targetValue v)
      \<and> mm_type m = am_type v \<and> mm_metricName m = am_metricName v)"

interpretation metric: deep_copier AutoscalingMetricSpec_DeepCopyInto rep_metric
  by (rule struct_copier [OF both_copier [OF int_pointer quantity_pointer],
        where parts = "\<lambda>m. (mm_targetUtilization m, mm_targetValue m)"
          and put = "\<lambda>(x0, x1) m. m\<lparr>mm_targetUtilization := x0, mm_targetValue := x1\<rparr>"
          and value_parts = "\<lambda>v. (am_targetUtilization v, am_targetValue v)"
          and rest = "\<lambda>m v. mm_type m = am_type v \<and> mm_metricName m = am_metricName v"])
    (auto simp: AutoscalingMetricSpec_DeepCopyInto_def rep_metric_def copy_simps split: option.splits)

lemmas metrics_slice = metric.slices [where mk = MetricsCell and prj = metrics_cell, OF cell_simps(21)]

definition rep_autoscaling :: "'x cell memory \<Rightarrow> mem_autoscaling \<Rightarrow> AutoscalingSpec \<Rightarrow> bool" where
  "rep_autoscaling h m v =
     (rep_pointer bool_cell rep_flat h (ma_enabled m) (as_enabled v)
      \<and> rep_pointer int_cell rep_flat h (ma_minReplicas m) (as_minReplicas v)
      \<and> rep_pointer int_cell rep_flat h (ma_maxReplicas m) (as_maxReplicas v)
      \<and> rep_slice metrics_cell rep_metric h (ma_metrics m) (as_metrics v)
      \<and> rep_pointer int_cell rep_flat h (ma_scaleDownStabilizationSeconds m) (as_scaleDownStabilizationSeconds v))"

interpretation autoscaling: deep_copier AutoscalingSpec_DeepCopyInto rep_autoscaling
  by (rule struct_copier [OF both_copier [OF bool_pointer both_copier [OF int_pointer both_copier [OF int_pointer both_copier [OF metrics_slice int_pointer]]]],
        where parts = "\<lambda>m. (ma_enabled m, (ma_minReplicas m, (ma_maxReplicas m, (ma_metrics m, ma_scaleDownStabilizationSeconds m))))"
          and put = "\<lambda>(x0, (x1, (x2, (x3, x4)))) m. m\<lparr>ma_enabled := x0, ma_minReplicas := x1, ma_maxReplicas := x2, ma_metrics := x3, ma_scaleDownStabilizationSeconds := x4\<rparr>"
          and value_parts = "\<lambda>v. (as_enabled v, (as_minReplicas v, (as_maxReplicas v, (as_metrics v, as_scaleDownStabilizationSeconds v))))"
          and rest = "\<lambda>m v. True"])
    (auto simp: AutoscalingSpec_DeepCopyInto_def rep_autoscaling_def copy_simps split: option.splits)

definition rep_availability :: "'x cell memory \<Rightarrow> mem_availability \<Rightarrow> AvailabilitySpec \<Rightarrow> bool" where
  "rep_availability h m v =
     (rep_pointer bool_cell rep_flat h (mv_enabled m) (av_enabled v)
      \<and> rep_pointer int_cell rep_flat h (mv_minAvailable m) (av_minAvailable v)
      \<and> rep_pointer int_cell rep_flat h (mv_maxUnavailable m) (av_maxUnavailable v))"

interpretation availability: deep_copier AvailabilitySpec_DeepCopyInto rep_availability
  by (rule struct_copier [OF both_copier [OF bool_pointer both_copier [OF int_pointer int_pointer]],
        where parts = "\<lambda>m. (mv_enabled m, (mv_minAvailable m, mv_maxUnavailable m))"
          and put = "\<lambda>(x0, (x1, x2)) m. m\<lparr>mv_enabled := x0, mv_minAvailable := x1, mv_maxUnavailable := x2\<rparr>"
          and value_parts = "\<lambda>v. (av_enabled v, (av_minAvailable v, av_maxUnavailable v))"
          and rest = "\<lambda>m v. True"])
    (auto simp: AvailabilitySpec_DeepCopyInto_def rep_availability_def copy_simps split: option.splits)

definition rep_health :: "'x cell memory \<Rightarrow> mem_health \<Rightarrow> HealthSpec \<Rightarrow> bool" where
  "rep_health h m v =
     (rep_pointer probe_cell rep_flat h (mh_readiness m) (hs_readiness v)
      \<and> rep_pointer probe_cell rep_flat h (mh_liveness m) (hs_liveness v))"

interpretation health: deep_copier HealthSpec_DeepCopyInto rep_health
  by (rule struct_copier [OF both_copier [OF probe_pointer probe_pointer],
        where parts = "\<lambda>m. (mh_readiness m, mh_liveness m)"
          and put = "\<lambda>(x0, x1) m. m\<lparr>mh_readiness := x0, mh_liveness := x1\<rparr>"
          and value_parts = "\<lambda>v. (hs_readiness v, hs_liveness v)"
          and rest = "\<lambda>m v. True"])
    (auto simp: HealthSpec_DeepCopyInto_def rep_health_def copy_simps split: option.splits)

definition rep_network :: "'x cell memory \<Rightarrow> mem_network \<Rightarrow> NetworkSpec \<Rightarrow> bool" where
  "rep_network h m v =
     (rep_pointer bool_cell rep_flat h (mn_enabled m) (nw_enabled v))"

interpretation network: deep_copier NetworkSpec_DeepCopyInto rep_network
  by (rule struct_copier [OF bool_pointer,
        where parts = "\<lambda>m. mn_enabled m"
          and put = "\<lambda>x0 m. m\<lparr>mn_enabled := x0\<rparr>"
          and value_parts = "\<lambda>v. nw_enabled v"
          and rest = "\<lambda>m v. True"])
    (auto simp: NetworkSpec_DeepCopyInto_def rep_network_def copy_simps split: option.splits)

definition rep_resources :: "'x cell memory \<Rightarrow> mem_resources \<Rightarrow> ResourceRequirements \<Rightarrow> bool" where
  "rep_resources h m v =
     (rep_map quantities_cell h (mr_requests m) (rr_requests v)
      \<and> rep_map quantities_cell h (mr_limits m) (rr_limits v))"

interpretation resources: deep_copier ResourceRequirements_DeepCopyInto rep_resources
  by (rule struct_copier [OF both_copier [OF quantities_map quantities_map],
        where parts = "\<lambda>m. (mr_requests m, mr_limits m)"
          and put = "\<lambda>(x0, x1) m. m\<lparr>mr_requests := x0, mr_limits := x1\<rparr>"
          and value_parts = "\<lambda>v. (rr_requests v, rr_limits v)"
          and rest = "\<lambda>m v. True"])
    (auto simp: ResourceRequirements_DeepCopyInto_def rep_resources_def copy_simps split: option.splits)

definition rep_service :: "'x cell memory \<Rightarrow> mem_service \<Rightarrow> ServiceSpec \<Rightarrow> bool" where
  "rep_service h m v =
     (rep_pointer bool_cell rep_flat h (ms_enabled m) (sv_enabled v)
      \<and> rep_pointer int_cell rep_flat h (ms_port m) (sv_port v))"

interpretation service: deep_copier ServiceSpec_DeepCopyInto rep_service
  by (rule struct_copier [OF both_copier [OF bool_pointer int_pointer],
        where parts = "\<lambda>m. (ms_enabled m, ms_port m)"
          and put = "\<lambda>(x0, x1) m. m\<lparr>ms_enabled := x0, ms_port := x1\<rparr>"
          and value_parts = "\<lambda>v. (sv_enabled v, sv_port v)"
          and rest = "\<lambda>m v. True"])
    (auto simp: ServiceSpec_DeepCopyInto_def rep_service_def copy_simps split: option.splits)

lemmas autoscaling_pointer = autoscaling.pointer [where mk = AutoscalingCell and prj = autoscaling_cell, OF cell_simps(9)]
lemmas availability_pointer = availability.pointer [where mk = AvailabilityCell and prj = availability_cell, OF cell_simps(10)]
lemmas resources_pointer = resources.pointer [where mk = ResourcesCell and prj = resources_cell, OF cell_simps(11)]
lemmas health_pointer = health.pointer [where mk = HealthCell and prj = health_cell, OF cell_simps(12)]
lemmas service_pointer = service.pointer [where mk = ServiceCell and prj = service_cell, OF cell_simps(13)]
lemmas network_pointer = network.pointer [where mk = NetworkCell and prj = network_cell, OF cell_simps(14)]

definition rep_spec :: "'x cell memory \<Rightarrow> mem_spec \<Rightarrow> AIWorkloadSpec \<Rightarrow> bool" where
  "rep_spec h m v =
     (rep_pointer int_cell rep_flat h (mp_replicas m) (sp_replicas v)
      \<and> rep_pointer autoscaling_cell rep_autoscaling h (mp_autoscaling m) (sp_autoscaling v)
      \<and> rep_pointer availability_cell rep_availability h (mp_availability m) (sp_availability v)
      \<and> rep_pointer resources_cell rep_resources h (mp_resources m) (sp_resources v)
      \<and> rep_pointer health_cell rep_health h (mp_health m) (sp_health v)
      \<and> rep_pointer service_cell rep_service h (mp_service m) (sp_service v)
      \<and> rep_pointer exposure_cell rep_flat h (mp_exposure m) (sp_exposure v)
      \<and> rep_slice secretRefs_cell rep_flat h (mp_secretRefs m) (sp_secretRefs v)
      \<and> rep_slice externalRefs_cell rep_flat h (mp_externalSecrets m) (sp_externalSecrets v)
      \<and> rep_pointer network_cell rep_network h (mp_network m) (sp_network v)
      \<and> mp_environment m = sp_environment v \<and> mp_tenant m = sp_tenant v \<and> mp_policy m = sp_policy v \<and> mp_image m = sp_image v \<and> mp_container m = sp_container v)"

interpretation spec: deep_copier AIWorkloadSpec_DeepCopyInto rep_spec
  by (rule struct_copier [OF both_copier [OF int_pointer both_copier [OF autoscaling_pointer both_copier [OF availability_pointer both_copier [OF resources_pointer both_copier [OF health_pointer both_copier [OF service_pointer both_copier [OF exposure_pointer both_copier [OF secretRefs_slice both_copier [OF externalRefs_slice network_pointer]]]]]]]]],
        where parts = "\<lambda>m. (mp_replicas m, (mp_autoscaling m, (mp_availability m, (mp_resources m, (mp_health m, (mp_service m, (mp_exposure m, (mp_secretRefs m, (mp_externalSecrets m, mp_network m)))))))))"
          and put = "\<lambda>(x0, (x1, (x2, (x3, (x4, (x5, (x6, (x7, (x8, x9))))))))) m. m\<lparr>mp_replicas := x0, mp_autoscaling := x1, mp_availability := x2, mp_resources := x3, mp_health := x4, mp_service := x5, mp_exposure := x6, mp_secretRefs := x7, mp_externalSecrets := x8, mp_network := x9\<rparr>"
          and value_parts = "\<lambda>v. (sp_replicas v, (sp_autoscaling v, (sp_availability v, (sp_resources v, (sp_health v, (sp_service v, (sp_exposure v, (sp_secretRefs v, (sp_externalSecrets v, sp_network v)))))))))"
          and rest = "\<lambda>m v. mp_environment m = sp_environment v \<and> mp_tenant m = sp_tenant v \<and> mp_policy m = sp_policy v \<and> mp_image m = sp_image v \<and> mp_container m = sp_container v"])
    (auto simp: AIWorkloadSpec_DeepCopyInto_def rep_spec_def copy_simps split: option.splits)

text \<open>
  The structs of \<open>metav1\<close>: what their data in memory represents is a parameter, and that their copy
  functions are deep copies is what the generated code relies on.
\<close>

record 'x metav1_rep =
  rep_ObjectMeta :: "'x cell memory \<Rightarrow> 'x \<Rightarrow> ObjectMeta \<Rightarrow> bool"
  rep_ListMeta :: "'x cell memory \<Rightarrow> 'x \<Rightarrow> string \<Rightarrow> bool"
  rep_Condition :: "'x cell memory \<Rightarrow> 'x \<Rightarrow> Condition \<Rightarrow> bool"

definition rep_status :: "'x metav1_rep \<Rightarrow> 'x cell memory \<Rightarrow> mem_status \<Rightarrow> AIWorkloadStatus \<Rightarrow> bool" where
  "rep_status R h m v =
     (rep_slice conditions_cell (rep_Condition R) h (mt_conditions m) (st_conditions v)
      \<and> mt_observedGeneration m = st_observedGeneration v \<and> mt_desiredReplicas m = st_desiredReplicas v
      \<and> mt_readyReplicas m = st_readyReplicas v \<and> mt_endpoint m = st_endpoint v)"

text \<open>A workload with its \<open>TypeMeta\<close>, and a list of workloads with its \<open>TypeMeta\<close> and \<open>ListMeta\<close>.\<close>

definition rep_workload ::
  "'x metav1_rep \<Rightarrow> 'x cell memory \<Rightarrow> 'x mem_workload \<Rightarrow> TypeMeta \<times> AIWorkload \<Rightarrow> bool" where
  "rep_workload R h m v =
     (rep_ObjectMeta R h (mw_meta m) (w_meta (snd v)) \<and> rep_spec h (mw_spec m) (w_spec (snd v))
      \<and> rep_status R h (mw_status m) (w_status (snd v)) \<and> mw_typeMeta m = fst v)"

record AIWorkloadList =
  l_typeMeta :: TypeMeta
  l_listMeta :: string
  l_items :: "(TypeMeta \<times> AIWorkload) list"

definition rep_list :: "'x metav1_rep \<Rightarrow> 'x cell memory \<Rightarrow> 'x mem_list \<Rightarrow> AIWorkloadList \<Rightarrow> bool" where
  "rep_list R h m v =
     (rep_ListMeta R h (ml_listMeta m) (l_listMeta v)
      \<and> rep_slice workloads_cell (rep_workload R) h (ml_items m) (l_items v) \<and> ml_typeMeta m = l_typeMeta v)"

locale metav1 =
  fixes M :: "'x apimachinery" and R :: "'x metav1_rep"
  assumes object_meta: "deep_copier (ObjectMeta_DeepCopyInto M) (rep_ObjectMeta R)"
    and list_meta: "deep_copier (ListMeta_DeepCopyInto M) (rep_ListMeta R)"
    and condition: "deep_copier (Condition_DeepCopyInto M) (rep_Condition R)"
begin

lemma status: "deep_copier (AIWorkloadStatus_DeepCopyInto M) (rep_status R)"
  by (rule struct_copier [OF deep_copier.slices [OF condition, where mk = ConditionsCell and prj = conditions_cell, OF cell_simps(22)],
        where parts = mt_conditions and put = "\<lambda>x m. m\<lparr>mt_conditions := x\<rparr>" and value_parts = st_conditions
          and rest = "\<lambda>m v. mt_observedGeneration m = st_observedGeneration v \<and> mt_desiredReplicas m = st_desiredReplicas v
            \<and> mt_readyReplicas m = st_readyReplicas v \<and> mt_endpoint m = st_endpoint v"])
    (auto simp: AIWorkloadStatus_DeepCopyInto_def rep_status_def copy_simps split: option.splits)

lemma workload: "deep_copier (AIWorkload_DeepCopyInto M) (rep_workload R)"
  by (rule struct_copier [OF both_copier [OF object_meta both_copier [OF spec.deep_copier_axioms status]],
        where parts = "\<lambda>m. (mw_meta m, mw_spec m, mw_status m)"
          and put = "\<lambda>(x0, x1, x2) m. m\<lparr>mw_meta := x0, mw_spec := x1, mw_status := x2\<rparr>"
          and value_parts = "\<lambda>v. (w_meta (snd v), w_spec (snd v), w_status (snd v))"
          and rest = "\<lambda>m v. mw_typeMeta m = fst v"])
    (auto simp: AIWorkload_DeepCopyInto_def rep_workload_def copy_simps split: option.splits)

lemma workload_list: "deep_copier (AIWorkloadList_DeepCopyInto M) (rep_list R)"
  by (rule struct_copier [OF both_copier [OF list_meta
            deep_copier.slices [OF workload, where mk = WorkloadsCell and prj = workloads_cell, OF cell_simps(23)]],
        where parts = "\<lambda>m. (ml_listMeta m, ml_items m)" and put = "\<lambda>(x0, x1) m. m\<lparr>ml_listMeta := x0, ml_items := x1\<rparr>"
          and value_parts = "\<lambda>v. (l_listMeta v, l_items v)" and rest = "\<lambda>m v. ml_typeMeta m = l_typeMeta v"])
    (auto simp: AIWorkloadList_DeepCopyInto_def rep_list_def copy_simps split: option.splits)

lemmas workload_pointer = deep_copier.pointer [OF workload, where mk = WorkloadCell and prj = workload_cell, OF cell_simps(17)]
lemmas list_pointer = deep_copier.pointer [OF workload_list, where mk = WorkloadListCell and prj = workloadList_cell, OF cell_simps(18)]

end

text \<open>The memory of the witnesses: the structs of \<open>metav1\<close> as flat data.\<close>

datatype flat_metav1 = FlatObjectMeta ObjectMeta | FlatListMeta string | FlatCondition Condition

definition flat_apimachinery :: "flat_metav1 apimachinery" where
  "flat_apimachinery =
     \<lparr>ObjectMeta_DeepCopyInto = hreturn, ListMeta_DeepCopyInto = hreturn, Condition_DeepCopyInto = hreturn\<rparr>"

definition flat_rep :: "flat_metav1 metav1_rep" where
  "flat_rep =
     \<lparr>rep_ObjectMeta = (\<lambda>h x v. x = FlatObjectMeta v), rep_ListMeta = (\<lambda>h x v. x = FlatListMeta v),
      rep_Condition = (\<lambda>h x v. x = FlatCondition v)\<rparr>"

interpretation flat_metav1: metav1 flat_apimachinery flat_rep
  by unfold_locales (auto simp: flat_apimachinery_def flat_rep_def hreturn_def fresh_rep_def)

subsection \<open>The copies\<close>

lemma DeepCopyObject_eq:
  "AIWorkload_DeepCopyObject M p = AIWorkload_DeepCopy M p"
  "AIWorkloadList_DeepCopyObject M p = AIWorkloadList_DeepCopy M p"
  by (auto simp: AIWorkload_DeepCopyObject_def AIWorkloadList_DeepCopyObject_def hbind_def hreturn_def fun_eq_iff
      split: option.splits)

text \<open>The methods on the parts of a workload are deep copies as well, also for nil receivers.\<close>

lemma ResourceQuantities_DeepCopy_eq: "ResourceQuantities_DeepCopy = copy_map QuantitiesCell quantities_cell"
proof
  show "ResourceQuantities_DeepCopy p = copy_map QuantitiesCell quantities_cell p" for p
    by (cases p) (simp_all add: ResourceQuantities_DeepCopy_def copy_map_def)
qed

lemma ResourceQuantities_copier: "deep_copier ResourceQuantities_DeepCopy (rep_map quantities_cell)"
  unfolding ResourceQuantities_DeepCopy_eq by (rule quantities_map)

lemma part_copies:
  "deep_copier AutoscalingMetricSpec_DeepCopy (rep_pointer metric_cell rep_metric)"
  "deep_copier AutoscalingSpec_DeepCopy (rep_pointer autoscaling_cell rep_autoscaling)"
  "deep_copier AvailabilitySpec_DeepCopy (rep_pointer availability_cell rep_availability)"
  "deep_copier ContainerSpec_DeepCopy (rep_pointer container_cell rep_flat)"
  "deep_copier ExposureSpec_DeepCopy (rep_pointer exposure_cell rep_flat)"
  "deep_copier ExternalSecretReference_DeepCopy (rep_pointer externalRef_cell rep_flat)"
  "deep_copier HTTPProbeSpec_DeepCopy (rep_pointer probe_cell rep_flat)"
  "deep_copier HealthSpec_DeepCopy (rep_pointer health_cell rep_health)"
  "deep_copier NetworkSpec_DeepCopy (rep_pointer network_cell rep_network)"
  "deep_copier ResourceRequirements_DeepCopy (rep_pointer resources_cell rep_resources)"
  "deep_copier ServiceSpec_DeepCopy (rep_pointer service_cell rep_service)"
  "deep_copier AIWorkloadSpec_DeepCopy (rep_pointer spec_cell rep_spec)"
  unfolding AutoscalingMetricSpec_DeepCopy_def AutoscalingSpec_DeepCopy_def AvailabilitySpec_DeepCopy_def
    ContainerSpec_DeepCopy_def ContainerSpec_DeepCopyInto_def ExposureSpec_DeepCopy_def ExposureSpec_DeepCopyInto_def
    ExternalSecretReference_DeepCopy_def ExternalSecretReference_DeepCopyInto_def HTTPProbeSpec_DeepCopy_def
    HTTPProbeSpec_DeepCopyInto_def HealthSpec_DeepCopy_def NetworkSpec_DeepCopy_def ResourceRequirements_DeepCopy_def
    ServiceSpec_DeepCopy_def AIWorkloadSpec_DeepCopy_def
  by (simp_all add: metric.pointer autoscaling.pointer availability.pointer flat.pointer health.pointer network.pointer
      resources.pointer service.pointer spec.pointer)

context metav1
begin

lemma status_method: "deep_copier (AIWorkloadStatus_DeepCopy M) (rep_pointer status_cell (rep_status R))"
  unfolding AIWorkloadStatus_DeepCopy_def by (simp add: deep_copier.pointer [OF status])

end

text \<open>\<open>q\<close> is a copy of \<open>p\<close>, both representing \<open>v\<close>, that shares nothing with it.\<close>

definition separate_copy ::
  "('c memory \<Rightarrow> 'a \<Rightarrow> 'v \<Rightarrow> bool) \<Rightarrow> 'c memory \<Rightarrow> 'c memory \<Rightarrow> 'a \<Rightarrow> 'a \<Rightarrow> 'v \<Rightarrow> bool" where
  "separate_copy rep h h' p q v =
     ((\<forall>a < next_cell h. cell_at h' a = cell_at h a)
      \<and> (\<forall>k. (\<forall>a < next_cell h. cell_at k a = cell_at h' a) \<longrightarrow> rep k p v)
      \<and> (\<forall>k. (\<forall>a \<ge> next_cell h. cell_at k a = cell_at h' a) \<longrightarrow> rep k q v))"

context deep_copier
begin

lemma separate:
  assumes "well_formed h" and "rep h p v"
  shows "\<exists>q h'. copy p h = Some (q, h') \<and> separate_copy rep h h' p q v"
proof -
  from copies [OF assms] obtain q h' where c: "copy p h = Some (q, h')" "extends h h'" "fresh_rep rep h h' q v" by blast
  have "separate_copy rep h h' p q v"
    using c(2,3) stable [OF assms] by (simp add: separate_copy_def extends_def fresh_rep_def agree_def)
  with c(1) show ?thesis by blast
qed

end

text \<open>
  C14. A deep copy is the value itself, which is how this development treats it: for every well-formed
  memory and every pointer to a workload (nil included), \<open>DeepCopy\<close> and \<open>DeepCopyObject\<close> return a pointer
  that represents the same value, and the two share nothing. No old cell is changed; whatever is written
  to the new cells leaves the original as it is, and whatever is written to the old ones leaves the copy.
  The same holds for a list of workloads.
\<close>

theorem deep_copy_is_value:
  assumes "deep_copier (ObjectMeta_DeepCopyInto M) (rep_ObjectMeta R)"
    and "deep_copier (ListMeta_DeepCopyInto M) (rep_ListMeta R)"
    and "deep_copier (Condition_DeepCopyInto M) (rep_Condition R)" and "well_formed h"
    and "rep_pointer workload_cell (rep_workload R) h p v" and "rep_pointer workloadList_cell (rep_list R) h l vs"
  shows "(\<exists>q h'. AIWorkload_DeepCopy M p h = Some (q, h') \<and> AIWorkload_DeepCopyObject M p h = Some (q, h')
         \<and> separate_copy (rep_pointer workload_cell (rep_workload R)) h h' p q v)
     \<and> (\<exists>q h'. AIWorkloadList_DeepCopy M l h = Some (q, h') \<and> AIWorkloadList_DeepCopyObject M l h = Some (q, h')
         \<and> separate_copy (rep_pointer workloadList_cell (rep_list R)) h h' l q vs)"
proof -
  have "metav1 M R" using assms(1-3) by (rule metav1.intro)
  note copiers = metav1.workload_pointer [OF this] metav1.list_pointer [OF this]
  show ?thesis
    using deep_copier.separate [OF copiers(1) assms(4,5)] deep_copier.separate [OF copiers(2) assms(4,6)]
    by (simp add: DeepCopyObject_eq) (simp add: AIWorkload_DeepCopy_def AIWorkloadList_DeepCopy_def)
qed

text \<open>A workload in memory, with a replica count and the second of two Secret names behind its pointers.\<close>

definition small_meta :: ObjectMeta where
  "small_meta =
     \<lparr>m_name = ''model'', m_namespace = ''team-a'', m_uid = ''u-1'', m_resourceVersion = ''7'', m_generation = 1,
      m_deletionTimestamp = None, m_labels = fmempty, m_annotations = fmempty, m_ownerReferences = [],
      m_finalizers = [], m_rest = ''''\<rparr>"

definition small_spec :: mem_spec where
  "small_spec =
     \<lparr>mp_environment = ''dev'', mp_tenant = '''', mp_policy = '''', mp_image = ''model:1'', mp_replicas = Some 1,
      mp_autoscaling = None, mp_availability = None, mp_container = \<lparr>cs_port = 8080\<rparr>, mp_resources = None,
      mp_health = None, mp_service = None, mp_exposure = None,
      mp_secretRefs = Some \<lparr>sl_array = 2, sl_offset = 1, sl_length = 1\<rparr>, mp_externalSecrets = None, mp_network = None\<rparr>"

definition small_memory :: "flat_metav1 cell memory" where
  "small_memory =
     \<lparr>next_cell = 3,
      cell_at =
        [0 \<mapsto> WorkloadCell \<lparr>mw_typeMeta = (''AIWorkload'', ''v1alpha1''), mw_meta = FlatObjectMeta small_meta,
           mw_spec = small_spec,
           mw_status = \<lparr>mt_observedGeneration = 0, mt_desiredReplicas = 0, mt_readyReplicas = 0, mt_endpoint = '''',
             mt_conditions = None\<rparr>\<rparr>,
         1 \<mapsto> IntCell 2, 2 \<mapsto> SecretRefsCell [''old'', ''token'']]\<rparr>"

definition small_workload :: AIWorkload where
  "small_workload =
     \<lparr>w_meta = small_meta,
      w_spec =
        \<lparr>sp_environment = ''dev'', sp_tenant = '''', sp_policy = '''', sp_image = ''model:1'', sp_replicas = Some 2,
         sp_autoscaling = None, sp_availability = None, sp_container = \<lparr>cs_port = 8080\<rparr>, sp_resources = None,
         sp_health = None, sp_service = None, sp_exposure = None, sp_secretRefs = [''token''], sp_externalSecrets = [],
         sp_network = None\<rparr>,
      w_status = \<lparr>st_observedGeneration = 0, st_desiredReplicas = 0, st_readyReplicas = 0, st_endpoint = '''',
                  st_conditions = []\<rparr>\<rparr>"

lemma small_represents:
  "well_formed small_memory"
  "rep_pointer workload_cell (rep_workload flat_rep) small_memory (Some 0) (Some ((''AIWorkload'', ''v1alpha1''), small_workload))"
  by (auto simp: well_formed_def small_memory_def rep_pointer_def rep_workload_def rep_status_def rep_spec_def rep_slice_def
      rep_flat_def flat_rep_def small_spec_def small_workload_def window_def)

theorem deep_copy_is_value_witness:
  "\<exists>q h'. AIWorkload_DeepCopy flat_apimachinery (Some 0) small_memory = Some (q, h')
     \<and> separate_copy (rep_pointer workload_cell (rep_workload flat_rep)) small_memory h' (Some 0) q
         (Some ((''AIWorkload'', ''v1alpha1''), small_workload))"
proof -
  have "rep_pointer workloadList_cell (rep_list flat_rep) small_memory None None" by (simp add: rep_pointer_def)
  from deep_copy_is_value [OF flat_metav1.object_meta flat_metav1.list_meta flat_metav1.condition small_represents this]
  show ?thesis by blast
qed

end
