(* ===== verification/Call_Bound.thy ===== *)
theory Call_Bound
  imports Correct_Cluster
begin

text \<open>
  How many calls one reconciliation makes. No stage of \<open>Reconcile\<close> retries without a bound, so the log
  grows by a number of entries that depends only on how many Secrets and external Secrets a workload
  names; with the limits of the schema it is a constant.
\<close>

definition grows_by :: "nat \<Rightarrow> 's world \<Rightarrow> 's world \<Rightarrow> bool" where
  "grows_by n w w' = (\<exists>es. wd_log w' = wd_log w @ es \<and> length es \<le> n)"

lemma grows_by_0 [simp]: "grows_by n w w"
  by (simp add: grows_by_def)

lemma grows_by_trans: "grows_by a u v \<Longrightarrow> grows_by b v w \<Longrightarrow> grows_by (a + b) u w"
  by (fastforce simp: grows_by_def)

lemma grows_by_mono: "grows_by a u v \<Longrightarrow> a \<le> b \<Longrightarrow> grows_by b u v"
  by (auto simp: grows_by_def)

lemma grows_by_then: "grows_by a u v \<Longrightarrow> grows_by b v w \<Longrightarrow> a + b \<le> n \<Longrightarrow> grows_by n u w"
  by (blast intro: grows_by_mono grows_by_trans)

lemma grows_by_call: "call e f w = (x, w') \<Longrightarrow> grows_by 1 w w'"
  by (drule call_log) (simp add: grows_by_def)

lemma grows_by_get: "call_get kind f k w = (x, w') \<Longrightarrow> grows_by 1 w w'"
  by (drule call_get_log) (simp add: grows_by_def)

lemma grows_by_emit: "grows_by (Suc n) w (emit e w)"
  by (simp add: grows_by_def)

lemma grows_by_unstructured: "read_unstructured rd gvk k w = (x, w') \<Longrightarrow> grows_by 1 w w'"
  unfolding read_unstructured_def by (rule grows_by_get)

subsection \<open>The validations\<close>

lemma validateTenant_bound: "validateTenant L r p w = (x, p', w') \<Longrightarrow> grows_by 1 w w'"
  by (auto simp: validateTenant_def Let_def split: if_splits prod.splits sum.splits dest: grows_by_get)

lemma detect_resources_bound: "detect_resources lookup rs w = (x, w') \<Longrightarrow> grows_by (length rs) w w'"
proof (induction rs arbitrary: w)
  case (Cons r rs)
  obtain y w1 where c: "call (DiscoverE (ar_groupVersion r) (ar_resource r)) (lookup r) w = (y, w1)" by fastforce
  note one = grows_by_call [OF c]
  have "grows_by (length (r # rs)) w w1" using one by (rule grows_by_mono) simp
  moreover have "grows_by (length (r # rs)) w w'" if "detect_resources lookup rs w1 = (x, w')"
    using one Cons.IH [OF that] by (rule grows_by_then) simp
  ultimately show ?case using Cons.prems c by (auto split: sum.splits if_splits)
qed simp

lemma required_resources: "RequirementFor f = Some rq \<Longrightarrow> length (rq_resources rq) \<le> 2"
  by (cases f) (auto simp: RequirementFor_def requirements_def)

lemma Detect_bound: "RequirementFor f = Some rq \<Longrightarrow> Detect lookup rq w = (x, w') \<Longrightarrow> grows_by 2 w w'"
  by (auto simp: Detect_def split: prod.splits
      dest!: detect_resources_bound required_resources intro: grows_by_mono)

lemma resolve_reference_bound:
  assumes "resolve_reference L r reader p reference w = (x, w')"
  shows "grows_by 3 w w'"
proof -
  obtain a w1 where 1: "read_unstructured reader externalSecretGVK (w_namespace p, es_externalSecret reference) w = (a, w1)"
    by fastforce
  have g1: "grows_by 3 w w1" using grows_by_unstructured [OF 1] by (rule grows_by_mono) simp
  have g2: "grows_by 3 w w2" if "read_unstructured reader secretStoreGVK (w_namespace p, s) w1 = (b, w2)" for s b w2
    using grows_by_unstructured [OF 1] grows_by_unstructured [OF that] by (rule grows_by_then) simp
  have g3: "grows_by 3 w w3" if "read_unstructured reader secretStoreGVK (w_namespace p, s) w1 = (b, w2)"
      "call_get ''Secret'' (cl_getSecretMetadata (rc_client r)) k w2 = (c, w3)" for s b w2 k c w3
    using grows_by_trans [OF grows_by_unstructured [OF 1] grows_by_unstructured [OF that(1)]] grows_by_get [OF that(2)]
    by (rule grows_by_then) simp
  show ?thesis
    using assms 1 g1 g2 g3 unfolding resolve_reference_def
    by (auto split: if_splits sum.splits prod.splits)
qed

lemma resolve_references_bound:
  "resolve_references L r reader p references w = (x, w') \<Longrightarrow> grows_by (3 * length references) w w'"
proof (induction references arbitrary: w x w')
  case (Cons reference references)
  obtain y w1 where 1: "resolve_reference L r reader p reference w = (y, w1)" by fastforce
  obtain z w2 where 2: "resolve_references L r reader p references w1 = (z, w2)" by fastforce
  note one = resolve_reference_bound [OF 1]
  have "grows_by (3 * length (reference # references)) w w1" using one by (rule grows_by_mono) simp
  moreover have "grows_by (3 * length (reference # references)) w w2"
    using one Cons.IH [OF 2] by (rule grows_by_then) simp
  ultimately show ?case using Cons.prems 1 2 by (auto split: sum.splits)
qed simp

lemma validateExternalSecrets_bound:
  assumes "validateExternalSecrets L r p w = (x, p', w')"
  shows "grows_by (2 + 3 * length (sp_externalSecrets (w_spec p))) w w'"
proof -
  let ?n = "2 + 3 * length (sp_externalSecrets (w_spec p))"
  have detect: "grows_by 2 w w1" if "RequirementFor f = Some rq" "Detect lookup rq w = (o', w1)" for f rq lookup o' w1
    using that by (rule Detect_bound)
  have early: "grows_by ?n w w1" if "RequirementFor f = Some rq" "Detect lookup rq w = (o', w1)" for f rq lookup o' w1
    using detect [OF that] by (rule grows_by_mono) simp
  have late: "grows_by ?n w w2"
    if "RequirementFor f = Some rq" "Detect lookup rq w = (o', w1)"
      "resolve_references L r reader p (sp_externalSecrets (w_spec p)) w1 = (y, w2)" for f rq lookup o' w1 w2 reader y
    using detect [OF that(1,2)] resolve_references_bound [OF that(3)] by (rule grows_by_then) simp
  show ?thesis
    using assms early late unfolding validateExternalSecrets_def Let_def
    by (auto split: if_splits option.splits prod.splits sum.splits)
qed

lemma validateExposure_bound:
  assumes "validateExposure L r p w = (x, p', w')"
  shows "grows_by 3 w w'"
proof -
  have early: "grows_by 3 w w1" if "RequirementFor f = Some rq" "Detect lookup rq w = (o', w1)" for f rq lookup o' w1
    using Detect_bound [OF that] by (rule grows_by_mono) simp
  have late: "grows_by 3 w w2"
    if "RequirementFor f = Some rq" "Detect lookup rq w = (o', w1)" "read_unstructured rd gvk k w1 = (y, w2)"
    for f rq lookup o' w1 w2 rd gvk k y
    using Detect_bound [OF that(1,2)] grows_by_unstructured [OF that(3)] by (rule grows_by_then) simp
  show ?thesis
    using assms early late unfolding validateExposure_def Let_def
    by (auto split: if_splits option.splits prod.splits sum.splits)
qed

lemma observeExposure_bound: "observeExposure L r state p w = (x, p', w') \<Longrightarrow> grows_by 1 w w'"
  unfolding observeExposure_def Let_def
  by (auto split: if_splits option.splits prod.splits sum.splits dest: grows_by_unstructured)

subsection \<open>Workloads within the limits of the schema\<close>

abbreviation admitted :: "lib \<Rightarrow> AIWorkload \<Rightarrow> bool" where
  "admitted M p \<equiv> spec_admitted M (w_spec p)"

lemma admitted_limits:
  assumes "admitted M p"
  shows "length (sp_secretRefs (w_spec p)) \<le> 32" and "length (sp_externalSecrets (w_spec p)) \<le> 16"
  using assms by (simp_all add: spec_admitted_def)

text \<open>
  The API server stores only what its schema admits: a workload that is read is admitted, and so is the
  workload that a patch of the status of an admitted one leaves behind.
\<close>

definition serves_admitted :: "lib \<Rightarrow> 's client \<Rightarrow> bool" where
  "serves_admitted L c =
     ((\<forall>s k p s'. cl_getWorkload c s k = (Inr p, s') \<longrightarrow> admitted L p)
      \<and> (\<forall>s before after left s'. cl_patchStatus c s before after = ((None, left), s') \<longrightarrow>
           admitted L after \<longrightarrow> admitted L left))"

lemma patchStatus_bound:
  assumes "patchStatus L r before after w = (x, p', w')"
  shows "grows_by 3 w w'"
proof -
  obtain a w1 where 1: "patch_status_call r before after w = (a, w1)" by fastforce
  note g1 = grows_by_call [OF 1 [unfolded patch_status_call_def]]
  have e1: "grows_by 3 w w1" using g1 by (rule grows_by_mono) simp
  have g2: "grows_by 2 w w2" if "call_get ''AIWorkload'' f k w1 = (b, w2)" for f k b w2
    using g1 grows_by_get [OF that] by (rule grows_by_then) simp
  have e2: "grows_by 3 w w2" if "call_get ''AIWorkload'' f k w1 = (b, w2)" for f k b w2
    using g2 [OF that] by (rule grows_by_mono) simp
  have e3: "grows_by 3 w w3" if "call_get ''AIWorkload'' f k w1 = (b, w2)" "patch_status_call r y z w2 = (c, w3)"
    for f k b w2 y z c w3
    using g2 [OF that(1)] grows_by_call [OF that(2) [unfolded patch_status_call_def]] by (rule grows_by_then) simp
  show ?thesis
    using assms 1 e1 e2 e3 unfolding patchStatus_def Let_def
    by (auto split: if_splits option.splits prod.splits sum.splits)
qed

lemma patchStatus_admitted:
  assumes "workload_client_laws (rc_client r)" and "serves_admitted M (rc_client r)" and "admitted M after"
    and "patchStatus L r before after w = (x, p', w')"
  shows "admitted M p'"
proof -
  have "admitted M q" if "patch_status_call r before after w = ((e, q), w1)" for e q w1
  proof (cases e)
    case None
    with that obtain s where "cl_patchStatus (rc_client r) (wd_env w) before after = ((None, q), s)"
      by (auto simp: patch_status_call_def call_def split: prod.splits)
    with assms(2,3) show ?thesis unfolding serves_admitted_def by blast
  next
    case (Some err)
    with patch_status_call_left(3) [OF assms(1) that] assms(3) show ?thesis by simp
  qed
  with patchStatus_cases [OF assms(4)] assms(3) show ?thesis by metis
qed

context condition_owner
begin

lemma validated_bound:
  assumes "workload_client_laws (rc_client r)" and "serves_admitted M (rc_client r)" and "admitted M p"
    and "\<And>x p' w'. step p w = (x, p', w') \<Longrightarrow> grows_by n w w'" and "validate_and_patch L r step p w = (x, p', w')"
  shows "grows_by (n + 3) w w' \<and> admitted M p'"
proof -
  obtain y p1 w1 where v: "step p w = (y, p1, w1)" by (metis prod.exhaust)
  obtain z p2 w2 where c: "patchStatus L r p p1 w1 = (z, p2, w2)" by (metis prod.exhaust)
  have "admitted M p1" using assms(3) keeps_desired(2) [OF v] by simp
  moreover from patchStatus_admitted [OF assms(1,2) this c] have "admitted M p2" .
  moreover have "grows_by (n + 3) w w1" using assms(4) [OF v] by (rule grows_by_mono) simp
  moreover have "grows_by (n + 3) w w2" using assms(4) [OF v] patchStatus_bound [OF c] by (rule grows_by_trans)
  ultimately show ?thesis using assms(5) v c by (auto simp: validate_and_patch_def split: sum.splits)
qed

end

subsection \<open>The stages\<close>

lemma prepare_bound:
  assumes "workload_client_laws (rc_client r)" and "serves_admitted M (rc_client r)" and "admitted M p"
    and "prepare L r p w = (x, p', w')"
  shows "grows_by 63 w w' \<and> admitted M p'"
proof -
  obtain a p1 w1 where 1: "validate_and_patch L r (validateTenant L r) p w = (a, p1, w1)" by (metis prod.exhaust)
  obtain b p2 w2 where 2: "validate_and_patch L r (validateExternalSecrets L r) p1 w1 = (b, p2, w2)"
    by (metis prod.exhaust)
  obtain c p3 w3 where 3: "validate_and_patch L r (validateExposure L r) p2 w2 = (c, p3, w3)" by (metis prod.exhaust)
  have b1: "grows_by (1 + 3) w w1 \<and> admitted M p1"
    by (rule tenant.validated_bound [OF assms(1-3) _ 1]) (rule validateTenant_bound)
  then have s1: "admitted M p1" by simp
  have "2 + 3 * length (sp_externalSecrets (w_spec p1)) \<le> 50" using admitted_limits(2) [OF s1] by simp
  then have b2: "grows_by (50 + 3) w1 w2 \<and> admitted M p2"
    by (intro external.validated_bound [OF assms(1,2) s1 _ 2]) (blast intro: grows_by_mono validateExternalSecrets_bound)
  then have s2: "admitted M p2" by simp
  have b3: "grows_by (3 + 3) w2 w3 \<and> admitted M p3"
    by (rule exposure_gate.validated_bound [OF assms(1,2) s2 _ 3]) (rule validateExposure_bound)
  have g2: "grows_by 57 w w2" using b1 b2 by (auto intro: grows_by_then)
  have g3: "grows_by 63 w w3" using g2 b3 by (auto intro: grows_by_then)
  show ?thesis
    using assms(4) 1 2 3 s1 s2 b1 b3 g2 g3
    by (auto simp: prepare_def split: sum.splits intro: grows_by_mono)
qed

lemma apply_plan_bound: "apply_plan L r p plan w = (x, w') \<Longrightarrow> grows_by (3 * length plan) w w'"
proof (induction plan arbitrary: w)
  case (Cons i plan)
  obtain y w1 where a: "Apply L (rc_client r) p i w = (y, w1)" by fastforce
  from Apply_trace [OF a] have "grows_by 2 w w1" by (auto simp: grows_by_def apply_trace_def)
  moreover have "grows_by 1 w1 (record_resource r i t w1)" for t
    by (simp add: record_resource_def grows_by_emit)
  ultimately have one: "grows_by 3 w (record_resource r i t w1)" for t by (rule grows_by_then) simp
  have "grows_by (3 * length (i # plan)) w (record_resource r i t w1)" for t using one by (rule grows_by_mono) simp
  moreover have "grows_by (3 * length (i # plan)) w w'"
    if "apply_plan L r p plan (record_resource r i t w1) = (x, w')" for t
    using one Cons.IH [OF that] by (rule grows_by_then) simp
  ultimately show ?case using Cons.prems a by (auto split: sum.splits)
qed simp

lemma check_secrets_bound: "check_secrets c ns names w = (x, w') \<Longrightarrow> grows_by (length names) w w'"
proof (induction names arbitrary: w)
  case (Cons n names)
  obtain y w1 where g: "call_get ''Secret'' (cl_getSecretMetadata c) (ns, n) w = (y, w1)" by fastforce
  note one = grows_by_get [OF g]
  have "grows_by (length (n # names)) w w1" using one by (rule grows_by_mono) simp
  moreover have "grows_by (length (n # names)) w w'" if "check_secrets c ns names w1 = (x, w')"
    using one Cons.IH [OF that] by (rule grows_by_then) simp
  ultimately show ?case using Cons.prems g by (auto split: sum.splits if_splits)
qed simp

lemma converge_bound:
  assumes "admitted M p" and "converge L r (Build L) p external exposure w = (x, w')"
  shows "grows_by 53 w w'"
proof (cases "build_plan L (Build L) p external exposure")
  case (Inl e)
  with assms(2) show ?thesis by (simp add: converge_def)
next
  case (Inr plan)
  obtain y w1 where a: "apply_plan L r p plan w = (y, w1)" by fastforce
  obtain z w2 where s: "validateSecretReferences r p w1 = (z, w2)" by fastforce
  have "length plan \<le> 7" using arg_cong [OF build_plan_kinds [OF Inr], of length] by (auto split: if_splits)
  then have one: "grows_by 21 w w1" by (intro grows_by_mono [OF apply_plan_bound [OF a]]) simp
  have "grows_by 32 w1 w2"
    using check_secrets_bound [OF s [unfolded validateSecretReferences_def]] admitted_limits(1) [OF assms(1)]
    by (auto intro: grows_by_mono)
  with one have "grows_by 53 w w2" by (rule grows_by_then) simp
  moreover from one have "grows_by 53 w w1" by (rule grows_by_mono) simp
  ultimately show ?thesis using assms(2) Inr a s by (auto simp: converge_def split: option.splits)
qed

lemma reportFailure_bound:
  assumes "reportFailure L r p e w = (x, w')"
  shows "grows_by 5 w w'"
proof -
  obtain y q w1 where c: "patchStatus L r p (failure_status L p e) w = (y, q, w1)" by (metis prod.exhaust)
  note one = patchStatus_bound [OF c]
  have within: "grows_by 5 w v" if "grows_by 2 w1 v" for v using one that by (rule grows_by_then) simp
  have "grows_by 2 w1 (emit b (emit a w1))" for a b by (simp add: grows_by_def)
  then have "grows_by 5 w w1" "grows_by 5 w (emit a w1)" "grows_by 5 w (emit b (emit a w1))" for a b
    using within grows_by_emit [of 1 w1] by (simp_all add: numeral_2_eq_2)
  with assms c show ?thesis
    by (auto simp: reportFailure_def Let_def split: sum.splits prod.splits if_splits simp del: retryError.simps)
qed

lemma observe_step_bound:
  "observeAutoscaling L r p w = (x, p', w') \<Longrightarrow> grows_by 1 w w'"
  "observeAvailability L r p w = (x, p', w') \<Longrightarrow> grows_by 1 w w'"
  by (auto simp: observeAutoscaling_def observeAvailability_def split: if_splits sum.splits prod.splits option.splits
      dest: grows_by_get)

lemma observeAndReportStatus_bound:
  assumes "observeAndReportStatus L r p w = (x, p', w')"
  shows "grows_by 7 w w'"
proof -
  obtain d w1 where 1: "call_get ''Deployment'' (cl_getDeployment (rc_client r)) (child_key p) w = (d, w1)" by fastforce
  obtain a p2 w2 where 2: "observeAutoscaling L r p w1 = (a, p2, w2)" by (metis prod.exhaust)
  obtain b p3 w3 where 3: "observeAvailability L r p2 w2 = (b, p3, w3)" by (metis prod.exhaust)
  note g1 = grows_by_get [OF 1]
  have g2: "grows_by 2 w w2" using g1 observe_step_bound(1) [OF 2] by (rule grows_by_then) simp
  have g3: "grows_by 3 w w3" using g2 observe_step_bound(2) [OF 3] by (rule grows_by_then) simp
  have g4: "grows_by 6 w w4" if "patchStatus L r p q w3 = (y, p4, w4)" for q y p4 w4
    using g3 patchStatus_bound [OF that] by (rule grows_by_then) simp
  have g5: "grows_by 7 w (emit e w4)" if "patchStatus L r p q w3 = (y, p4, w4)" for q y p4 w4 e
    using g4 [OF that] grows_by_emit [of 0] by (rule grows_by_then) simp
  from g1 g2 g3 have "grows_by 7 w w1" "grows_by 7 w w2" "grows_by 7 w w3" by (auto intro: grows_by_mono)
  moreover have "grows_by 7 w w4" if "patchStatus L r p q w3 = (y, p4, w4)" for q y p4 w4
    using g4 [OF that] by (rule grows_by_mono) simp
  ultimately show ?thesis
    using assms 1 2 3 g5 unfolding observeAndReportStatus_def Let_def
    by (auto split: sum.splits prod.splits if_splits)
qed

lemma observe_bound:
  assumes "workload_client_laws (rc_client r)" and "serves_admitted M (rc_client r)" and "admitted M p"
    and "observe L r exposure p w = (x, w')"
  shows "grows_by 16 w w'"
proof -
  obtain a p1 w1 where 1: "validate_and_patch L r (observeExposure L r exposure) p w = (a, p1, w1)"
    by (metis prod.exhaust)
  obtain b p2 w2 where 2: "observeAndReportStatus L r p1 w1 = (b, p2, w2)" by (metis prod.exhaust)
  have one: "grows_by (1 + 3) w w1"
    using exposure_observer.validated_bound [OF assms(1-3) _ 1] observeExposure_bound by blast
  have two: "grows_by 11 w w2" using one observeAndReportStatus_bound [OF 2] by (rule grows_by_then) simp
  have "grows_by 16 w v" if "reportFailure L r p1 e w1 = (y, v)" for e y v
    using one reportFailure_bound [OF that] by (rule grows_by_then) simp
  moreover have "grows_by 16 w v" if "reportFailure L r p2 e w2 = (y, v)" for e y v
    using two reportFailure_bound [OF that] by (rule grows_by_then) simp
  moreover have "grows_by 16 w w2" using two by (rule grows_by_mono) simp
  ultimately show ?thesis using assms(4) 1 2 by (auto simp: observe_def split: sum.splits option.splits)
qed

subsection \<open>One reconciliation\<close>

lemma reconcile_from_bound:
  assumes "workload_client_laws (rc_client r)" and "serves_admitted M (rc_client r)" and "admitted M p"
    and "prepare L r p w = (a, p1, w1)"
  shows "reportFailure L r p1 e w1 = (y, v) \<Longrightarrow> grows_by 132 w v"
    and "converge L r (Build L) p1 external exposure w1 = (b, w2) \<Longrightarrow> grows_by 132 w w2"
    and "converge L r (Build L) p1 external exposure w1 = (b, w2) \<Longrightarrow> reportFailure L r p1 e w2 = (y, v) \<Longrightarrow>
      grows_by 132 w v"
    and "converge L r (Build L) p1 external exposure w1 = (b, w2) \<Longrightarrow> observe L r exposure p1 w2 = (y, v) \<Longrightarrow>
      grows_by 132 w v"
proof -
  from prepare_bound [OF assms] have p: "grows_by 63 w w1" and p1: "admitted M p1" by simp_all
  show "grows_by 132 w v" if "reportFailure L r p1 e w1 = (y, v)"
    using p reportFailure_bound [OF that] by (rule grows_by_then) simp
  have c: "grows_by 116 w w2" if "converge L r (Build L) p1 external exposure w1 = (b, w2)"
    using p converge_bound [OF p1 that] by (rule grows_by_then) simp
  then show "grows_by 132 w w2" if "converge L r (Build L) p1 external exposure w1 = (b, w2)"
    by (rule grows_by_mono) (simp_all add: that)
  show "grows_by 132 w v" if "converge L r (Build L) p1 external exposure w1 = (b, w2)"
    "reportFailure L r p1 e w2 = (y, v)"
    using c [OF that(1)] reportFailure_bound [OF that(2)] by (rule grows_by_then) simp
  show "grows_by 132 w v" if "converge L r (Build L) p1 external exposure w1 = (b, w2)"
    "observe L r exposure p1 w2 = (y, v)"
    using c [OF that(1)] observe_bound [OF assms(1,2) p1 that(2)] by (rule grows_by_then) simp
qed

text \<open>
  C16. A reconciliation is bounded work: whatever the API server answers to any call, errors and conflicts
  included, one run of \<open>Reconcile\<close> returns after at most 133 calls, events and metrics (one read of the
  workload, 63 entries for the three validations, 53 for building, applying and checking the Secrets, 16
  for observing and reporting). The number follows from the limits of the schema on the lists of a
  workload; no error makes the controller retry without returning to the work queue.
\<close>

theorem reconcile_call_bound:
  assumes "workload_client_laws (rc_client r)" and "serves_admitted M (rc_client r)"
    and "rc_builder r = Some (Build L)"
  shows "\<exists>es. wd_log (snd (Reconcile L r req w)) = wd_log w @ es \<and> length es \<le> 133"
proof -
  obtain a w1 where g: "call_get ''AIWorkload'' (cl_getWorkload (rc_client r)) req w = (a, w1)" by fastforce
  note one = grows_by_get [OF g]
  then have early: "grows_by 133 w w1" by (rule grows_by_mono) simp
  have late: "grows_by 133 w v" if "grows_by 132 w1 v" for v using one that by (rule grows_by_then) simp
  have "admitted M p" if "a = Inr p" for p
  proof -
    from g that obtain s where "cl_getWorkload (rc_client r) (wd_env w) req = (Inr p, s)"
      by (auto simp: call_get_def call_def split: prod.splits)
    with assms(2) show ?thesis unfolding serves_admitted_def by blast
  qed
  note stages = late [OF reconcile_from_bound(1) [OF assms(1,2) this]] late [OF reconcile_from_bound(2) [OF assms(1,2) this]]
    late [OF reconcile_from_bound(3) [OF assms(1,2) this]] late [OF reconcile_from_bound(4) [OF assms(1,2) this]]
  obtain result w' where run: "Reconcile L r req w = (result, w')" by fastforce
  then have "grows_by 133 w w'"
    using g early assms(3) stages unfolding Reconcile_def
    by (cases result) (auto split: sum.splits option.splits prod.splits if_splits)
  with run have "grows_by 133 w (snd (Reconcile L r req w))" by simp
  then show ?thesis unfolding grows_by_def .
qed

text \<open>On the server in memory, a run for a workload that is there.\<close>

lemma memory_serves_admitted: "admitted M p \<Longrightarrow> serves_admitted M (memory_client p)"
  by (auto simp: serves_admitted_def memory_client_def split: if_splits)

theorem reconcile_call_bound_witness:
  "cl_getWorkload (memory_client example_workload) (wd_env empty_world) (''team-a'', ''model'') =
     (Inr example_workload, wd_env empty_world)
   \<and> length (wd_log (snd (Reconcile example_lib (memory_reconciler example_workload) (''team-a'', ''model'') empty_world))) \<le> 133"
proof -
  have "workload_client_laws (rc_client (memory_reconciler example_workload))"
    "serves_admitted example_lib (rc_client (memory_reconciler example_workload))"
    "rc_builder (memory_reconciler example_workload) = Some (Build example_lib)"
    using memory_workload memory_serves_admitted [OF example_admitted] by (simp, simp) (simp add: memory_reconciler_def)
  from reconcile_call_bound [OF this, of "(''team-a'', ''model'')" empty_world] show ?thesis
    by (auto simp: memory_client_def example_workload_def empty_world_def)
qed

end
