(* ===== verification/Interleaving.thy ===== *)
theory Interleaving
  imports Correct_Cluster
begin

text \<open>
  Many reconciliations at once. The controller works on several workloads concurrently, two managers may
  overlap while a lease changes hands, and other writers are active all the time; what is atomic is only
  the single call that the API server serves. A run of the cluster is therefore a sequence of served calls,
  each of them a call of some reconciliation of some workload (which may have read anything before, also
  something that is outdated by now), interleaved with arbitrary steps of other writers.
\<close>

text \<open>\<open>e\<close> is a call that \<open>Reconcile\<close> makes for the workload \<open>p\<close> in some world.\<close>

definition reconcile_call :: "lib \<Rightarrow> 's reconciler \<Rightarrow> AIWorkload \<Rightarrow> effect \<Rightarrow> bool" where
  "reconcile_call L r p e =
     (\<exists>req w s es. cl_getWorkload (rc_client r) (wd_env w) req = (Inr p, s)
        \<and> wd_log (snd (Reconcile L r req w)) = wd_log w @ es \<and> e \<in> set es)"

inductive cluster_run ::
  "lib \<Rightarrow> 's reconciler \<Rightarrow> (AIWorkload \<Rightarrow> bool) \<Rightarrow> (store \<Rightarrow> store \<Rightarrow> bool) \<Rightarrow> store \<Rightarrow> store \<Rightarrow> bool"
  for L r managed others where
  start: "cluster_run L r managed others s s"
| called: "cluster_run L r managed others s0 s \<Longrightarrow> managed p \<Longrightarrow> reconcile_call L r p e \<Longrightarrow> serves e s s' \<Longrightarrow>
     cluster_run L r managed others s0 s'"
| other: "cluster_run L r managed others s0 s \<Longrightarrow> others s s' \<Longrightarrow> cluster_run L r managed others s0 s'"

inductive_cases cluster_runE: "cluster_run L r managed others s0 s"

text \<open>A slot in which none of the workloads has anything: not its child name, or an object it does not control.\<close>

definition outside :: "lib \<Rightarrow> (AIWorkload \<Rightarrow> bool) \<Rightarrow> object_key \<Rightarrow> client_object option \<Rightarrow> bool" where
  "outside L managed k slot =
     (\<forall>p. managed p \<longrightarrow> (case slot of None \<Rightarrow> k \<noteq> child_key p | Some ob \<Rightarrow> \<not> owns L p ob))"

text \<open>An object has at most one controller, so a child of one workload is outside for all others.\<close>

lemma owns_unique: "owns L p ob \<Longrightarrow> owns L q ob \<Longrightarrow> w_uid p = w_uid q \<and> workload_key p = workload_key q"
  by (auto simp: owns_def split: option.splits)

lemma child_outside:
  assumes "owns L q ob" and "\<And>p. managed p \<Longrightarrow> w_uid p \<noteq> w_uid q"
  shows "outside L managed k (Some ob)"
proof -
  have "\<not> owns L p ob" if "managed p" for p using owns_unique [OF assms(1)] assms(2) [OF that] by metis
  then show ?thesis by (simp add: outside_def)
qed

lemma reconcile_call_changes:
  assumes "workload_client_laws (rc_client r)" and "controller_reference_laws L"
    and "reconcile_call L r p e" and "serves e s s'" and "s' t k \<noteq> s t k"
  shows "own_change L p k (s t k) (s' t k)"
proof -
  from assms(3) obtain req w s1 es where read: "cl_getWorkload (rc_client r) (wd_env w) req = (Inr p, s1)"
    and es: "wd_log (snd (Reconcile L r req w)) = wd_log w @ es" "e \<in> set es"
    unfolding reconcile_call_def by blast
  obtain res w' where run: "Reconcile L r req w = (res, w')" by fastforce
  from Reconcile_effects [OF assms(1) run read] run es have "reconcile_effect L p e"
    by (auto simp: adds_def list_all_iff)
  then show ?thesis using served_reconcile_effect [OF assms(2) _ assms(4,5)] by blast
qed

text \<open>
  C5. Bystanders are never touched: along every run of the cluster, however many reconciliations are
  interleaved with each other and with other writers, a slot that is outside for all reconciled workloads
  (a free name that is not their child name, an object nobody or somebody else controls, in particular a
  child of a workload with another UID) holds what it held at the beginning, unless another writer has
  changed it.
\<close>

theorem bystanders_untouched:
  assumes "workload_client_laws (rc_client r)" and "controller_reference_laws L"
    and "cluster_run L r managed others s0 s" and "\<forall>a b. others a b \<longrightarrow> b t k = a t k"
    and "outside L managed k (s0 t k)"
  shows "s t k = s0 t k"
  using assms(3,5)
proof (induction rule: cluster_run.induct)
  case (called s0 s p e s')
  then have same: "s t k = s0 t k" by simp
  show ?case
  proof (cases "s' t k = s t k")
    case False
    from reconcile_call_changes [OF assms(1,2) called.hyps(3,4) False]
    have "own_change L p k (s0 t k) (s' t k)" by (simp add: same)
    with called.hyps(2) called.prems show ?thesis by (auto simp: own_change_def outside_def split: option.splits)
  qed (simp add: same)
next
  case (other s0 s s')
  with assms(4) show ?case by metis
qed simp

text \<open>
  A ServiceAccount of the same name in another namespace, while a reconciliation of the example workload
  creates its own.
\<close>

definition bystander :: client_object where
  "bystander = ServiceAccountObj (zero_service_account (named_meta (ChildName ''model'') ''team-b''))"

theorem bystanders_untouched_witness:
  "let s0 = put bystander (Some bystander) (\<lambda>t k. None); s = put example_account (Some example_account) s0 in
   s0 \<noteq> s \<and> cluster_run example_lib account_reconciler (\<lambda>p. p = example_workload) (\<lambda>a b. False) s0 s
   \<and> s ServiceAccountType (key_of bystander) = Some bystander"
proof -
  let ?before = "put bystander (Some bystander) (\<lambda>t k. None)" and ?managed = "\<lambda>p. p = example_workload"
  let ?after = "put example_account (Some example_account) ?before"
  have slots: "obj_type bystander = ServiceAccountType" "obj_type example_account = ServiceAccountType"
    "key_of bystander = (''team-b'', ChildName ''model'')" "key_of example_account = (''team-a'', ChildName ''model'')"
    by (simp_all add: bystander_def example_account_def zero_service_account_def)
  obtain res w' where rec: "Reconcile example_lib account_reconciler (''team-a'', ''model'') example_world = (res, w')"
    and mem: "CreateE example_account \<in> set (wd_log w')" by (rule example_creates)
  then have call: "reconcile_call example_lib account_reconciler example_workload (CreateE example_account)"
    unfolding reconcile_call_def using example_stored_read
    by (intro exI [of _ "(''team-a'', ''model'')"] exI [of _ example_world] exI [of _ "wd_env example_world"] exI [of _ "wd_log w'"])
      (simp add: example_world_def)
  have free: "?before ServiceAccountType (child_key example_workload) = None"
    using slots by (simp add: put_def)
  have run: "cluster_run example_lib account_reconciler ?managed (\<lambda>a b. False) ?before ?after"
    using cluster_run.called [OF cluster_run.start _ call example_account_served [where s = ?before, OF free]] by simp
  have held: "?before ServiceAccountType (key_of bystander) = Some bystander" by (metis slots(1) put_simps(1))
  have "\<not> owns example_lib example_workload bystander"
    by (simp add: owns_def bystander_def zero_service_account_def)
  with held have "outside example_lib ?managed (key_of bystander) (?before ServiceAccountType (key_of bystander))"
    by (simp add: outside_def)
  from bystanders_untouched [OF example_laws example_references run _ this] held
  have "?after ServiceAccountType (key_of bystander) = Some bystander" by simp
  moreover have "?before \<noteq> ?after" using free slots
    by (metis option.distinct(1) put_simps(1) example_workload_simps)
  ultimately show ?thesis using run by (simp add: Let_def)
qed

end
