(* ===== verification/Steady.thy ===== *)
theory Steady
  imports Correct_Cluster
begin

text \<open>
  The steady state of a reconciliation, its status included. In a cluster in which nobody else writes, what
  the controller reads depends only on a \<open>view\<close> that a patch of the status does not change. Every step that
  owns a condition then finds, in the next run, that its condition is already there.
\<close>

subsection \<open>A cluster at rest\<close>

text \<open>A read that changes nothing and whose answer depends only on the view.\<close>

definition steady_getter :: "('s \<Rightarrow> 'v) \<Rightarrow> ('s, 'a) getter \<Rightarrow> bool" where
  "steady_getter view g =
     (\<forall>s k. snd (g s k) = s \<and> (\<forall>s'. view s' = view s \<longrightarrow> fst (g s' k) = fst (g s k)))"

definition steady_lookup :: "('s \<Rightarrow> 'v) \<Rightarrow> 's resource_lookup \<Rightarrow> bool" where
  "steady_lookup view lookup =
     (\<forall>res s. snd (lookup res s) = s \<and> (\<forall>s'. view s' = view s \<longrightarrow> fst (lookup res s') = fst (lookup res s)))"

text \<open>
  What the controller reads besides the children, and the children that it observes.
\<close>

definition steady_inputs :: "'s reconciler \<Rightarrow> ('s \<Rightarrow> 'v) \<Rightarrow> bool" where
  "steady_inputs r view =
     (steady_getter view (rd_getConfigMapData (reader_or_client (rc_tenantReader r) (rc_client r)))
      \<and> (\<forall>gvk. steady_getter view (rd_getUnstructured (reader_or_client (rc_externalSecretsReader r) (rc_client r)) gvk))
      \<and> steady_getter view (rd_getUnstructured (reader_or_client (rc_gatewayReader r) (rc_client r)) gatewayGVK)
      \<and> steady_getter view (cl_getSecretMetadata (rc_client r))
      \<and> (case rc_capabilityLookup r of None \<Rightarrow> True | Some lookup \<Rightarrow> steady_lookup view lookup))"

definition steady_children :: "'s reconciler \<Rightarrow> ('s \<Rightarrow> 'v) \<Rightarrow> bool" where
  "steady_children r view =
     (steady_getter view (rd_getUnstructured (reader_or_client (rc_gatewayReader r) (rc_client r)) HTTPRouteGVK)
      \<and> steady_getter view (cl_getDeployment (rc_client r)) \<and> steady_getter view (cl_getHPA (rc_client r))
      \<and> steady_getter view (cl_getPDB (rc_client r)))"

text \<open>
  The stored workload: reading it changes nothing; a patch of its status from the stored version succeeds,
  leaves the view alone and stores the new status, with metadata that differs at most in what the server assigns.
\<close>

definition stored_as :: "AIWorkload \<Rightarrow> AIWorkload \<Rightarrow> bool" where
  "stored_as left after =
     (w_spec left = w_spec after \<and> w_status left = w_status after \<and> workload_key left = workload_key after
      \<and> w_uid left = w_uid after \<and> w_generation left = w_generation after
      \<and> m_deletionTimestamp (w_meta left) = m_deletionTimestamp (w_meta after))"

definition status_server :: "'s client \<Rightarrow> ('s \<Rightarrow> 'v) \<Rightarrow> bool" where
  "status_server c view =
     ((\<forall>s k. snd (cl_getWorkload c s k) = s)
      \<and> (\<forall>s before after. workload_key before = workload_key after \<longrightarrow> cl_getWorkload c s (workload_key after) = (Inr before, s) \<longrightarrow>
           (\<exists>left s'. cl_patchStatus c s before after = ((None, left), s') \<and> view s' = view s
           \<and> stored_as left after \<and> cl_getWorkload c s' (workload_key after) = (Inr left, s'))))"

text \<open>
  Setting a condition that is already there and removing one that is not there change nothing; the statuses
  of the model are compared as values.
\<close>

definition condition_noop_laws :: "lib \<Rightarrow> bool" where
  "condition_noop_laws L =
     (condition_laws L
      \<and> (\<forall>cs c. shows_condition L cs c \<longrightarrow> SetStatusCondition L cs c = cs)
      \<and> (\<forall>cs t. FindStatusCondition L cs t = None \<longrightarrow> RemoveStatusCondition L cs t = cs)
      \<and> (\<forall>a b. SemanticEqualStatus L a b \<longleftrightarrow> a = b))"

lemma set_condition_noop: "condition_noop_laws L \<Longrightarrow> reports L p t s r m \<Longrightarrow> set_condition L p t s r m = p"
  by (simp add: condition_noop_laws_def reports_def set_condition_def set_conditions_def)

lemma remove_condition_noop: "condition_noop_laws L \<Longrightarrow> condition_of L p t = None \<Longrightarrow> remove_condition L p t = p"
  by (simp add: condition_noop_laws_def condition_of_def remove_condition_def set_conditions_def)

text \<open>The part of a workload that the steps read, besides the conditions.\<close>

definition same_reads :: "AIWorkload \<Rightarrow> AIWorkload \<Rightarrow> bool" where
  "same_reads q p = (same_desired q p \<and> w_generation q = w_generation p)"

lemma same_readsD:
  "same_reads q p \<Longrightarrow> w_spec q = w_spec p" "same_reads q p \<Longrightarrow> w_name q = w_name p"
  "same_reads q p \<Longrightarrow> w_namespace q = w_namespace p" "same_reads q p \<Longrightarrow> w_generation q = w_generation p"
  "same_reads q p \<Longrightarrow> w_uid q = w_uid p"
  by (simp_all add: same_reads_def same_desired_def)

lemma same_reads_trans: "same_reads a b \<Longrightarrow> same_reads b c \<Longrightarrow> same_reads a c"
  by (simp add: same_reads_def same_desired_def)

lemma stored_as_reads: "stored_as left after \<Longrightarrow> same_reads left after"
  by (simp add: stored_as_def same_reads_def same_desired_def)

text \<open>A condition that a step has set is, on a workload that carries it, set to no effect.\<close>

lemma replayed_set:
  assumes "condition_noop_laws L" and "same_reads q p" and "condition_of L q t = condition_of L (set_condition L p t s r m) t"
  shows "set_condition L q t s r m = q"
proof -
  have laws: "condition_laws L" using assms(1) by (simp add: condition_noop_laws_def)
  from set_condition_reports [OF laws, of p t s r m] assms(3) obtain d where "condition_of L q t = Some d"
    and "same_condition d (condition_for (set_condition L p t s r m) t s r m)"
    by (auto simp: reports_condition_of)
  moreover have "condition_for (set_condition L p t s r m) t s r m = condition_for q t s r m"
    using same_readsD(4) [OF assms(2)] by (simp add: condition_for_def)
  ultimately have "reports L q t s r m" by (simp add: reports_condition_of)
  with assms(1) show ?thesis by (rule set_condition_noop)
qed

lemma replayed_remove:
  assumes "condition_noop_laws L" and "condition_of L q t = condition_of L (remove_condition L p t) t"
  shows "remove_condition L q t = q"
  using assms by (simp add: remove_condition_noop condition_of_remove condition_noop_laws_def)

subsection \<open>Reads\<close>

text \<open>The world after a read: the same state, one more entry in the log.\<close>

lemma steady_getterD:
  assumes "steady_getter view g"
  shows "snd (g s k) = s" and "view s' = view s \<Longrightarrow> fst (g s' k) = fst (g s k)"
  using assms unfolding steady_getter_def by blast+

lemma steady_get:
  assumes "steady_getter view g" and "call_get kind g k w = (x, w')"
  shows "wd_env w' = wd_env w" and "view (wd_env v) = view (wd_env w) \<Longrightarrow> \<exists>v'. call_get kind g k v = (x, v')"
proof -
  from assms(2) have w': "x = fst (g (wd_env w) k)" "wd_env w' = snd (g (wd_env w) k)"
    by (auto simp: call_get_def call_def split: prod.splits)
  with steady_getterD(1) [OF assms(1)] show "wd_env w' = wd_env w" by simp
  assume "view (wd_env v) = view (wd_env w)"
  with steady_getterD(2) [OF assms(1), of "wd_env v" "wd_env w" k] w'(1) have "fst (g (wd_env v) k) = x" by simp
  then show "\<exists>v'. call_get kind g k v = (x, v')" by (auto simp: call_get_def call_def split: prod.splits)
qed

text \<open>
  A step is replayed in a world: on the workload \<open>q\<close> it returns \<open>x\<close>, changes neither the workload nor the
  state, and makes only reads.
\<close>

definition idle :: "effect \<Rightarrow> bool" where
  "idle e = (case e of ReadE _ _ \<Rightarrow> True | DiscoverE _ _ \<Rightarrow> True | ResourceMetricE _ _ \<Rightarrow> True | _ \<Rightarrow> False)"

definition returns :: "('s world \<Rightarrow> 'a \<times> 's world) \<Rightarrow> 's world \<Rightarrow> 'a \<Rightarrow> bool" where
  "returns f v x = (\<exists>v'. f v = (x, v') \<and> wd_env v' = wd_env v \<and> adds idle v v')"

lemma returns_get:
  assumes "steady_getter view g" and "call_get kind g k w = (x, w')" and "view (wd_env v) = view (wd_env w)"
  shows "returns (call_get kind g k) v x"
proof -
  obtain v' where v': "call_get kind g k v = (x, v')" using steady_get(2) [OF assms] by blast
  moreover have "adds idle v v'" using call_get_log [OF v'] by (auto simp: adds_def idle_def)
  ultimately show ?thesis using steady_get(1) [OF assms(1) v'] by (auto simp: returns_def)
qed

lemma returnsE:
  assumes "returns f v x"
  obtains v' where "f v = (x, v')" and "wd_env v' = wd_env v" and "adds idle v v'"
  using assms unfolding returns_def by blast

lemma returnsI: "f v = (x, v') \<Longrightarrow> wd_env v' = wd_env v \<Longrightarrow> adds idle v v' \<Longrightarrow> returns f v x"
  by (auto simp: returns_def)

lemma returns_done [simp]: "returns (\<lambda>v. (x, v)) v x"
  by (simp add: returns_def)

text \<open>A computation that goes on after a part that returns.\<close>

lemma returns_bind:
  assumes "returns f v a" and "\<And>v'. wd_env v' = wd_env v \<Longrightarrow> returns (h a) v' x" and "\<And>v'. f v = (a, v') \<Longrightarrow> g v = h a v'"
  shows "returns g v x"
proof -
  from assms(1) obtain v1 where f: "f v = (a, v1)" "wd_env v1 = wd_env v" "adds idle v v1" by (rule returnsE)
  from assms(2) [OF f(2)] obtain v2 where h: "h a v1 = (x, v2)" "wd_env v2 = wd_env v1" "adds idle v1 v2" by (rule returnsE)
  from f h assms(3) [OF f(1)] show ?thesis by (intro returnsI [of _ _ _ v2]) (auto intro: adds_trans)
qed

lemma returns_detect:
  assumes "steady_lookup view lookup" and "detect_resources lookup rs w = (x, w')" and "view (wd_env v) = view (wd_env w)"
  shows "wd_env w' = wd_env w \<and> returns (detect_resources lookup rs) v x"
  using assms(2,3)
proof (induction rs arbitrary: w v)
  case Nil
  then show ?case by (simp add: returns_def)
next
  case (Cons res rs)
  have same: "snd (lookup res s) = s" "view s' = view s \<Longrightarrow> fst (lookup res s') = fst (lookup res s)" for s s'
    using assms(1) unfolding steady_lookup_def by blast+
  let ?e = "DiscoverE (ar_groupVersion res) (ar_resource res)"
  have run: "call ?e (lookup res) u = (fst (lookup res (wd_env u)), \<lparr>wd_env = wd_env u, wd_log = wd_log u @ [?e]\<rparr>)"
    for u using same(1) [of "wd_env u"] by (cases "lookup res (wd_env u)") (simp add: call_def)
  have answer: "fst (lookup res (wd_env v)) = fst (lookup res (wd_env w))" using same(2) Cons.prems(2) by blast
  have read: "adds idle u \<lparr>wd_env = wd_env u, wd_log = wd_log u @ [?e]\<rparr>" for u :: "'a world"
    by (simp add: adds_def idle_def)
  show ?case
  proof (cases "fst (lookup res (wd_env w))")
    case (Inr found)
    with Cons.prems(1) run [of w] answer run [of v] read [of v]
      Cons.IH [of "\<lparr>wd_env = wd_env w, wd_log = wd_log w @ [?e]\<rparr>" "\<lparr>wd_env = wd_env v, wd_log = wd_log v @ [?e]\<rparr>"]
      Cons.prems(2)
    show ?thesis by (cases found) (auto simp: returns_def intro: adds_trans)
  qed (use Cons.prems(1) run [of w] answer run [of v] read [of v] in \<open>auto simp: returns_def\<close>)
qed

lemma returns_Detect:
  assumes "steady_lookup view lookup" and "Detect lookup rq w = (x, w')" and "view (wd_env v) = view (wd_env w)"
  shows "wd_env w' = wd_env w" and "returns (Detect lookup rq) v x"
proof -
  obtain y w1 where d: "detect_resources lookup (rq_resources rq) w = (y, w1)" by fastforce
  note steady = returns_detect [OF assms(1) d assms(3)]
  with assms(2) d show "wd_env w' = wd_env w" by (auto simp: Detect_def split: prod.splits)
  from steady obtain v' where "detect_resources lookup (rq_resources rq) v = (y, v')" "wd_env v' = wd_env v" "adds idle v v'"
    by (auto elim: returnsE)
  with assms(2) d show "returns (Detect lookup rq) v x" by (auto simp: Detect_def returns_def split: prod.splits)
qed

subsection \<open>Steps in a cluster at rest\<close>

text \<open>The step, replayed on a workload: the same result, the workload and the state as they are, only reads.\<close>

definition step_returns :: "('s, 'a) workload_step \<Rightarrow> AIWorkload \<Rightarrow> 's world \<Rightarrow> 'a \<Rightarrow> bool" where
  "step_returns step q v x = (\<exists>v'. step q v = (Inr x, q, v') \<and> wd_env v' = wd_env v \<and> adds idle v v')"

lemma step_returnsI: "step q v = (Inr x, q, v') \<Longrightarrow> wd_env v' = wd_env v \<Longrightarrow> adds idle v v' \<Longrightarrow> step_returns step q v x"
  by (auto simp: step_returns_def)

lemma step_returnsE:
  assumes "step_returns step q v x"
  obtains v' where "step q v = (Inr x, q, v')" and "wd_env v' = wd_env v" and "adds idle v v'"
  using assms unfolding step_returns_def by blast

text \<open>The workload is the one the server has.\<close>

definition is_stored :: "'s client \<Rightarrow> AIWorkload \<Rightarrow> 's \<Rightarrow> bool" where
  "is_stored c p s = (cl_getWorkload c s (workload_key p) = (Inr p, s))"

lemma patchStatus_steady:
  assumes "condition_noop_laws L" and "status_server (rc_client r) view" and "is_stored (rc_client r) p (wd_env w)"
    and "w_meta p1 = w_meta p" and "w_spec p1 = w_spec p" and "patchStatus L r p p1 w = (Inr changed, p2, w2)"
  shows "stored_as p2 p1" and "is_stored (rc_client r) p2 (wd_env w2)" and "view (wd_env w2) = view (wd_env w)"
proof -
  have eq: "SemanticEqualStatus L a b \<longleftrightarrow> a = b" for a b using assms(1) by (simp add: condition_noop_laws_def)
  obtain left s' where patch: "cl_patchStatus (rc_client r) (wd_env w) p p1 = ((None, left), s')" "view s' = view (wd_env w)"
    "stored_as left p1" "cl_getWorkload (rc_client r) s' (workload_key p1) = (Inr left, s')"
    using assms(2-4) unfolding status_server_def is_stored_def by (metis (no_types, lifting))
  have "stored_as p2 p1 \<and> is_stored (rc_client r) p2 (wd_env w2) \<and> view (wd_env w2) = view (wd_env w)"
  proof (cases "w_status p = w_status p1")
    case True
    with assms(4,5) have "p1 = p" by simp
    with assms(3,6) show ?thesis by (auto simp: patchStatus_def eq stored_as_def)
  next
    case False
    with assms(6) patch(1) have "p2 = left" "wd_env w2 = s'"
      by (auto simp: patchStatus_def eq patch_status_call_def call_def split: if_splits)
    with patch show ?thesis by (simp add: is_stored_def stored_as_def)
  qed
  then show "stored_as p2 p1" "is_stored (rc_client r) p2 (wd_env w2)" "view (wd_env w2) = view (wd_env w)" by simp_all
qed

locale steady_step = condition_owner L ctype step
  for L :: lib and ctype :: string and step :: "('s, 'a) workload_step" +
  fixes r :: "'s reconciler"
    and view :: "'s \<Rightarrow> 'v"
    and rest :: bool
  assumes state: "rest \<Longrightarrow> step p w = (a, p', w') \<Longrightarrow> wd_env w' = wd_env w"
begin

text \<open>A run of the step with its patch, in a cluster at rest.\<close>

lemma validated_steady:
  assumes "condition_noop_laws L" and rest and "status_server (rc_client r) view"
    and "is_stored (rc_client r) p (wd_env w)" and "validate_and_patch L r step p w = (Inr x, p2, w2)"
  obtains p1 w1 where "step p w = (Inr x, p1, w1)" and "same_reads p2 p" and "same_reads p2 p1"
    and "m_deletionTimestamp (w_meta p2) = m_deletionTimestamp (w_meta p)"
    and "w_status p2 = w_status p1" and "\<And>t. t \<noteq> ctype \<Longrightarrow> condition_of L p2 t = condition_of L p t"
    and "is_stored (rc_client r) p2 (wd_env w2)" and "view (wd_env w2) = view (wd_env w)"
proof -
  from assms(5) obtain p1 w1 changed where s: "step p w = (Inr x, p1, w1)"
    and c: "patchStatus L r p p1 w1 = (Inr changed, p2, w2)"
    by (auto simp: validate_and_patch_def split: prod.splits sum.splits)
  note desired = keeps_desired [OF s] and env = state [OF assms(2) s]
  have cur: "is_stored (rc_client r) p (wd_env w1)" using assms(4) env by simp
  note patched = patchStatus_steady [OF assms(1,3) cur desired c]
  have status: "w_status p2 = w_status p1" using patched(1) by (simp add: stored_as_def)
  show ?thesis
  proof (rule that [OF s _ _ _ status _ patched(2)])
    show "same_reads p2 p1" using patched(1) by (rule stored_as_reads)
    then show "same_reads p2 p" using desired by (simp add: same_reads_def same_desired_def)
    show "m_deletionTimestamp (w_meta p2) = m_deletionTimestamp (w_meta p)"
      using patched(1) desired by (simp add: stored_as_def)
    show "condition_of L p2 t = condition_of L p t" if "t \<noteq> ctype" for t
      using keeps_other [OF s _ that] assms(1) status by (simp add: condition_noop_laws_def condition_of_def)
    show "view (wd_env w2) = view (wd_env w)" using patched(3) env by simp
  qed
qed

text \<open>A step that is replayed needs no patch.\<close>

lemma validated_replay:
  assumes "condition_noop_laws L" and "step_returns step q v x"
  shows "step_returns (validate_and_patch L r step) q v x"
proof -
  have "SemanticEqualStatus L (w_status q) (w_status q)" using assms(1) by (simp add: condition_noop_laws_def)
  with assms(2) show ?thesis by (auto simp: step_returns_def validate_and_patch_def patchStatus_def)
qed

end

locale steady_owner = steady_step L ctype step r view rest
  for L :: lib and ctype :: string and step :: "('s, 'a) workload_step" and r :: "'s reconciler" and view :: "'s \<Rightarrow> 'v"
    and rest :: bool +
  assumes replay: "condition_noop_laws L \<Longrightarrow> rest \<Longrightarrow> step p w = (Inr x, p', w') \<Longrightarrow> same_reads q p' \<Longrightarrow>
      condition_of L q ctype = condition_of L p' ctype \<Longrightarrow> view (wd_env v) = view (wd_env w) \<Longrightarrow> step_returns step q v x"

subsection \<open>The steps of the controller\<close>

interpretation steady_tenant: steady_owner L conditionTenantReady "validateTenant L r" r view "steady_inputs r view"
  for L and r :: "'s reconciler" and view :: "'s \<Rightarrow> 'v"
proof unfold_locales
  fix p w a p' w'
  assume "steady_inputs r view" "validateTenant L r p w = (a, p', w')"
  then show "wd_env w' = wd_env w"
    by (auto simp: validateTenant_def Let_def steady_inputs_def split: if_splits prod.splits sum.splits
        dest: steady_get(1))
next
  fix p w x p' w' q and v :: "'s world"
  assume laws: "condition_noop_laws L" and reads: "steady_inputs r view" and run: "validateTenant L r p w = (Inr x, p', w')"
    and q: "same_reads q p'" and c: "condition_of L q conditionTenantReady = condition_of L p' conditionTenantReady"
    and v: "view (wd_env v) = view (wd_env w)"
  have g: "steady_getter view (rd_getConfigMapData (reader_or_client (rc_tenantReader r) (rc_client r)))"
    using reads by (simp add: steady_inputs_def)
  show "step_returns (validateTenant L r) q v x"
  proof (cases "sp_tenant (w_spec p) = ''''")
    case True
    with run have p': "p' = remove_condition L p conditionTenantReady" by (simp add: validateTenant_def)
    with replayed_remove [OF laws] c have "remove_condition L q conditionTenantReady = q" by blast
    with True q p' show ?thesis by (simp add: step_returns_def validateTenant_def same_readsD)
  next
    case False
    from validateTenant_admits [OF run [unfolded unit_eq [of x]] False] obtain data where
      read: "call_get ''ConfigMap'' (rd_getConfigMapData (reader_or_client (rc_tenantReader r) (rc_client r)))
        (w_namespace p, tenantProfileConfigMap) w = (Inr data, w')" and ok: "tenant_admitted data (sp_tenant (w_spec p))"
      and p': "p' = set_condition L p conditionTenantReady ConditionTrue ''TenantConfigured''
                  ''The workload tenant matches the namespace-local GitOps profile.''" by blast
    have same: "same_reads q p" using q p' by (simp add: same_reads_def same_desired_def)
    from returns_get [OF g read v] obtain v' where v': "call_get ''ConfigMap'' (rd_getConfigMapData
        (reader_or_client (rc_tenantReader r) (rc_client r))) (w_namespace q, tenantProfileConfigMap) v = (Inr data, v')"
      "wd_env v' = wd_env v" "adds idle v v'"
      using same by (auto elim: returnsE simp: same_readsD)
    moreover have "set_condition L q conditionTenantReady ConditionTrue ''TenantConfigured''
        ''The workload tenant matches the namespace-local GitOps profile.'' = q"
      using replayed_set [OF laws same] c p' by blast
    ultimately show ?thesis
      using False ok same by (auto simp: step_returns_def validateTenant_def tenant_admitted_def same_readsD)
  qed
qed

text \<open>A step that reads one object and sets its condition by what it has read.\<close>

lemma reading_replay:
  assumes "condition_noop_laws L" and "steady_getter view g" and "call_get kind g k w = (y, w1)"
    and "view (wd_env v) = view (wd_env w)" and "same_reads q p'" and "p' = set_condition L p t s rs m"
    and "condition_of L q t = condition_of L p' t"
    and "\<And>v'. call_get kind g k v = (y, v') \<Longrightarrow> step q v = (Inr x, set_condition L q t s rs m, v')"
  shows "step_returns step q v x"
proof -
  from returns_get [OF assms(2-4)] obtain v' where v': "call_get kind g k v = (y, v')" "wd_env v' = wd_env v" "adds idle v v'"
    by (rule returnsE)
  have "same_reads q p" using assms(5,6) by (simp add: same_reads_def same_desired_def)
  from replayed_set [OF assms(1) this] assms(6,7) have "set_condition L q t s rs m = q" by blast
  with assms(8) [OF v'(1)] v' show ?thesis by (auto intro: step_returnsI)
qed

lemma observeAutoscaling_reads:
  assumes "observeAutoscaling L r p w = (Inr x, p', w')" and "AutoscalingEnabled (Some p)"
  shows "\<exists>y s rs m. call_get ''HorizontalPodAutoscaler'' (cl_getHPA (rc_client r)) (child_key p) w = (y, w')
     \<and> p' = set_condition L p conditionAutoscalingReady s rs m
     \<and> (\<forall>q v v'. AutoscalingEnabled (Some q) \<longrightarrow>
          call_get ''HorizontalPodAutoscaler'' (cl_getHPA (rc_client r)) (child_key q) v = (y, v') \<longrightarrow>
          observeAutoscaling L r q v = (Inr x, set_condition L q conditionAutoscalingReady s rs m, v'))"
  using assms
  by (auto simp: observeAutoscaling_def setAutoscalingCondition_def simp del: AutoscalingEnabled.simps
      split: prod.splits sum.splits if_splits)

lemma observeAvailability_reads:
  assumes "observeAvailability L r p w = (Inr x, p', w')" and "AvailabilityEnabled (Some p)"
  shows "\<exists>y s rs m. call_get ''PodDisruptionBudget'' (cl_getPDB (rc_client r)) (child_key p) w = (y, w')
     \<and> p' = set_condition L p conditionAvailabilityReady s rs m
     \<and> (\<forall>q v v'. AvailabilityEnabled (Some q) \<longrightarrow> AvailabilityReplicaFloor q = AvailabilityReplicaFloor p \<longrightarrow>
          call_get ''PodDisruptionBudget'' (cl_getPDB (rc_client r)) (child_key q) v = (y, v') \<longrightarrow>
          observeAvailability L r q v = (Inr x, set_condition L q conditionAvailabilityReady s rs m, v'))"
  using assms
  by (auto simp: observeAvailability_def setAvailabilityCondition_def simp del: AvailabilityEnabled.simps
      split: prod.splits sum.splits if_splits)

lemma same_reads_enabled:
  assumes "same_reads q p"
  shows "AutoscalingEnabled (Some q) = AutoscalingEnabled (Some p)"
    and "AvailabilityEnabled (Some q) = AvailabilityEnabled (Some p)"
    and "AvailabilityReplicaFloor q = AvailabilityReplicaFloor p"
    and "HTTPRouteEnabled (Some q) = HTTPRouteEnabled (Some p)"
    and "ServiceEnabled (Some q) = ServiceEnabled (Some p)" and "NetworkEnabled (Some q) = NetworkEnabled (Some p)"
  using assms by (simp_all add: same_readsD AvailabilityReplicaFloor_def)

interpretation steady_autoscaling: steady_owner L conditionAutoscalingReady "observeAutoscaling L r" r view "steady_children r view"
  for L and r :: "'s reconciler" and view :: "'s \<Rightarrow> 'v"
proof unfold_locales
  fix p w a p' w'
  assume "steady_children r view" "observeAutoscaling L r p w = (a, p', w')"
  then show "wd_env w' = wd_env w"
    by (auto simp: observeAutoscaling_def steady_children_def simp del: AutoscalingEnabled.simps
        split: if_splits prod.splits sum.splits dest: steady_get(1))
next
  fix p w x p' w' q and v :: "'s world"
  assume laws: "condition_noop_laws L" and reads: "steady_children r view" and run: "observeAutoscaling L r p w = (Inr x, p', w')"
    and q: "same_reads q p'" and c: "condition_of L q conditionAutoscalingReady = condition_of L p' conditionAutoscalingReady"
    and v: "view (wd_env v) = view (wd_env w)"
  have same: "same_reads q p"
    using q autoscaling_observer.keeps_desired [OF run] by (simp add: same_reads_def same_desired_def)
  show "step_returns (observeAutoscaling L r) q v x"
  proof (cases "AutoscalingEnabled (Some p)")
    case True
    from observeAutoscaling_reads [OF run True] obtain y s rs m where
      read: "call_get ''HorizontalPodAutoscaler'' (cl_getHPA (rc_client r)) (child_key q) w = (y, w')"
      and p': "p' = set_condition L p conditionAutoscalingReady s rs m"
      and again: "\<And>v'. call_get ''HorizontalPodAutoscaler'' (cl_getHPA (rc_client r)) (child_key q) v = (y, v') \<Longrightarrow>
          observeAutoscaling L r q v = (Inr x, set_condition L q conditionAutoscalingReady s rs m, v')"
      using same_reads_enabled(1) [OF same] True same_readsD [OF same] by metis
    have "steady_getter view (cl_getHPA (rc_client r))" using reads by (simp add: steady_children_def)
    then show ?thesis by (rule reading_replay [OF laws _ read v q p' c]) (rule again)
  next
    case False
    with run have p': "p' = remove_condition L p conditionAutoscalingReady"
      by (simp add: observeAutoscaling_def del: AutoscalingEnabled.simps)
    with replayed_remove [OF laws] c have "remove_condition L q conditionAutoscalingReady = q" by blast
    with False same_reads_enabled(1) [OF same] show ?thesis
      by (simp add: step_returns_def observeAutoscaling_def del: AutoscalingEnabled.simps)
  qed
qed

interpretation steady_availability: steady_owner L conditionAvailabilityReady "observeAvailability L r" r view "steady_children r view"
  for L and r :: "'s reconciler" and view :: "'s \<Rightarrow> 'v"
proof unfold_locales
  fix p w a p' w'
  assume "steady_children r view" "observeAvailability L r p w = (a, p', w')"
  then show "wd_env w' = wd_env w"
    by (auto simp: observeAvailability_def steady_children_def simp del: AvailabilityEnabled.simps
        split: if_splits prod.splits sum.splits dest: steady_get(1))
next
  fix p w x p' w' q and v :: "'s world"
  assume laws: "condition_noop_laws L" and reads: "steady_children r view" and run: "observeAvailability L r p w = (Inr x, p', w')"
    and q: "same_reads q p'" and c: "condition_of L q conditionAvailabilityReady = condition_of L p' conditionAvailabilityReady"
    and v: "view (wd_env v) = view (wd_env w)"
  have same: "same_reads q p"
    using q availability_observer.keeps_desired [OF run] by (simp add: same_reads_def same_desired_def)
  show "step_returns (observeAvailability L r) q v x"
  proof (cases "AvailabilityEnabled (Some p)")
    case True
    from observeAvailability_reads [OF run True] obtain y s rs m where
      read: "call_get ''PodDisruptionBudget'' (cl_getPDB (rc_client r)) (child_key q) w = (y, w')"
      and p': "p' = set_condition L p conditionAvailabilityReady s rs m"
      and again: "\<And>v'. call_get ''PodDisruptionBudget'' (cl_getPDB (rc_client r)) (child_key q) v = (y, v') \<Longrightarrow>
          observeAvailability L r q v = (Inr x, set_condition L q conditionAvailabilityReady s rs m, v')"
      using same_reads_enabled(2,3) [OF same] True same_readsD [OF same] by metis
    have "steady_getter view (cl_getPDB (rc_client r))" using reads by (simp add: steady_children_def)
    then show ?thesis by (rule reading_replay [OF laws _ read v q p' c]) (rule again)
  next
    case False
    with run have p': "p' = remove_condition L p conditionAvailabilityReady"
      by (simp add: observeAvailability_def del: AvailabilityEnabled.simps)
    with replayed_remove [OF laws] c have "remove_condition L q conditionAvailabilityReady = q" by blast
    with False same_reads_enabled(2) [OF same] show ?thesis
      by (simp add: step_returns_def observeAvailability_def del: AvailabilityEnabled.simps)
  qed
qed

lemma observeExposure_reads:
  assumes "observeExposure L r exposure p w = (Inr x, p', w')" and "xs_manageRoute exposure" and "xs_active exposure"
  shows "\<exists>y s rs m. read_unstructured (reader_or_client (rc_gatewayReader r) (rc_client r)) HTTPRouteGVK (child_key p) w = (y, w')
     \<and> p' = set_condition L p conditionExposureReady s rs m
     \<and> (\<forall>q v v'. w_spec q = w_spec p \<longrightarrow>
          read_unstructured (reader_or_client (rc_gatewayReader r) (rc_client r)) HTTPRouteGVK (child_key q) v = (y, v') \<longrightarrow>
          observeExposure L r exposure q v = (Inr x, set_condition L q conditionExposureReady s rs m, v'))"
  using assms
  by (auto simp: observeExposure_def setExposureCondition_def Let_def simp del: exposure_verdict.simps
      split: prod.splits sum.splits if_splits option.splits)

interpretation steady_exposure: steady_owner L conditionExposureReady "observeExposure L r exposure" r view "steady_children r view"
  for L and r :: "'s reconciler" and exposure and view :: "'s \<Rightarrow> 'v"
proof unfold_locales
  fix p w a p' w'
  assume "steady_children r view" "observeExposure L r exposure p w = (a, p', w')"
  then show "wd_env w' = wd_env w"
    by (auto simp: observeExposure_def steady_children_def read_unstructured_def Let_def simp del: exposure_verdict.simps
        split: if_splits prod.splits sum.splits option.splits dest: steady_get(1))
next
  fix p w x p' w' q and v :: "'s world"
  assume laws: "condition_noop_laws L" and reads: "steady_children r view" and run: "observeExposure L r exposure p w = (Inr x, p', w')"
    and q: "same_reads q p'" and c: "condition_of L q conditionExposureReady = condition_of L p' conditionExposureReady"
    and v: "view (wd_env v) = view (wd_env w)"
  have same: "same_reads q p"
    using q exposure_observer.keeps_desired [OF run] by (simp add: same_reads_def same_desired_def)
  show "step_returns (observeExposure L r exposure) q v x"
  proof (cases "xs_manageRoute exposure \<and> xs_active exposure")
    case True
    with observeExposure_reads [OF run] obtain y s rs m where
      read: "call_get (g_kind HTTPRouteGVK) (rd_getUnstructured (reader_or_client (rc_gatewayReader r) (rc_client r)) HTTPRouteGVK)
        (child_key q) w = (y, w')"
      and p': "p' = set_condition L p conditionExposureReady s rs m"
      and again: "\<And>v'. call_get (g_kind HTTPRouteGVK) (rd_getUnstructured (reader_or_client (rc_gatewayReader r) (rc_client r)) HTTPRouteGVK)
          (child_key q) v = (y, v') \<Longrightarrow>
        observeExposure L r exposure q v = (Inr x, set_condition L q conditionExposureReady s rs m, v')"
      using same_readsD [OF same] unfolding read_unstructured_def by metis
    have "steady_getter view (rd_getUnstructured (reader_or_client (rc_gatewayReader r) (rc_client r)) HTTPRouteGVK)"
      using reads by (simp add: steady_children_def)
    then show ?thesis by (rule reading_replay [OF laws _ read v q p' c]) (rule again)
  next
    case False
    show ?thesis
    proof (cases "xs_manageRoute exposure")
      case True
      with False run have p': "p' = remove_condition L p conditionExposureReady" and x: "x = 0"
        by (auto simp: observeExposure_def)
      with replayed_remove [OF laws] c have "remove_condition L q conditionExposureReady = q" by blast
      with True False x show ?thesis by (simp add: step_returns_def observeExposure_def)
    qed (use run in \<open>simp add: step_returns_def observeExposure_def\<close>)
  qed
qed

text \<open>
  A computation of reads: it leaves the state alone, and returns the same in every world of the same view.
\<close>

definition steady_comp :: "('s \<Rightarrow> 'v) \<Rightarrow> ('s world \<Rightarrow> 'a \<times> 's world) \<Rightarrow> bool" where
  "steady_comp view f =
     (\<forall>w x w'. f w = (x, w') \<longrightarrow>
        wd_env w' = wd_env w \<and> (\<forall>v. view (wd_env v) = view (wd_env w) \<longrightarrow> returns f v x))"

lemma steady_compD:
  assumes "steady_comp view f" and "f w = (x, w')"
  shows "wd_env w' = wd_env w" and "view (wd_env v) = view (wd_env w) \<Longrightarrow> returns f v x"
  using assms unfolding steady_comp_def by blast+

lemma steady_done: "steady_comp view (\<lambda>w. (x, w))"
  by (simp add: steady_comp_def)

lemma steady_read: "steady_getter view g \<Longrightarrow> steady_comp view (call_get kind g k)"
  unfolding steady_comp_def using steady_get(1) returns_get by blast

lemma steady_bind:
  assumes "steady_comp view f" and "\<And>a. steady_comp view (h a)"
  shows "steady_comp view (\<lambda>w. case f w of (a, w) \<Rightarrow> h a w)"
  unfolding steady_comp_def
proof (intro allI impI)
  fix w x w'
  assume "(case f w of (a, w) \<Rightarrow> h a w) = (x, w')"
  then obtain a w1 where f: "f w = (a, w1)" and h: "h a w1 = (x, w')" by (cases "f w") auto
  note one = steady_compD [OF assms(1) f] and two = steady_compD [OF assms(2) h]
  have "returns (\<lambda>w. case f w of (a, w) \<Rightarrow> h a w) v x" if "view (wd_env v) = view (wd_env w)" for v
    using one(2) [OF that] by (rule returns_bind [where h = h]) (use two(2) one(1) that in \<open>auto split: prod.splits\<close>)
  with one(1) two(1) show "wd_env w' = wd_env w \<and> (\<forall>v. view (wd_env v) = view (wd_env w) \<longrightarrow>
      returns (\<lambda>w. case f w of (a, w) \<Rightarrow> h a w) v x)" by simp
qed

lemma steady_if: "(c \<Longrightarrow> steady_comp view f) \<Longrightarrow> (\<not> c \<Longrightarrow> steady_comp view g) \<Longrightarrow> steady_comp view (\<lambda>w. if c then f w else g w)"
  by (cases c) simp_all

lemma steady_sum:
  "(\<And>e. steady_comp view (f e)) \<Longrightarrow> (\<And>y. steady_comp view (g y)) \<Longrightarrow>
     steady_comp view (\<lambda>w. case a of Inl e \<Rightarrow> f e w | Inr y \<Rightarrow> g y w)"
  by (cases a) simp_all

lemmas steady_intros = steady_done steady_read steady_bind steady_if steady_sum

lemma steady_reference:
  assumes "steady_inputs r view"
  shows "steady_comp view (resolve_reference L r (reader_or_client (rc_externalSecretsReader r) (rc_client r)) p reference)"
  unfolding resolve_reference_def [abs_def] read_unstructured_def
  using assms by (intro steady_intros) (simp_all add: steady_inputs_def)

lemma steady_references:
  assumes "steady_inputs r view"
  shows "steady_comp view (resolve_references L r (reader_or_client (rc_externalSecretsReader r) (rc_client r)) p references)"
proof (induction references)
  case Nil
  then show ?case by (simp add: steady_comp_def)
next
  case (Cons reference references)
  then show ?case
    unfolding resolve_references.simps [abs_def] by (intro steady_intros steady_reference [OF assms])
qed

lemma steady_Detect: "steady_lookup view lookup \<Longrightarrow> steady_comp view (Detect lookup rq)"
  unfolding steady_comp_def using returns_Detect by blast

lemma steady_lookupD: "steady_inputs r view \<Longrightarrow> rc_capabilityLookup r = Some lookup \<Longrightarrow> steady_lookup view lookup"
  by (simp add: steady_inputs_def)

lemma detect_state:
  assumes "steady_inputs r view" and "rc_capabilityLookup r = Some lookup" and "Detect lookup rq w = (x, w')"
  shows "wd_env w' = wd_env w"
  by (rule steady_compD(1) [OF steady_Detect [OF steady_lookupD [OF assms(1,2)]] assms(3)])

lemma resolve_references_same:
  assumes "same_reads q p"
  shows "resolve_references L r reader q references = resolve_references L r reader p references"
proof -
  have one: "resolve_reference L r reader q = resolve_reference L r reader p"
    by (intro ext) (simp only: resolve_reference_def same_readsD [OF assms] cong: sum.case_cong prod.case_cong if_cong)
  show ?thesis by (induction references) (simp_all add: one fun_eq_iff cong: sum.case_cong prod.case_cong)
qed

lemma validateExternalSecrets_reads:
  assumes "validateExternalSecrets L r p w = (Inr x, p', w')" and "sp_externalSecrets (w_spec p) \<noteq> []"
  shows "\<exists>lookup rq observation w1. rc_capabilityLookup r = Some lookup \<and> RequirementFor ExternalSecrets = Some rq
     \<and> Detect lookup rq w = (observation, w1) \<and> ob_state observation \<noteq> Unavailable \<and> ob_state observation \<noteq> Unknown
     \<and> resolve_references L r (reader_or_client (rc_externalSecretsReader r) (rc_client r)) p (sp_externalSecrets (w_spec p)) w1 = (Inr x, w')
     \<and> p' = set_condition L p conditionExternalSecretsReady ConditionTrue ''ExternalSecretsReady''
              ''Referenced namespace-local ExternalSecrets and target Secrets are Ready.''"
  using assms by (auto simp: validateExternalSecrets_def Let_def split: option.splits prod.splits sum.splits if_splits)

interpretation steady_external: steady_owner L conditionExternalSecretsReady "validateExternalSecrets L r" r view "steady_inputs r view"
  for L and r :: "'s reconciler" and view :: "'s \<Rightarrow> 'v"
proof unfold_locales
  fix p w a p' w'
  assume reads: "steady_inputs r view" and "validateExternalSecrets L r p w = (a, p', w')"
  moreover note detect_state [OF reads]
  moreover note steady_compD(1) [OF steady_references [OF reads]]
  ultimately show "wd_env w' = wd_env w"
    by (auto simp: validateExternalSecrets_def Let_def split: if_splits prod.splits sum.splits option.splits)
next
  fix p w x p' w' q and v :: "'s world"
  assume laws: "condition_noop_laws L" and reads: "steady_inputs r view" and run: "validateExternalSecrets L r p w = (Inr x, p', w')"
    and q: "same_reads q p'" and c: "condition_of L q conditionExternalSecretsReady = condition_of L p' conditionExternalSecretsReady"
    and v: "view (wd_env v) = view (wd_env w)"
  have same: "same_reads q p"
    using q external.keeps_desired [OF run] by (simp add: same_reads_def same_desired_def)
  let ?resolve = "resolve_references L r (reader_or_client (rc_externalSecretsReader r) (rc_client r)) p (sp_externalSecrets (w_spec p))"
  show "step_returns (validateExternalSecrets L r) q v x"
  proof (cases "sp_externalSecrets (w_spec p) = []")
    case True
    with run have p': "p' = remove_condition L p conditionExternalSecretsReady" and x: "x = []"
      by (simp_all add: validateExternalSecrets_def)
    with replayed_remove [OF laws] c have "remove_condition L q conditionExternalSecretsReady = q" by blast
    with True x same show ?thesis by (simp add: step_returns_def validateExternalSecrets_def same_readsD)
  next
    case False
    from validateExternalSecrets_reads [OF run False] obtain lookup rq observation w1 where
      l: "rc_capabilityLookup r = Some lookup" "RequirementFor ExternalSecrets = Some rq"
      and d: "Detect lookup rq w = (observation, w1)" and ok: "ob_state observation \<noteq> Unavailable" "ob_state observation \<noteq> Unknown"
      and resolved: "?resolve w1 = (Inr x, w')"
      and p': "p' = set_condition L p conditionExternalSecretsReady ConditionTrue ''ExternalSecretsReady''
              ''Referenced namespace-local ExternalSecrets and target Secrets are Ready.''" by blast
    have lookup: "steady_lookup view lookup" using reads l(1) by (rule steady_lookupD)
    note detect = steady_compD [OF steady_Detect [OF lookup] d]
    from detect(2) [OF v] obtain v1 where v1: "Detect lookup rq v = (observation, v1)" "wd_env v1 = wd_env v" "adds idle v v1"
      by (rule returnsE)
    have "view (wd_env v1) = view (wd_env w1)" using v v1(2) detect(1) by simp
    with steady_compD(2) [OF steady_references [OF reads] resolved] obtain v2 where
      v2: "?resolve v1 = (Inr x, v2)" "wd_env v2 = wd_env v1" "adds idle v1 v2" by (blast elim: returnsE)
    have "set_condition L q conditionExternalSecretsReady ConditionTrue ''ExternalSecretsReady''
        ''Referenced namespace-local ExternalSecrets and target Secrets are Ready.'' = q"
      using replayed_set [OF laws same] c p' by blast
    with False l ok v1 v2 same have "validateExternalSecrets L r q v = (Inr x, q, v2)"
      by (simp add: validateExternalSecrets_def same_readsD resolve_references_same Let_def)
    then show ?thesis by (rule step_returnsI) (use v1 v2 in \<open>auto intro: adds_trans\<close>)
  qed
qed

subsection \<open>The exposure, validated and observed\<close>

interpretation steady_gate: steady_step L conditionExposureReady "validateExposure L r" r view "steady_inputs r view"
  for L and r :: "'s reconciler" and view :: "'s \<Rightarrow> 'v"
proof unfold_locales
  fix p w a p' w'
  assume reads: "steady_inputs r view" and "validateExposure L r p w = (a, p', w')"
  moreover note detect_state [OF reads]
  moreover have "wd_env u' = wd_env u"
    if "call_get kind (rd_getUnstructured (reader_or_client (rc_gatewayReader r) (rc_client r)) gatewayGVK) k u = (y, u')" for kind k u y u'
    using steady_get(1) [OF _ that, of view] reads by (simp add: steady_inputs_def)
  ultimately show "wd_env w' = wd_env w"
    by (auto simp: validateExposure_def Let_def read_unstructured_def
        simp del: HTTPRouteEnabled.simps ServiceEnabled.simps NetworkEnabled.simps
        split: if_splits prod.splits sum.splits option.splits)
qed

lemma gate_active:
  assumes "validateExposure L r p w = (Inr x, p', w')" and "HTTPRouteEnabled (Some p)"
  shows "x = \<lparr>xs_manageRoute = True, xs_active = True\<rparr> \<and> p' = p
     \<and> (\<exists>lookup rq observation w1 exposure gateway. rc_capabilityLookup r = Some lookup \<and> RequirementFor GatewayAPI = Some rq
          \<and> Detect lookup rq w = (observation, w1) \<and> ob_state observation \<noteq> Unavailable \<and> ob_state observation \<noteq> Unknown
          \<and> ServiceEnabled (Some p) \<and> \<not> NetworkEnabled (Some p) \<and> sp_exposure (w_spec p) = Some exposure
          \<and> read_unstructured (reader_or_client (rc_gatewayReader r) (rc_client r)) gatewayGVK (w_namespace p, ex_gateway exposure) w1
              = (Inr gateway, w') \<and> hasTrueCondition L gateway ''Programmed'')"
  using assms
  by (auto simp: validateExposure_def Let_def simp del: HTTPRouteEnabled.simps ServiceEnabled.simps NetworkEnabled.simps
      split: option.splits prod.splits sum.splits if_splits)

text \<open>While the route is active the validation is replayed; otherwise nothing is left of it once it was observed.\<close>

lemma gate_replay:
  assumes "steady_inputs r view" and "validateExposure L r p w = (Inr x, p', w')" and "same_reads q p"
    and "HTTPRouteEnabled (Some p)" and "view (wd_env v) = view (wd_env w)"
  shows "step_returns (validateExposure L r) q v x"
proof -
  from gate_active [OF assms(2,4)] obtain lookup rq observation w1 exposure gateway where
    x: "x = \<lparr>xs_manageRoute = True, xs_active = True\<rparr>"
    and l: "rc_capabilityLookup r = Some lookup" "RequirementFor GatewayAPI = Some rq"
    and d: "Detect lookup rq w = (observation, w1)" and ok: "ob_state observation \<noteq> Unavailable" "ob_state observation \<noteq> Unknown"
    and on: "ServiceEnabled (Some p)" "\<not> NetworkEnabled (Some p)" "sp_exposure (w_spec p) = Some exposure"
    and gw: "read_unstructured (reader_or_client (rc_gatewayReader r) (rc_client r)) gatewayGVK (w_namespace p, ex_gateway exposure) w1
        = (Inr gateway, w')" "hasTrueCondition L gateway ''Programmed''" by blast
  have lookup: "steady_lookup view lookup" using assms(1) l(1) by (rule steady_lookupD)
  have g: "steady_getter view (rd_getUnstructured (reader_or_client (rc_gatewayReader r) (rc_client r)) gatewayGVK)"
    using assms(1) by (simp add: steady_inputs_def)
  note detect = steady_compD [OF steady_Detect [OF lookup] d]
  from detect(2) [OF assms(5)] obtain v1 where v1: "Detect lookup rq v = (observation, v1)" "wd_env v1 = wd_env v" "adds idle v v1"
    by (rule returnsE)
  have "view (wd_env v1) = view (wd_env w1)" using assms(5) v1(2) detect(1) by simp
  from returns_get [OF g gw(1) [unfolded read_unstructured_def] this] obtain v2 where
    v2: "read_unstructured (reader_or_client (rc_gatewayReader r) (rc_client r)) gatewayGVK (w_namespace p, ex_gateway exposure) v1
        = (Inr gateway, v2)" "wd_env v2 = wd_env v1" "adds idle v1 v2"
    unfolding read_unstructured_def by (rule returnsE)
  have "validateExposure L r q v = (Inr x, q, v2)"
    using l ok on gw(2) v1(1) v2(1) assms(4) x same_reads_enabled(4-6) [OF assms(3)] same_readsD [OF assms(3)]
    by (simp add: validateExposure_def Let_def del: HTTPRouteEnabled.simps ServiceEnabled.simps NetworkEnabled.simps)
  then show ?thesis by (rule step_returnsI) (use v1 v2 in \<open>auto intro: adds_trans\<close>)
qed

lemma gate_inactive:
  assumes "validateExposure L r p w = (Inr x, p', w')" and "\<not> HTTPRouteEnabled (Some p)" and "condition_laws L"
  shows "\<not> xs_active x" and "xs_manageRoute x \<or> condition_of L p' conditionExposureReady = None"
  using assms
  by (auto simp: validateExposure_def Let_def condition_of_def no_exposure_def remove_condition_def set_conditions_def
      remove_condition_find simp del: HTTPRouteEnabled.simps ServiceEnabled.simps NetworkEnabled.simps
      split: option.splits prod.splits sum.splits if_splits)

lemma gate_idle:
  assumes "\<not> HTTPRouteEnabled (Some q)" and "condition_of L q conditionExposureReady = None"
  shows "step_returns (validateExposure L r) q v no_exposure"
  using assms
  by (simp add: step_returns_def validateExposure_def condition_of_def del: HTTPRouteEnabled.simps)

end
