(* ===== verification/Steady_Run.thy ===== *)
theory Steady_Run
  imports Steady
begin

text \<open>
  A whole reconciliation in a cluster at rest: after one that ran to its end, whatever it had to write, the
  next one finds everything as it should be and writes nothing, neither a child nor the status.
\<close>

subsection \<open>The cluster\<close>

text \<open>
  The controller is the only writer. Its API server answers; what is read besides the children is given by
  \<open>inputs\<close>, the children by \<open>store\<close>; a write of a child touches neither the inputs nor the stored workload.
\<close>

definition spares :: "'s client \<Rightarrow> ('s \<Rightarrow> 'i) \<Rightarrow> 's \<Rightarrow> 's \<Rightarrow> bool" where
  "spares c inputs s s' = (inputs s' = inputs s \<and> (\<forall>k. fst (cl_getWorkload c s' k) = fst (cl_getWorkload c s k)))"

abbreviation seen :: "('s \<Rightarrow> 'i) \<Rightarrow> ('s \<Rightarrow> store) \<Rightarrow> 's \<Rightarrow> 'i \<times> store" where
  "seen inputs store \<equiv> \<lambda>s. (inputs s, store s)"

text \<open>Reads and child writes move the state of the server along a relation.\<close>

definition writes_within :: "'s client \<Rightarrow> ('s \<Rightarrow> 's \<Rightarrow> bool) \<Rightarrow> bool" where
  "writes_within c R =
     (reflp R \<and> transp R
      \<and> (\<forall>ob k w. wd_env (snd (client_get c ob k w)) = wd_env w)
      \<and> (\<forall>s ob. R s (snd (cl_create c s ob)))
      \<and> (\<forall>s before after. R s (snd (cl_patch c s before after)))
      \<and> (\<forall>s ob uid rv. R s (snd (cl_delete c s ob uid rv))))"

definition resting :: "'s reconciler \<Rightarrow> ('s \<Rightarrow> 'i) \<Rightarrow> ('s \<Rightarrow> store) \<Rightarrow> bool" where
  "resting r inputs store =
     (api_server (rc_client r) store \<and> healthy (rc_client r) store
      \<and> steady_inputs r inputs \<and> steady_children r (seen inputs store) \<and> status_server (rc_client r) (seen inputs store)
      \<and> writes_within (rc_client r) (spares (rc_client r) inputs))"

lemma restingD:
  assumes "resting r inputs store"
  shows "api_server (rc_client r) store" and "healthy (rc_client r) store" and "steady_inputs r inputs"
    and "steady_children r (seen inputs store)" and "status_server (rc_client r) (seen inputs store)"
    and "writes_within (rc_client r) (spares (rc_client r) inputs)"
  using assms by (simp_all add: resting_def)

lemma spares_stored:
  assumes "status_server c view" and "spares c inputs s s'" and "is_stored c p s"
  shows "is_stored c p s'"
proof -
  have "snd (cl_getWorkload c u k) = u" for u k using assms(1) unfolding status_server_def by blast
  with assms(2,3) show ?thesis by (simp add: spares_def is_stored_def prod_eq_iff)
qed

subsection \<open>The children\<close>

text \<open>Whatever \<open>Apply\<close> does moves the state along the relation.\<close>

lemma writes_withinD:
  assumes "writes_within c R"
  shows "R s s" and "R s s' \<Longrightarrow> R s' s'' \<Longrightarrow> R s s''" and "client_get c ob k w = (y, w') \<Longrightarrow> wd_env w' = wd_env w"
    and "R s (snd (cl_create c s ob))" and "R s (snd (cl_patch c s before after))" and "R s (snd (cl_delete c s ob uid rv))"
proof -
  from assms have "reflp R" "transp R" by (simp_all add: writes_within_def)
  then show "R s s" "R s s' \<Longrightarrow> R s' s'' \<Longrightarrow> R s s''" by (auto dest: reflpD transpD)
  show "client_get c ob k w = (y, w') \<Longrightarrow> wd_env w' = wd_env w"
    using assms unfolding writes_within_def by (metis snd_conv)
  show "R s (snd (cl_create c s ob))" "R s (snd (cl_patch c s before after))" "R s (snd (cl_delete c s ob uid rv))"
    using assms unfolding writes_within_def by blast+
qed

lemma call_within: "call e f w = (x, w') \<Longrightarrow> R (wd_env w) (snd (f (wd_env w))) \<Longrightarrow> R (wd_env w) (wd_env w')"
  by (auto simp: call_def split: prod.splits)

lemma Apply_within:
  assumes "writes_within c R" and "Apply L c p i w = (x, w')"
  shows "R (wd_env w) (wd_env w')"
proof -
  note within = writes_withinD [OF assms(1)]
  have missing: "R (wd_env u) (wd_env u')" if "apply_missing L c p i target u = (y, u')" for target u y u'
    using that within(1,4)
    by (auto simp: apply_missing_def Let_def split: if_splits sum.splits option.splits prod.splits elim!: call_within)
  have existing: "R (wd_env u) (wd_env u')" if "apply_existing L c p i current u = (y, u')" for current u y u'
    using that within(1,5,6)
    by (auto simp: apply_existing_def Let_def split: if_splits sum.splits option.splits prod.splits elim!: call_within)
  from assms(2) within(1) show ?thesis
    by (auto simp: Apply_def split: if_splits sum.splits option.splits prod.splits)
      (metis within(1,3) missing existing)+
qed

lemma apply_plan_within:
  assumes "writes_within (rc_client r) R" and "apply_plan L r p plan w = (x, w')"
  shows "R (wd_env w) (wd_env w')"
  using assms(2)
proof (induction plan arbitrary: w)
  case Nil
  then show ?case using writes_withinD(1) [OF assms(1)] by simp
next
  case (Cons i plan)
  obtain y w1 where a: "Apply L (rc_client r) p i w = (y, w1)" by fastforce
  have env: "wd_env (record_resource r i t w1) = wd_env w1" for t by (simp add: record_resource_def)
  show ?case
  proof (cases y)
    case (Inr outcome)
    with Cons.prems a have "apply_plan L r p plan (record_resource r i (outcome_text outcome) w1) = (x, w')" by simp
    from Cons.IH [OF this] Apply_within [OF assms(1) a] show ?thesis
      unfolding env by (rule writes_withinD(2) [OF assms(1), rotated])
  qed (use Cons.prems a Apply_within [OF assms(1) a] env in auto)
qed

lemma engine_ready_same:
  "engine_ready L p \<Longrightarrow> same_desired q p \<Longrightarrow> m_deletionTimestamp (w_meta q) = None \<Longrightarrow> engine_ready L q"
  by (simp add: engine_ready_def same_desired_def)

lemma safe_intent_same: "same_desired q p \<Longrightarrow> safe_intent q i = safe_intent p i"
  by (simp add: safe_intent_def intent_ok_def same_desired_def cong: option.case_cong)

text \<open>A settled child, of which no object is being deleted, is accepted as it is.\<close>

lemma Apply_at_rest:
  assumes "resting r inputs store" and "engine_ready L q" and "safe_intent q i" and "settled L q i (store (wd_env v))"
    and "\<forall>t ob. store (wd_env v) t (child_key q) = Some ob \<longrightarrow> m_deletionTimestamp (obj_meta ob) = None"
  shows "returns (Apply L (rc_client r) q i) v (Inr Unchanged)"
proof -
  let ?c = "rc_client r"
  from assms(4) obtain target where target: "i_object i = Some target" by (auto simp: settled_def split: option.splits)
  obtain g v1 where get: "client_get ?c target (child_key q) v = (g, v1)" by fastforce
  have env: "wd_env v1 = wd_env v" using writes_withinD(3) [OF restingD(6) [OF assms(1)] get] .
  have log: "adds idle v v1" using client_get_log [OF get] by (auto simp: adds_def idle_def)
  note slot = api_server_get [OF restingD(1) [OF assms(1)] get]
  have "Apply L ?c q i v = (Inr Unchanged, v1)"
  proof (cases g)
    case (Inl e)
    with restingD(2) [OF assms(1)] get have nf: "IsNotFound e" unfolding healthy_def by (metis fst_conv)
    with slot(3) [OF Inl] assms(4) target have "i_absent i" by (simp add: settled_def)
    with Apply_ready [OF assms(3) target, of L ?c v] assms(2) get Inl nf show ?thesis
      by (simp add: engine_ready_def apply_missing_def)
  next
    case (Inr live)
    with slot(2) [OF Inr] assms(4,5) target have "\<not> i_absent i" "quiescent L q i live"
      by (auto simp: settled_def split: if_splits)
    with Apply_ready [OF assms(3) target, of L ?c v] assms(2) get Inr show ?thesis
      by (simp add: engine_ready_def quiescent_apply)
  qed
  then show ?thesis using env log by (rule returnsI)
qed

text \<open>A plan is replayed if each of its intents is, in any order and also a part of it.\<close>

lemma apply_plan_replay:
  assumes "\<And>i v. i \<in> set plan \<Longrightarrow> view (wd_env v) = a \<Longrightarrow> returns (Apply L (rc_client r) q i) v (Inr Unchanged)"
    and "view (wd_env v) = a"
  shows "returns (apply_plan L r q plan) v None"
  using assms
proof (induction plan arbitrary: v)
  case (Cons i plan)
  from Cons.prems(1) [of i v] Cons.prems(2) have "returns (Apply L (rc_client r) q i) v (Inr Unchanged)" by simp
  then obtain v1 where v1: "Apply L (rc_client r) q i v = (Inr Unchanged, v1)" "wd_env v1 = wd_env v" "adds idle v v1"
    by (rule returnsE)
  let ?v2 = "record_resource r i (outcome_text Unchanged) v1"
  have v2: "wd_env ?v2 = wd_env v" "adds idle v1 ?v2"
    using v1(2) by (simp_all add: record_resource_def emit_def adds_def idle_def)
  have "returns (apply_plan L r q plan) ?v2 None" using Cons v2(1) by simp
  then obtain v3 where v3: "apply_plan L r q plan ?v2 = (None, v3)" "wd_env v3 = wd_env ?v2" "adds idle ?v2 v3" by (rule returnsE)
  show ?case
    by (rule returnsI [of _ _ _ v3]) (use v1 v2 v3 in \<open>auto intro: adds_trans\<close>)
qed (simp add: returns_def)

subsection \<open>The plan\<close>

definition carries_deployment :: "Intent \<Rightarrow> bool" where
  "carries_deployment i = (case i_object i of Some (DeploymentObj _) \<Rightarrow> True | _ \<Rightarrow> False)"

lemma decorate_first_append:
  "\<exists>i \<in> set xs. carries_deployment i \<Longrightarrow> decorate_first revision (xs @ ys) = decorate_first revision xs @ ys"
  by (induction xs) (auto simp: carries_deployment_def split: option.splits client_object.splits)

lemma kind_deployment: "intent_kind i = 1 \<Longrightarrow> carries_deployment i"
  by (cases "i_object i") (auto simp: carries_deployment_def split: client_object.splits if_splits)

text \<open>Without the route, the plan is a part of the one with it.\<close>

lemma build_plan_without_route:
  assumes "build_plan L (Build L) p external exposure = Inr plan"
  shows "\<exists>plan'. build_plan L (Build L) p external no_exposure = Inr plan' \<and> set plan' \<subseteq> set plan"
proof -
  from assms obtain plan1 routes where b: "Build L (Some (desired_workload p external)) = Inr plan1"
    and kinds: "map intent_kind plan1 = [0, 1, 2, 3, 4, 5]" and v: "ValidatePlan p (plan1 @ routes) = Inr (plan1 @ routes)"
    and plan: "plan = decorateExternalSecretRevision (plan1 @ routes) (externalSecretRevision external)"
    by (rule build_plan_ordered)
  have "sort_key intent_kind plan1 = plan1" using kinds by (intro sort_key_id_if_sorted) simp
  with v have "ValidatePlan p plan1 = Inr plan1" by (simp add: ValidatePlan_iff)
  with b have plan': "build_plan L (Build L) p external no_exposure =
      Inr (decorateExternalSecretRevision plan1 (externalSecretRevision external))"
    by (simp add: build_plan_def Let_def no_exposure_def del: Build.simps)
  have "1 \<in> intent_kind ` set plan1" using arg_cong [OF kinds, of set] by simp
  then have "\<exists>i \<in> set plan1. carries_deployment i" using kind_deployment by force
  then have "plan = decorateExternalSecretRevision plan1 (externalSecretRevision external) @ routes"
    by (simp add: plan decorateExternalSecretRevision_def decorate_first_append)
  with plan' show ?thesis by auto
qed

subsection \<open>Building and applying\<close>

lemma steady_secrets:
  assumes "steady_inputs r view"
  shows "steady_comp view (check_secrets (rc_client r) ns names)"
proof (induction names)
  case Nil
  then show ?case by (simp add: steady_comp_def)
next
  case (Cons name names)
  then show ?case
    unfolding check_secrets.simps [abs_def] using assms by (intro steady_intros) (simp_all add: steady_inputs_def)
qed

text \<open>Building and applying, run to its end, and any later run in a cluster that looks the same.\<close>

lemma converge_replay:
  assumes "resting r inputs store" and "engine_ready L p" and "nested_field_laws L"
    and "converge L r (Build L) p external exposure w = (None, w')"
  shows "spares (rc_client r) inputs (wd_env w) (wd_env w')"
    and "build_plan L (Build L) p external exposure = Inr plan \<Longrightarrow> seen inputs store (wd_env v) = seen inputs store (wd_env w') \<Longrightarrow>
      same_desired q p \<Longrightarrow> m_deletionTimestamp (w_meta q) = None \<Longrightarrow>
      \<forall>t ob. store (wd_env w') t (child_key p) = Some ob \<longrightarrow> m_deletionTimestamp (obj_meta ob) = None \<Longrightarrow>
      build_plan L (Build L) p external exposure' = Inr plan' \<Longrightarrow> set plan' \<subseteq> set plan \<Longrightarrow>
      returns (converge L r (Build L) q external exposure') v None"
proof -
  let ?secrets = "check_secrets (rc_client r) (w_namespace p) (sp_secretRefs (w_spec p))"
  from assms(4) obtain plan1 w1 where plan1: "build_plan L (Build L) p external exposure = Inr plan1"
    and a: "apply_plan L r p plan1 w = (None, w1)" and s: "?secrets w1 = (None, w')"
    by (elim converge_None) (simp add: validateSecretReferences_def)
  note checked = steady_compD [OF steady_secrets [OF restingD(3) [OF assms(1)]] s]
  show "spares (rc_client r) inputs (wd_env w) (wd_env w')" using apply_plan_within [OF restingD(6) [OF assms(1)] a] checked(1) by simp
  assume plan: "build_plan L (Build L) p external exposure = Inr plan"
    and v: "seen inputs store (wd_env v) = seen inputs store (wd_env w')"
    and q: "same_desired q p" "m_deletionTimestamp (w_meta q) = None"
    and live: "\<forall>t ob. store (wd_env w') t (child_key p) = Some ob \<longrightarrow> m_deletionTimestamp (obj_meta ob) = None"
    and plan': "build_plan L (Build L) p external exposure' = Inr plan'" "set plan' \<subseteq> set plan"
  have key: "child_key q = child_key p" using q(1) by (simp add: same_desired_def)
  have ready: "engine_ready L q" using assms(2) q by (rule engine_ready_same)
  have settled: "\<forall>i \<in> set plan. settled L p i (store (wd_env w'))"
    using converge_settles [OF restingD(1) [OF assms(1)] assms(2-4)] plan by auto
  have safe: "\<forall>i \<in> set plan. safe_intent p i" using build_plan_Inr [OF assms(3) plan] by (simp add: intent_contract_def)
  have "returns (Apply L (rc_client r) q i) u (Inr Unchanged)" if "i \<in> set plan'" "store (wd_env u) = store (wd_env w')" for i u
    using assms(1) ready
  proof (rule Apply_at_rest)
    show "safe_intent q i" using safe that(1) plan'(2) safe_intent_same [OF q(1)] by blast
    show "settled L q i (store (wd_env u))" using settled that plan'(2) settled_same [OF q(1)] by auto
    show "\<forall>t ob. store (wd_env u) t (child_key q) = Some ob \<longrightarrow> m_deletionTimestamp (obj_meta ob) = None"
      using live that(2) key by simp
  qed
  then have "returns (apply_plan L r q plan') v None"
    by (rule apply_plan_replay [where view = store]) (use v in simp_all)
  then obtain v1 where v1: "apply_plan L r q plan' v = (None, v1)" "wd_env v1 = wd_env v" "adds idle v v1" by (rule returnsE)
  have "inputs (wd_env v1) = inputs (wd_env w1)" using v v1(2) checked(1) by simp
  from checked(2) [OF this] obtain v2 where v2: "?secrets v1 = (None, v2)" "wd_env v2 = wd_env v1" "adds idle v1 v2"
    by (rule returnsE)
  have "converge L r (Build L) q external exposure' v = (None, v2)"
    using v1(1) v2(1) plan'(1) q(1) build_plan_same [OF q(1)]
    by (simp add: converge_def validateSecretReferences_def same_desired_def)
  then show "returns (converge L r (Build L) q external exposure') v None"
    by (rule returnsI) (use v1 v2 in \<open>auto intro: adds_trans\<close>)
qed

subsection \<open>The report\<close>

lemma observed_replay:
  assumes "condition_noop_laws L" and "same_reads q p" and "w_status q = w_status (observed_status L p d)"
  shows "observed_status L q d = q"
proof -
  have laws: "condition_laws L" using assms(1) by (simp add: condition_noop_laws_def)
  note same = same_readsD [OF assms(2)]
  have a: "assessDeployment q d = assessDeployment p d" by (simp add: assessDeployment_def desiredReplicas_def same)
  have "desiredReplicas q = desiredReplicas p" "ServiceEndpoint q = ServiceEndpoint p"
    by (simp_all add: desiredReplicas_def ServiceEndpoint_def same)
  then have scalars: "(w_status q)\<lparr>st_observedGeneration := w_generation q, st_desiredReplicas := desiredReplicas q,
      st_readyReplicas := dst_readyReplicas (d_status d), st_endpoint := ServiceEndpoint q\<rparr> = w_status q"
    using observed_status_counters [of L p d] assms(3) same(4) by simp
  have reported: "reports L q t s rs m" if "reports L (observed_status L p d) t s rs m" for t s rs m
    using that assms(3) same(4) by (simp add: reports_def condition_for_def)
  have noop: "set_condition L q t s rs m = q" if "reports L (observed_status L p d) t s rs m" for t s rs m
    using set_condition_noop [OF assms(1) reported [OF that]] .
  show ?thesis
    using observed_status_reports [OF laws, of p d]
    by (simp add: observed_status_eq scalars a setAssessmentConditions_eq noop)
qed

lemma report_steady:
  assumes "condition_noop_laws L" and "steady_children r view" and "status_server (rc_client r) view"
    and "is_stored (rc_client r) p (wd_env w)" and "observeAndReportStatus L r p w = (None, p', w')"
  shows "same_reads p' p" and "m_deletionTimestamp (w_meta p') = m_deletionTimestamp (w_meta p)"
    and "is_stored (rc_client r) p' (wd_env w')" and "view (wd_env w') = view (wd_env w)"
    and "t \<in> {conditionTenantReady, conditionExternalSecretsReady, conditionExposureReady} \<Longrightarrow>
      condition_of L p' t = condition_of L p t"
    and "view (wd_env v) = view (wd_env w) \<Longrightarrow>
      \<exists>v'. observeAndReportStatus L r p' v = (None, p', v') \<and> wd_env v' = wd_env v \<and> adds idle v v'"
proof -
  have laws: "condition_laws L" and eq: "SemanticEqualStatus L a a" for a
    using assms(1) by (simp_all add: condition_noop_laws_def)
  have getter: "steady_getter view (cl_getDeployment (rc_client r))" using assms(2) by (simp add: steady_children_def)
  from assms(5) obtain d w1 p1 w2 p2 w3 changed w4 where
    read: "call_get ''Deployment'' (cl_getDeployment (rc_client r)) (child_key p) w = (Inr d, w1)"
    and auto: "observeAutoscaling L r p w1 = (Inr (), p1, w2)" and avail: "observeAvailability L r p1 w2 = (Inr (), p2, w3)"
    and patch: "patchStatus L r p (observed_status L p2 d) w3 = (Inr changed, p', w4)" and env4: "wd_env w' = wd_env w4"
    by (auto simp: observeAndReportStatus_def Let_def emit_def split: prod.splits sum.splits if_splits)
  note k1 = autoscaling_observer.keeps_desired [OF auto] and k2 = availability_observer.keeps_desired [OF avail]
  have env: "wd_env w1 = wd_env w" "wd_env w2 = wd_env w" "wd_env w3 = wd_env w"
    using steady_get(1) [OF getter read] steady_autoscaling.state [OF assms(2) auto] steady_availability.state [OF assms(2) avail]
    by simp_all
  have stored: "is_stored (rc_client r) p (wd_env w3)" using assms(4) env by simp
  note patched = patchStatus_steady [OF assms(1,3) stored _ _ patch]
  have left: "stored_as p' (observed_status L p2 d)" "is_stored (rc_client r) p' (wd_env w4)" "view (wd_env w4) = view (wd_env w3)"
    using patched k1 k2 by simp_all
  have reads: "same_reads p' p2" "same_reads p' p1" "same_reads p' p"
    using left(1) k1 k2 by (simp_all add: stored_as_def same_reads_def same_desired_def)
  show "same_reads p' p" by (rule reads(3))
  show "m_deletionTimestamp (w_meta p') = m_deletionTimestamp (w_meta p)"
    using left(1) k1 k2 by (simp add: stored_as_def)
  show "is_stored (rc_client r) p' (wd_env w')" "view (wd_env w') = view (wd_env w)" using left env env4 by simp_all
  have status: "w_status p' = w_status (observed_status L p2 d)" using left(1) by (simp add: stored_as_def)
  then have cond: "condition_of L p' u = condition_of L p2 u" if "u \<notin> {conditionReady, conditionProgressing, conditionDegraded}" for u
    using observed_status_other [OF laws that, of p2 d] by (simp add: condition_of_def)
  have cond2: "condition_of L p2 u = condition_of L p1 u" if "u \<noteq> conditionAvailabilityReady" for u
    using availability_observer.keeps_other [OF avail laws that] .
  have cond1: "condition_of L p1 u = condition_of L p u" if "u \<noteq> conditionAutoscalingReady" for u
    using autoscaling_observer.keeps_other [OF auto laws that] .
  show "condition_of L p' t = condition_of L p t"
    if "t \<in> {conditionTenantReady, conditionExternalSecretsReady, conditionExposureReady}"
    using that by (subst cond, force simp: condition_types, subst cond2, force simp: condition_types)
      (rule cond1, force simp: condition_types)
  assume v: "view (wd_env v) = view (wd_env w)"
  from returns_get [OF getter read v] obtain v1 where v1: "call_get ''Deployment'' (cl_getDeployment (rc_client r)) (child_key p') v = (Inr d, v1)"
    "wd_env v1 = wd_env v" "adds idle v v1"
    using reads(3) by (auto elim: returnsE simp: same_readsD)
  have "condition_of L p' conditionAutoscalingReady = condition_of L p1 conditionAutoscalingReady"
    by (subst cond, force simp: condition_types) (rule cond2, simp add: condition_types)
  from steady_autoscaling.replay [OF assms(1,2) auto reads(2) this, of v1] v v1(2) env obtain v2 where
    v2: "observeAutoscaling L r p' v1 = (Inr (), p', v2)" "wd_env v2 = wd_env v1" "adds idle v1 v2"
    by (auto elim: step_returnsE)
  have "condition_of L p' conditionAvailabilityReady = condition_of L p2 conditionAvailabilityReady"
    by (rule cond) (simp add: condition_types)
  from steady_availability.replay [OF assms(1,2) avail reads(1) this, of v2] v v1(2) v2(2) env obtain v3 where
    v3: "observeAvailability L r p' v2 = (Inr (), p', v3)" "wd_env v3 = wd_env v2" "adds idle v2 v3"
    by (auto elim: step_returnsE)
  have "observeAndReportStatus L r p' v = (None, p', v3)"
    using v1(1) v2(1) v3(1) observed_replay [OF assms(1) reads(1) status]
    by (simp add: observeAndReportStatus_def Let_def patchStatus_def eq)
  moreover have "adds idle v v3" using v1(3) v2(3) v3(3) by (blast intro: adds_trans)
  ultimately show "\<exists>v'. observeAndReportStatus L r p' v = (None, p', v') \<and> wd_env v' = wd_env v \<and> adds idle v v'"
    using v1(2) v2(2) v3(2) by simp
qed


subsection \<open>The whole run\<close>

text \<open>A reconciliation of \<open>p\<close> that runs to its end, without a failure to report.\<close>

definition completes :: "lib \<Rightarrow> 's reconciler \<Rightarrow> AIWorkload \<Rightarrow> 's world \<Rightarrow> nat \<Rightarrow> 's world \<Rightarrow> bool" where
  "completes L r p w requeue w' =
     (\<exists>w1 external exposure p1 w2 w3 p2 w4 p3.
        call_get ''AIWorkload'' (cl_getWorkload (rc_client r)) (workload_key p) w = (Inr p, w1)
        \<and> prepare L r p w1 = (Inr (external, exposure), p1, w2)
        \<and> converge L r (Build L) p1 external exposure w2 = (None, w3)
        \<and> validate_and_patch L r (observeExposure L r exposure) p1 w3 = (Inr requeue, p2, w4)
        \<and> observeAndReportStatus L r p2 w4 = (None, p3, w'))"

lemma completes_Reconcile:
  assumes "completes L r p w requeue w'" and "rc_builder r = Some (Build L)" and "watchesNamespace r (w_namespace p)"
    and "m_deletionTimestamp (w_meta p) = None"
  shows "Reconcile L r (workload_key p) w = ((\<lparr>requeueAfter = requeue\<rparr>, None), w')"
proof -
  have "effectiveWatchNamespaces r \<noteq> []" using assms(3) by (auto simp: watchesNamespace_def)
  with assms show ?thesis by (auto simp: completes_def Reconcile_def observe_def)
qed

lemma prepare_stages:
  assumes "prepare L r p w = (Inr (external, exposure), p', w')"
  obtains p1 w1 p2 w2 where "validate_and_patch L r (validateTenant L r) p w = (Inr (), p1, w1)"
    and "validate_and_patch L r (validateExternalSecrets L r) p1 w1 = (Inr external, p2, w2)"
    and "validate_and_patch L r (validateExposure L r) p2 w2 = (Inr exposure, p', w')"
  using assms by (auto simp: prepare_def split: prod.splits sum.splits)

lemma steady_getter_seen: "steady_getter inputs g \<Longrightarrow> steady_getter (seen inputs store) g"
  unfolding steady_getter_def prod.inject by blast

lemma steady_lookup_seen: "steady_lookup inputs lookup \<Longrightarrow> steady_lookup (seen inputs store) lookup"
  unfolding steady_lookup_def prod.inject by blast

lemma steady_inputs_seen: "steady_inputs r inputs \<Longrightarrow> steady_inputs r (seen inputs store)"
  by (simp add: steady_inputs_def steady_getter_seen steady_lookup_seen split: option.splits)

text \<open>The validations of a run, and the same validations on a workload that carries their conditions.\<close>

lemma prepare_steady:
  assumes "condition_noop_laws L" and "resting r inputs store" and "is_stored (rc_client r) p (wd_env w)"
    and "prepare L r p w = (Inr (external, exposure), p', w')"
  shows "same_reads p' p" and "m_deletionTimestamp (w_meta p') = m_deletionTimestamp (w_meta p)"
    and "is_stored (rc_client r) p' (wd_env w')" and "seen inputs store (wd_env w') = seen inputs store (wd_env w)"
    and "\<not> HTTPRouteEnabled (Some p) \<Longrightarrow> \<not> xs_active exposure"
    and "\<not> HTTPRouteEnabled (Some p) \<Longrightarrow> xs_manageRoute exposure \<or> condition_of L p' conditionExposureReady = None"
    and "same_reads q p' \<Longrightarrow> inputs (wd_env v) = inputs (wd_env w) \<Longrightarrow>
      \<forall>t \<in> {conditionTenantReady, conditionExternalSecretsReady}. condition_of L q t = condition_of L p' t \<Longrightarrow>
      HTTPRouteEnabled (Some p) \<or> condition_of L q conditionExposureReady = None \<Longrightarrow>
      step_returns (prepare L r) q v (external, if HTTPRouteEnabled (Some p) then exposure else no_exposure)"
proof -
  let ?seen = "seen inputs store"
  have claws: "condition_laws L" using assms(1) by (simp add: condition_noop_laws_def)
  note rest = restingD [OF assms(2)] and ins = steady_inputs_seen [OF restingD(3) [OF assms(2)], of store]
  from assms(4) obtain p1 w1 p2 w2 where t: "validate_and_patch L r (validateTenant L r) p w = (Inr (), p1, w1)"
    and e: "validate_and_patch L r (validateExternalSecrets L r) p1 w1 = (Inr external, p2, w2)"
    and g: "validate_and_patch L r (validateExposure L r) p2 w2 = (Inr exposure, p', w')" by (rule prepare_stages)
  obtain t1 u1 where T: "validateTenant L r p w = (Inr (), t1, u1)" "same_reads p1 p" "same_reads p1 t1"
    "m_deletionTimestamp (w_meta p1) = m_deletionTimestamp (w_meta p)" "w_status p1 = w_status t1"
    "is_stored (rc_client r) p1 (wd_env w1)" "?seen (wd_env w1) = ?seen (wd_env w)"
    by (rule steady_tenant.validated_steady [OF assms(1) ins rest(5) assms(3) t])
  obtain t2 u2 where E: "validateExternalSecrets L r p1 w1 = (Inr external, t2, u2)" "same_reads p2 p1" "same_reads p2 t2"
    "m_deletionTimestamp (w_meta p2) = m_deletionTimestamp (w_meta p1)" "w_status p2 = w_status t2"
    "\<And>t. t \<noteq> conditionExternalSecretsReady \<Longrightarrow> condition_of L p2 t = condition_of L p1 t"
    "is_stored (rc_client r) p2 (wd_env w2)" "?seen (wd_env w2) = ?seen (wd_env w1)"
    by (rule steady_external.validated_steady [OF assms(1) ins rest(5) T(6) e]) blast
  obtain t3 u3 where G: "validateExposure L r p2 w2 = (Inr exposure, t3, u3)" "same_reads p' p2" "same_reads p' t3"
    "m_deletionTimestamp (w_meta p') = m_deletionTimestamp (w_meta p2)" "w_status p' = w_status t3"
    "\<And>t. t \<noteq> conditionExposureReady \<Longrightarrow> condition_of L p' t = condition_of L p2 t"
    "is_stored (rc_client r) p' (wd_env w')" "?seen (wd_env w') = ?seen (wd_env w2)"
    by (rule steady_gate.validated_steady [OF assms(1) ins rest(5) E(7) g]) blast
  have p2: "same_reads p2 p" using E(2) T(2) by (rule same_reads_trans)
  have cond: "condition_of L a u = condition_of L b u" if "w_status a = w_status b" for a b u
    using that by (simp add: condition_of_def)
  show "same_reads p' p" using G(2) p2 by (rule same_reads_trans)
  show "m_deletionTimestamp (w_meta p') = m_deletionTimestamp (w_meta p)" using T(4) E(4) G(4) by simp
  show "is_stored (rc_client r) p' (wd_env w')" by (rule G(7))
  show "?seen (wd_env w') = ?seen (wd_env w)" using T(7) E(8) G(8) by simp
  show "\<not> xs_active exposure" "xs_manageRoute exposure \<or> condition_of L p' conditionExposureReady = None"
    if "\<not> HTTPRouteEnabled (Some p)"
    using gate_inactive [OF G(1) _ claws] that same_reads_enabled(4) [OF p2] cond [OF G(5)] by simp_all
  assume q: "same_reads q p'" and v: "inputs (wd_env v) = inputs (wd_env w)"
    and c: "\<forall>t \<in> {conditionTenantReady, conditionExternalSecretsReady}. condition_of L q t = condition_of L p' t"
    and route: "HTTPRouteEnabled (Some p) \<or> condition_of L q conditionExposureReady = None"
  have q2: "same_reads q p2" using q G(2) by (rule same_reads_trans)
  have "condition_of L q conditionTenantReady = condition_of L t1 conditionTenantReady"
    using c G(6) E(6) cond [OF T(5)] by (simp add: condition_types)
  moreover have "same_reads q t1" using q2 E(2) T(3) by (blast intro: same_reads_trans)
  ultimately have "step_returns (validateTenant L r) q v ()"
    using steady_tenant.replay [OF assms(1) rest(3) T(1)] v by blast
  from steady_tenant.validated_replay [OF assms(1) this] obtain v1 where
    v1: "validate_and_patch L r (validateTenant L r) q v = (Inr (), q, v1)" "wd_env v1 = wd_env v" "adds idle v v1"
    by (rule step_returnsE)
  have "condition_of L q conditionExternalSecretsReady = condition_of L t2 conditionExternalSecretsReady"
    using c G(6) cond [OF E(5)] by (simp add: condition_types)
  moreover have "same_reads q t2" using q2 E(3) by (rule same_reads_trans)
  moreover have "inputs (wd_env v1) = inputs (wd_env w1)" using v v1(2) T(7) by simp
  ultimately have "step_returns (validateExternalSecrets L r) q v1 external"
    using steady_external.replay [OF assms(1) rest(3) E(1)] by blast
  from steady_external.validated_replay [OF assms(1) this] obtain v2 where
    v2: "validate_and_patch L r (validateExternalSecrets L r) q v1 = (Inr external, q, v2)" "wd_env v2 = wd_env v1" "adds idle v1 v2"
    by (rule step_returnsE)
  let ?x = "if HTTPRouteEnabled (Some p) then exposure else no_exposure"
  have "step_returns (validateExposure L r) q v2 ?x"
  proof (cases "HTTPRouteEnabled (Some p)")
    case True
    moreover have "inputs (wd_env v2) = inputs (wd_env w2)" using v v1(2) v2(2) T(7) E(8) by simp
    ultimately show ?thesis
      using gate_replay [OF rest(3) G(1) q2] same_reads_enabled(4) [OF p2] by simp
  next
    case False
    with route gate_idle [of q L r v2] same_reads_enabled(4) [OF same_reads_trans [OF q2 p2]] show ?thesis by simp
  qed
  from steady_gate.validated_replay [OF assms(1) this] obtain v3 where
    v3: "validate_and_patch L r (validateExposure L r) q v2 = (Inr ?x, q, v3)" "wd_env v3 = wd_env v2" "adds idle v2 v3"
    by (rule step_returnsE)
  have "prepare L r q v = (Inr (external, ?x), q, v3)" using v1(1) v2(1) v3(1) by (simp add: prepare_def)
  then show "step_returns (prepare L r) q v (external, ?x)"
    by (rule step_returnsI) (use v1 v2 v3 in \<open>auto intro: adds_trans\<close>)
qed

lemma observeExposure_idle:
  assumes "observeExposure L r exposure p w = (Inr x, p', w')" and "\<not> xs_active exposure" and "condition_laws L"
    and "xs_manageRoute exposure \<or> condition_of L p conditionExposureReady = None"
  shows "x = 0" and "condition_of L p' conditionExposureReady = None"
  using assms by (auto simp: observeExposure_def condition_of_remove split: if_splits)

text \<open>What a run has observed of the exposure is observed again, whether the route is kept or gone.\<close>

lemma exposure_steady:
  assumes "condition_noop_laws L" and "resting r inputs store" and "is_stored (rc_client r) p (wd_env w)"
    and "validate_and_patch L r (observeExposure L r exposure) p w = (Inr x, p', w')"
    and "active \<or> \<not> xs_active exposure \<and> (xs_manageRoute exposure \<or> condition_of L p conditionExposureReady = None)"
  shows "same_reads p' p" and "m_deletionTimestamp (w_meta p') = m_deletionTimestamp (w_meta p)"
    and "is_stored (rc_client r) p' (wd_env w')" and "seen inputs store (wd_env w') = seen inputs store (wd_env w)"
    and "t \<noteq> conditionExposureReady \<Longrightarrow> condition_of L p' t = condition_of L p t"
    and "active \<or> condition_of L p' conditionExposureReady = None"
    and "same_reads q p' \<Longrightarrow> seen inputs store (wd_env v) = seen inputs store (wd_env w) \<Longrightarrow>
      condition_of L q conditionExposureReady = condition_of L p' conditionExposureReady \<Longrightarrow>
      step_returns (validate_and_patch L r (observeExposure L r (if active then exposure else no_exposure))) q v x"
proof -
  have laws: "condition_laws L" using assms(1) by (simp add: condition_noop_laws_def)
  note rest = restingD [OF assms(2)]
  obtain p1 w1 where run: "observeExposure L r exposure p w = (Inr x, p1, w1)" and reads: "same_reads p' p" "same_reads p' p1"
    and meta: "m_deletionTimestamp (w_meta p') = m_deletionTimestamp (w_meta p)" and status: "w_status p' = w_status p1"
    and other: "\<And>t. t \<noteq> conditionExposureReady \<Longrightarrow> condition_of L p' t = condition_of L p t"
    and server: "is_stored (rc_client r) p' (wd_env w')" "seen inputs store (wd_env w') = seen inputs store (wd_env w)"
    by (rule steady_exposure.validated_steady [OF assms(1) rest(4,5) assms(3,4)]) blast
  show "same_reads p' p" "m_deletionTimestamp (w_meta p') = m_deletionTimestamp (w_meta p)"
    "is_stored (rc_client r) p' (wd_env w')" "seen inputs store (wd_env w') = seen inputs store (wd_env w)"
    "t \<noteq> conditionExposureReady \<Longrightarrow> condition_of L p' t = condition_of L p t"
    by (rule reads(1) meta server other)+
  have cond: "condition_of L p' u = condition_of L p1 u" for u using status by (simp add: condition_of_def)
  show "active \<or> condition_of L p' conditionExposureReady = None"
    using observeExposure_idle(2) [OF run _ laws] assms(5) cond by auto
  assume q: "same_reads q p'" and v: "seen inputs store (wd_env v) = seen inputs store (wd_env w)"
    and c: "condition_of L q conditionExposureReady = condition_of L p' conditionExposureReady"
  have "step_returns (observeExposure L r (if active then exposure else no_exposure)) q v x"
  proof (cases active)
    case True
    then show ?thesis
      using steady_exposure.replay [OF assms(1) rest(4) run same_reads_trans [OF q reads(2)] _ v] c cond by simp
  next
    case False
    with observeExposure_idle(1) [OF run _ laws] assms(5) show ?thesis
      by (auto simp: step_returns_def observeExposure_def no_exposure_def)
  qed
  then show "step_returns (validate_and_patch L r (observeExposure L r (if active then exposure else no_exposure))) q v x"
    by (rule steady_exposure.validated_replay [OF assms(1)])
qed

text \<open>
  The stages of a run that completed, on the workload it has left behind, in a world that looks like the one
  it has left behind.
\<close>

lemma completed_stages:
  fixes r :: "'s reconciler"
  assumes "condition_noop_laws L" and "nested_field_laws L" and "resting r inputs store" and "engine_ready L p"
    and "completes L r p w requeue w'"
    and "\<forall>t ob. store (wd_env w') t (child_key p) = Some ob \<longrightarrow> m_deletionTimestamp (obj_meta ob) = None"
  obtains q external exposure where "same_reads q p" and "m_deletionTimestamp (w_meta q) = None"
    and "is_stored (rc_client r) q (wd_env w')"
    and "\<And>v. wd_env v = wd_env w' \<Longrightarrow> step_returns (prepare L r) q v (external, exposure)"
    and "\<And>v. wd_env v = wd_env w' \<Longrightarrow> returns (converge L r (Build L) q external exposure) v None"
    and "\<And>v. wd_env v = wd_env w' \<Longrightarrow> step_returns (validate_and_patch L r (observeExposure L r exposure)) q v requeue"
    and "\<And>v. wd_env v = wd_env w' \<Longrightarrow>
      \<exists>v'. observeAndReportStatus L r q v = (None, q, v') \<and> wd_env v' = wd_env v \<and> adds idle v v'"
proof -
  let ?c = "rc_client r" and ?seen = "seen inputs store" and ?on = "HTTPRouteEnabled (Some p)"
  have live: "m_deletionTimestamp (w_meta p) = None" using assms(4) by (simp add: engine_ready_def)
  note rest = restingD [OF assms(3)]
  from assms(5) obtain w1 external exposure p1 w2 w3 p2 w4 q where
    read: "call_get ''AIWorkload'' (cl_getWorkload ?c) (workload_key p) w = (Inr p, w1)"
    and prep: "prepare L r p w1 = (Inr (external, exposure), p1, w2)"
    and conv: "converge L r (Build L) p1 external exposure w2 = (None, w3)"
    and expo: "validate_and_patch L r (observeExposure L r exposure) p1 w3 = (Inr requeue, p2, w4)"
    and report: "observeAndReportStatus L r p2 w4 = (None, q, w')" unfolding completes_def by blast
  have "snd (cl_getWorkload ?c s k) = s" for s k using rest(5) unfolding status_server_def by blast
  with read have "is_stored ?c p (wd_env w1)"
    by (auto simp: is_stored_def call_get_def call_def prod_eq_iff split: prod.splits)
  note P = prepare_steady [OF assms(1,3) this prep]
  have ready: "engine_ready L p1" using assms(4) P(1,2) live by (auto simp: same_reads_def intro: engine_ready_same)
  note C = converge_replay [OF assms(3) ready assms(2) conv]
  have "?on \<or> \<not> xs_active exposure \<and> (xs_manageRoute exposure \<or> condition_of L p1 conditionExposureReady = None)"
    using P(5,6) by argo
  note X = exposure_steady [OF assms(1,3) spares_stored [OF rest(5) C(1) P(3)] expo this]
  note R = report_steady [OF assms(1) rest(4,5) X(3) report]
  have q: "same_reads q p1" "same_reads q p" "same_desired q p1"
    using R(1) X(1) P(1) by (simp_all add: same_reads_def same_desired_def)
  have gone: "m_deletionTimestamp (w_meta q) = None" using R(2) X(2) P(2) live by simp
  have ins: "inputs (wd_env w') = inputs (wd_env w1)" and seen: "?seen (wd_env w') = ?seen (wd_env w3)"
    using R(4) X(4) P(4) C(1) by (simp_all add: spares_def)
  have cond: "\<forall>t \<in> {conditionTenantReady, conditionExternalSecretsReady}. condition_of L q t = condition_of L p1 t"
    using R(5) X(5) by (auto simp: condition_types)
  have cond2: "condition_of L q conditionExposureReady = condition_of L p2 conditionExposureReady" using R(5) by simp
  let ?x = "if ?on then exposure else no_exposure"
  obtain plan where plan: "build_plan L (Build L) p1 external exposure = Inr plan" using conv by (elim converge_None)
  then obtain plan' where plan': "build_plan L (Build L) p1 external ?x = Inr plan'" "set plan' \<subseteq> set plan"
    using build_plan_without_route [OF plan] by (cases ?on) auto
  have key: "child_key p1 = child_key p" using P(1) by (simp add: same_readsD)
  show ?thesis
  proof (rule that [of q external ?x])
    fix v :: "'s world"
    assume v: "wd_env v = wd_env w'"
    show "step_returns (prepare L r) q v (external, ?x)"
      by (rule P(7)) (use q(1) v ins cond X(6) cond2 in \<open>simp_all only:\<close>)
    show "returns (converge L r (Build L) q external ?x) v None"
      by (rule C(2) [OF plan _ q(3) gone _ plan']) (use v seen assms(6) key in simp_all)
    show "step_returns (validate_and_patch L r (observeExposure L r ?x)) q v requeue"
      by (rule X(7)) (use R(1) v seen cond2 in simp_all)
    show "\<exists>v'. observeAndReportStatus L r q v = (None, q, v') \<and> wd_env v' = wd_env v \<and> adds idle v v'"
      by (rule R(6)) (use v R(4) in simp)
  qed (rule q gone R(3))+
qed


subsection \<open>At a concrete input\<close>

text \<open>A server in memory that stores the children and the workload; it has no Gateway and no ExternalSecret.\<close>

definition beside :: "(store, 'a) getter \<Rightarrow> (store \<times> AIWorkload, 'a) getter" where
  "beside g s k = (fst (g (fst s) k), s)"

definition children_only :: "(store \<Rightarrow> go_error option \<times> store) \<Rightarrow> store \<times> AIWorkload \<Rightarrow> go_error option \<times> store \<times> AIWorkload"
  where
  "children_only f s = (fst (f (fst s)), snd (f (fst s)), snd s)"

definition full_client :: "(store \<times> AIWorkload) client" where
  "full_client =
     \<lparr>cl_getWorkload = (\<lambda>s key. (if workload_key (snd s) = key then Inr (snd s) else Inl not_found, s)),
      cl_getServiceAccount = beside (look ServiceAccountType (\<lambda>ob. case ob of ServiceAccountObj x \<Rightarrow> x)),
      cl_getDeployment = beside (look DeploymentType (\<lambda>ob. case ob of DeploymentObj x \<Rightarrow> x)),
      cl_getService = beside (look ServiceType (\<lambda>ob. case ob of ServiceObj x \<Rightarrow> x)),
      cl_getNetworkPolicy = beside (look NetworkPolicyType (\<lambda>ob. case ob of NetworkPolicyObj x \<Rightarrow> x)),
      cl_getHPA = beside (look HPAType (\<lambda>ob. case ob of HPAObj x \<Rightarrow> x)),
      cl_getPDB = beside (look PDBType (\<lambda>ob. case ob of PDBObj x \<Rightarrow> x)),
      cl_getUnstructured = (\<lambda>gvk. beside (look (UnstructuredType gvk) (\<lambda>ob. case ob of UnstructuredObj x \<Rightarrow> x))),
      cl_getOther = (\<lambda>kind. beside (look (OtherType kind) obj_meta)),
      cl_getSecretMetadata = (\<lambda>s key. (Inr (named_meta (snd key) (fst key)), s)),
      cl_getConfigMapData = (\<lambda>s key. (Inl not_found, s)),
      cl_create = (\<lambda>s ob. children_only (\<lambda>s. memory_create s ob) s),
      cl_patch = (\<lambda>s before after. children_only (\<lambda>s. memory_patch s before after) s),
      cl_delete = (\<lambda>s ob uid rv. children_only (\<lambda>s. memory_delete s ob uid rv) s),
      cl_patchStatus = (\<lambda>s before after.
        if snd s = before then ((None, after), fst s, after) else ((Some conflict, snd s), s)),
      cl_listBySecret = (\<lambda>s ns name. (Inr [], s))\<rparr>"

definition nothing_there :: "'s reader" where
  "nothing_there = \<lparr>rd_getConfigMapData = (\<lambda>s key. (Inl not_found, s)), rd_getUnstructured = (\<lambda>gvk s key. (Inl not_found, s))\<rparr>"

definition full_reconciler :: "(store \<times> AIWorkload) reconciler" where
  "full_reconciler =
     \<lparr>rc_client = full_client, rc_tenantReader = None, rc_externalSecretsReader = Some nothing_there,
      rc_gatewayReader = Some nothing_there, rc_capabilityLookup = None, rc_watchNamespace = '''',
      rc_watchNamespaces = [''team-a''], rc_builder = Some (Build example_lib), rc_recorder = True, rc_telemetry = True\<rparr>"

abbreviation children :: "store \<times> AIWorkload \<Rightarrow> store" where
  "children \<equiv> \<lambda>s. clean (fst s)"

abbreviation no_inputs :: "store \<times> AIWorkload \<Rightarrow> unit" where
  "no_inputs \<equiv> \<lambda>s. ()"

lemma client_get_full:
  "client_get full_client ob k w =
     (case clean (fst (wd_env w)) (obj_type ob) k of None \<Rightarrow> Inl not_found | Some live \<Rightarrow> Inr live,
      \<lparr>wd_env = wd_env w, wd_log = wd_log w @ [ReadE (read_kind ob) k]\<rparr>)"
proof (cases "clean (fst (wd_env w)) (obj_type ob) k")
  case None
  then show ?thesis by (cases ob) (simp_all add: full_client_def call_get_def call_def beside_def look_def)
next
  case (Some live)
  then have "obj_type live = obj_type ob" by (simp add: clean_Some)
  with Some show ?thesis
    by (cases ob; cases live) (simp_all add: full_client_def call_get_def call_def beside_def look_def)
qed

lemma full_writes:
  "cl_create full_client s ob = (e, s') \<Longrightarrow> cl_create (memory_client p) (fst s) ob = (e, fst s') \<and> snd s' = snd s"
  "cl_patch full_client s before after = (e, s') \<Longrightarrow> cl_patch (memory_client p) (fst s) before after = (e, fst s') \<and> snd s' = snd s"
  "cl_delete full_client s ob uid rv = (e, s') \<Longrightarrow> cl_delete (memory_client p) (fst s) ob uid rv = (e, fst s') \<and> snd s' = snd s"
  by (auto simp: full_client_def memory_client_def children_only_def)

lemma full_api_server: "api_server full_client children"
proof -
  have "reads_from full_client children"
    by (auto simp: reads_from_def client_get_full dest: clean_Some split: option.splits)
  moreover have "creates_in full_client children"
    using memory_creates unfolding creates_in_def by (blast dest: full_writes(1))
  moreover have "patches_in full_client children"
    using memory_patches unfolding patches_in_def by (blast dest: full_writes(2))
  moreover have "deletes_in full_client children"
    using memory_deletes unfolding deletes_in_def by (blast dest: full_writes(3))
  ultimately show ?thesis by (simp add: api_server_def) (simp add: full_client_def)
qed

lemma full_healthy: "healthy full_client children"
  unfolding healthy_def
  by (auto simp: client_get_full split: option.splits)
    (auto simp: full_client_def children_only_def memory_create_def memory_patch_def memory_delete_def)

text \<open>What a write of a child does to the state: the children change, the workload stays, nothing is left being deleted.\<close>

definition all_live :: "store \<Rightarrow> bool" where
  "all_live s = (\<forall>t k ob. clean s t k = Some ob \<longrightarrow> m_deletionTimestamp (obj_meta ob) = None)"

definition tidy :: "store \<times> AIWorkload \<Rightarrow> store \<times> AIWorkload \<Rightarrow> bool" where
  "tidy s s' = (snd s' = snd s \<and> (all_live (fst s) \<longrightarrow> all_live (fst s')))"

lemma full_within:
  assumes "reflp R" and "transp R" and "\<And>s s'. tidy s s' \<Longrightarrow> R s s'"
  shows "writes_within full_client R"
proof -
  have "tidy s (snd (cl_create full_client s ob))" for s ob
    by (auto simp: full_client_def children_only_def memory_create_def tidy_def all_live_def clean_def put_def split: if_splits option.splits)
  moreover have "tidy s (snd (cl_patch full_client s before after))" for s before after
    by (auto simp: full_client_def children_only_def memory_patch_def tidy_def all_live_def clean_def put_def split: if_splits option.splits)
  moreover have "tidy s (snd (cl_delete full_client s ob uid rv))" for s ob uid rv
    by (auto simp: full_client_def children_only_def memory_delete_def tidy_def all_live_def clean_def put_def split: if_splits option.splits)
  ultimately show ?thesis using assms by (simp add: writes_within_def client_get_full)
qed

lemma full_tidy: "writes_within full_client tidy"
  by (rule full_within) (simp_all add: tidy_def reflp_def transp_def)

lemma full_spares: "writes_within full_client (spares full_client no_inputs)"
  by (rule full_within) (simp_all add: spares_def tidy_def full_client_def reflp_def transp_def)

lemma full_resting: "resting full_reconciler no_inputs children"
proof -
  have "steady_inputs full_reconciler no_inputs"
    by (simp add: steady_inputs_def steady_getter_def full_reconciler_def reader_or_client_def client_reader_def
        nothing_there_def full_client_def)
  moreover have "steady_children full_reconciler (seen no_inputs children)"
    by (simp add: steady_children_def steady_getter_def full_reconciler_def reader_or_client_def nothing_there_def
        full_client_def beside_def look_def split: option.splits)
  moreover have "status_server full_client (seen no_inputs children)"
    by (auto simp: status_server_def full_client_def stored_as_def)
  ultimately show ?thesis using full_api_server full_healthy full_spares by (simp add: resting_def full_reconciler_def)
qed

definition blank_world :: "(store \<times> AIWorkload) world" where
  "blank_world = \<lparr>wd_env = (\<lambda>t k. None, example_workload), wd_log = []\<rparr>"

lemma full_simps [simp]: "rc_client full_reconciler = full_client" "rc_builder full_reconciler = Some (Build example_lib)"
  by (simp_all add: full_reconciler_def)

lemma example_noop: "condition_noop_laws example_lib"
proof -
  have "example_set_condition cs c = cs" if "find (\<lambda>d. c_type d = c_type c) cs = Some d" "same_condition d c" for cs c d
    using that by (induction cs) (auto split: if_splits)
  moreover have "filter (\<lambda>d. c_type d \<noteq> t) cs = cs" if "find (\<lambda>d. c_type d = t) cs = None" for cs t
    using that by (induction cs) (auto split: if_splits)
  ultimately show ?thesis
    using example_conditions unfolding condition_noop_laws_def shows_condition_def
    by (auto simp: example_lib_def)
qed

text \<open>The rollout into the empty cluster.\<close>

lemma full_rollout:
  assumes "wd_env w = wd_env blank_world"
  obtains w' d where
    "converge example_lib full_reconciler (Build example_lib) example_workload [] no_exposure w = (None, w')"
    and "snd (wd_env w') = example_workload" and "all_live (fst (wd_env w'))"
    and "clean (fst (wd_env w')) DeploymentType (child_key example_workload) = Some (DeploymentObj d)"
proof -
  let ?r = full_reconciler and ?p = example_workload
  have empty: "children (wd_env w) = (\<lambda>t k. None)" "all_live (fst (wd_env w))" "snd (wd_env w) = ?p"
    using assms by (simp_all add: blank_world_def all_live_def)
  obtain plan where plan: "build_plan example_lib (Build example_lib) ?p [] no_exposure = Inr plan"
    by (rule example_plan)
  have "\<forall>i \<in> set plan. receptive example_lib ?p i (children (wd_env w))"
    using build_plan_accepts [OF example_nested plan example_zero example_admitted] accepts_receptive empty(1)
    by (simp add: recoverable_def)
  with converge_progress [where r = ?r and store = children and w = w,
      OF _ _ example_controller_total example_ready example_nested plan] obtain w' where
    run: "converge example_lib ?r (Build example_lib) ?p [] no_exposure w = (None, w')"
    by (auto simp: full_api_server full_healthy example_spec_def)
  then have "apply_plan example_lib ?r ?p plan w = (None, w')"
    using plan by (elim converge_None) (simp add: validateSecretReferences_def example_spec_def)
  then have "tidy (wd_env w) (wd_env w')" by (rule apply_plan_within [rotated]) (simp add: full_tidy)
  with empty have kept: "snd (wd_env w') = ?p" "all_live (fst (wd_env w'))" by (simp_all add: tidy_def)
  obtain plan1 where "build_plan example_lib (Build example_lib) ?p [] no_exposure = Inr plan1"
    and settled: "\<forall>i \<in> set plan1. settled example_lib ?p i (children (wd_env w'))"
    using converge_settles [where r = ?r and store = children, OF _ example_ready example_nested run] full_api_server by auto
  moreover have "desired_workload ?p [] = ?p" by (simp add: desired_workload_def)
  ultimately have "deploymentIntent ?p fmempty fmempty \<in> set plan1"
    using workload_builder.built_plan_accepted [OF example_build]
    by (auto simp: build_plan_def Let_def no_exposure_def example_build externalSecretRevision_def
        decorateExternalSecretRevision_def simp del: Build.simps)
  with settled obtain ob where "clean (fst (wd_env w')) DeploymentType (child_key ?p) = Some ob"
    by (force simp: settled_def deploymentIntent_def split: option.splits)
  moreover from clean_Some [OF this] obtain d where "ob = DeploymentObj d" by (cases ob) simp_all
  ultimately show ?thesis using that [OF run kept] by blast
qed

lemma full_completes: "\<exists>w'. completes example_lib full_reconciler example_workload blank_world 0 w' \<and> all_live (fst (wd_env w'))"
proof -
  let ?L = example_lib and ?r = full_reconciler and ?p = example_workload
  let ?w1 = "\<lparr>wd_env = wd_env blank_world, wd_log = [ReadE ''AIWorkload'' (workload_key ?p)]\<rparr>"
  have read: "call_get ''AIWorkload'' (cl_getWorkload full_client) (workload_key ?p) blank_world = (Inr ?p, ?w1)"
    by (simp add: call_get_def call_def full_client_def blank_world_def)
  obtain w2 d where conv: "converge ?L ?r (Build ?L) ?p [] no_exposure ?w1 = (None, w2)" and kept: "snd (wd_env w2) = ?p"
    "all_live (fst (wd_env w2))" and deployment: "clean (fst (wd_env w2)) DeploymentType (child_key ?p) = Some (DeploymentObj d)"
    by (rule full_rollout [of ?w1]) simp_all
  have eq: "SemanticEqualStatus ?L a b = (a = b)" for a b by (simp add: example_lib_def)
  have expo: "validate_and_patch ?L ?r (observeExposure ?L ?r no_exposure) ?p w2 = (Inr 0, ?p, w2)"
    by (simp add: validate_and_patch_def observeExposure_def no_exposure_def patchStatus_def eq)
  obtain w3 where get: "call_get ''Deployment'' (cl_getDeployment full_client) (child_key ?p) w2 = (Inr d, w3)" "wd_env w3 = wd_env w2"
    using deployment by (auto simp: call_get_def call_def full_client_def beside_def look_def)
  have idle: "observeAutoscaling ?L ?r ?p w3 = (Inr (), ?p, w3)" "observeAvailability ?L ?r ?p w3 = (Inr (), ?p, w3)"
    by (simp_all add: observeAutoscaling_def observeAvailability_def example_unconditional example_spec_def)
  obtain w5 where call: "patch_status_call ?r ?p (observed_status ?L ?p d) w3 = ((None, observed_status ?L ?p d), w5)"
    "fst (wd_env w5) = fst (wd_env w2)"
    using kept(1) get(2) by (auto simp: patch_status_call_def call_def full_client_def)
  obtain changed q w4 where patch: "patchStatus ?L ?r ?p (observed_status ?L ?p d) w3 = (Inr changed, q, w4)"
    "fst (wd_env w4) = fst (wd_env w2)"
    using call get(2) by (cases "w_status ?p = w_status (observed_status ?L ?p d)") (auto simp: patchStatus_def eq)
  obtain w' where "observeAndReportStatus ?L ?r ?p w2 = (None, q, w')" "fst (wd_env w') = fst (wd_env w2)"
    using get idle patch by (auto simp: observeAndReportStatus_def Let_def)
  with read conv expo kept(2) example_prepare [of ?r ?w1] show ?thesis unfolding completes_def full_simps by metis
qed


end
