(* ===== verification/Demo_App.thy ===== *)
theory Demo_App
  imports Go_Errors
begin

text \<open>
  \<open>examples/demo-app/main.go\<close>: the HTTP server that serves as workload image in demonstrations. Of
  \<open>net/http\<close> the model has what the program uses: a mux with patterns that match one path exactly, for a
  request whose path is clean.
\<close>

record response =
  rs_code :: nat
  rs_contentType :: string
  rs_body :: string

type_synonym mux = "(string \<times> response) list"

text \<open>A handler that sets the content type and prints one line.\<close>

definition text_line :: "string \<Rightarrow> response" where
  "text_line s = \<lparr>rs_code = 200, rs_contentType = ''text/plain; charset=utf-8'', rs_body = s @ [CHR 0x0A]\<rparr>"

definition newHandler :: "string \<Rightarrow> mux" where
  "newHandler release =
     map (\<lambda>path. (path, text_line ''ok'')) [''/health'', ''/ready''] @ [(''/version'', text_line release)]"

definition serve_mux :: "mux \<Rightarrow> string \<Rightarrow> response" where
  "serve_mux m path =
     (case map_of m path of
        Some r \<Rightarrow> r
      | None \<Rightarrow> \<lparr>rs_code = 404, rs_contentType = ''text/plain; charset=utf-8'',
                 rs_body = ''404 page not found'' @ [CHR 0x0A]\<rparr>)"

text \<open>\<open>ListenAndServe\<close> returns only with an error, which \<open>log.Fatal\<close> turns into the exit code 1.\<close>

definition demo_main :: "(string \<Rightarrow> mux \<Rightarrow> go_error) \<Rightarrow> string \<Rightarrow> int \<times> go_error" where
  "demo_main listenAndServe version = (1, listenAndServe '':8080'' (newHandler version))"

text \<open>Registering a pattern twice would panic; the three are distinct.\<close>

lemma newHandler_patterns: "distinct (map fst (newHandler release))"
  by (simp add: newHandler_def)

text \<open>Both probes answer whatever the release is, the release is shown, and nothing else is served.\<close>

lemma newHandler_serves:
  "rs_code (serve_mux (newHandler release) path) =
     (if path \<in> {''/health'', ''/ready'', ''/version''} then 200 else 404)"
  "rs_body (serve_mux (newHandler release) ''/version'') = release @ [CHR 0x0A]"
  "path \<in> {''/health'', ''/ready''} \<Longrightarrow> rs_body (serve_mux (newHandler release) path) = ''ok'' @ [CHR 0x0A]"
  by (auto simp: serve_mux_def newHandler_def text_line_def)

end
