(* ===== verification/Spec2Isabelle.thy ===== *)
theory Spec2Isabelle
  imports Correct_Process Correct_Startup Deep_Copy Call_Bound Interleaving Steady_Run Demo_App
begin

text \<open>
  A verification of the AI Workload Control Plane: a Kubernetes operator, written in Go, that turns one
  \<open>AIWorkload\<close> resource into a ServiceAccount, a Deployment, a Service, a NetworkPolicy, a
  HorizontalPodAutoscaler, a PodDisruptionBudget and an HTTPRoute.

  \<^bold>\<open>How the program is put together.\<close> \<open>cmd/main.go\<close> reads the options and starts the manager
  (\<open>internal/manager\<close>), which wires the reconciler (\<open>internal/controller\<close>) to a namespaced cache. One
  reconciliation of a workload validates tenant, external secrets and exposure, asks the builders of
  \<open>internal/resource\<close> for a plan (a list of intents: an object, a callback that mutates it, or the wish
  that it be absent), lets the engine apply the plan child by child, and reports the outcome in the
  status. \<open>internal/capability\<close> detects optional APIs, \<open>internal/telemetry\<close> counts outcomes and failures.

  \<^bold>\<open>The theories, in the order of the layers.\<close>
  \<^item> \<open>Prelude\<close>: results, Go strings, first-match search; \<open>Sha256\<close>: the hash of the standard library,
    executable, checked against a test vector.
  \<^item> \<open>Api_Types\<close>: \<open>api/v1alpha1/aiworkload_types.go\<close>; \<open>Admission\<close>: its kubebuilder markers, that is what the
    API server admits and which defaults it fills in; \<open>Go_Memory\<close>: memory cells, pointers, slices and maps
    with the locale \<open>deep_copier\<close>; \<open>Deep_Copy\<close>: \<open>zz_generated.deepcopy.go\<close> on it, one interpretation of
    \<open>deep_copier\<close> per struct.
  \<^item> \<open>Go_Errors\<close>: the error values of all packages with \<open>errors.Is\<close> and \<open>errors.As\<close>; \<open>Kube_Objects\<close>: the
    children, with the fields the code reads or writes and one \<open>_rest\<close> field for all others; \<open>Kube_Lib\<close>:
    the third-party functions as the record \<open>lib\<close>.
  \<^item> \<open>Naming\<close> (\<open>plan.go\<close>), \<open>Resource_Meta\<close> (labels and managed metadata), \<open>Mutator\<close> (the contract of an
    intent's callback, as the locale \<open>intent_mutator\<close>), \<open>Res_Identity\<close>, \<open>Res_Deployment\<close>, \<open>Res_Service\<close>,
    \<open>Res_Network\<close>, \<open>Res_Autoscaling\<close>, \<open>Res_Availability\<close>, \<open>Res_Exposure\<close>, \<open>Res_Plan\<close>: \<open>internal/resource\<close>, one
    theory per file, each with the interpretation of \<open>intent_mutator\<close> for its callback; \<open>Res_Plan\<close>
    interprets the builder interface \<open>plan_builder\<close> of \<open>Engine_Plan\<close> for \<open>WorkloadBuilder.Build\<close>, and
    \<open>Plan_Reading\<close> shows on which fields of a workload its plan depends.
  \<^item> \<open>World\<close>: the API server as a record of calls on an arbitrary cluster state, and the log of calls;
    \<open>Engine_Plan\<close> and \<open>Engine\<close>: \<open>engine.go\<close> (\<open>ValidatePlan\<close>, \<open>Apply\<close>).
  \<^item> \<open>Capability\<close>: \<open>catalog.go\<close>; \<open>Reconciler\<close>: the reconciler's fields, condition types, and the locale
    \<open>condition_owner\<close>, the contract of a step that reads the cluster and owns one condition of the
    workload. Its interpretations are \<open>validateTenant\<close> (\<open>Tenant\<close>), \<open>validateExternalSecrets\<close>
    (\<open>External_Secrets\<close>), \<open>validateExposure\<close> and \<open>observeExposure\<close> (\<open>Exposure\<close>), \<open>observeAutoscaling\<close> and
    \<open>observeAvailability\<close> (\<open>Status\<close>).
  \<^item> \<open>Status\<close> (\<open>status.go\<close>, \<open>autoscaling.go\<close>, \<open>availability.go\<close>), \<open>Failures\<close> (\<open>failures.go\<close>), \<open>Observe\<close>
    (\<open>observeAndReportStatus\<close>), \<open>Reconcile\<close> (\<open>aiworkload_controller.go\<close>), \<open>Reconcile_Order\<close> (the order of
    its writes), \<open>Watches\<close> (\<open>watches.go\<close>), \<open>Manager\<close> (\<open>manager.go\<close>, with the readiness runnable as a step
    relation), \<open>Telemetry\<close> (\<open>telemetry.go\<close>, with the locale \<open>recorder\<close> for its interface), \<open>Setup\<close>
    (\<open>SetupWithManager\<close>, \<open>telemetry.Default\<close>), \<open>Scheme\<close> (the registration of the API types),
    \<open>Process\<close> (\<open>cmd/main.go\<close>), \<open>Demo_App\<close> (\<open>examples/demo-app\<close>).
  \<^item> \<open>Cluster\<close>: the children as the API server holds them, what one call may do to them (the relation
    \<open>serves\<close>), and the desired state \<open>settled\<close> of a child; \<open>Progress\<close>: when the engine succeeds;
    \<open>Panic_Freedom\<close>: that it never dereferences nil.
  \<^item> \<open>Examples\<close> and \<open>Memory_Server\<close>: a concrete library, workload and two in-memory API servers, at which
    the theorems with hypotheses are applied; \<open>Correct_Resources\<close>, \<open>Correct_Engine\<close>, \<open>Correct_Status\<close>,
    \<open>Correct_Gates\<close>, \<open>Correct_Process\<close>, \<open>Correct_Admission\<close>, \<open>Correct_Cluster\<close>, \<open>Correct_Startup\<close>,
    \<open>Call_Bound\<close> (how many calls a reconciliation makes), \<open>Interleaving\<close> (runs of many reconciliations at
    once as a transition system), \<open>Steady_Run\<close> (two reconciliations in a row) and this theory: the
    properties. \<open>Steady\<close> holds the locales \<open>steady_step\<close> and \<open>steady_owner\<close> that extend \<open>condition_owner\<close>
    by what a step does when it is run again in a cluster at rest, interpreted for the six steps.

  \<^bold>\<open>Modelling decisions.\<close> A Go method that mutates its argument returns the new value; one that mutates
  the workload and may fail returns the workload it leaves on both paths. Errors are values of
  \<open>go_error\<close>; \<open>NilDereference\<close> stands for the panic of a nil pointer or nil callback. Pointers are
  options, a nil map is the empty map, deep copies are values; \<open>Deep_Copy\<close> shows for the API types, on an
  explicit memory, that a copy shares nothing with the original, so that this is sound. Integers of the
  API are compared, copied and printed, never computed with, so they are unbounded; durations are
  seconds in the controller and nanoseconds in the manager. Iteration over a Go map is iteration over a
  list in arbitrary order, and what depends on it is proved independent of the order. Log lines and
  contexts are left out. All loops of the program are over finite lists, so every definition is a total
  function: no fuel is needed. Calls to the API server are arbitrary functions of an arbitrary state, so
  the theorems hold for every interleaving with other writers and every failure; where a theorem needs
  more (a read returns the key it asked for, setting a condition stores it, the server stores what it
  was sent), the hypothesis is a named predicate on \<open>lib\<close> or \<open>client\<close> that states documented behaviour.

  \<^bold>\<open>What is shown.\<close> Resources: child names are DNS labels; every mutation is idempotent, keeps identity,
  hardening, sidecars and cluster allocations, and fails exactly in the stated cases. Schema: an admitted
  workload is built unless its disruption budget does not fit, the fallbacks of the code are the defaults
  of the schema, and status reports stay admitted. Engine: every call stays inside the ownership
  boundary, there is no adoption and no nil dereference. Cluster: a successful run refines the
  specification "every child of the plan is in its desired state, nothing else has changed"; that state
  is a fixed point; on a healthy API server every rollout and every repair of drifted children reaches
  it; no interleaving, also of many reconciliations at once, lets the controller change a foreign object;
  and after one reconciliation that ran to its end the next one, its status report included, writes nothing.
  Status: the assessment, the reports of success and failure, the
  two-attempt status patch. Gates: tenant, external secrets, exposure. Process: the watches and the
  Secret index, options, wiring, exit code, readiness. Here: the whole reconciliation, from which calls
  it may make, in which order and how many, to what it returns.

  \<^bold>\<open>What is not modelled.\<close> The inside of controller-runtime (its work queue and cache included), of
  \<open>runtime.Scheme\<close>, of the \<open>flag\<close> package and of the API server beyond the named hypotheses, log lines, and
  the plans of the test fixtures.
\<close>

subsection \<open>What a reconciliation may do\<close>

text \<open>
  C1. Whatever the cluster does, everything a reconciliation of a workload does to the outside is one of:
  reading in the workload's own namespace or discovering APIs; a child call inside the workload's
  ownership boundary; patching only the status of this workload; emitting Events and metrics. It never
  touches another namespace or another workload, and never writes the specification of the workload.
\<close>

theorem reconcile_confined:
  assumes "workload_client_laws (rc_client r)" and "cl_getWorkload (rc_client r) (wd_env w) req = (Inr p, s)"
  shows "adds (reconcile_effect L p) w (snd (Reconcile L r req w))"
proof -
  obtain res w' where run: "Reconcile L r req w = (res, w')" by fastforce
  from Reconcile_effects [OF assms(1) run assms(2)] run show ?thesis by simp
qed

lemma example_read: "cl_getWorkload (rc_client example_reconciler) (wd_env example_world) (''team-a'', ''model'') =
    (Inr example_workload, wd_env example_world)"
  by (simp add: example_reconciler_def example_client_def example_world_def)

lemma example_reconciler_laws: "workload_client_laws (rc_client example_reconciler)"
  using example_client_laws by (simp add: example_reconciler_def)

theorem reconcile_confined_witness:
  "adds (reconcile_effect example_lib example_workload) example_world
     (snd (Reconcile example_lib example_reconciler (''team-a'', ''model'') example_world))"
  by (rule reconcile_confined [OF example_reconciler_laws example_read])

text \<open>
  C2. With the production builder, a reconciliation writes the children in dependency order
  (ServiceAccount, Deployment, Service, NetworkPolicy, autoscaler, disruption budget, route) and each of
  them at most once, whatever fails in between.
\<close>

theorem reconcile_ordered_writes:
  assumes "workload_client_laws (rc_client r)" and "nested_field_laws L" and "rc_builder r = Some (Build L)"
  shows "\<exists>es. wd_log (snd (Reconcile L r req w)) = wd_log w @ es \<and> sorted_wrt (<) (child_writes es)"
proof -
  obtain res w' where run: "Reconcile L r req w = (res, w')" by fastforce
  from Reconcile_grows [OF assms run] run show ?thesis by (auto simp: grows_def)
qed

theorem reconcile_ordered_writes_witness:
  "\<exists>es. wd_log (snd (Reconcile example_lib example_reconciler (''team-a'', ''model'') example_world)) = es
     \<and> sorted_wrt (<) (child_writes es)"
proof -
  have "rc_builder example_reconciler = Some (Build example_lib)" by (simp add: example_reconciler_def)
  from reconcile_ordered_writes [OF example_reconciler_laws example_nested this, of "(''team-a'', ''model'')" example_world]
  show ?thesis by (simp add: example_world_def)
qed

text \<open>
  C11. The validations gate the writes: if the tenant, an external secret or the exposure is rejected, the
  reconciliation creates, patches and deletes no child.
\<close>

theorem reconcile_gates_writes:
  assumes "workload_client_laws (rc_client r)"
    and "call_get ''AIWorkload'' (cl_getWorkload (rc_client r)) req w = (Inr p, w1)"
    and "prepare L r p w1 = (Inl e, p1, w2)"
  shows "\<exists>es. wd_log (snd (Reconcile L r req w)) = wd_log w @ es \<and> child_writes es = []"
proof -
  obtain res w' where run: "Reconcile L r req w = (res, w')" by fastforce
  have get: "grows [] w w1" using call_get_log [OF assms(2)] by (auto simp: grows_def)
  have "grows [] w1 w2" using prepare_confined [OF assms(1,3)] by (blast intro: grows_observe)
  from grows_trans [OF get this] have prep: "grows [] w w2" by simp
  from run have "grows [] w w'"
  proof (cases rule: Reconcile_cases)
    case (invalid q v1 f q1 v2)
    with assms(2,3) have "reportFailure L r p1 e w2 = (res, w')" by auto
    from grows_trans [OF prep grows_observe [OF reportFailure_confined [OF assms(1) this same_workload_refl]]]
    show ?thesis by simp
  qed (use assms(2,3) get in \<open>auto simp: grows_def\<close>)
  with run show ?thesis by (simp add: grows_def)
qed

theorem reconcile_gates_writes_witness:
  "\<exists>es. wd_log (snd (Reconcile example_lib example_reconciler (''team-a'', ''model'')
     (example_world\<lparr>wd_env := (wd_env example_world)\<lparr>k_workload := secret_workload\<rparr>\<rparr>))) = es \<and> child_writes es = []"
proof -
  let ?w = "example_world\<lparr>wd_env := (wd_env example_world)\<lparr>k_workload := secret_workload\<rparr>\<rparr>"
  obtain w1 where get: "call_get ''AIWorkload'' (cl_getWorkload (rc_client example_reconciler)) (''team-a'', ''model'') ?w =
      (Inr secret_workload, w1)"
    by (simp add: call_get_def call_def example_reconciler_def example_client_def secret_workload_def)
  have same: "SemanticEqualStatus example_lib st st" for st by (simp add: example_lib_def)
  have "remove_condition example_lib secret_workload conditionTenantReady = secret_workload"
    by (simp add: remove_condition_def set_conditions_def secret_workload_def example_workload_def example_lib_def)
  then have "validate_and_patch example_lib example_reconciler (validateTenant example_lib example_reconciler) secret_workload w1 =
      (Inr (), secret_workload, w1)"
    by (simp add: validate_and_patch_def validateTenant_def patchStatus_def same)
      (simp add: secret_workload_def example_spec_def)
  then have "prepare example_lib example_reconciler secret_workload w1 = (Inl external_secrets_unavailable, secret_workload, w1)"
    by (simp add: prepare_def validate_and_patch_def validateExternalSecrets_def)
      (simp add: secret_workload_def example_reconciler_def)
  from reconcile_gates_writes [OF example_reconciler_laws get this] show ?thesis by (simp add: example_world_def)
qed

subsection \<open>When a reconciliation does nothing, and what it returns\<close>

text \<open>What \<open>client.IgnoreNotFound\<close> promises: nil for a NotFound error, the error itself otherwise.\<close>

definition ignore_not_found_law :: "lib \<Rightarrow> bool" where
  "ignore_not_found_law L = (\<forall>e. IgnoreNotFound L e = (if IsNotFound e then None else Some e))"

text \<open>
  The lifecycle guard: a request from a namespace that is not watched makes no call at all; one for a
  workload that is gone or being deleted makes only the read of the workload. In each case there is no
  error and no requeue, and garbage collection is left to the owner references.
\<close>

lemma reconcile_lifecycle_guard:
  assumes "ignore_not_found_law L" and "effectiveWatchNamespaces r \<noteq> []"
    and "\<not> watchesNamespace r (fst req)
      \<or> (\<exists>e s. cl_getWorkload (rc_client r) (wd_env w) req = (Inl e, s) \<and> IsNotFound e)
      \<or> (\<exists>p s. cl_getWorkload (rc_client r) (wd_env w) req = (Inr p, s) \<and> m_deletionTimestamp (w_meta p) \<noteq> None)"
  shows "fst (Reconcile L r req w) = (no_requeue, None)
     \<and> wd_log (snd (Reconcile L r req w)) =
         wd_log w @ (if watchesNamespace r (fst req) then [ReadE ''AIWorkload'' req] else [])"
proof (cases "watchesNamespace r (fst req)")
  case False
  with assms(2) show ?thesis by (simp add: Reconcile_def)
next
  case True
  with assms show ?thesis
    by (auto simp: Reconcile_def call_get_def call_def ignore_not_found_law_def split: option.splits)
qed

text \<open>
  C15. What a reconciliation returns, whatever happens: either no error and a requeue delay of 0, 2, 15 or
  60 seconds, or no delay and a curated error whose text is one of seven fixed strings. No text of an
  API error, which may quote the specification, ever reaches the caller's log.
\<close>

theorem reconcile_result_bounded:
  "case fst (Reconcile L r req w) of (res, err) \<Rightarrow>
     (err = None \<and> requeueAfter res \<in> {0, 2, 15, 60})
     \<or> (\<exists>e. err = Some e \<and> requeueAfter res = 0
          \<and> error_text e \<in> insert ''watch namespaces are required''
              ((\<lambda>c. ''reconciliation failed: '' @ c) `
                 {''Conflict'', ''AlreadyExists'', ''Forbidden'', ''Timeout'', ''Throttled'', ''UnexpectedError''}))"
proof -
  have curated: "error_text e \<in> insert ''watch namespaces are required''
      ((\<lambda>c. ''reconciliation failed: '' @ c) `
         {''Conflict'', ''AlreadyExists'', ''Forbidden'', ''Timeout'', ''Throttled'', ''UnexpectedError''})"
    if "curated_error e" for e
    using that unfolding curated_error_def retry_categories_def by auto
  from Reconcile_bounded [of L r req w] show ?thesis
    unfolding bounded_result_def using curated by (auto split: prod.splits)
qed

end
